(* ===== verification/Prelude.thy ===== *)
theory Prelude
  imports Main "HOL-Library.Word" "HOL-Library.Sublist"
begin

text \<open>
  Shared vocabulary of the development: the Go values every component uses and the generic
  lemmas about them.

  A Go \<open>string\<close> is a byte sequence, here a \<open>string\<close> (a list of 8-bit characters). A Go
  \<open>map\<close> is a partial function; a \<open>range\<close> over a map visits the keys in an order the runtime
  chooses, so every definition that iterates over a map takes that order as an argument and the
  theorems quantify over all orders that satisfy \<open>range_order\<close>. A Go \<open>error\<close> is a value of
  \<open>goerror\<close>; a run-time panic is the constructor \<open>EPanic\<close>, so that it is a branch of the
  model and never an unspecified HOL value. Times are integers (nanoseconds), 0 being the zero
  \<open>time.Time\<close>; durations are integers, cut to 64 bits where the code multiplies them.
\<close>

named_theorems go_string \<open>equations of the string functions of the Go standard library\<close>
named_theorems wf_rules \<open>well-formedness rules of the components' states\<close>

section \<open>Errors\<close>

datatype goerror =
    ENew string                       \<comment> \<open>errors.New, fmt.Errorf without a wrapped error\<close>
  | ENotFound string                  \<comment> \<open>fabricaStorage.ErrNotFound, with its text\<close>
  | EWrap string goerror string       \<comment> \<open>fmt.Errorf with a wrapped error between two texts\<close>
  | EPanic string                     \<comment> \<open>a run-time panic\<close>

type_synonym 'a result = "goerror + 'a"

text \<open>The method \<open>Error\<close> of an error value.\<close>

fun err_text :: "goerror \<Rightarrow> string" where
  "err_text (ENew s) = s"
| "err_text (ENotFound s) = s"
| "err_text (EWrap p e q) = p @ err_text e @ q"
| "err_text (EPanic s) = s"

text \<open>\<open>errors.Is(err, fabricaStorage.ErrNotFound)\<close>: the sentinel is found through every wrapper.\<close>

fun is_not_found :: "goerror \<Rightarrow> bool" where
  "is_not_found (ENew s) = False"
| "is_not_found (ENotFound s) = True"
| "is_not_found (EWrap p e q) = is_not_found e"
| "is_not_found (EPanic s) = False"

definition res_ok :: "'a result \<Rightarrow> bool" where
  "res_ok r = (case r of Inl _ \<Rightarrow> False | Inr _ \<Rightarrow> True)"

lemma res_ok_simps [simp]: "res_ok (Inr x)" "\<not> res_ok (Inl e)"
  by (simp_all add: res_ok_def)

lemma res_ok_iff: "res_ok r \<longleftrightarrow> (\<exists>x. r = Inr x)"
  by (cases r) auto

lemma not_res_okE:
  assumes "\<not> res_ok r"
  obtains e where "r = Inl e"
  using assms by (cases r) auto

section \<open>Go maps\<close>

text \<open>The keys of a map in an order a \<open>range\<close> loop may visit them.\<close>

definition range_order :: "('k \<rightharpoonup> 'v) \<Rightarrow> 'k list \<Rightarrow> bool" where
  "range_order m ks \<longleftrightarrow> distinct ks \<and> set ks = dom m"

text \<open>The entries in that order.\<close>

definition entries :: "('k \<rightharpoonup> 'v) \<Rightarrow> 'k list \<Rightarrow> ('k \<times> 'v) list" where
  "entries m ks = [(k, v). k \<leftarrow> ks, v \<leftarrow> (case m k of None \<Rightarrow> [] | Some v \<Rightarrow> [v])]"

lemma entries_Nil [simp]: "entries m [] = []"
  by (simp add: entries_def)

lemma entries_Cons [simp]:
  "entries m (k # ks) = (case m k of None \<Rightarrow> entries m ks | Some v \<Rightarrow> (k, v) # entries m ks)"
  by (simp add: entries_def split: option.splits)

lemma set_entries: "set (entries m ks) = {(k, v). k \<in> set ks \<and> m k = Some v}"
  by (induction ks) (auto split: option.splits)

lemma map_of_entries: "map_of (entries m ks) k = (if k \<in> set ks then m k else None)"
  by (induction ks) (auto split: option.splits)

lemma map_of_range_order: "range_order m ks \<Longrightarrow> map_of (entries m ks) = m"
  by (rule ext) (auto simp: map_of_entries range_order_def domIff)

lemma entries_in_range:
  "range_order m ks \<Longrightarrow> (k, v) \<in> set (entries m ks) \<longleftrightarrow> m k = Some v"
  by (auto simp: set_entries range_order_def)

lemma range_order_finite: "range_order m ks \<Longrightarrow> finite (dom m)"
  by (metis List.finite_set range_order_def)

text \<open>A loop that assigns \<open>m[f x] = g x\<close> for each \<open>x\<close> of a list, the last assignment to a key winning.\<close>

definition assign_all :: "('k \<times> 'v) list \<Rightarrow> ('k \<rightharpoonup> 'v) \<Rightarrow> ('k \<rightharpoonup> 'v)" where
  "assign_all xs m = fold (\<lambda>(k, v) m. m(k \<mapsto> v)) xs m"

lemma assign_all_simps [simp]:
  "assign_all [] m = m"
  "assign_all ((k, v) # xs) m = assign_all xs (m(k \<mapsto> v))"
  "assign_all (xs @ ys) m = assign_all ys (assign_all xs m)"
  by (simp_all add: assign_all_def)

lemma assign_all_map_of: "assign_all xs m = m ++ map_of (rev xs)"
  by (induction xs arbitrary: m) (auto simp: map_add_def fun_eq_iff split: option.splits)

lemma assign_all_distinct:
  "distinct (map fst xs) \<Longrightarrow> assign_all xs Map.empty = map_of xs"
  by (simp add: assign_all_map_of) (metis distinct_rev map_of_inject_set rev_map set_rev)

lemma dom_assign_all: "dom (assign_all xs m) = dom m \<union> fst ` set xs"
  by (simp add: assign_all_map_of dom_map_of_conv_image_fst Un_commute)

lemma assign_all_SomeD:
  "assign_all xs m k = Some v \<Longrightarrow> m k = Some v \<or> (k, v) \<in> set xs"
  by (induction xs arbitrary: m) (force split: if_splits)+

lemma assign_all_in_dom: "k \<in> fst ` set xs \<Longrightarrow> \<exists>v. assign_all xs m k = Some v"
  by (metis UnI2 domD dom_assign_all)

lemma assign_all_notin: "k \<notin> fst ` set xs \<Longrightarrow> assign_all xs m k = m k"
  by (induction xs arbitrary: m) auto

lemma distinct_entries: "distinct ks \<Longrightarrow> distinct (map fst (entries m ks))"
  by (induction ks) (auto simp: set_entries split: option.splits)

section \<open>Strings of the Go standard library\<close>

text \<open>
  The white space of \<open>unicode.IsSpace\<close> as UTF-8 byte sequences. No sequence is a prefix of
  another, so trimming is deterministic.
\<close>

definition space_seqs :: "string list" where
  "space_seqs =
     [ [CHR 0x09], [CHR 0x0A], [CHR 0x0B], [CHR 0x0C], [CHR 0x0D], [CHR 0x20],
       [CHR 0xC2, CHR 0x85], [CHR 0xC2, CHR 0xA0], [CHR 0xE1, CHR 0x9A, CHR 0x80],
       [CHR 0xE2, CHR 0x80, CHR 0x80], [CHR 0xE2, CHR 0x80, CHR 0x81],
       [CHR 0xE2, CHR 0x80, CHR 0x82], [CHR 0xE2, CHR 0x80, CHR 0x83],
       [CHR 0xE2, CHR 0x80, CHR 0x84], [CHR 0xE2, CHR 0x80, CHR 0x85],
       [CHR 0xE2, CHR 0x80, CHR 0x86], [CHR 0xE2, CHR 0x80, CHR 0x87],
       [CHR 0xE2, CHR 0x80, CHR 0x88], [CHR 0xE2, CHR 0x80, CHR 0x89],
       [CHR 0xE2, CHR 0x80, CHR 0x8A], [CHR 0xE2, CHR 0x80, CHR 0xA8],
       [CHR 0xE2, CHR 0x80, CHR 0xA9], [CHR 0xE2, CHR 0x80, CHR 0xAF],
       [CHR 0xE2, CHR 0x81, CHR 0x9F], [CHR 0xE3, CHR 0x80, CHR 0x80] ]"

lemma space_seqs_nonempty: "[] \<notin> set space_seqs"
  by (simp add: space_seqs_def)

function trim_prefixes :: "string list \<Rightarrow> string \<Rightarrow> string" where
  "trim_prefixes ws s =
     (case find (\<lambda>w. w \<noteq> [] \<and> prefix w s) ws of
        None \<Rightarrow> s
      | Some w \<Rightarrow> trim_prefixes ws (drop (length w) s))"
  by pat_completeness auto
termination
proof (relation "measure (\<lambda>(ws, s). length s)")
  show "wf (measure (\<lambda>(ws, s :: string). length s))" by simp
next
  fix ws :: "string list" and s w :: string
  assume "find (\<lambda>w. w \<noteq> [] \<and> prefix w s) ws = Some w"
  then have "w \<noteq> []" and "prefix w s" by (auto simp: find_Some_iff)
  then show "((ws, drop (length w) s), (ws, s)) \<in> measure (\<lambda>(ws, s). length s)"
    by (cases s) auto
qed

declare trim_prefixes.simps [simp del]

text \<open>\<open>strings.TrimSpace\<close>.\<close>

definition TrimSpace :: "string \<Rightarrow> string" where
  "TrimSpace s = rev (trim_prefixes (map rev space_seqs) (rev (trim_prefixes space_seqs s)))"

lemma trim_prefixes_suffix: "suffix (trim_prefixes ws s) s"
proof (induction ws s rule: trim_prefixes.induct)
  case (1 ws s)
  show ?case
  proof (cases "find (\<lambda>w. w \<noteq> [] \<and> prefix w s) ws")
    case None
    then show ?thesis by (simp add: trim_prefixes.simps)
  next
    case (Some w)
    from "1.IH" [OF this] have "suffix (trim_prefixes ws (drop (length w) s)) (drop (length w) s)" .
    then have "suffix (trim_prefixes ws (drop (length w) s)) s"
      by (rule suffix_order.trans) (rule suffix_drop)
    with Some show ?thesis by (simp add: trim_prefixes.simps [of ws s])
  qed
qed

lemma trim_prefixes_head:
  "w \<in> set ws \<Longrightarrow> w \<noteq> [] \<Longrightarrow> \<not> prefix w (trim_prefixes ws s)"
proof (induction ws s rule: trim_prefixes.induct)
  case (1 ws s)
  show ?case
  proof (cases "find (\<lambda>w. w \<noteq> [] \<and> prefix w s) ws")
    case None
    then have "trim_prefixes ws s = s" by (simp add: trim_prefixes.simps [of ws s])
    with None "1.prems" show ?thesis by (auto simp: find_None_iff)
  next
    case (Some v)
    with "1.IH" [OF Some "1.prems"] show ?thesis by (simp add: trim_prefixes.simps [of ws s])
  qed
qed

lemma trim_prefixes_fix:
  "(\<And>w. w \<in> set ws \<Longrightarrow> w \<noteq> [] \<Longrightarrow> \<not> prefix w s) \<Longrightarrow> trim_prefixes ws s = s"
  by (subst trim_prefixes.simps) (auto simp: find_Some_iff split: option.splits)

lemma trim_prefixes_Nil [simp]: "trim_prefixes ws [] = []"
  by (rule trim_prefixes_fix) simp

lemma TrimSpace_Nil [simp, go_string]: "TrimSpace [] = []"
  by (simp add: TrimSpace_def)

lemma trim_prefixes_idem: "trim_prefixes ws (trim_prefixes ws s) = trim_prefixes ws s"
  by (rule trim_prefixes_fix) (rule trim_prefixes_head)

text \<open>Trimming again changes nothing: the left part stays trimmed, since trimming the right end
  takes a prefix.\<close>

lemma TrimSpace_idem [simp, go_string]: "TrimSpace (TrimSpace s) = TrimSpace s"
proof -
  let ?l = "trim_prefixes space_seqs s"
  let ?t = "TrimSpace s"
  have pre: "prefix ?t ?l"
    unfolding TrimSpace_def
    by (metis rev_rev_ident suffix_to_prefix trim_prefixes_suffix)
  have "trim_prefixes space_seqs ?t = ?t"
  proof (rule trim_prefixes_fix)
    fix w assume w: "w \<in> set space_seqs" "w \<noteq> []"
    show "\<not> prefix w ?t"
      using trim_prefixes_head [OF w, of s] pre prefix_order.trans by blast
  qed
  then show ?thesis
    by (metis TrimSpace_def rev_rev_ident trim_prefixes_idem)
qed

text \<open>\<open>strings.Split\<close> with a separator of one byte.\<close>

fun Split :: "char \<Rightarrow> string \<Rightarrow> string list" where
  "Split c [] = [[]]"
| "Split c (x # xs) =
     (if x = c then [] # Split c xs
      else (case Split c xs of [] \<Rightarrow> [[x]] | p # ps \<Rightarrow> (x # p) # ps))"

lemma Split_nonempty [simp]: "Split c s \<noteq> []"
  by (induction s) (auto split: list.splits)

lemma Split_hd: "hd (Split c s) = takeWhile (\<lambda>x. x \<noteq> c) s"
  by (induction s) (auto split: list.splits)

lemma Split_no_sep: "c \<notin> set s \<Longrightarrow> Split c s = [s]"
  by (induction s) auto

lemma Split_append: "c \<notin> set p \<Longrightarrow> Split c (p @ c # s) = p # Split c s"
  by (induction p) auto

text \<open>\<open>strings.Contains\<close>, \<open>strings.HasPrefix\<close>.\<close>

definition Contains_str :: "string \<Rightarrow> string \<Rightarrow> bool" where
  "Contains_str s sub = sublist sub s"

definition HasPrefix :: "string \<Rightarrow> string \<Rightarrow> bool" where
  "HasPrefix s p = prefix p s"

text \<open>
  \<open>strings.ToLower\<close> on bytes. Letters beyond ASCII are left alone; the code only compares the
  result with ASCII texts that hold no letter a non-ASCII one folds to.
\<close>

definition lower_char :: "char \<Rightarrow> char" where
  "lower_char c = (let n = (of_char c :: nat) in if 65 \<le> n \<and> n \<le> 90 then char_of (n + 32) else c)"

definition ToLower :: "string \<Rightarrow> string" where
  "ToLower s = map lower_char s"

definition EqualFold :: "string \<Rightarrow> string \<Rightarrow> bool" where
  "EqualFold s t = (ToLower s = ToLower t)"

text \<open>
  \<open>%q\<close>: the text between quotes, with the escapes of ASCII characters. Bytes beyond ASCII stay as
  they are, which is what the verb does for printable characters.
\<close>

definition quote_char :: "char \<Rightarrow> string" where
  "quote_char c =
     (let n = (of_char c :: nat); hex = ''0123456789abcdef'' in
      if c = CHR 0x22 \<or> c = CHR 0x5C then [CHR 0x5C, c]
      else if n = 7 then [CHR 0x5C, CHR ''a''] else if n = 8 then [CHR 0x5C, CHR ''b''] else if n = 12 then [CHR 0x5C, CHR ''f'']
      else if n = 10 then [CHR 0x5C, CHR ''n''] else if n = 13 then [CHR 0x5C, CHR ''r''] else if n = 9 then [CHR 0x5C, CHR ''t'']
      else if n = 11 then [CHR 0x5C, CHR ''v'']
      else if n < 32 \<or> n = 127 then [CHR 0x5C, CHR ''x'', hex ! (n div 16), hex ! (n mod 16)]
      else [c])"

definition go_quote :: "string \<Rightarrow> string" where
  "go_quote s = [CHR 0x22] @ concat (map quote_char s) @ [CHR 0x22]"

text \<open>\<open>strings.TrimRight(s, "/")\<close> for a cutset of one byte.\<close>

definition TrimRight :: "char \<Rightarrow> string \<Rightarrow> string" where
  "TrimRight c s = rev (dropWhile (\<lambda>x. x = c) (rev s))"

lemma TrimRight_idem [simp]: "TrimRight c (TrimRight c s) = TrimRight c s"
  by (simp add: TrimRight_def)

lemma find_SomeD: "find P xs = Some x \<Longrightarrow> x \<in> set xs \<and> P x"
  by (induction xs) (auto split: if_splits)

section \<open>Decimal numbers\<close>

definition digit_char :: "nat \<Rightarrow> char" where
  "digit_char d = char_of (48 + d)"

fun nat_str :: "nat \<Rightarrow> string" where
  "nat_str n = (if n < 10 then [digit_char n] else nat_str (n div 10) @ [digit_char (n mod 10)])"

declare nat_str.simps [simp del]

definition int_str :: "int \<Rightarrow> string" where
  "int_str i = (if i < 0 then ''-'' @ nat_str (nat (- i)) else nat_str (nat i))"

abbreviation nl :: string where
  "nl \<equiv> [CHR 0x0A]"

definition is_digit :: "char \<Rightarrow> bool" where
  "is_digit c = (let n = (of_char c :: nat) in 48 \<le> n \<and> n \<le> 57)"

definition digit_val :: "char \<Rightarrow> nat" where
  "digit_val c = of_char c - 48"

definition nat_of_digits :: "string \<Rightarrow> nat" where
  "nat_of_digits s = foldl (\<lambda>n c. 10 * n + digit_val c) 0 s"

lemma digit_char_props [simp]:
  "d < 10 \<Longrightarrow> is_digit (digit_char d)"
  "d < 10 \<Longrightarrow> digit_val (digit_char d) = d"
  by (simp_all add: is_digit_def digit_val_def digit_char_def)

lemma nat_str_digits: "c \<in> set (nat_str n) \<Longrightarrow> is_digit c"
proof (induction n rule: nat_str.induct)
  case (1 n)
  then show ?case
    by (subst (asm) nat_str.simps) (auto split: if_splits)
qed

lemma nat_str_nonempty [simp]: "nat_str n \<noteq> []"
  by (subst nat_str.simps) auto

lemma nat_of_digits_snoc: "nat_of_digits (s @ [c]) = 10 * nat_of_digits s + digit_val c"
  by (simp add: nat_of_digits_def)

lemma nat_of_digits_nat_str [simp]: "nat_of_digits (nat_str n) = n"
proof (induction n rule: nat_str.induct)
  case (1 n)
  show ?case
  proof (cases "n < 10")
    case True
    then show ?thesis by (subst nat_str.simps) (simp add: nat_of_digits_def)
  next
    case False
    with "1.IH" show ?thesis by (subst nat_str.simps) (simp add: nat_of_digits_snoc)
  qed
qed

lemma nat_str_inj: "nat_str m = nat_str n \<longleftrightarrow> m = n"
  by (metis nat_of_digits_nat_str)

lemma nat_str_first: "n \<noteq> 0 \<Longrightarrow> hd (nat_str n) \<noteq> CHR ''0''"
proof (induction n rule: nat_str.induct)
  case (1 n)
  show ?case
  proof (cases "n < 10")
    case True
    have "digit_char n \<noteq> digit_char 0"
      using 1 True by (metis digit_char_props(2) zero_less_numeral)
    moreover have "digit_char 0 = CHR ''0''"
      by code_simp
    ultimately show ?thesis using True by (subst nat_str.simps) simp
  next
    case False
    then have "n div 10 \<noteq> 0" by simp
    with 1 False have "hd (nat_str (n div 10)) \<noteq> CHR ''0''" by blast
    with False show ?thesis by (subst nat_str.simps) simp
  qed
qed

section \<open>Time\<close>

type_synonym gotime = int
type_synonym duration = int

text \<open>Arithmetic on \<open>int64\<close> values wraps; \<open>time.Time.Sub\<close> saturates instead.\<close>

definition int64 :: "int \<Rightarrow> int" where
  "int64 x = signed_take_bit 63 x"

definition sub_sat :: "gotime \<Rightarrow> gotime \<Rightarrow> duration" where
  "sub_sat t u = max (- (2 ^ 63)) (min (2 ^ 63 - 1) (t - u))"

abbreviation second :: duration where "second \<equiv> 1000000000"

abbreviation minute :: duration where "minute \<equiv> 60000000000"

lemma int64_id: "- (2 ^ 63) \<le> x \<Longrightarrow> x < 2 ^ 63 \<Longrightarrow> int64 x = x"
  unfolding int64_def by (rule signed_take_bit_int_eq_self) simp_all

lemma sub_sat_id: "\<bar>t - u\<bar> < 2 ^ 63 \<Longrightarrow> sub_sat t u = t - u"
  by (simp add: sub_sat_def)

end
