(* ===== verification/SMD_Client.thy ===== *)
theory SMD_Client
  imports Prelude
begin

text \<open>
  The SMD client interface of \<open>pkg/smdclient/interface.go\<close>, the lookup of \<open>resolve.go\<close> and the
  in-memory client of \<open>mock.go\<close>. A Go value of the interface type is a record of operations over a
  client state; the optional interfaces \<open>ComponentResolver\<close> and \<open>ComponentLister\<close>, which the code
  finds by a type assertion, are optional fields. The order in which Go ranges over a map comes in
  as a function of the map.
\<close>

section \<open>Data\<close>

record Component =
  comp_ID :: string
  comp_NID :: int
  comp_Role :: string
  comp_MAC :: string
  comp_IP :: string

record EthernetNIC =
  nic_RedfishID :: string
  nic_Description :: string
  nic_MACAddress :: string
  nic_PermanentMACAddress :: string
  nic_InterfaceEnabled :: bool

record IPMapping =
  map_IPAddress :: string
  map_Network :: string

record EthernetInterface =
  if_ID :: string
  if_Description :: string
  if_MACAddress :: string
  if_IPAddresses :: "IPMapping list"
  if_ComponentID :: string
  if_Type :: string

section \<open>The interface\<close>

type_synonym ('b, 'r) query = "string \<Rightarrow> 'b \<Rightarrow> 'r result \<times> 'b"

record 'b SMDClient =
  smd_IDfromIP :: "('b, string) query"
  smd_IDfromWGIP :: "('b, string) query"
  smd_IPfromID :: "('b, string) query"
  smd_MACfromID :: "('b, string) query"
  smd_ComponentInformation :: "('b, Component) query"
  smd_GroupMembership :: "('b, string list) query"
  smd_AddWGIP :: "string \<Rightarrow> string \<Rightarrow> 'b \<Rightarrow> goerror option \<times> 'b"
  smd_WGIPfromID :: "('b, string) query"
  smd_EthernetNICInfo :: "('b, EthernetNIC list) query"
  smd_EthernetInterfaces :: "('b, EthernetInterface list) query"
  smd_resolver :: "('b, string) query option"
  smd_lister :: "('b \<Rightarrow> Component option list result \<times> 'b) option"

text \<open>A lookup counts when it succeeded with a text that is not empty.\<close>

definition found_id :: "string result \<Rightarrow> string option" where
  "found_id r = (case r of Inl _ \<Rightarrow> None | Inr i \<Rightarrow> if i \<noteq> '''' then Some i else None)"

definition ResolveComponentID :: "'b SMDClient option \<Rightarrow> ('b, string) query" where
  "ResolveComponentID client ip s =
     (case client of
        None \<Rightarrow> (Inl (ENew ''nil SMD client''), s)
      | Some B \<Rightarrow>
          let (r0, s0) = (case smd_resolver B of Some f \<Rightarrow> f ip s | None \<Rightarrow> (Inl (ENew ''''), s)) in
          (case found_id r0 of
             Some i \<Rightarrow> (Inr i, s0)
           | None \<Rightarrow>
               let (r1, s1) = smd_IDfromWGIP B ip s0 in
               (case found_id r1 of
                  Some i \<Rightarrow> (Inr i, s1)
                | None \<Rightarrow>
                    let (r2, s2) = smd_IDfromIP B ip s1 in
                    (case found_id r2 of
                       Some i \<Rightarrow> (Inr i, s2)
                     | None \<Rightarrow> (Inl (ENew (''no component found for IP '' @ ip)), s2)))))"

lemma found_id_Some [simp]: "found_id r = Some i \<longleftrightarrow> r = Inr i \<and> i \<noteq> ''''"
  by (auto simp: found_id_def split: sum.splits if_splits)

lemma found_id_simps [simp]: "found_id (Inl e) = None" "found_id (Inr i) = (if i \<noteq> '''' then Some i else None)"
  by (simp_all add: found_id_def)

lemma ResolveComponentID_nonempty:
  "fst (ResolveComponentID client ip s) = Inr i \<Longrightarrow> i \<noteq> ''''"
  by (auto simp: ResolveComponentID_def Let_def split: option.splits prod.splits if_splits)

section \<open>Preferred addresses\<close>

definition all_mappings :: "EthernetInterface list \<Rightarrow> (EthernetInterface \<times> IPMapping) list" where
  "all_mappings ifaces = concat (map (\<lambda>f. map (Pair f) (if_IPAddresses f)) ifaces)"

definition pickHMNIP :: "EthernetInterface list \<Rightarrow> string" where
  "pickHMNIP ifaces =
     (case find (\<lambda>(f, m). EqualFold (map_Network m) ''HMN'') (all_mappings ifaces) of
        Some (f, m) \<Rightarrow> map_IPAddress m
      | None \<Rightarrow>
          (case find (\<lambda>(f, m). map_IPAddress m \<noteq> '''') (all_mappings ifaces) of
             Some (f, m) \<Rightarrow> map_IPAddress m
           | None \<Rightarrow> ''''))"

definition pickHMNMAC :: "EthernetInterface list \<Rightarrow> string" where
  "pickHMNMAC ifaces =
     (case find (\<lambda>(f, m). EqualFold (map_Network m) ''HMN'') (all_mappings ifaces) of
        Some (f, m) \<Rightarrow> if_MACAddress f
      | None \<Rightarrow>
          (case find (\<lambda>f. if_MACAddress f \<noteq> '''') ifaces of
             Some f \<Rightarrow> if_MACAddress f
           | None \<Rightarrow> ''''))"

section \<open>The in-memory client\<close>

record MockSMDClient =
  components :: "string \<rightharpoonup> Component"
  mock_ipToID :: "string \<rightharpoonup> string"
  groups :: "string \<rightharpoonup> string list"
  wgip :: "string \<rightharpoonup> string"
  ethernetNICs :: "string \<rightharpoonup> EthernetNIC list"
  ethernetIfaces :: "string \<rightharpoonup> EthernetInterface list"

definition NewMockSMDClient :: MockSMDClient where
  "NewMockSMDClient = \<lparr>components = Map.empty, mock_ipToID = Map.empty, groups = Map.empty, wgip = Map.empty,
     ethernetNICs = Map.empty, ethernetIfaces = Map.empty\<rparr>"

definition AddComponent :: "Component \<Rightarrow> MockSMDClient \<Rightarrow> MockSMDClient" where
  "AddComponent c m =
     (let m1 = m\<lparr>components := (components m)(comp_ID c \<mapsto> c)\<rparr> in
      if comp_IP c \<noteq> '''' then m1\<lparr>mock_ipToID := (mock_ipToID m1)(comp_IP c \<mapsto> comp_ID c)\<rparr> else m1)"

definition Mock_ListComponents :: "string list \<Rightarrow> MockSMDClient \<Rightarrow> Component option list result \<times> MockSMDClient" where
  "Mock_ListComponents order m = (Inr (map (Some \<circ> snd) (entries (components m) order)), m)"

definition AddGroupMembership :: "string \<Rightarrow> string list \<Rightarrow> MockSMDClient \<Rightarrow> MockSMDClient" where
  "AddGroupMembership cid gs m = m\<lparr>groups := (groups m)(cid \<mapsto> gs)\<rparr>"

definition AddEthernetNICInfo :: "string \<Rightarrow> EthernetNIC list \<Rightarrow> MockSMDClient \<Rightarrow> MockSMDClient" where
  "AddEthernetNICInfo cid nics m = m\<lparr>ethernetNICs := (ethernetNICs m)(cid \<mapsto> nics)\<rparr>"

definition AddEthernetInterfaces :: "string \<Rightarrow> EthernetInterface list \<Rightarrow> MockSMDClient \<Rightarrow> MockSMDClient" where
  "AddEthernetInterfaces cid ifaces m = m\<lparr>ethernetIfaces := (ethernetIfaces m)(cid \<mapsto> ifaces)\<rparr>"

definition Mock_IDfromIP :: "(MockSMDClient, string) query" where
  "Mock_IDfromIP ip m =
     (case mock_ipToID m ip of
        Some cid \<Rightarrow> (Inr cid, m)
      | None \<Rightarrow> (Inl (ENew (''no component found for IP '' @ ip)), m))"

text \<open>The first entry with this address, in the order of the iteration.\<close>

definition find_by_wgip :: "string list \<Rightarrow> string \<Rightarrow> (string \<rightharpoonup> string) \<Rightarrow> string result" where
  "find_by_wgip order w m =
     (case find (\<lambda>(cid, stored). stored = w) (entries m order) of
        Some (cid, _) \<Rightarrow> Inr cid
      | None \<Rightarrow> Inl (ENew (''no component found for WireGuard IP '' @ w)))"

definition Mock_IDfromWGIP :: "((string \<rightharpoonup> string) \<Rightarrow> string list) \<Rightarrow> (MockSMDClient, string) query" where
  "Mock_IDfromWGIP order w m = (find_by_wgip (order (wgip m)) w (wgip m), m)"

definition Mock_IPfromID :: "(MockSMDClient, string) query" where
  "Mock_IPfromID cid m =
     (let hmn = (case ethernetIfaces m cid of Some ifaces \<Rightarrow> pickHMNIP ifaces | None \<Rightarrow> '''') in
      if hmn \<noteq> '''' then (Inr hmn, m)
      else case components m cid of
        Some c \<Rightarrow> (Inr (comp_IP c), m)
      | None \<Rightarrow> (Inl (ENew (''no component found for ID '' @ cid)), m))"

definition Mock_MACfromID :: "(MockSMDClient, string) query" where
  "Mock_MACfromID cid m =
     (let hmn = (case ethernetIfaces m cid of Some ifaces \<Rightarrow> pickHMNMAC ifaces | None \<Rightarrow> '''') in
      if hmn \<noteq> '''' then (Inr hmn, m)
      else case components m cid of
        Some c \<Rightarrow> (Inr (comp_MAC c), m)
      | None \<Rightarrow> (Inl (ENew (''no component found for ID '' @ cid)), m))"

definition Mock_ComponentInformation :: "(MockSMDClient, Component) query" where
  "Mock_ComponentInformation cid m =
     (case components m cid of
        Some c \<Rightarrow> (Inr c, m)
      | None \<Rightarrow> (Inl (ENew (''no component found for ID '' @ cid)), m))"

definition Mock_GroupMembership :: "(MockSMDClient, string list) query" where
  "Mock_GroupMembership cid m = (Inr (case groups m cid of Some gs \<Rightarrow> gs | None \<Rightarrow> []), m)"

definition Mock_AddWGIP :: "string \<Rightarrow> string \<Rightarrow> MockSMDClient \<Rightarrow> goerror option \<times> MockSMDClient" where
  "Mock_AddWGIP cid w m = (None, m\<lparr>wgip := (wgip m)(cid \<mapsto> w)\<rparr>)"

definition Mock_WGIPfromID :: "(MockSMDClient, string) query" where
  "Mock_WGIPfromID cid m =
     (case wgip m cid of
        Some ip \<Rightarrow> (Inr ip, m)
      | None \<Rightarrow> (Inl (ENew (''no WGIP found for ID '' @ cid)), m))"

definition Mock_EthernetNICInfo :: "(MockSMDClient, EthernetNIC list) query" where
  "Mock_EthernetNICInfo cid m = (Inr (case ethernetNICs m cid of Some n \<Rightarrow> n | None \<Rightarrow> []), m)"

definition Mock_EthernetInterfaces :: "(MockSMDClient, EthernetInterface list) query" where
  "Mock_EthernetInterfaces cid m = (Inr (case ethernetIfaces m cid of Some f \<Rightarrow> f | None \<Rightarrow> []), m)"

text \<open>The client as a value of the interface, for given iteration orders.\<close>

definition mock_client :: "((string \<rightharpoonup> string) \<Rightarrow> string list) \<Rightarrow> ((string \<rightharpoonup> Component) \<Rightarrow> string list) \<Rightarrow>
    MockSMDClient SMDClient" where
  "mock_client wg_order comp_order =
     \<lparr>smd_IDfromIP = Mock_IDfromIP, smd_IDfromWGIP = Mock_IDfromWGIP wg_order, smd_IPfromID = Mock_IPfromID,
      smd_MACfromID = Mock_MACfromID, smd_ComponentInformation = Mock_ComponentInformation,
      smd_GroupMembership = Mock_GroupMembership, smd_AddWGIP = Mock_AddWGIP, smd_WGIPfromID = Mock_WGIPfromID,
      smd_EthernetNICInfo = Mock_EthernetNICInfo, smd_EthernetInterfaces = Mock_EthernetInterfaces,
      smd_resolver = None, smd_lister = Some (\<lambda>m. Mock_ListComponents (comp_order (components m)) m)\<rparr>"

lemmas mock_defs = mock_client_def Mock_IDfromIP_def Mock_IDfromWGIP_def Mock_IPfromID_def Mock_MACfromID_def
  Mock_ComponentInformation_def Mock_GroupMembership_def Mock_AddWGIP_def Mock_WGIPfromID_def
  Mock_EthernetNICInfo_def Mock_EthernetInterfaces_def Mock_ListComponents_def

section \<open>The contract of the WireGuard address store\<close>

text \<open>
  What the routes rely on: an address that was recorded is read back, and recording one does not
  disturb the others.
\<close>

locale wgip_store =
  fixes B :: "'b SMDClient"
  assumes wgip_recorded: "smd_AddWGIP B cid w s = (None, s') \<Longrightarrow> cid \<noteq> '''' \<Longrightarrow> w \<noteq> '''' \<Longrightarrow>
      fst (smd_WGIPfromID B cid s') = Inr w"
    and wgip_frame: "smd_AddWGIP B cid w s = (None, s') \<Longrightarrow> cid' \<noteq> cid \<Longrightarrow>
      fst (smd_WGIPfromID B cid' s') = fst (smd_WGIPfromID B cid' s)"

text \<open>The reverse lookup only ever answers with a component that holds the address.\<close>

locale wgip_reverse = wgip_store +
  assumes reverse_sound: "fst (smd_IDfromWGIP B w s) = Inr cid \<Longrightarrow> fst (smd_WGIPfromID B cid s) = Inr w"
begin

text \<open>So a lookup by an address nobody holds any more fails.\<close>

lemma reverse_after_move:
  assumes "smd_AddWGIP B cid w s = (None, s')" and "cid \<noteq> ''''" and "w \<noteq> ''''" and "old \<noteq> w"
  shows "fst (smd_IDfromWGIP B old s') \<noteq> Inr cid"
  using reverse_sound [of old s' cid] wgip_recorded [OF assms(1-3)] assms(4) by auto

end

lemma find_by_wgip_sound:
  assumes "find_by_wgip order w m = Inr cid"
  shows "m cid = Some w"
  using assms by (auto simp: find_by_wgip_def set_entries dest!: find_SomeD split: option.splits prod.splits)

lemma find_by_wgip_complete:
  assumes "range_order m order" and "m cid = Some w"
  shows "\<exists>cid'. find_by_wgip order w m = Inr cid' \<and> m cid' = Some w"
proof -
  have "(cid, w) \<in> set (entries m order)" using assms by (auto simp: set_entries range_order_def)
  then have "find (\<lambda>(cid, stored). stored = w) (entries m order) \<noteq> None"
    by (auto simp: find_None_iff)
  then obtain cid' where "find_by_wgip order w m = Inr cid'"
    by (auto simp: find_by_wgip_def split: prod.splits)
  then show ?thesis using find_by_wgip_sound by blast
qed

interpretation mock: wgip_reverse "mock_client wg_order comp_order" for wg_order comp_order
  by unfold_locales (auto simp: mock_defs dest: find_by_wgip_sound split: option.splits)

section \<open>Properties\<close>

text \<open>
  \<open>ResolveComponentID\<close> on a client without its own resolver, here the in-memory
  one: when some component holds the address as its WireGuard address, one such component is the
  answer, whatever the management addresses say; otherwise the owner of the management address is,
  if it has one; otherwise the answer is an error. The client's state does not change.
\<close>

theorem resolve_prefers_wireguard:
  assumes "range_order (wgip s) (wg_order (wgip s))" and "wgip s '''' = None"
  shows "case ResolveComponentID (Some (mock_client wg_order comp_order)) ip s of (r, s') \<Rightarrow> s' = s \<and>
    (if \<exists>cid. wgip s cid = Some ip then (\<exists>cid. r = Inr cid \<and> wgip s cid = Some ip)
     else case mock_ipToID s ip of
       Some cid \<Rightarrow> if cid \<noteq> '''' then r = Inr cid else (\<exists>e. r = Inl e)
     | None \<Rightarrow> (\<exists>e. r = Inl e))"
proof (cases "\<exists>cid. wgip s cid = Some ip")
  case True
  then obtain cid' where "find_by_wgip (wg_order (wgip s)) ip (wgip s) = Inr cid'" and h: "wgip s cid' = Some ip"
    using find_by_wgip_complete [OF assms(1)] by metis
  moreover have "cid' \<noteq> ''''" using assms(2) h by auto
  ultimately show ?thesis using True by (auto simp: ResolveComponentID_def mock_defs)
next
  case False
  then have "find_by_wgip (wg_order (wgip s)) ip (wgip s) \<noteq> Inr i" for i
    using find_by_wgip_sound by blast
  then obtain e where "find_by_wgip (wg_order (wgip s)) ip (wgip s) = Inl e" by (metis sumE)
  with False show ?thesis
    by (auto simp: ResolveComponentID_def mock_defs Let_def split: option.splits)
qed

text \<open>A client that knows two nodes, the first one with a WireGuard address.\<close>

definition mock_two :: MockSMDClient where
  "mock_two = snd (Mock_AddWGIP ''x0'' ''10.1.0.2''
     (AddGroupMembership ''x0'' [''compute'']
       (AddComponent \<lparr>comp_ID = ''x1'', comp_NID = 2, comp_Role = ''Compute'', comp_MAC = ''m1'', comp_IP = ''10.1.0.2''\<rparr>
         (AddComponent \<lparr>comp_ID = ''x0'', comp_NID = 1, comp_Role = ''Compute'', comp_MAC = ''m0'', comp_IP = ''10.0.0.1''\<rparr>
           NewMockSMDClient))))"

definition order_two :: "(string \<rightharpoonup> 'v) \<Rightarrow> string list" where
  "order_two m = filter (\<lambda>k. m k \<noteq> None) [''x0'', ''x1'']"

lemma order_two: "dom m \<subseteq> {''x0'', ''x1''} \<Longrightarrow> range_order m (order_two m)"
  by (auto simp: range_order_def order_two_def)

lemmas mock_two_defs = mock_two_def NewMockSMDClient_def AddComponent_def AddGroupMembership_def Mock_AddWGIP_def Let_def

theorem resolve_prefers_wireguard_witness:
  "fst (ResolveComponentID (Some (mock_client order_two order_two)) ''10.1.0.2'' mock_two) = Inr ''x0''"
proof -
  have w: "wgip mock_two = [''x0'' \<mapsto> ''10.1.0.2'']" by (simp add: mock_two_defs)
  then have o: "range_order (wgip mock_two) (order_two (wgip mock_two))" by (intro order_two) simp
  show ?thesis
    using resolve_prefers_wireguard [where s = mock_two and wg_order = order_two and comp_order = order_two and ip = "''10.1.0.2''", OF o] w
    by (auto split: prod.splits if_splits)
qed

end
