(* ===== verification/SMD_Service.thy ===== *)
theory SMD_Service
  imports SMD_Client
begin

text \<open>
  The cache in front of SMD, \<open>pkg/smdclient/integration_service.go\<close>. Its state holds the state of
  the client behind it; every operation takes the operations of that client and the current time.
  The zero \<open>time.Time\<close> of \<open>lastRun\<close> is \<open>None\<close>. An operation is modelled as one step: the locks are
  released around the call of the client behind, and what is written afterwards is written into the
  maps as they are then, which in a sequential run are the maps it read.
\<close>

section \<open>State\<close>

record nodeSnapshot =
  node_component :: "Component option"
  node_groups :: "string list"
  node_nics :: "EthernetNIC list"
  node_ifaces :: "EthernetInterface list"
  node_wgip :: string

definition zero_node :: nodeSnapshot where
  "zero_node = \<lparr>node_component = None, node_groups = [], node_nics = [], node_ifaces = [], node_wgip = ''''\<rparr>"

record 'b SMDIntegrationService =
  backend :: 'b
  syncEnabled :: bool
  syncInterval :: duration
  nodes :: "string \<rightharpoonup> nodeSnapshot"
  ipToID :: "string \<rightharpoonup> string"
  wgipMap :: "string \<rightharpoonup> string"
  lastRun :: "gotime option"

definition defaultSyncInterval :: duration where
  "defaultSyncInterval = 5 * minute"

definition defaultBackoffStart :: duration where
  "defaultBackoffStart = second"

definition InitialSyncStatus :: "'b SMDIntegrationService \<Rightarrow> bool \<times> string" where
  "InitialSyncStatus s =
     (if \<not> syncEnabled s then (True, '''')
      else if lastRun s = None then (False, ''smd initial refresh pending'')
      else (True, ''''))"

definition NewSMDIntegrationService :: "'b \<Rightarrow> bool \<Rightarrow> duration \<Rightarrow> 'b SMDIntegrationService" where
  "NewSMDIntegrationService b enabled interval =
     \<lparr>backend = b, syncEnabled = enabled,
      syncInterval = (if interval \<le> 0 then defaultSyncInterval else interval),
      nodes = Map.empty, ipToID = Map.empty, wgipMap = Map.empty, lastRun = None\<rparr>"

section \<open>The cache\<close>

text \<open>Reading a Go map: the zero value when the key is missing.\<close>

definition str_at :: "(string \<rightharpoonup> string) \<Rightarrow> string \<Rightarrow> string" where
  "str_at m k = (case m k of Some v \<Rightarrow> v | None \<Rightarrow> '''')"

definition node_at :: "'b SMDIntegrationService \<Rightarrow> string \<Rightarrow> nodeSnapshot" where
  "node_at s cid = (case nodes s cid of Some n \<Rightarrow> n | None \<Rightarrow> zero_node)"

definition isCacheStale :: "gotime \<Rightarrow> 'b SMDIntegrationService \<Rightarrow> bool" where
  "isCacheStale now s =
     (if \<not> syncEnabled s then False
      else case lastRun s of
        None \<Rightarrow> True
      | Some t \<Rightarrow> int64 (2 * syncInterval s) < sub_sat now t)"

definition resolveFromCache :: "gotime \<Rightarrow> string \<Rightarrow> 'b SMDIntegrationService \<Rightarrow> string \<times> string \<times> bool" where
  "resolveFromCache now ip s = (str_at (wgipMap s) ip, str_at (ipToID s) ip, isCacheStale now s)"

definition cacheIPIndex :: "string \<Rightarrow> string \<Rightarrow> 'b SMDIntegrationService \<Rightarrow> 'b SMDIntegrationService" where
  "cacheIPIndex ip cid s =
     (if ip = '''' \<or> cid = '''' then s else s\<lparr>ipToID := (ipToID s)(ip \<mapsto> cid)\<rparr>)"

definition cacheWGIP :: "string \<Rightarrow> string \<Rightarrow> 'b SMDIntegrationService \<Rightarrow> 'b SMDIntegrationService" where
  "cacheWGIP cid w s =
     (if cid = '''' \<or> w = '''' then s
      else s\<lparr>nodes := (nodes s)(cid \<mapsto> (node_at s cid)\<lparr>node_wgip := w\<rparr>),
             wgipMap := (wgipMap s)(w \<mapsto> cid)\<rparr>)"

text \<open>One call of the client behind the cache.\<close>

definition ask :: "('b, 'r) query \<Rightarrow> string \<Rightarrow> 'b SMDIntegrationService \<Rightarrow> 'r result \<times> 'b SMDIntegrationService" where
  "ask q x s = (let (r, b) = q x (backend s) in (r, s\<lparr>backend := b\<rparr>))"

section \<open>Lookups\<close>

definition Svc_ResolveComponentID :: "'b SMDClient \<Rightarrow> gotime \<Rightarrow> ('b SMDIntegrationService, string) query" where
  "Svc_ResolveComponentID B now ip0 s =
     (let ip = TrimSpace ip0 in
      if ip = '''' then (Inl (ENew ''empty IP''), s)
      else
        let (cachedWG, cachedIP, stale) = resolveFromCache now ip s in
        if cachedWG \<noteq> '''' \<and> \<not> stale then (Inr cachedWG, s)
        else if cachedIP \<noteq> '''' \<and> \<not> stale then (Inr cachedIP, s)
        else
          let (r, s1) = ask (ResolveComponentID (Some B)) ip s in
          (case found_id r of
             Some cid \<Rightarrow> (Inr cid, cacheIPIndex ip cid s1)
           | None \<Rightarrow>
               if cachedWG \<noteq> '''' then (Inr cachedWG, s1)
               else if cachedIP \<noteq> '''' then (Inr cachedIP, s1)
               else (r, s1)))"

definition Svc_IDfromIP :: "'b SMDClient \<Rightarrow> gotime \<Rightarrow> ('b SMDIntegrationService, string) query" where
  "Svc_IDfromIP B now ip s =
     (let cachedID = str_at (ipToID s) ip; stale = isCacheStale now s in
      if cachedID \<noteq> '''' \<and> \<not> stale then (Inr cachedID, s)
      else
        let (r, s1) = ask (smd_IDfromIP B) ip s in
        (case r of
           Inr cid \<Rightarrow> (Inr cid, cacheIPIndex ip cid s1)
         | Inl e \<Rightarrow> if cachedID \<noteq> '''' then (Inr cachedID, s1) else (Inl e, s1)))"

definition Svc_IDfromWGIP :: "'b SMDClient \<Rightarrow> gotime \<Rightarrow> ('b SMDIntegrationService, string) query" where
  "Svc_IDfromWGIP B now w s =
     (let cachedID = str_at (wgipMap s) w; stale = isCacheStale now s in
      if cachedID \<noteq> '''' \<and> \<not> stale then (Inr cachedID, s)
      else
        let (r, s1) = ask (smd_IDfromWGIP B) w s in
        (case r of
           Inr cid \<Rightarrow> (Inr cid, cacheWGIP cid w s1)
         | Inl e \<Rightarrow> if cachedID \<noteq> '''' then (Inr cachedID, s1) else (Inl e, s1)))"

text \<open>The preferred address of a cached node: an interface's, else the component's; empty if neither.\<close>

definition node_ip :: "nodeSnapshot \<Rightarrow> string" where
  "node_ip n = (if pickHMNIP (node_ifaces n) \<noteq> '''' then pickHMNIP (node_ifaces n)
     else case node_component n of Some c \<Rightarrow> comp_IP c | None \<Rightarrow> '''')"

definition node_mac :: "nodeSnapshot \<Rightarrow> string" where
  "node_mac n = (if pickHMNMAC (node_ifaces n) \<noteq> '''' then pickHMNMAC (node_ifaces n)
     else case node_component n of Some c \<Rightarrow> comp_MAC c | None \<Rightarrow> '''')"

definition Svc_IPfromID :: "'b SMDClient \<Rightarrow> gotime \<Rightarrow> ('b SMDIntegrationService, string) query" where
  "Svc_IPfromID B now cid s =
     (let found = (nodes s cid \<noteq> None); n = node_at s cid; stale = isCacheStale now s in
      if found \<and> \<not> stale \<and> node_ip n \<noteq> '''' then (Inr (node_ip n), s)
      else
        let (r, s1) = ask (smd_IPfromID B) cid s in
        (case r of
           Inr ip \<Rightarrow> (Inr ip, cacheIPIndex ip cid s1)
         | Inl e \<Rightarrow> if found \<and> node_ip n \<noteq> '''' then (Inr (node_ip n), s1) else (Inl e, s1)))"

definition Svc_MACfromID :: "'b SMDClient \<Rightarrow> gotime \<Rightarrow> ('b SMDIntegrationService, string) query" where
  "Svc_MACfromID B now cid s =
     (let found = (nodes s cid \<noteq> None); n = node_at s cid; stale = isCacheStale now s in
      if found \<and> \<not> stale \<and> node_mac n \<noteq> '''' then (Inr (node_mac n), s)
      else
        let (r, s1) = ask (smd_MACfromID B) cid s in
        (case r of
           Inr mac \<Rightarrow> (Inr mac, s1)
         | Inl e \<Rightarrow> if found \<and> node_mac n \<noteq> '''' then (Inr (node_mac n), s1) else (Inl e, s1)))"

definition Svc_ComponentInformation :: "'b SMDClient \<Rightarrow> gotime \<Rightarrow> ('b SMDIntegrationService, Component) query" where
  "Svc_ComponentInformation B now cid s =
     (let cached = (case nodes s cid of Some n \<Rightarrow> node_component n | None \<Rightarrow> None); stale = isCacheStale now s in
      case (cached, stale) of
        (Some c, False) \<Rightarrow> (Inr c, s)
      | _ \<Rightarrow>
        let (r, s1) = ask (smd_ComponentInformation B) cid s in
        (case r of
           Inr c \<Rightarrow>
             let s2 = s1\<lparr>nodes := (nodes s1)(cid \<mapsto> (node_at s1 cid)\<lparr>node_component := Some c\<rparr>)\<rparr> in
             (Inr c, if comp_IP c \<noteq> '''' then s2\<lparr>ipToID := (ipToID s2)(comp_IP c \<mapsto> cid)\<rparr> else s2)
         | Inl e \<Rightarrow> (case cached of Some c \<Rightarrow> (Inr c, s1) | None \<Rightarrow> (Inl e, s1))))"

definition Svc_GroupMembership :: "'b SMDClient \<Rightarrow> gotime \<Rightarrow> ('b SMDIntegrationService, string list) query" where
  "Svc_GroupMembership B now cid s =
     (let stale = isCacheStale now s in
      case (nodes s cid, stale) of
        (Some n, False) \<Rightarrow> (Inr (node_groups n), s)
      | _ \<Rightarrow>
        let (r, s1) = ask (smd_GroupMembership B) cid s in
        (case r of
           Inr gs \<Rightarrow> (Inr gs, s1\<lparr>nodes := (nodes s1)(cid \<mapsto> (node_at s1 cid)\<lparr>node_groups := gs\<rparr>)\<rparr>)
         | Inl e \<Rightarrow> (case nodes s cid of Some n \<Rightarrow> (Inr (node_groups n), s1) | None \<Rightarrow> (Inl e, s1))))"

definition Svc_AddWGIP :: "'b SMDClient \<Rightarrow> string \<Rightarrow> string \<Rightarrow> 'b SMDIntegrationService \<Rightarrow>
    goerror option \<times> 'b SMDIntegrationService" where
  "Svc_AddWGIP B cid w s =
     (let (e, b) = smd_AddWGIP B cid w (backend s); s1 = s\<lparr>backend := b\<rparr> in
      if e \<noteq> None then (e, s1) else (None, cacheWGIP cid w s1))"

definition Svc_WGIPfromID :: "'b SMDClient \<Rightarrow> gotime \<Rightarrow> ('b SMDIntegrationService, string) query" where
  "Svc_WGIPfromID B now cid s =
     (let cached = node_wgip (node_at s cid); found = (nodes s cid \<noteq> None); stale = isCacheStale now s in
      if found \<and> \<not> stale \<and> cached \<noteq> '''' then (Inr cached, s)
      else
        let (r, s1) = ask (smd_WGIPfromID B) cid s in
        (case r of
           Inr w \<Rightarrow> (Inr w, cacheWGIP cid w s1)
         | Inl e \<Rightarrow> if found \<and> cached \<noteq> '''' then (Inr cached, s1) else (Inl e, s1)))"

definition Svc_EthernetNICInfo :: "'b SMDClient \<Rightarrow> gotime \<Rightarrow> ('b SMDIntegrationService, EthernetNIC list) query" where
  "Svc_EthernetNICInfo B now cid s =
     (let cached = node_nics (node_at s cid); found = (nodes s cid \<noteq> None); stale = isCacheStale now s in
      if found \<and> \<not> stale \<and> cached \<noteq> [] then (Inr cached, s)
      else
        let (r, s1) = ask (smd_EthernetNICInfo B) cid s in
        (case r of
           Inr v \<Rightarrow> (Inr v, s1\<lparr>nodes := (nodes s1)(cid \<mapsto> (node_at s1 cid)\<lparr>node_nics := v\<rparr>)\<rparr>)
         | Inl e \<Rightarrow> if found then (Inr cached, s1) else (Inl e, s1)))"

text \<open>The addresses of the interfaces, as entries of the index for one component.\<close>

definition iface_index :: "string \<Rightarrow> EthernetInterface list \<Rightarrow> (string \<times> string) list" where
  "iface_index cid ifaces =
     map (\<lambda>(f, m). (map_IPAddress m, cid)) (filter (\<lambda>(f, m). map_IPAddress m \<noteq> '''') (all_mappings ifaces))"

definition Svc_EthernetInterfaces :: "'b SMDClient \<Rightarrow> gotime \<Rightarrow> ('b SMDIntegrationService, EthernetInterface list) query" where
  "Svc_EthernetInterfaces B now cid s =
     (let cached = node_ifaces (node_at s cid); found = (nodes s cid \<noteq> None); stale = isCacheStale now s in
      if found \<and> \<not> stale \<and> cached \<noteq> [] then (Inr cached, s)
      else
        let (r, s1) = ask (smd_EthernetInterfaces B) cid s in
        (case r of
           Inr v \<Rightarrow> (Inr v, s1\<lparr>nodes := (nodes s1)(cid \<mapsto> (node_at s1 cid)\<lparr>node_ifaces := v\<rparr>),
                             ipToID := assign_all (iface_index cid v) (ipToID s1)\<rparr>)
         | Inl e \<Rightarrow> if found then (Inr cached, s1) else (Inl e, s1)))"

text \<open>The service as a client: it has its own resolver and cannot list components.\<close>

definition svc_client :: "'b SMDClient \<Rightarrow> gotime \<Rightarrow> 'b SMDIntegrationService SMDClient" where
  "svc_client B now =
     \<lparr>smd_IDfromIP = Svc_IDfromIP B now, smd_IDfromWGIP = Svc_IDfromWGIP B now, smd_IPfromID = Svc_IPfromID B now,
      smd_MACfromID = Svc_MACfromID B now, smd_ComponentInformation = Svc_ComponentInformation B now,
      smd_GroupMembership = Svc_GroupMembership B now, smd_AddWGIP = Svc_AddWGIP B,
      smd_WGIPfromID = Svc_WGIPfromID B now, smd_EthernetNICInfo = Svc_EthernetNICInfo B now,
      smd_EthernetInterfaces = Svc_EthernetInterfaces B now,
      smd_resolver = Some (Svc_ResolveComponentID B now), smd_lister = None\<rparr>"

section \<open>The sync worker\<close>

type_synonym sync_maps = "(string \<rightharpoonup> nodeSnapshot) \<times> (string \<rightharpoonup> string) \<times> (string \<rightharpoonup> string)"

text \<open>One round of the loop over the components; an answer that is an error leaves its field empty.\<close>

definition or_empty :: "'a list result \<Rightarrow> 'a list" where
  "or_empty r = (case r of Inr v \<Rightarrow> v | Inl _ \<Rightarrow> [])"

definition sync_component :: "'b SMDClient \<Rightarrow> Component \<Rightarrow> sync_maps \<times> 'b \<Rightarrow> sync_maps \<times> 'b" where
  "sync_component B c st =
     (case st of ((ns, ips, wgs), b) \<Rightarrow>
      let cid = comp_ID c;
          (rg, b1) = smd_GroupMembership B cid b;
          (ri, b2) = smd_EthernetInterfaces B cid b1;
          (rn, b3) = smd_EthernetNICInfo B cid b2;
          (rw, b4) = smd_WGIPfromID B cid b3;
          w = (case found_id rw of Some w \<Rightarrow> w | None \<Rightarrow> '''');
          snapshot = \<lparr>node_component = Some c, node_groups = or_empty rg, node_nics = or_empty rn,
                      node_ifaces = or_empty ri, node_wgip = w\<rparr>;
          wgs' = (if w \<noteq> '''' then wgs(w \<mapsto> cid) else wgs);
          ips1 = (if comp_IP c \<noteq> '''' then ips(comp_IP c \<mapsto> cid) else ips);
          ips2 = assign_all (iface_index cid (or_empty ri)) ips1 in
      ((ns(cid \<mapsto> snapshot), ips2, wgs'), b4))"

fun sync_components :: "'b SMDClient \<Rightarrow> Component option list \<Rightarrow> sync_maps \<times> 'b \<Rightarrow> sync_maps \<times> 'b" where
  "sync_components B [] st = st"
| "sync_components B (None # cs) st = sync_components B cs st"
| "sync_components B (Some c # cs) st =
     (if comp_ID c = '''' then sync_components B cs st else sync_components B cs (sync_component B c st))"

definition syncOnce :: "'b SMDClient \<Rightarrow> goerror option \<Rightarrow> gotime \<Rightarrow> 'b SMDIntegrationService \<Rightarrow>
    goerror option \<times> 'b SMDIntegrationService" where
  "syncOnce B ctx_err now s =
     (case smd_lister B of
        None \<Rightarrow> (Some (ENew ''backend does not support ListComponents''), s)
      | Some list \<Rightarrow>
          if ctx_err \<noteq> None then (ctx_err, s)
          else
            let (r, b) = list (backend s) in
            (case r of
               Inl e \<Rightarrow> (Some (EWrap ''list components: '' e ''''), s\<lparr>backend := b\<rparr>)
             | Inr cs \<Rightarrow>
                 let ((ns, ips, wgs), b') = sync_components B cs ((Map.empty, Map.empty, Map.empty), b) in
                 (None, s\<lparr>backend := b', nodes := ns, ipToID := ips, wgipMap := wgs, lastRun := Some now\<rparr>)))"

text \<open>
  The loop of the worker on what its surroundings do: for each attempt the error of the context, the
  time at which it ends, and whether the sleep or the tick that follows ends before the context is
  cancelled. The first phase retries with a growing pause; the result is whether it succeeded, the
  pauses it made and the service; the list of attempts that are left goes to the second phase.
\<close>

record attempt =
  att_ctx :: "goerror option"
  att_now :: gotime
  att_goes_on :: bool

definition next_backoff :: "duration \<Rightarrow> duration \<Rightarrow> duration" where
  "next_backoff interval b = (let b2 = int64 (b * 2) in if interval < b2 then interval else b2)"

fun initial_sync :: "'b SMDClient \<Rightarrow> attempt list \<Rightarrow> duration \<Rightarrow> 'b SMDIntegrationService \<Rightarrow>
    bool \<times> duration list \<times> attempt list \<times> 'b SMDIntegrationService" where
  "initial_sync B [] b s = (False, [], [], s)"
| "initial_sync B (a # as) b s =
     (let (e, s1) = syncOnce B (att_ctx a) (att_now a) s in
      if e = None then (True, [], as, s1)
      else if \<not> att_goes_on a then (False, [b], [], s1)
      else let (ok, ds, rest, s2) = initial_sync B as (next_backoff (syncInterval s1) b) s1 in (ok, b # ds, rest, s2))"

fun periodic_sync :: "'b SMDClient \<Rightarrow> attempt list \<Rightarrow> 'b SMDIntegrationService \<Rightarrow> 'b SMDIntegrationService" where
  "periodic_sync B [] s = s"
| "periodic_sync B (a # as) s =
     (if att_goes_on a then periodic_sync B as (snd (syncOnce B (att_ctx a) (att_now a) s)) else s)"

definition runSyncLoop :: "'b SMDClient \<Rightarrow> attempt list \<Rightarrow> 'b SMDIntegrationService \<Rightarrow> 'b SMDIntegrationService" where
  "runSyncLoop B as s =
     (if smd_lister B = None then s
      else let (ok, ds, rest, s1) = initial_sync B as defaultBackoffStart s in
        if ok then periodic_sync B rest s1 else s1)"

definition StartSyncWorker :: "'b SMDClient \<Rightarrow> attempt list \<Rightarrow> 'b SMDIntegrationService \<Rightarrow> 'b SMDIntegrationService" where
  "StartSyncWorker B as s = (if \<not> syncEnabled s then s else runSyncLoop B as s)"

section \<open>Facts about the operations\<close>

lemmas svc_lookup_defs = Svc_ResolveComponentID_def Svc_IDfromIP_def Svc_IDfromWGIP_def Svc_IPfromID_def
  Svc_MACfromID_def Svc_ComponentInformation_def Svc_GroupMembership_def Svc_WGIPfromID_def
  Svc_EthernetNICInfo_def Svc_EthernetInterfaces_def

lemma ask_cache [simp]:
  "nodes (snd (ask q x s)) = nodes s" "ipToID (snd (ask q x s)) = ipToID s" "wgipMap (snd (ask q x s)) = wgipMap s"
  "lastRun (snd (ask q x s)) = lastRun s" "syncEnabled (snd (ask q x s)) = syncEnabled s"
  "syncInterval (snd (ask q x s)) = syncInterval s" "node_at (snd (ask q x s)) = node_at s"
  by (simp_all add: ask_def node_at_def fun_eq_iff split: prod.splits)

lemma fst_ask [simp]: "fst (ask q x s) = fst (q x (backend s))"
  by (simp add: ask_def split: prod.splits)

lemma isCacheStale_cong [simp]:
  "isCacheStale now (s\<lparr>backend := b\<rparr>) = isCacheStale now s" "isCacheStale now (s\<lparr>nodes := ns\<rparr>) = isCacheStale now s"
  "isCacheStale now (s\<lparr>ipToID := m\<rparr>) = isCacheStale now s" "isCacheStale now (s\<lparr>wgipMap := m\<rparr>) = isCacheStale now s"
  by (simp_all add: isCacheStale_def split: option.splits)

lemma node_at_simps [simp]: "nodes s cid = Some n \<Longrightarrow> node_at s cid = n" "nodes s cid = None \<Longrightarrow> node_at s cid = zero_node"
  by (simp_all add: node_at_def)

section \<open>The store of WireGuard addresses through the cache\<close>

text \<open>The service keeps the contract of the store when the client behind it does.\<close>

locale svc_backend = wgip_store

lemma Svc_WGIPfromID_result:
  "fst (Svc_WGIPfromID B now cid s) =
     (let cached = node_wgip (node_at s cid) in
      if nodes s cid \<noteq> None \<and> cached \<noteq> '''' \<and> (\<not> isCacheStale now s \<or> \<not> res_ok (fst (smd_WGIPfromID B cid (backend s))))
      then Inr cached else fst (smd_WGIPfromID B cid (backend s)))"
  by (auto simp: Svc_WGIPfromID_def Let_def case_prod_unfold split: sum.splits)

lemma Svc_AddWGIP_ok:
  assumes "Svc_AddWGIP B cid w s = (None, s')"
  obtains b where "smd_AddWGIP B cid w (backend s) = (None, b)" and "s' = cacheWGIP cid w (s\<lparr>backend := b\<rparr>)"
  using assms by (auto simp: Svc_AddWGIP_def Let_def split: prod.splits if_splits)

lemma backend_cacheWGIP [simp]: "backend (cacheWGIP cid w s) = backend s"
  by (simp add: cacheWGIP_def)

lemma isCacheStale_cacheWGIP [simp]: "isCacheStale now (cacheWGIP cid w s) = isCacheStale now s"
  by (simp add: cacheWGIP_def)

sublocale svc_backend \<subseteq> svc: wgip_store "svc_client B now" for now
proof
  fix cid w s s'
  assume h: "smd_AddWGIP (svc_client B now) cid w s = (None, s')" and ne: "cid \<noteq> ''''" "w \<noteq> ''''"
  obtain b where b: "smd_AddWGIP B cid w (backend s) = (None, b)" and s': "s' = cacheWGIP cid w (s\<lparr>backend := b\<rparr>)"
    by (rule Svc_AddWGIP_ok [of B cid w s s']) (use h in \<open>auto simp: svc_client_def\<close>)
  have "fst (smd_WGIPfromID B cid (backend s')) = Inr w" using wgip_recorded [OF b ne] s' by simp
  moreover have "node_wgip (node_at s' cid) = w" using ne by (simp add: s' cacheWGIP_def node_at_def)
  ultimately show "fst (smd_WGIPfromID (svc_client B now) cid s') = Inr w"
    by (auto simp: svc_client_def Svc_WGIPfromID_result Let_def)
next
  fix cid w s s' cid'
  assume h: "smd_AddWGIP (svc_client B now) cid w s = (None, s')" and ne: "cid' \<noteq> cid"
  obtain b where b: "smd_AddWGIP B cid w (backend s) = (None, b)" and s': "s' = cacheWGIP cid w (s\<lparr>backend := b\<rparr>)"
    by (rule Svc_AddWGIP_ok [of B cid w s s']) (use h in \<open>auto simp: svc_client_def\<close>)
  have "fst (smd_WGIPfromID B cid' (backend s')) = fst (smd_WGIPfromID B cid' (backend s))"
    using wgip_frame [OF b ne] s' by simp
  moreover have "nodes s' cid' = nodes s cid'" "node_at s' cid' = node_at s cid'"
    using ne by (simp_all add: s' cacheWGIP_def node_at_def)
  ultimately show "fst (smd_WGIPfromID (svc_client B now) cid' s') = fst (smd_WGIPfromID (svc_client B now) cid' s)"
    by (simp add: svc_client_def Svc_WGIPfromID_result s' Let_def)
qed

interpretation mock_svc: svc_backend "mock_client wg_order comp_order" for wg_order comp_order
  by unfold_locales

section \<open>Runs of the service\<close>

text \<open>Every operation of the service, at any time, and every synchronisation.\<close>

inductive svc_step :: "'b SMDClient \<Rightarrow> 'b SMDIntegrationService \<Rightarrow> 'b SMDIntegrationService \<Rightarrow> bool" for B where
  resolve: "svc_step B s (snd (Svc_ResolveComponentID B now x s))"
| id_ip: "svc_step B s (snd (Svc_IDfromIP B now x s))"
| id_wgip: "svc_step B s (snd (Svc_IDfromWGIP B now x s))"
| ip: "svc_step B s (snd (Svc_IPfromID B now x s))"
| mac: "svc_step B s (snd (Svc_MACfromID B now x s))"
| component: "svc_step B s (snd (Svc_ComponentInformation B now x s))"
| groups: "svc_step B s (snd (Svc_GroupMembership B now x s))"
| add_wgip: "svc_step B s (snd (Svc_AddWGIP B x w s))"
| wgip: "svc_step B s (snd (Svc_WGIPfromID B now x s))"
| nics: "svc_step B s (snd (Svc_EthernetNICInfo B now x s))"
| ifaces: "svc_step B s (snd (Svc_EthernetInterfaces B now x s))"
| sync: "svc_step B s (snd (syncOnce B ctx now s))"

text \<open>
  The two directions of the WireGuard index fit together: an address leads to a component the cache
  knows, and the address the cache knows for a component leads somewhere.
\<close>

definition wg_ok :: "(string \<rightharpoonup> nodeSnapshot) \<Rightarrow> (string \<rightharpoonup> string) \<Rightarrow> bool" where
  "wg_ok ns wgs \<longleftrightarrow>
     (\<forall>w cid. wgs w = Some cid \<longrightarrow> w \<noteq> '''' \<and> cid \<noteq> '''' \<and> ns cid \<noteq> None) \<and>
     (\<forall>cid n. ns cid = Some n \<longrightarrow> node_wgip n \<noteq> '''' \<longrightarrow> wgs (node_wgip n) \<noteq> None)"

abbreviation wg_index :: "'b SMDIntegrationService \<Rightarrow> bool" where
  "wg_index s \<equiv> wg_ok (nodes s) (wgipMap s)"

lemma wg_ok_keep:
  assumes "wg_ok ns wgs" and "node_wgip n = (case ns cid of Some m \<Rightarrow> node_wgip m | None \<Rightarrow> '''')"
  shows "wg_ok (ns(cid \<mapsto> n)) wgs"
  using assms by (auto simp: wg_ok_def split: option.splits)

lemma wg_ok_set:
  assumes "wg_ok ns wgs" and "node_wgip n = w" and "cid \<noteq> ''''" and "w \<noteq> ''''"
  shows "wg_ok (ns(cid \<mapsto> n)) (wgs(w \<mapsto> cid))"
  using assms by (auto simp: wg_ok_def)

lemma wg_ok_put:
  assumes "wg_ok ns wgs" and "cid \<noteq> []" and "wgs' = (if node_wgip n \<noteq> [] then wgs(node_wgip n \<mapsto> cid) else wgs)"
  shows "wg_ok (ns(cid \<mapsto> n)) wgs'"
  using assms by (auto simp: wg_ok_def)

lemma zero_node_wgip [simp]: "node_wgip zero_node = []"
  by (simp add: zero_node_def)

lemma wg_index_cacheWGIP [wf_rules]: "wg_index s \<Longrightarrow> wg_index (cacheWGIP cid w s)"
  by (auto simp: cacheWGIP_def intro!: wg_ok_set)

lemma wg_index_cacheIPIndex [simp]: "wg_index (cacheIPIndex ip cid s) = wg_index s"
  by (simp add: cacheIPIndex_def)

lemma node_at_wgip: "node_wgip (node_at s cid) = (case nodes s cid of Some m \<Rightarrow> node_wgip m | None \<Rightarrow> '''')"
  by (simp add: node_at_def zero_node_def split: option.splits)

lemma wg_ok_sync_component:
  assumes "wg_ok ns wgs" and "comp_ID c \<noteq> ''''"
    and "sync_component B c ((ns, ips, wgs), b) = ((ns', ips', wgs'), b')"
  shows "wg_ok ns' wgs'"
  using assms
  by (auto simp: sync_component_def Let_def intro!: wg_ok_put split: prod.splits)

lemma wg_ok_sync_components:
  "sync_components B cs ((ns, ips, wgs), b) = ((ns', ips', wgs'), b') \<Longrightarrow> wg_ok ns wgs \<Longrightarrow> wg_ok ns' wgs'"
proof (induction B cs "((ns, ips, wgs), b)" arbitrary: ns ips wgs b rule: sync_components.induct)
  case (3 B c cs)
  obtain ns1 ips1 wgs1 b1 where st: "sync_component B c ((ns, ips, wgs), b) = ((ns1, ips1, wgs1), b1)"
    by (metis prod_cases3 surj_pair)
  then show ?case
    using 3 wg_ok_sync_component [OF 3(4) _ st] by (auto split: if_splits)
qed auto

lemma wg_index_syncOnce [wf_rules]: "wg_index s \<Longrightarrow> wg_index (snd (syncOnce B ctx now s))"
  by (auto simp: syncOnce_def Let_def wg_ok_def [of Map.empty] split: option.splits prod.splits sum.splits
      dest!: wg_ok_sync_components)

lemma wg_index_step: "svc_step B s s' \<Longrightarrow> wg_index s \<Longrightarrow> wg_index s'"
  by (induction rule: svc_step.induct)
     (auto simp: svc_lookup_defs Svc_AddWGIP_def Let_def case_prod_unfold resolveFromCache_def node_at_wgip
       intro!: wf_rules wg_ok_keep split: option.splits sum.splits bool.splits prod.splits)

lemma wg_index_run: "(svc_step B)\<^sup>*\<^sup>* s s' \<Longrightarrow> wg_index s \<Longrightarrow> wg_index s'"
  by (induction rule: rtranclp_induct) (auto intro: wg_index_step)

section \<open>A synchronisation with a client that only answers\<close>

text \<open>What the sync worker relies on: the queries leave the client behind as it is.\<close>

locale quiet_backend =
  fixes B :: "'b SMDClient"
  assumes quiet_groups: "snd (smd_GroupMembership B x b) = b"
    and quiet_ifaces: "snd (smd_EthernetInterfaces B x b) = b"
    and quiet_nics: "snd (smd_EthernetNICInfo B x b) = b"
    and quiet_wgip: "snd (smd_WGIPfromID B x b) = b"
begin

definition snapshot_of :: "'b \<Rightarrow> Component \<Rightarrow> nodeSnapshot" where
  "snapshot_of b c = \<lparr>node_component = Some c, node_groups = or_empty (fst (smd_GroupMembership B (comp_ID c) b)),
     node_nics = or_empty (fst (smd_EthernetNICInfo B (comp_ID c) b)),
     node_ifaces = or_empty (fst (smd_EthernetInterfaces B (comp_ID c) b)),
     node_wgip = (case found_id (fst (smd_WGIPfromID B (comp_ID c) b)) of Some w \<Rightarrow> w | None \<Rightarrow> '''')\<rparr>"

definition listed :: "Component option list \<Rightarrow> Component list" where
  "listed cs = filter (\<lambda>c. comp_ID c \<noteq> '''') (List.map_filter (\<lambda>c. c) cs)"

lemma listed_simps [simp]:
  "listed [] = []" "listed (None # cs) = listed cs"
  "listed (Some c # cs) = (if comp_ID c = '''' then listed cs else c # listed cs)"
  by (simp_all add: listed_def)

lemma sync_component_quiet:
  "fst (fst (sync_component B c st)) = (fst (fst st))(comp_ID c \<mapsto> snapshot_of (snd st) c)"
  "snd (sync_component B c st) = snd st"
  using quiet_groups quiet_ifaces quiet_nics quiet_wgip
  by (simp_all add: sync_component_def snapshot_of_def case_prod_unfold Let_def)

lemma sync_components_quiet:
  "fst (fst (sync_components B cs st)) = assign_all (map (\<lambda>c. (comp_ID c, snapshot_of (snd st) c)) (listed cs)) (fst (fst st)) \<and>
   snd (sync_components B cs st) = snd st"
proof (induction cs arbitrary: st)
  case (Cons x cs)
  then show ?case by (cases x) (auto simp: sync_component_quiet fun_upd_def)
qed simp

lemma syncOnce_quiet:
  assumes "smd_lister B = Some list" and "list (backend s) = (Inr cs, backend s)" and "distinct (map comp_ID (listed cs))"
    and "c \<in> set (listed cs)"
  obtains s' where "syncOnce B None now s = (None, s')" and "nodes s' (comp_ID c) = Some (snapshot_of (backend s) c)"
    and "lastRun s' = Some now" and "backend s' = backend s" and "syncInterval s' = syncInterval s" and "syncEnabled s' = syncEnabled s"
proof -
  let ?r = "sync_components B cs ((Map.empty, Map.empty, Map.empty), backend s)"
  let ?kv = "map (\<lambda>c. (comp_ID c, snapshot_of (backend s) c)) (listed cs)"
  have "assign_all ?kv Map.empty (comp_ID c) = Some (snapshot_of (backend s) c)"
    using assms(3,4) by (subst assign_all_distinct) (auto simp: comp_def map_of_eq_Some_iff)
  moreover have "fst (fst ?r) = assign_all ?kv Map.empty" "snd ?r = backend s"
    using sync_components_quiet [of cs "((Map.empty, Map.empty, Map.empty), backend s)"] by simp_all
  moreover have "syncOnce B None now s = (None, s\<lparr>backend := snd ?r, nodes := fst (fst ?r), ipToID := fst (snd (fst ?r)),
      wgipMap := snd (snd (fst ?r)), lastRun := Some now\<rparr>)" (is "_ = (None, ?s)")
    using assms(1,2) by (simp add: syncOnce_def case_prod_unfold Let_def)
  ultimately show ?thesis by (intro that [of ?s]) simp_all
qed

text \<open>As long as the cache is fresh, the answers are those of the client at the time of the sync.\<close>

lemma sync_refines:
  assumes "smd_lister B = Some list" and "list (backend s) = (Inr cs, backend s)" and "distinct (map comp_ID (listed cs))"
    and "c \<in> set (listed cs)" and "syncOnce B None t s = (e, s')" and "\<not> isCacheStale now s'"
  shows "e = None" and "Svc_ComponentInformation B now (comp_ID c) s' = (Inr c, s')"
    and "Svc_GroupMembership B now (comp_ID c) s' = (Inr (or_empty (fst (smd_GroupMembership B (comp_ID c) (backend s)))), s')"
    and "fst (smd_WGIPfromID B (comp_ID c) (backend s)) = Inr w \<Longrightarrow> w \<noteq> '''' \<Longrightarrow>
           Svc_WGIPfromID B now (comp_ID c) s' = (Inr w, s')"
proof -
  obtain s'' where o: "syncOnce B None t s = (None, s'')" "nodes s'' (comp_ID c) = Some (snapshot_of (backend s) c)"
    by (rule syncOnce_quiet [OF assms(1-4)])
  with assms(5) have n: "nodes s' (comp_ID c) = Some (snapshot_of (backend s) c)" and "e = None" by auto
  then show "e = None" by simp
  show "Svc_ComponentInformation B now (comp_ID c) s' = (Inr c, s')"
    using n assms(6) by (simp add: Svc_ComponentInformation_def snapshot_of_def)
  show "Svc_GroupMembership B now (comp_ID c) s' = (Inr (or_empty (fst (smd_GroupMembership B (comp_ID c) (backend s)))), s')"
    using n assms(6) by (simp add: Svc_GroupMembership_def snapshot_of_def)
  show "Svc_WGIPfromID B now (comp_ID c) s' = (Inr w, s')"
    if "fst (smd_WGIPfromID B (comp_ID c) (backend s)) = Inr w" "w \<noteq> ''''"
    using n assms(6) that by (simp add: Svc_WGIPfromID_def snapshot_of_def)
qed

end

interpretation mock_quiet: quiet_backend "mock_client wg_order comp_order" for wg_order comp_order
  by unfold_locales (simp_all add: mock_defs split: option.splits)

lemma fresh_cache:
  assumes "lastRun s = Some t" and "t \<le> now" and "now - t \<le> 2 * syncInterval s" and "2 * syncInterval s < 2 ^ 63"
  shows "\<not> isCacheStale now s"
  using assms by (simp add: isCacheStale_def sub_sat_id int64_id)

lemma stale_cache:
  assumes "syncEnabled s" and "lastRun s = Some t" and "2 * syncInterval s < now - t" and "0 \<le> syncInterval s" and "now - t < 2 ^ 63"
  shows "isCacheStale now s"
  using assms by (simp add: isCacheStale_def sub_sat_id int64_id)

section \<open>The pauses of the worker\<close>

lemma syncInterval_syncOnce [simp]: "syncInterval (snd (syncOnce B ctx now s)) = syncInterval s"
  by (simp add: syncOnce_def Let_def split: option.splits prod.splits sum.splits)

lemma next_backoff_min:
  assumes "0 < interval" and "interval < 2 ^ 62" and "0 < b" and "b \<le> max second interval"
  shows "next_backoff interval b = min (2 * b) interval"
  using assms by (simp add: next_backoff_def Let_def int64_id min_def)

text \<open>The pause before the attempt numbered \<open>k\<close>.\<close>

fun pause :: "duration \<Rightarrow> duration \<Rightarrow> nat \<Rightarrow> duration" where
  "pause interval b 0 = b"
| "pause interval b (Suc k) = min (2 ^ Suc k * b) interval"

lemma pause_shift:
  "0 < interval \<Longrightarrow> 0 < b \<Longrightarrow> pause interval (min (2 * b) interval) k = pause interval b (Suc k)"
proof (cases k)
  case (Suc j)
  assume "0 < interval" "0 < b"
  moreover have "(1 :: int) \<le> 2 ^ Suc j" by (rule one_le_power) simp
  ultimately have "interval \<le> 2 ^ Suc j * interval" by simp
  moreover have "2 ^ Suc j * min (2 * b) interval = min (2 ^ Suc (Suc j) * b) (2 ^ Suc j * interval)"
    by (simp add: min_mult_distrib_left ac_simps)
  ultimately show ?thesis by (simp add: Suc)
qed simp

lemma initial_sync_pauses:
  assumes "initial_sync B as b s = (ok, ds, rest, s')" and "k < length ds"
    and "0 < syncInterval s" and "syncInterval s < 2 ^ 62" and "0 < b" and "b \<le> max second (syncInterval s)"
  shows "ds ! k = pause (syncInterval s) b k"
  using assms
proof (induction as arbitrary: b s ok ds rest s' k)
  case (Cons a as)
  obtain e s1 where e: "syncOnce B (att_ctx a) (att_now a) s = (e, s1)" by (metis surj_pair)
  have i: "syncInterval s1 = syncInterval s" using syncInterval_syncOnce [of B "att_ctx a" "att_now a" s] e by simp
  let ?b = "next_backoff (syncInterval s) b"
  have nb: "?b = min (2 * b) (syncInterval s)" using Cons.prems(3-6) by (intro next_backoff_min)
  show ?case
  proof (cases "e = None \<or> \<not> att_goes_on a \<or> k = 0")
    case True
    then show ?thesis using Cons.prems(1,2) by (auto simp: e Let_def split: prod.splits if_splits)
  next
    case False
    then obtain j where k: "k = Suc j" by (cases k) auto
    from False Cons.prems(1) obtain ok' ds' rest' s2 where r: "initial_sync B as ?b s1 = (ok', ds', rest', s2)" and ds: "ds = b # ds'"
      by (auto simp: e i split: prod.splits)
    have "ds' ! j = pause (syncInterval s1) ?b j"
      using Cons.prems by (intro Cons.IH [OF r]) (auto simp: i k ds nb)
    with Cons.prems(3,5) show ?thesis by (simp only: i k ds nth_Cons_Suc nb pause_shift)
  qed
qed simp

section \<open>Properties\<close>

text \<open>A service in front of the two-node client, with and without synchronisation.\<close>

abbreviation two_client :: "MockSMDClient SMDClient" where
  "two_client \<equiv> mock_client order_two order_two"

definition svc_two :: "bool \<Rightarrow> MockSMDClient SMDIntegrationService" where
  "svc_two enabled = NewSMDIntegrationService mock_two enabled minute"

lemmas svc_two_defs = svc_two_def NewSMDIntegrationService_def mock_two_defs mock_defs

text \<open>
  C4 (refinement). After a successful synchronisation with the in-memory client at time \<open>t\<close>, for as
  long as two intervals, the service answers for every listed component exactly what the client
  answered at time \<open>t\<close>: its data, its groups and its WireGuard address. It does so without asking
  the client and without changing its own state.
\<close>

theorem sync_refines_client:
  assumes "range_order (components (backend s)) (comp_order (components (backend s)))"
    and "\<And>k c. components (backend s) k = Some c \<Longrightarrow> comp_ID c = k"
    and "components (backend s) cid = Some c" and "cid \<noteq> ''''"
    and "syncOnce (mock_client wg_order comp_order) None t s = (e, s')"
    and "t \<le> now" and "now - t \<le> 2 * syncInterval s" and "2 * syncInterval s < 2 ^ 63"
  shows "e = None \<and> Svc_ComponentInformation (mock_client wg_order comp_order) now cid s' = (Inr c, s') \<and>
    Svc_GroupMembership (mock_client wg_order comp_order) now cid s' = (fst (Mock_GroupMembership cid (backend s)), s') \<and>
    (\<forall>w. wgip (backend s) cid = Some w \<longrightarrow> w \<noteq> '''' \<longrightarrow>
       Svc_WGIPfromID (mock_client wg_order comp_order) now cid s' = (Inr w, s'))"
proof -
  let ?B = "mock_client wg_order comp_order"
  let ?es = "entries (components (backend s)) (comp_order (components (backend s)))"
  let ?cs = "map (Some \<circ> snd) ?es"
  have l: "mock_quiet.listed ?cs = filter (\<lambda>c. comp_ID c \<noteq> '''') (map snd ?es)"
    by (simp add: mock_quiet.listed_def map_filter_def comp_def filter_map)
  have m: "map comp_ID (map snd ?es) = map fst ?es" using assms(2) by (auto simp: set_entries)
  have "distinct (map comp_ID (map snd ?es))"
    unfolding m using assms(1) by (intro distinct_entries) (simp add: range_order_def)
  then have d: "distinct (map comp_ID (mock_quiet.listed ?cs))" unfolding l by (rule distinct_map_filter)
  have i: "comp_ID c = cid" using assms(2,3) by blast
  have c: "c \<in> set (mock_quiet.listed ?cs)"
    using assms(1,3,4) i by (force simp: l set_entries range_order_def)
  have lst: "smd_lister ?B = Some (\<lambda>m. Mock_ListComponents (comp_order (components m)) m)"
      "(\<lambda>m. Mock_ListComponents (comp_order (components m)) m) (backend s) = (Inr ?cs, backend s)"
    by (simp_all add: mock_defs)
  obtain s'' where "syncOnce ?B None t s = (None, s'')" "lastRun s'' = Some t" "syncInterval s'' = syncInterval s"
    by (rule mock_quiet.syncOnce_quiet [OF lst d c])
  then have "\<not> isCacheStale now s'" using assms(5-8) by (intro fresh_cache) auto
  note r = mock_quiet.sync_refines [OF lst d c assms(5) this]
  have g: "fst (smd_GroupMembership ?B cid (backend s)) = fst (Mock_GroupMembership cid (backend s))"
    by (simp add: mock_client_def)
  moreover have "or_empty (fst (Mock_GroupMembership cid (backend s))) = x \<longleftrightarrow> fst (Mock_GroupMembership cid (backend s)) = Inr x" for x
    by (auto simp: Mock_GroupMembership_def or_empty_def)
  ultimately show ?thesis using r i by (auto simp: mock_defs or_empty_def)
qed

theorem sync_refines_client_witness:
  "fst (Svc_GroupMembership two_client 50 ''x0'' (snd (syncOnce two_client None 7 (svc_two True)))) = Inr [''compute'']"
proof -
  let ?s = "svc_two True"
  have b: "backend ?s = mock_two" "syncInterval ?s = minute" by (simp_all add: svc_two_def NewSMDIntegrationService_def)
  have c: "components mock_two = [''x0'' \<mapsto> \<lparr>comp_ID = ''x0'', comp_NID = 1, comp_Role = ''Compute'', comp_MAC = ''m0'', comp_IP = ''10.0.0.1''\<rparr>,
      ''x1'' \<mapsto> \<lparr>comp_ID = ''x1'', comp_NID = 2, comp_Role = ''Compute'', comp_MAC = ''m1'', comp_IP = ''10.1.0.2''\<rparr>]"
    by (simp add: mock_two_defs)
  have o: "range_order (components (backend ?s)) (order_two (components (backend ?s)))" by (intro order_two) (simp add: b c)
  have g: "fst (Mock_GroupMembership ''x0'' mock_two) = Inr [''compute'']" by (simp add: mock_defs mock_two_defs)
  obtain e s' where s: "syncOnce two_client None 7 ?s = (e, s')" by (metis surj_pair)
  have k: "comp_ID x = k" if "components (backend ?s) k = Some x" for k x
    using that by (auto simp: b c split: if_splits)
  obtain c0 where c0: "components (backend ?s) ''x0'' = Some c0" by (simp add: b c)
  have "Svc_GroupMembership two_client 50 ''x0'' s' = (fst (Mock_GroupMembership ''x0'' (backend ?s)), s')"
    using sync_refines_client [where s = ?s and comp_order = order_two and now = 50, OF o k c0 _ s] b by simp
  then show ?thesis by (simp add: s b g)
qed

text \<open>
  C7 (invariant). In every state the service can reach from its constructor by lookups, by recording
  WireGuard addresses and by synchronisations, successful or not, against any client, the index
  from a WireGuard address leads to a component the cache has an entry for, and the WireGuard
  address of every cached entry is in that index.
\<close>

theorem wireguard_index_consistent:
  assumes "(svc_step B)\<^sup>*\<^sup>* (NewSMDIntegrationService b enabled interval) s"
  shows "(wgipMap s w = Some cid \<longrightarrow> w \<noteq> '''' \<and> cid \<noteq> '''' \<and> nodes s cid \<noteq> None) \<and>
    (nodes s cid = Some n \<longrightarrow> node_wgip n \<noteq> '''' \<longrightarrow> wgipMap s (node_wgip n) \<noteq> None)"
proof -
  have "wg_index s" by (rule wg_index_run [OF assms]) (simp add: NewSMDIntegrationService_def wg_ok_def)
  then show ?thesis unfolding wg_ok_def by blast
qed

theorem wireguard_index_consistent_witness:
  "nodes (snd (Svc_AddWGIP two_client ''x1'' ''10.1.0.9'' (svc_two True))) ''x1'' \<noteq> None"
proof -
  let ?s = "snd (Svc_AddWGIP two_client ''x1'' ''10.1.0.9'' (svc_two True))"
  have "(svc_step two_client)\<^sup>*\<^sup>* (NewSMDIntegrationService mock_two True minute) ?s"
    unfolding svc_two_def by (intro r_into_rtranclp svc_step.add_wgip)
  moreover have "wgipMap ?s ''10.1.0.9'' = Some ''x1''"
    by (simp add: Svc_AddWGIP_def svc_two_def NewSMDIntegrationService_def mock_defs cacheWGIP_def)
  ultimately show ?thesis
    using wireguard_index_consistent [where s = ?s and w = "''10.1.0.9''" and cid = "''x1''"] by blast
qed

lemma Svc_ResolveComponentID_result:
  fixes s :: "'b SMDIntegrationService"
  defines "wg ip \<equiv> str_at (wgipMap s) ip" and "mg ip \<equiv> str_at (ipToID s) ip"
  shows "fst (Svc_ResolveComponentID B now x s) =
      (let ip = TrimSpace x; live = fst (ResolveComponentID (Some B) ip (backend s)) in
       if ip = [] then Inl (ENew ''empty IP'')
       else if wg ip \<noteq> [] \<and> \<not> isCacheStale now s then Inr (wg ip)
       else if mg ip \<noteq> [] \<and> \<not> isCacheStale now s then Inr (mg ip)
       else case found_id live of Some i \<Rightarrow> Inr i
         | None \<Rightarrow> if wg ip \<noteq> [] then Inr (wg ip) else if mg ip \<noteq> [] then Inr (mg ip) else live)"
    and "TrimSpace x = [] \<or> (wg (TrimSpace x) \<noteq> [] \<or> mg (TrimSpace x) \<noteq> []) \<and> \<not> isCacheStale now s \<Longrightarrow>
      snd (Svc_ResolveComponentID B now x s) = s"
  by (auto simp: Svc_ResolveComponentID_def resolveFromCache_def wg_def mg_def Let_def case_prod_unfold
      simp del: found_id_Some split: option.splits)

text \<open>
  C8 (functional). The service's own \<open>ResolveComponentID\<close>: a fresh cache answers alone, the
  WireGuard index before the management index, and the client is not asked; with a stale or silent
  cache the client's answer wins; if the client has none, the stale entry is used, so that a known
  address is never answered with an error (fail-open). The answer is never the empty text.
\<close>

theorem resolve_through_cache:
  fixes s :: "'b SMDIntegrationService"
  defines "cached ip \<equiv> (if str_at (wgipMap s) ip \<noteq> '''' then str_at (wgipMap s) ip else str_at (ipToID s) ip)"
  shows "case Svc_ResolveComponentID B now x s of (r, s') \<Rightarrow>
    (let ip = TrimSpace x; live = fst (ResolveComponentID (Some B) ip (backend s)) in
     (ip = '''' \<longrightarrow> \<not> res_ok r \<and> s' = s) \<and>
     (ip \<noteq> '''' \<longrightarrow> cached ip \<noteq> '''' \<longrightarrow> \<not> isCacheStale now s \<longrightarrow> r = Inr (cached ip) \<and> s' = s) \<and>
     (ip \<noteq> '''' \<longrightarrow> cached ip = '''' \<or> isCacheStale now s \<longrightarrow>
        r = (if res_ok live \<or> cached ip = '''' then live else Inr (cached ip)))) \<and>
    r \<noteq> Inr ''''"
proof -
  let ?ip = "TrimSpace x"
  have live: "fst (ResolveComponentID (Some B) ?ip b) \<noteq> Inr ''''" for b
    using ResolveComponentID_nonempty [of "Some B" ?ip b "''''"] by auto
  let ?l = "fst (ResolveComponentID (Some B) ?ip (backend s))"
  obtain r s' where rs: "Svc_ResolveComponentID B now x s = (r, s')" by (metis surj_pair)
  note r = Svc_ResolveComponentID_result [where B = B and now = now and x = x and s = s, unfolded rs fst_conv snd_conv]
  show ?thesis
  proof (cases ?l)
    case (Inl e)
    with r show ?thesis unfolding rs by (simp add: cached_def Let_def)
  next
    case (Inr i)
    moreover have "i \<noteq> []" using Inr live [of "backend s"] by auto
    ultimately show ?thesis using r unfolding rs by (simp add: cached_def Let_def)
  qed
qed

theorem resolve_through_cache_witness:
  "fst (Svc_ResolveComponentID two_client 5 ''10.1.0.2 '' (svc_two False)) = Inr ''x0''"
proof -
  have t: "TrimSpace ''10.1.0.2 '' = ''10.1.0.2''" by code_simp
  have l: "fst (ResolveComponentID (Some two_client) ''10.1.0.2'' (backend (svc_two False))) = Inr ''x0''"
    by (simp add: svc_two_defs ResolveComponentID_def find_by_wgip_def order_two_def)
  have "str_at (wgipMap (svc_two False)) ''10.1.0.2'' = ''''" "str_at (ipToID (svc_two False)) ''10.1.0.2'' = ''''"
    by (simp_all add: svc_two_def NewSMDIntegrationService_def str_at_def)
  then show ?thesis
    using resolve_through_cache [where B = two_client and now = 5 and x = "''10.1.0.2 ''" and s = "svc_two False"] l
    by (simp add: t case_prod_unfold Let_def)
qed

text \<open>
  When the cache is not stale (always so with synchronisation off), asking
  for the data of a component the cache does not know creates an entry for it without groups, and
  every later question for its groups is answered from that entry: no groups, although the client
  would name them.
\<close>

theorem partial_entry_hides_groups:
  assumes "nodes s cid = None" and "fst (smd_ComponentInformation B cid (backend s)) = Inr c"
    and "Svc_ComponentInformation B now cid s = (r, s1)" and "\<not> isCacheStale now' s"
  shows "r = Inr c \<and> Svc_GroupMembership B now' cid s1 = (Inr [], s1)"
proof -
  obtain s0 where a: "ask (smd_ComponentInformation B) cid s = (Inr c, s0)"
    using assms(2) by (metis fst_ask prod.collapse)
  have s0: "nodes s0 cid = None" "isCacheStale now' s0 = isCacheStale now' s"
    using ask_cache(1,4,5,6) [of "smd_ComponentInformation B" cid s] assms(1) a by (simp_all add: isCacheStale_def split: option.splits)
  have "s1 = s0\<lparr>nodes := (nodes s0)(cid \<mapsto> zero_node\<lparr>node_component := Some c\<rparr>)\<rparr> \<or>
      s1 = s0\<lparr>nodes := (nodes s0)(cid \<mapsto> zero_node\<lparr>node_component := Some c\<rparr>), ipToID := (ipToID s0)(comp_IP c \<mapsto> cid)\<rparr>"
    and "r = Inr c"
    using assms(1,3) s0 by (auto simp: Svc_ComponentInformation_def a Let_def split: if_splits)
  then show ?thesis
    using assms(4) s0 by (auto simp: Svc_GroupMembership_def zero_node_def)
qed

theorem partial_entry_hides_groups_witness:
  "fst (smd_GroupMembership two_client ''x0'' mock_two) = Inr [''compute''] \<and>
   fst (Svc_GroupMembership two_client 1 ''x0'' (snd (Svc_ComponentInformation two_client 0 ''x0'' (svc_two False)))) = Inr []"
proof -
  obtain r s1 where c: "Svc_ComponentInformation two_client 0 ''x0'' (svc_two False) = (r, s1)" by (metis surj_pair)
  have "\<not> isCacheStale 1 (svc_two False)" by (simp add: svc_two_def NewSMDIntegrationService_def isCacheStale_def)
  moreover have "nodes (svc_two False) ''x0'' = None" by (simp add: svc_two_def NewSMDIntegrationService_def)
  moreover obtain d where "fst (smd_ComponentInformation two_client ''x0'' (backend (svc_two False))) = Inr d"
    by (simp add: svc_two_defs)
  ultimately have "Svc_GroupMembership two_client 1 ''x0'' s1 = (Inr [], s1)"
    using partial_entry_hides_groups [OF _ _ c, of d 1] by blast
  then have "fst (Svc_GroupMembership two_client 1 ''x0'' (snd (Svc_ComponentInformation two_client 0 ''x0'' (svc_two False)))) = Inr []"
    by (simp add: c)
  moreover have "fst (smd_GroupMembership two_client ''x0'' mock_two) = Inr [''compute'']" by (simp add: mock_defs mock_two_defs)
  ultimately show ?thesis by blast
qed

text \<open>
  When a component gets another WireGuard address, the index keeps the old one:
  the service goes on resolving the old address to that component, where the in-memory client
  behind it no longer does.
\<close>

theorem old_wireguard_address_still_resolves:
  assumes "Svc_AddWGIP (mock_client wg_order comp_order) cid w1 s = (None, s1)"
    and "Svc_AddWGIP (mock_client wg_order comp_order) cid w2 s1 = (None, s2)"
    and "cid \<noteq> ''''" and "w1 \<noteq> ''''" and "w2 \<noteq> ''''" and "w1 \<noteq> w2" and "\<not> isCacheStale now s"
  shows "Svc_IDfromWGIP (mock_client wg_order comp_order) now w1 s2 = (Inr cid, s2) \<and>
    fst (Svc_WGIPfromID (mock_client wg_order comp_order) now cid s2) = Inr w2 \<and>
    fst (Mock_IDfromWGIP wg_order w1 (backend s2)) \<noteq> Inr cid"
proof -
  let ?B = "mock_client wg_order comp_order"
  obtain b1 where s1: "s1 = cacheWGIP cid w1 (s\<lparr>backend := b1\<rparr>)" using assms(1) by (rule Svc_AddWGIP_ok)
  obtain b2 where b2: "smd_AddWGIP ?B cid w2 (backend s1) = (None, b2)" and s2: "s2 = cacheWGIP cid w2 (s1\<lparr>backend := b2\<rparr>)"
    using assms(2) by (rule Svc_AddWGIP_ok)
  have "wgipMap s2 w1 = Some cid" using assms(3-6) by (simp add: s1 s2 cacheWGIP_def)
  moreover have "\<not> isCacheStale now s2" using assms(7) by (simp add: s1 s2)
  ultimately have "Svc_IDfromWGIP ?B now w1 s2 = (Inr cid, s2)"
    using assms(3) by (simp add: Svc_IDfromWGIP_def str_at_def)
  moreover have "fst (Svc_WGIPfromID ?B now cid s2) = Inr w2"
    using mock_svc.svc.wgip_recorded [of wg_order comp_order now cid w2 s1 s2] assms(2,3,5) by (simp add: svc_client_def)
  moreover have "fst (smd_IDfromWGIP ?B w1 b2) \<noteq> Inr cid"
    by (rule mock.reverse_after_move [OF b2 assms(3,5,6)])
  ultimately show ?thesis by (simp add: s2 mock_client_def)
qed

theorem old_wireguard_address_still_resolves_witness:
  "fst (Svc_IDfromWGIP two_client 3 ''10.1.0.8'' (snd (Svc_AddWGIP two_client ''x1'' ''10.1.0.9''
     (snd (Svc_AddWGIP two_client ''x1'' ''10.1.0.8'' (svc_two False)))))) = Inr ''x1''"
proof -
  have ok: "Svc_AddWGIP two_client c w s = (None, snd (Svc_AddWGIP two_client c w s))" for c w s
    by (simp add: Svc_AddWGIP_def mock_defs)
  have "\<not> isCacheStale 3 (svc_two False)" by (simp add: svc_two_def NewSMDIntegrationService_def isCacheStale_def)
  then show ?thesis
    using old_wireguard_address_still_resolves [OF ok [of "''x1''" "''10.1.0.8''" "svc_two False"] ok [of "''x1''" "''10.1.0.9''"]]
    by simp
qed

text \<open>
  The pauses between the attempts of the initial synchronisation: the first is one
  second, each later one twice the one before, cut at the synchronisation interval; so none is
  longer than the interval (or the first second) and none is zero, negative or the result of a
  wrapped multiplication, however often the synchronisation fails.
\<close>

theorem sync_backoff_bounds:
  assumes "initial_sync B as defaultBackoffStart (NewSMDIntegrationService b enabled interval) = (ok, ds, rest, s')"
    and "k < length ds" and "interval < 2 ^ 62"
  defines "i \<equiv> syncInterval (NewSMDIntegrationService b enabled interval)"
  shows "ds ! k = (if k = 0 then second else min (2 ^ k * second) i) \<and> 0 < ds ! k \<and> ds ! k \<le> max second i"
proof -
  have i: "0 < i" "i < 2 ^ 62" using assms(3) by (simp_all add: i_def NewSMDIntegrationService_def defaultSyncInterval_def)
  have "ds ! k = pause i second k"
    unfolding i_def
    by (rule initial_sync_pauses [OF assms(1)[unfolded defaultBackoffStart_def] assms(2)])
       (use i in \<open>auto simp: i_def\<close>)
  then show ?thesis using i by (cases k) auto
qed

theorem sync_backoff_bounds_witness:
  "\<exists>ds. fst (snd (initial_sync two_client (replicate 2 \<lparr>att_ctx = Some (ENew ''down''), att_now = 0, att_goes_on = True\<rparr>)
     defaultBackoffStart (svc_two True))) = ds \<and> length ds = 2 \<and> ds ! 1 = 2 * second"
proof -
  let ?r = "initial_sync two_client (replicate 2 \<lparr>att_ctx = Some (ENew ''down''), att_now = 0, att_goes_on = True\<rparr>)
     defaultBackoffStart (svc_two True)"
  have l: "length (fst (snd ?r)) = 2"
    by (simp add: numeral_2_eq_2 syncOnce_def mock_client_def case_prod_unfold Let_def)
  obtain ok ds rest s' where r: "initial_sync two_client (replicate 2 \<lparr>att_ctx = Some (ENew ''down''), att_now = 0, att_goes_on = True\<rparr>)
      defaultBackoffStart (NewSMDIntegrationService mock_two True minute) = (ok, ds, rest, s')"
    by (metis prod_cases4)
  with l have "length ds = 2" by (simp add: svc_two_def)
  then show ?thesis
    using sync_backoff_bounds [OF r, of 1] r by (simp add: svc_two_def NewSMDIntegrationService_def)
qed

end
