(* ===== verification/Go_JSON.thy ===== *)
theory Go_JSON
  imports Prelude
begin

text \<open>
  What the code uses of \<open>encoding/json\<close> and \<open>net/url\<close>. A document is a tree; decoding into a struct
  follows the rules of the package: a key matches a field without regard to case, keys that match no
  field are skipped, the last occurrence counts, \<open>null\<close> leaves a scalar as it is and empties a slice
  or a pointer, and a value of the wrong type is an error. The reading of the text itself is a
  function argument of the clients.
\<close>

datatype json = JNull | JBool bool | JNum string | JStr string | JArr "json list" | JObj "(string \<times> json) list"

definition type_error :: goerror where
  "type_error = ENew ''json: cannot unmarshal value into Go value''"

fun dec_str :: "json \<Rightarrow> string result" where
  "dec_str (JStr s) = Inr s"
| "dec_str _ = Inl type_error"

fun dec_bool :: "json \<Rightarrow> bool result" where
  "dec_bool (JBool b) = Inr b"
| "dec_bool _ = Inl type_error"

text \<open>An \<open>int64\<close>: an integer literal in range.\<close>

definition parse_int64 :: "string \<Rightarrow> int option" where
  "parse_int64 s =
     (let neg = (s \<noteq> [] \<and> hd s = CHR ''-''); ds = (if neg then tl s else s); n = int (nat_of_digits ds); i = (if neg then - n else n) in
      if ds \<noteq> [] \<and> list_all is_digit ds \<and> - (2 ^ 63) \<le> i \<and> i < 2 ^ 63 then Some i else None)"

fun dec_int64 :: "json \<Rightarrow> int result" where
  "dec_int64 (JNum s) = (case parse_int64 s of Some i \<Rightarrow> Inr i | None \<Rightarrow> Inl type_error)"
| "dec_int64 _ = Inl type_error"

text \<open>All elements of an array; a null element is the zero value.\<close>

fun dec_all :: "'a \<Rightarrow> (json \<Rightarrow> 'a result) \<Rightarrow> json list \<Rightarrow> 'a list result" where
  "dec_all zero dec [] = Inr []"
| "dec_all zero dec (j # js) =
     (case (if j = JNull then Inr zero else dec j) of
        Inl e \<Rightarrow> Inl e
      | Inr x \<Rightarrow> (case dec_all zero dec js of Inl e \<Rightarrow> Inl e | Inr xs \<Rightarrow> Inr (x # xs)))"

fun dec_list :: "'a \<Rightarrow> (json \<Rightarrow> 'a result) \<Rightarrow> json \<Rightarrow> 'a list result" where
  "dec_list zero dec JNull = Inr []"
| "dec_list zero dec (JArr js) = dec_all zero dec js"
| "dec_list zero dec _ = Inl type_error"

text \<open>The values of the keys that match a field, in order.\<close>

definition field_values :: "string \<Rightarrow> (string \<times> json) list \<Rightarrow> json list" where
  "field_values name fs = map snd (filter (\<lambda>(k, v). EqualFold k name) fs)"

text \<open>A scalar field: every value that is not null must decode, the last one counts.\<close>

definition scalar :: "'a \<Rightarrow> (json \<Rightarrow> 'a result) \<Rightarrow> string \<Rightarrow> (string \<times> json) list \<Rightarrow> 'a result" where
  "scalar zero dec name fs =
     foldl (\<lambda>acc j. case acc of Inl e \<Rightarrow> Inl e | Inr x \<Rightarrow> if j = JNull then Inr x else dec j) (Inr zero) (field_values name fs)"

text \<open>A slice or pointer field: null resets it.\<close>

definition resettable :: "'a \<Rightarrow> (json \<Rightarrow> 'a result) \<Rightarrow> string \<Rightarrow> (string \<times> json) list \<Rightarrow> 'a result" where
  "resettable zero dec name fs =
     foldl (\<lambda>acc j. case acc of Inl e \<Rightarrow> Inl e | Inr x \<Rightarrow> if j = JNull then Inr zero else dec j) (Inr zero) (field_values name fs)"

abbreviation str_field :: "string \<Rightarrow> (string \<times> json) list \<Rightarrow> string result" where
  "str_field \<equiv> scalar [] dec_str"

text \<open>Sequencing of decoders.\<close>

definition rbind :: "'a result \<Rightarrow> ('a \<Rightarrow> 'b result) \<Rightarrow> 'b result" where
  "rbind r f = (case r of Inl e \<Rightarrow> Inl e | Inr x \<Rightarrow> f x)"

lemma rbind_simps [simp]: "rbind (Inl e) f = Inl e" "rbind (Inr x) f = f x"
  by (simp_all add: rbind_def)

section \<open>Decoding into an existing value\<close>

text \<open>
  \<open>json.Unmarshal\<close> into a variable that already has a value: what the document does not mention
  stays. A slice is overwritten element by element, each decoded into the element that was there; a
  map keeps its other keys; null empties a slice or a map and leaves a scalar alone.
\<close>

fun into_str :: "string \<Rightarrow> json \<Rightarrow> string result" where
  "into_str x JNull = Inr x"
| "into_str x (JStr s) = Inr s"
| "into_str x _ = Inl type_error"

fun into_bool :: "bool \<Rightarrow> json \<Rightarrow> bool result" where
  "into_bool x JNull = Inr x"
| "into_bool x (JBool b) = Inr b"
| "into_bool x _ = Inl type_error"

fun into_int :: "int \<Rightarrow> json \<Rightarrow> int result" where
  "into_int x JNull = Inr x"
| "into_int x (JNum s) = (case parse_int64 s of Some i \<Rightarrow> Inr i | None \<Rightarrow> Inl type_error)"
| "into_int x _ = Inl type_error"

fun into_all :: "('a \<Rightarrow> json \<Rightarrow> 'a result) \<Rightarrow> 'a \<Rightarrow> 'a list \<Rightarrow> json list \<Rightarrow> 'a list result" where
  "into_all dec zero xs [] = Inr []"
| "into_all dec zero xs (j # js) =
     rbind (dec (case xs of [] \<Rightarrow> zero | x # _ \<Rightarrow> x) j) (\<lambda>y. rbind (into_all dec zero (tl xs) js) (\<lambda>ys. Inr (y # ys)))"

fun into_slice :: "('a \<Rightarrow> json \<Rightarrow> 'a result) \<Rightarrow> 'a \<Rightarrow> 'a list \<Rightarrow> json \<Rightarrow> 'a list result" where
  "into_slice dec zero xs JNull = Inr []"
| "into_slice dec zero xs (JArr js) = into_all dec zero xs js"
| "into_slice dec zero xs _ = Inl type_error"

fun into_entries :: "(string \<rightharpoonup> string) \<Rightarrow> (string \<times> json) list \<Rightarrow> (string \<rightharpoonup> string) result" where
  "into_entries m [] = Inr m"
| "into_entries m ((k, j) # fs) = rbind (into_str '''' j) (\<lambda>v. into_entries (m(k \<mapsto> v)) fs)"

fun into_map :: "(string \<rightharpoonup> string) \<Rightarrow> json \<Rightarrow> (string \<rightharpoonup> string) result" where
  "into_map m JNull = Inr Map.empty"
| "into_map m (JObj fs) = into_entries m fs"
| "into_map m _ = Inl type_error"

definition field :: "('a \<Rightarrow> json \<Rightarrow> 'a result) \<Rightarrow> string \<Rightarrow> (string \<times> json) list \<Rightarrow> 'a \<Rightarrow> 'a result" where
  "field dec name fs x = foldl (\<lambda>acc j. rbind acc (\<lambda>y. dec y j)) (Inr x) (field_values name fs)"

section \<open>Encoding\<close>

text \<open>A member of an object; \<open>omitempty\<close> leaves out empty texts, lists and maps, false and 0.\<close>

definition omit_str :: "string \<Rightarrow> string \<Rightarrow> (string \<times> json) list" where
  "omit_str name s = (if s = '''' then [] else [(name, JStr s)])"

definition omit_int :: "string \<Rightarrow> int \<Rightarrow> (string \<times> json) list" where
  "omit_int name i = (if i = 0 then [] else [(name, JNum (int_str i))])"

definition omit_bool :: "string \<Rightarrow> bool \<Rightarrow> (string \<times> json) list" where
  "omit_bool name b = (if b then [(name, JBool b)] else [])"

definition omit_list :: "('a \<Rightarrow> json) \<Rightarrow> string \<Rightarrow> 'a list \<Rightarrow> (string \<times> json) list" where
  "omit_list enc name xs = (if xs = [] then [] else [(name, JArr (map enc xs))])"

definition omit_map :: "((string \<rightharpoonup> string) \<Rightarrow> string list) \<Rightarrow> string \<Rightarrow> (string \<rightharpoonup> string) \<Rightarrow> (string \<times> json) list" where
  "omit_map keys name m = (if keys m = [] then [] else [(name, JObj (map (\<lambda>(k, v). (k, JStr v)) (entries m (keys m))))])"

lemma parse_int64_int_str: "- (2 ^ 63) \<le> i \<Longrightarrow> i < 2 ^ 63 \<Longrightarrow> parse_int64 (int_str i) = Some i"
proof -
  assume r: "- (2 ^ 63) \<le> i" "i < 2 ^ 63"
  have d: "list_all is_digit (nat_str n)" for n by (simp add: list_all_iff nat_str_digits)
  have "\<not> is_digit (CHR ''-'')" by (simp add: is_digit_def)
  then have h: "hd (nat_str n) \<noteq> CHR ''-''" for n using d [of n] by (cases "nat_str n") auto
  show ?thesis using r h d by (auto simp: parse_int64_def int_str_def Let_def)
qed

lemma into_all_enc:
  assumes "\<And>x y. x \<in> set xs \<Longrightarrow> y = zero \<or> y = x \<Longrightarrow> dec y (enc x) = Inr x"
  shows "into_all dec zero [] (map enc xs) = Inr xs" "into_all dec zero xs (map enc xs) = Inr xs"
proof -
  show "into_all dec zero [] (map enc xs) = Inr xs" using assms by (induction xs) auto
  show "into_all dec zero xs (map enc xs) = Inr xs" using assms by (induction xs) auto
qed

lemma into_entries_enc: "into_entries m (map (\<lambda>(k, v). (k, JStr v)) es) = Inr (assign_all es m)"
  by (induction es arbitrary: m) auto

lemma into_map_enc:
  assumes "range_order m ks" and "m' = Map.empty \<or> m' = m"
  shows "into_entries m' (map (\<lambda>(k, v). (k, JStr v)) (entries m ks)) = Inr m"
proof -
  have "map_of (rev (entries m ks)) = m"
    using assms(1) distinct_entries [of ks m] map_of_range_order [OF assms(1)]
    by (metis range_order_def distinct_rev map_of_inject_set rev_map set_rev)
  then show ?thesis using assms(2) unfolding into_entries_enc assign_all_map_of by (auto simp: map_add_subsumed1)
qed

lemma field_values_simps [simp]:
  "field_values n [] = []"
  "field_values n (xs @ ys) = field_values n xs @ field_values n ys"
  "field_values n ((k, j) # xs) = (if EqualFold k n then j # field_values n xs else field_values n xs)"
  by (simp_all add: field_values_def)

lemma field_values_omit [simp]:
  "field_values n (omit_str k s) = (if EqualFold k n \<and> s \<noteq> '''' then [JStr s] else [])"
  "field_values n (omit_int k i) = (if EqualFold k n \<and> i \<noteq> 0 then [JNum (int_str i)] else [])"
  "field_values n (omit_bool k b) = (if EqualFold k n \<and> b then [JBool b] else [])"
  "field_values n (omit_list enc k xs) = (if EqualFold k n \<and> xs \<noteq> [] then [JArr (map enc xs)] else [])"
  "field_values n (omit_map keys k m) = (if EqualFold k n \<and> keys m \<noteq> []
     then [JObj (map (\<lambda>(k, v). (k, JStr v)) (entries m (keys m)))] else [])"
  by (auto simp: omit_str_def omit_int_def omit_bool_def omit_list_def omit_map_def)

section \<open>URL encoding\<close>

definition unreserved :: "char \<Rightarrow> bool" where
  "unreserved c = (let n = (of_char c :: nat) in
     (48 \<le> n \<and> n \<le> 57) \<or> (65 \<le> n \<and> n \<le> 90) \<or> (97 \<le> n \<and> n \<le> 122) \<or> c \<in> {CHR ''-'', CHR ''_'', CHR ''.'', CHR ''~''})"

definition upper_hex :: "nat \<Rightarrow> char" where
  "upper_hex n = (''0123456789ABCDEF'' ! (n mod 16))"

definition QueryEscape :: "string \<Rightarrow> string" where
  "QueryEscape s = concat (map (\<lambda>c. if unreserved c then [c] else if c = CHR '' '' then ''+''
     else [CHR ''%'', upper_hex (of_char c div 16), upper_hex (of_char c)]) s)"

text \<open>\<open>Values.Encode\<close> for one key.\<close>

definition encode_param :: "string \<Rightarrow> string \<Rightarrow> string" where
  "encode_param k v = QueryEscape k @ ''='' @ QueryEscape v"

end
