(* ===== verification/SMD_HTTP.thy ===== *)
theory SMD_HTTP
  imports SMD_Client Go_JSON
begin

text \<open>
  The client of the SMD HTTP API, \<open>pkg/smdclient/http_client.go\<close>, with its cache of one minute. The
  network is a state \<open>'n\<close> with the operations of the record \<open>http_env\<close>: the clock, one GET request,
  the token sources (the manager of \<open>service_token_manager.go\<close> or a callback), the refusal of a
  malformed URL, and the reading of a JSON text. Every operation passes on the pair of client and
  network.
\<close>

section \<open>Answers of SMD\<close>

record componentResponse =
  cr_ID :: string
  cr_NID :: int
  cr_Role :: string
  cr_MAC :: string
  cr_IP :: string
  cr_IPAddress :: string

definition zero_component :: componentResponse where
  "zero_component = \<lparr>cr_ID = '''', cr_NID = 0, cr_Role = '''', cr_MAC = '''', cr_IP = '''', cr_IPAddress = ''''\<rparr>"

fun dec_component :: "json \<Rightarrow> componentResponse result" where
  "dec_component JNull = Inr zero_component"
| "dec_component (JObj fs) =
     rbind (str_field ''ID'' fs) (\<lambda>i. rbind (scalar 0 dec_int64 ''NID'' fs) (\<lambda>n. rbind (str_field ''Role'' fs) (\<lambda>r.
     rbind (str_field ''MAC'' fs) (\<lambda>m. rbind (str_field ''IP'' fs) (\<lambda>ip. rbind (str_field ''IPAddress'' fs) (\<lambda>a.
       Inr \<lparr>cr_ID = i, cr_NID = n, cr_Role = r, cr_MAC = m, cr_IP = ip, cr_IPAddress = a\<rparr>))))))"
| "dec_component _ = Inl type_error"

fun dec_component_list :: "json \<Rightarrow> componentResponse list result" where
  "dec_component_list JNull = Inr []"
| "dec_component_list (JObj fs) = resettable [] (dec_list zero_component dec_component) ''Components'' fs"
| "dec_component_list _ = Inl type_error"

record membershipResponse =
  GroupLabels :: "string list"
  Groups :: "string list"

fun dec_membership :: "json \<Rightarrow> membershipResponse result" where
  "dec_membership JNull = Inr \<lparr>GroupLabels = [], Groups = []\<rparr>"
| "dec_membership (JObj fs) =
     rbind (resettable [] (dec_list '''' dec_str) ''groupLabels'' fs) (\<lambda>l.
     rbind (resettable [] (dec_list '''' dec_str) ''Groups'' fs) (\<lambda>g. Inr \<lparr>GroupLabels = l, Groups = g\<rparr>))"
| "dec_membership _ = Inl type_error"

text \<open>\<open>compEthInterfaceV2\<close> has the fields of \<open>EthernetInterface\<close>, \<open>compEthIPMapping\<close> those of \<open>IPMapping\<close>.\<close>

definition zero_mapping :: IPMapping where
  "zero_mapping = \<lparr>map_IPAddress = '''', map_Network = ''''\<rparr>"

fun dec_mapping :: "json \<Rightarrow> IPMapping result" where
  "dec_mapping (JObj fs) =
     rbind (str_field ''IPAddress'' fs) (\<lambda>a. rbind (str_field ''Network'' fs) (\<lambda>n. Inr \<lparr>map_IPAddress = a, map_Network = n\<rparr>))"
| "dec_mapping _ = Inl type_error"

definition zero_iface :: EthernetInterface where
  "zero_iface = \<lparr>if_ID = '''', if_Description = '''', if_MACAddress = '''', if_IPAddresses = [], if_ComponentID = '''', if_Type = ''''\<rparr>"

fun dec_iface :: "json \<Rightarrow> EthernetInterface result" where
  "dec_iface (JObj fs) =
     rbind (str_field ''ID'' fs) (\<lambda>i. rbind (str_field ''Description'' fs) (\<lambda>d. rbind (str_field ''MACAddress'' fs) (\<lambda>m.
     rbind (resettable [] (dec_list zero_mapping dec_mapping) ''IPAddresses'' fs) (\<lambda>ips.
     rbind (str_field ''ComponentID'' fs) (\<lambda>c. rbind (str_field ''Type'' fs) (\<lambda>t.
       Inr \<lparr>if_ID = i, if_Description = d, if_MACAddress = m, if_IPAddresses = ips, if_ComponentID = c, if_Type = t\<rparr>))))))"
| "dec_iface _ = Inl type_error"

definition zero_nic :: EthernetNIC where
  "zero_nic = \<lparr>nic_RedfishID = '''', nic_Description = '''', nic_MACAddress = '''', nic_PermanentMACAddress = '''', nic_InterfaceEnabled = False\<rparr>"

text \<open>The pointer \<open>InterfaceEnabled\<close> is read as false when it is nil, so the decoder stores the boolean.\<close>

fun dec_nic :: "json \<Rightarrow> EthernetNIC result" where
  "dec_nic (JObj fs) =
     rbind (str_field ''RedfishId'' fs) (\<lambda>i. rbind (str_field ''Description'' fs) (\<lambda>d. rbind (str_field ''MACAddress'' fs) (\<lambda>m.
     rbind (str_field ''PermanentMACAddress'' fs) (\<lambda>p. rbind (resettable False dec_bool ''InterfaceEnabled'' fs) (\<lambda>e.
       Inr \<lparr>nic_RedfishID = i, nic_Description = d, nic_MACAddress = m, nic_PermanentMACAddress = p, nic_InterfaceEnabled = e\<rparr>)))))"
| "dec_nic _ = Inl type_error"

fun dec_system_info :: "json \<Rightarrow> EthernetNIC list result" where
  "dec_system_info (JObj fs) = resettable [] (dec_list zero_nic dec_nic) ''EthNICInfo'' fs"
| "dec_system_info _ = Inl type_error"

text \<open>A missing \<open>RedfishSystemInfo\<close> has no interfaces.\<close>

fun dec_endpoint :: "json \<Rightarrow> EthernetNIC list result" where
  "dec_endpoint JNull = Inr []"
| "dec_endpoint (JObj fs) = resettable [] dec_system_info ''RedfishSystemInfo'' fs"
| "dec_endpoint _ = Inl type_error"

section \<open>The cache\<close>

type_synonym 'v timed = "string \<rightharpoonup> 'v \<times> gotime"

record smdCache =
  ttl :: duration
  c_components :: "Component timed"
  c_ethIfaces :: "EthernetInterface list timed"
  c_ethNICs :: "EthernetNIC list timed"
  c_ipToID :: "string timed"

definition newSMDCache :: "duration \<Rightarrow> smdCache" where
  "newSMDCache t = \<lparr>ttl = t, c_components = Map.empty, c_ethIfaces = Map.empty, c_ethNICs = Map.empty, c_ipToID = Map.empty\<rparr>"

definition timed_get :: "gotime \<Rightarrow> 'v timed \<Rightarrow> string \<Rightarrow> 'v option" where
  "timed_get now m k = (case m k of None \<Rightarrow> None | Some (v, expires) \<Rightarrow> if expires < now then None else Some v)"

definition timed_set :: "gotime \<Rightarrow> duration \<Rightarrow> string \<Rightarrow> 'v \<Rightarrow> 'v timed \<Rightarrow> 'v timed" where
  "timed_set now t k v m = m(k \<mapsto> (v, now + t))"

definition getComponent :: "gotime \<Rightarrow> string \<Rightarrow> smdCache \<Rightarrow> Component option" where
  "getComponent now k c = timed_get now (c_components c) k"

definition setComponent :: "gotime \<Rightarrow> string \<Rightarrow> Component \<Rightarrow> smdCache \<Rightarrow> smdCache" where
  "setComponent now k v c = c\<lparr>c_components := timed_set now (ttl c) k v (c_components c)\<rparr>"

definition getEthernetIfaces :: "gotime \<Rightarrow> string \<Rightarrow> smdCache \<Rightarrow> EthernetInterface list option" where
  "getEthernetIfaces now k c = timed_get now (c_ethIfaces c) k"

definition setEthernetIfaces :: "gotime \<Rightarrow> string \<Rightarrow> EthernetInterface list \<Rightarrow> smdCache \<Rightarrow> smdCache" where
  "setEthernetIfaces now k v c = c\<lparr>c_ethIfaces := timed_set now (ttl c) k v (c_ethIfaces c)\<rparr>"

definition getEthernetNICs :: "gotime \<Rightarrow> string \<Rightarrow> smdCache \<Rightarrow> EthernetNIC list option" where
  "getEthernetNICs now k c = timed_get now (c_ethNICs c) k"

definition setEthernetNICs :: "gotime \<Rightarrow> string \<Rightarrow> EthernetNIC list \<Rightarrow> smdCache \<Rightarrow> smdCache" where
  "setEthernetNICs now k v c = c\<lparr>c_ethNICs := timed_set now (ttl c) k v (c_ethNICs c)\<rparr>"

definition getIDfromIP :: "gotime \<Rightarrow> string \<Rightarrow> smdCache \<Rightarrow> string option" where
  "getIDfromIP now k c = timed_get now (c_ipToID c) k"

definition setIDfromIP :: "gotime \<Rightarrow> string \<Rightarrow> string \<Rightarrow> smdCache \<Rightarrow> smdCache" where
  "setIDfromIP now k v c = c\<lparr>c_ipToID := timed_set now (ttl c) k v (c_ipToID c)\<rparr>"

section \<open>The client\<close>

text \<open>
  Where a request takes its token from: the token manager, a callback, or the callback of
  \<open>NewHTTPClient\<close>, which always returns the same text. The field \<open>jwt\<close> of the struct is never set.
\<close>

datatype token_source = TokenManager | TokenFn | StaticJWT string

record HTTPClient =
  baseURL :: string
  cache :: smdCache
  tokens :: token_source
  http_wgip :: "string \<rightharpoonup> string"

record http_answer =
  ha_status :: int
  ha_body :: "string result"
  ha_close :: "goerror option"

record 'n http_env =
  hnow :: "'n \<Rightarrow> gotime"
  http_newRequest :: "string \<Rightarrow> goerror option"
  http_get :: "string \<Rightarrow> string option \<Rightarrow> 'n \<Rightarrow> http_answer result \<times> 'n"
  manager_token :: "'n \<Rightarrow> string result \<times> 'n"
  tokenFn :: "'n \<Rightarrow> string"
  json_parse :: "string \<Rightarrow> json result"

type_synonym 'n hstate = "HTTPClient \<times> 'n"

definition normalizeBaseURL :: "string \<Rightarrow> string" where
  "normalizeBaseURL url =
     (let trimmed = TrimRight (CHR ''/'') url in
      if Contains_str trimmed ''/hsm/v2'' then trimmed
      else if Contains_str trimmed ''/apis/smd'' then trimmed @ ''/hsm/v2''
      else trimmed @ ''/hsm/v2'')"

definition NewHTTPClientWithTokenProvider :: "string \<Rightarrow> HTTPClient" where
  "NewHTTPClientWithTokenProvider url =
     \<lparr>baseURL = normalizeBaseURL url, cache = newSMDCache minute, tokens = TokenFn, http_wgip = Map.empty\<rparr>"

definition NewHTTPClient :: "string \<Rightarrow> string \<Rightarrow> HTTPClient" where
  "NewHTTPClient url jwt = (NewHTTPClientWithTokenProvider url)\<lparr>tokens := StaticJWT (TrimSpace jwt)\<rparr>"

definition WithServiceTokenManager :: "HTTPClient \<Rightarrow> HTTPClient" where
  "WithServiceTokenManager c = c\<lparr>tokens := TokenManager\<rparr>"

text \<open>The value of the \<open>Authorization\<close> header, or the refusal of the token manager.\<close>

definition authorization :: "'n http_env \<Rightarrow> 'n hstate \<Rightarrow> string option result \<times> 'n" where
  "authorization env s =
     (case s of (c, n) \<Rightarrow>
      (case tokens c of
         TokenManager \<Rightarrow>
           (case manager_token env n of
              (Inl e, n1) \<Rightarrow> (Inl (EWrap ''failed to get dynamic SMD auth token: '' e ''''), n1)
            | (Inr t, n1) \<Rightarrow> (Inr (Some (''Bearer '' @ t)), n1))
       | TokenFn \<Rightarrow> let t = TrimSpace (tokenFn env n) in (Inr (if t \<noteq> '''' then Some (''Bearer '' @ t) else None), n)
       | StaticJWT t \<Rightarrow> (Inr (if t \<noteq> '''' then Some (''Bearer '' @ t) else None), n)))"

definition getRaw :: "'n http_env \<Rightarrow> string \<Rightarrow> string \<Rightarrow> 'n hstate \<Rightarrow> string result \<times> 'n hstate" where
  "getRaw env path params s =
     (case s of (c, n) \<Rightarrow>
      let fullURL = baseURL c @ path @ (if params \<noteq> '''' then ''?'' @ params else '''') in
      (case http_newRequest env fullURL of
         Some e \<Rightarrow> (Inl e, (c, n))
       | None \<Rightarrow>
           (case authorization env (c, n) of
              (Inl e, n1) \<Rightarrow> (Inl e, (c, n1))
            | (Inr auth, n1) \<Rightarrow>
                (case http_get env fullURL auth n1 of
                   (Inl e, n2) \<Rightarrow> (Inl e, (c, n2))
                 | (Inr a, n2) \<Rightarrow>
                     (case ha_body a of
                        Inl e \<Rightarrow> (Inl e, (c, n2))
                      | Inr body \<Rightarrow>
                          (case ha_close a of
                             Some e \<Rightarrow> (Inl e, (c, n2))
                           | None \<Rightarrow>
                               if ha_status a < 200 \<or> 300 \<le> ha_status a
                               then (Inl (ENew (''smd request failed: '' @ TrimSpace body)), (c, n2))
                               else (Inr body, (c, n2))))))))"

definition doGet :: "'n http_env \<Rightarrow> (json \<Rightarrow> 'r result) \<Rightarrow> string \<Rightarrow> string \<Rightarrow> 'n hstate \<Rightarrow> 'r result \<times> 'n hstate" where
  "doGet env dec path params s =
     (case getRaw env path params s of
        (Inl e, s1) \<Rightarrow> (Inl e, s1)
      | (Inr body, s1) \<Rightarrow> (rbind (json_parse env body) dec, s1))"

definition no_component :: "string \<Rightarrow> goerror" where
  "no_component ip = ENew (''no component found for IP '' @ ip)"

definition HTTP_IDfromIP :: "'n http_env \<Rightarrow> ('n hstate, string) query" where
  "HTTP_IDfromIP env ip s =
     (case getIDfromIP (hnow env (snd s)) ip (cache (fst s)) of
        Some cid \<Rightarrow> (Inr cid, s)
      | None \<Rightarrow>
          (case getRaw env ''/Inventory/EthernetInterfaces'' (encode_param ''ipaddr'' ip) s of
             (Inl e, s1) \<Rightarrow> (Inl e, s1)
           | (Inr body, (c1, n1)) \<Rightarrow>
               if TrimSpace body = '''' then (Inl (no_component ip), (c1, n1))
               else (case rbind (json_parse env body) (dec_list zero_iface dec_iface) of
                       Inl e \<Rightarrow> (Inl e, (c1, n1))
                     | Inr resp \<Rightarrow>
                         if resp = [] \<or> if_ComponentID (hd resp) = '''' then (Inl (no_component ip), (c1, n1))
                         else (Inr (if_ComponentID (hd resp)),
                               (c1\<lparr>cache := setIDfromIP (hnow env n1) ip (if_ComponentID (hd resp)) (cache c1)\<rparr>, n1)))))"

definition HTTP_IDfromWGIP :: "((string \<rightharpoonup> string) \<Rightarrow> string list) \<Rightarrow> ('n hstate, string) query" where
  "HTTP_IDfromWGIP order w s = (find_by_wgip (order (http_wgip (fst s))) w (http_wgip (fst s)), s)"

definition HTTP_EthernetInterfaces :: "'n http_env \<Rightarrow> ('n hstate, EthernetInterface list) query" where
  "HTTP_EthernetInterfaces env cid s =
     (case getEthernetIfaces (hnow env (snd s)) cid (cache (fst s)) of
        Some ifaces \<Rightarrow> (Inr ifaces, s)
      | None \<Rightarrow>
          (case doGet env (dec_list zero_iface dec_iface) ''/Inventory/EthernetInterfaces'' (encode_param ''ComponentID'' cid) s of
             (Inl e, s1) \<Rightarrow> (Inl e, s1)
           | (Inr ifaces, (c1, n1)) \<Rightarrow>
               (Inr ifaces, (c1\<lparr>cache := setEthernetIfaces (hnow env n1) cid ifaces (cache c1)\<rparr>, n1))))"

definition component_of :: "componentResponse \<Rightarrow> Component" where
  "component_of r = \<lparr>comp_ID = cr_ID r, comp_NID = cr_NID r, comp_Role = cr_Role r, comp_MAC = cr_MAC r,
     comp_IP = (if cr_IP r = '''' then cr_IPAddress r else cr_IP r)\<rparr>"

definition HTTP_ComponentInformation :: "'n http_env \<Rightarrow> ('n hstate, Component) query" where
  "HTTP_ComponentInformation env cid s =
     (case getComponent (hnow env (snd s)) cid (cache (fst s)) of
        Some c \<Rightarrow> (Inr c, s)
      | None \<Rightarrow>
          (case getRaw env (''/State/Components/'' @ cid) '''' s of
             (Inl e, s1) \<Rightarrow> (Inl e, s1)
           | (Inr body, (c1, n1)) \<Rightarrow>
               let store = (\<lambda>r. let v = component_of r in
                     (Inr v, (c1\<lparr>cache := setComponent (hnow env n1) cid v (cache c1)\<rparr>, n1))) in
               (case rbind (json_parse env body) dec_component of
                  Inr single \<Rightarrow>
                    if cr_ID single \<noteq> '''' then store single
                    else (case rbind (json_parse env body) dec_component_list of
                            Inl e \<Rightarrow> (Inl e, (c1, n1))
                          | Inr [] \<Rightarrow> (Inl (ENew (''no component found for ID '' @ cid)), (c1, n1))
                          | Inr (r # _) \<Rightarrow> store r)
                | Inl _ \<Rightarrow>
                    (case rbind (json_parse env body) dec_component_list of
                       Inl e \<Rightarrow> (Inl e, (c1, n1))
                     | Inr [] \<Rightarrow> (Inl (ENew (''no component found for ID '' @ cid)), (c1, n1))
                     | Inr (r # _) \<Rightarrow> store r))))"

definition HTTP_IPfromID :: "'n http_env \<Rightarrow> ('n hstate, string) query" where
  "HTTP_IPfromID env cid s =
     (case HTTP_EthernetInterfaces env cid s of
        (Inl e, s1) \<Rightarrow> (Inl e, s1)
      | (Inr ifaces, s1) \<Rightarrow>
          if pickHMNIP ifaces \<noteq> '''' then (Inr (pickHMNIP ifaces), s1)
          else let (r, s2) = HTTP_ComponentInformation env cid s1 in
            (case found_id (map_sum (\<lambda>e. e) comp_IP r) of
               Some ip \<Rightarrow> (Inr ip, s2)
             | None \<Rightarrow> (Inl (ENew (''no IP found for ID '' @ cid)), s2)))"

definition HTTP_MACfromID :: "'n http_env \<Rightarrow> ('n hstate, string) query" where
  "HTTP_MACfromID env cid s =
     (case HTTP_EthernetInterfaces env cid s of
        (Inl e, s1) \<Rightarrow> (Inl e, s1)
      | (Inr ifaces, s1) \<Rightarrow>
          if pickHMNMAC ifaces \<noteq> '''' then (Inr (pickHMNMAC ifaces), s1)
          else let (r, s2) = HTTP_ComponentInformation env cid s1 in
            (case found_id (map_sum (\<lambda>e. e) comp_MAC r) of
               Some mac \<Rightarrow> (Inr mac, s2)
             | None \<Rightarrow> (Inl (ENew (''no MAC found for ID '' @ cid)), s2)))"

definition HTTP_GroupMembership :: "'n http_env \<Rightarrow> ('n hstate, string list) query" where
  "HTTP_GroupMembership env cid s =
     (case doGet env dec_membership (''/memberships/'' @ cid) '''' s of
        (Inl e, s1) \<Rightarrow> (Inl e, s1)
      | (Inr resp, s1) \<Rightarrow>
          if GroupLabels resp \<noteq> [] then (Inr (GroupLabels resp), s1)
          else if Groups resp \<noteq> [] then (Inr (Groups resp), s1)
          else (Inr [], s1))"

definition HTTP_AddWGIP :: "string \<Rightarrow> string \<Rightarrow> 'n hstate \<Rightarrow> goerror option \<times> 'n hstate" where
  "HTTP_AddWGIP cid w s = (case s of (c, n) \<Rightarrow> (None, (c\<lparr>http_wgip := (http_wgip c)(cid \<mapsto> w)\<rparr>, n)))"

definition HTTP_WGIPfromID :: "('n hstate, string) query" where
  "HTTP_WGIPfromID cid s =
     (case http_wgip (fst s) cid of
        Some ip \<Rightarrow> (Inr ip, s)
      | None \<Rightarrow> (Inl (ENew (''no WGIP found for ID '' @ cid)), s))"

definition HTTP_EthernetNICInfo :: "'n http_env \<Rightarrow> ('n hstate, EthernetNIC list) query" where
  "HTTP_EthernetNICInfo env cid s =
     (case getEthernetNICs (hnow env (snd s)) cid (cache (fst s)) of
        Some nics \<Rightarrow> (Inr nics, s)
      | None \<Rightarrow>
          (case doGet env dec_endpoint (''/Inventory/ComponentEndpoints/'' @ cid) '''' s of
             (Inl e, s1) \<Rightarrow> (Inl e, s1)
           | (Inr nics, (c1, n1)) \<Rightarrow>
               (Inr nics, (c1\<lparr>cache := setEthernetNICs (hnow env n1) cid nics (cache c1)\<rparr>, n1))))"

text \<open>What \<open>ListComponents\<close> stores for one component.\<close>

definition cache_component :: "gotime \<Rightarrow> smdCache \<Rightarrow> Component \<Rightarrow> smdCache" where
  "cache_component now k c =
     (let k1 = setComponent now (comp_ID c) c k in
      if comp_IP c \<noteq> '''' then setIDfromIP now (comp_IP c) (comp_ID c) k1 else k1)"

definition HTTP_ListComponents :: "'n http_env \<Rightarrow> 'n hstate \<Rightarrow> Component option list result \<times> 'n hstate" where
  "HTTP_ListComponents env s =
     (case doGet env dec_component_list ''/State/Components'' '''' s of
        (Inl e, s1) \<Rightarrow> (Inl e, s1)
      | (Inr items, (c1, n1)) \<Rightarrow>
          let cs = map component_of items in
          (Inr (map Some cs), (c1\<lparr>cache := foldl (cache_component (hnow env n1)) (cache c1) cs\<rparr>, n1)))"

definition http_client :: "'n http_env \<Rightarrow> ((string \<rightharpoonup> string) \<Rightarrow> string list) \<Rightarrow> 'n hstate SMDClient" where
  "http_client env order =
     \<lparr>smd_IDfromIP = HTTP_IDfromIP env, smd_IDfromWGIP = HTTP_IDfromWGIP order, smd_IPfromID = HTTP_IPfromID env,
      smd_MACfromID = HTTP_MACfromID env, smd_ComponentInformation = HTTP_ComponentInformation env,
      smd_GroupMembership = HTTP_GroupMembership env, smd_AddWGIP = HTTP_AddWGIP, smd_WGIPfromID = HTTP_WGIPfromID,
      smd_EthernetNICInfo = HTTP_EthernetNICInfo env, smd_EthernetInterfaces = HTTP_EthernetInterfaces env,
      smd_resolver = None, smd_lister = Some (HTTP_ListComponents env)\<rparr>"

lemmas http_query_defs = HTTP_IDfromIP_def HTTP_IDfromWGIP_def HTTP_EthernetInterfaces_def HTTP_ComponentInformation_def
  HTTP_IPfromID_def HTTP_MACfromID_def HTTP_GroupMembership_def HTTP_WGIPfromID_def HTTP_EthernetNICInfo_def

section \<open>The contracts\<close>

interpretation http: wgip_reverse "http_client env order" for env :: "'n http_env" and order
  by unfold_locales
     (auto simp: http_client_def HTTP_AddWGIP_def HTTP_WGIPfromID_def HTTP_IDfromWGIP_def
       dest: find_by_wgip_sound split: option.splits prod.splits)

text \<open>A map with times: what was set is read until its time is over.\<close>

locale timed_store =
  fixes get :: "gotime \<Rightarrow> string \<Rightarrow> 's \<Rightarrow> 'v option" and set :: "gotime \<Rightarrow> string \<Rightarrow> 'v \<Rightarrow> 's \<Rightarrow> 's" and life :: "'s \<Rightarrow> duration"
  assumes get_set: "get now k (set t k v s) = (if t + life s < now then None else Some v)"
    and get_set_other: "k' \<noteq> k \<Longrightarrow> get now k' (set t k v s) = get now k' s"
    and life_set: "life (set t k v s) = life s"

interpretation components_cache: timed_store getComponent setComponent ttl
  by unfold_locales (auto simp: getComponent_def setComponent_def timed_get_def timed_set_def)

interpretation ifaces_cache: timed_store getEthernetIfaces setEthernetIfaces ttl
  by unfold_locales (auto simp: getEthernetIfaces_def setEthernetIfaces_def timed_get_def timed_set_def)

interpretation nics_cache: timed_store getEthernetNICs setEthernetNICs ttl
  by unfold_locales (auto simp: getEthernetNICs_def setEthernetNICs_def timed_get_def timed_set_def)

interpretation ids_cache: timed_store getIDfromIP setIDfromIP ttl
  by unfold_locales (auto simp: getIDfromIP_def setIDfromIP_def timed_get_def timed_set_def)

section \<open>Requests\<close>

text \<open>What a request does to the network: nothing, a question for a token, or that and one request.\<close>

lemma getRaw_client: "getRaw env path params (c, n) = (r, (c', n')) \<Longrightarrow> c' = c"
  by (auto simp: getRaw_def Let_def split: option.splits prod.splits sum.splits if_splits)

lemma doGet_client: "doGet env dec path params (c, n) = (r, (c', n')) \<Longrightarrow> c' = c"
  by (auto simp: doGet_def dest: getRaw_client split: prod.splits sum.splits)

lemma getRaw_network:
  obtains "snd (snd (getRaw env path params (c, n))) = n"
  | e where "authorization env (c, n) = (Inl e, snd (snd (getRaw env path params (c, n))))"
  | u a n1 where "authorization env (c, n) = (Inr a, n1)" "snd (snd (getRaw env path params (c, n))) = snd (http_get env u a n1)"
proof (cases "http_newRequest env (baseURL c @ path @ (if params \<noteq> [] then ''?'' @ params else []))")
  case None
  obtain r n1 where a: "authorization env (c, n) = (r, n1)" by (metis surj_pair)
  show ?thesis
  proof (cases r)
    case (Inl e)
    with None a that(2) show ?thesis by (simp add: getRaw_def)
  next
    case (Inr x)
    obtain h n2 where "http_get env (baseURL c @ path @ (if params \<noteq> [] then ''?'' @ params else [])) x n1 = (h, n2)"
      by (metis surj_pair)
    with None a Inr that(3) [of x n1 "baseURL c @ path @ (if params \<noteq> [] then ''?'' @ params else [])"] show ?thesis
      by (simp add: getRaw_def split: sum.splits option.splits)
  qed
next
  case (Some e)
  with that(1) show ?thesis by (simp add: getRaw_def)
qed

text \<open>The requests of every operation go through \<open>getRaw\<close> with the client's token source.\<close>

inductive http_step :: "'n http_env \<Rightarrow> 'n hstate \<Rightarrow> 'n hstate \<Rightarrow> bool" for env where
  id_ip: "http_step env s (snd (HTTP_IDfromIP env x s))"
| id_wgip: "http_step env s (snd (HTTP_IDfromWGIP order x s))"
| ifaces: "http_step env s (snd (HTTP_EthernetInterfaces env x s))"
| component: "http_step env s (snd (HTTP_ComponentInformation env x s))"
| ip: "http_step env s (snd (HTTP_IPfromID env x s))"
| mac: "http_step env s (snd (HTTP_MACfromID env x s))"
| groups: "http_step env s (snd (HTTP_GroupMembership env x s))"
| add: "http_step env s (snd (HTTP_AddWGIP x w s))"
| wgip: "http_step env s (snd (HTTP_WGIPfromID x s))"
| nics: "http_step env s (snd (HTTP_EthernetNICInfo env x s))"
| list: "http_step env s (snd (HTTP_ListComponents env s))"

definition good :: "token_source \<Rightarrow> ('n \<Rightarrow> bool) \<Rightarrow> 'n hstate \<Rightarrow> bool" where
  "good src P s \<longleftrightarrow> tokens (fst s) = src \<and> P (snd s)"

definition raw_keeps :: "'n http_env \<Rightarrow> token_source \<Rightarrow> ('n \<Rightarrow> bool) \<Rightarrow> bool" where
  "raw_keeps env src P \<longleftrightarrow> (\<forall>c n path params. tokens c = src \<longrightarrow> P n \<longrightarrow> P (snd (snd (getRaw env path params (c, n)))))"

lemma good_raw:
  assumes "raw_keeps env src P"
    and "good src P s" and "getRaw env path params s = (r, s')"
  shows "good src P s'"
  using assms(1) [unfolded raw_keeps_def, rule_format, of "fst s" "snd s" path params] assms(2,3)
    getRaw_client [of env path params "fst s" "snd s" r "fst s'" "snd s'"]
  by (simp add: good_def)

lemma good_doGet:
  assumes "raw_keeps env src P"
    and "good src P s" and "doGet env dec path params s = (r, s')"
  shows "good src P s'"
  using assms(2,3) good_raw [OF assms(1)] by (auto simp: doGet_def split: prod.splits sum.splits)

lemma good_cache: "good src P (c\<lparr>cache := k\<rparr>, n) = good src P (c, n)"
  by (simp add: good_def)

lemma good_step:
  assumes raw: "raw_keeps env src P"
    and "http_step env s s'" and "good src P s"
  shows "good src P s'"
proof -
  note r = good_raw [OF raw] and d = good_doGet [OF raw]
  have e: "good src P (snd (HTTP_EthernetInterfaces env x s))" if "good src P s" for x s
    using that by (auto simp: HTTP_EthernetInterfaces_def good_cache dest: d split: option.splits prod.splits sum.splits)
  have c: "good src P (snd (HTTP_ComponentInformation env x s))" if "good src P s" for x s
    using that by (auto simp: HTTP_ComponentInformation_def Let_def good_cache dest: r
        split: option.splits prod.splits sum.splits list.splits)
  have e': "good src P s1" if "HTTP_EthernetInterfaces env x s = (y, s1)" "good src P s" for x s y s1
    using e [OF that(2), of x] that(1) by simp
  have c': "good src P s1" if "HTTP_ComponentInformation env x s = (y, s1)" "good src P s" for x s y s1
    using c [OF that(2), of x] that(1) by simp
  from assms(2) show ?thesis
  proof cases
    case (id_ip x)
    then show ?thesis using assms(3)
      by (auto simp: HTTP_IDfromIP_def good_cache dest: r split: option.splits prod.splits sum.splits)
  next
    case (ip x)
    then show ?thesis using assms(3)
      by (auto simp: HTTP_IPfromID_def Let_def dest: e' c' split: option.splits prod.splits sum.splits)
  next
    case (mac x)
    then show ?thesis using assms(3)
      by (auto simp: HTTP_MACfromID_def Let_def dest: e' c' split: option.splits prod.splits sum.splits)
  next
    case (groups x)
    then show ?thesis using assms(3) by (auto simp: HTTP_GroupMembership_def dest: d split: prod.splits sum.splits)
  next
    case (nics x)
    then show ?thesis using assms(3)
      by (auto simp: HTTP_EthernetNICInfo_def good_cache dest: d split: option.splits prod.splits sum.splits)
  next
    case list
    then show ?thesis using assms(3)
      by (auto simp: HTTP_ListComponents_def Let_def good_cache dest: d split: prod.splits sum.splits)
  qed (use assms(3) e c in \<open>auto simp: HTTP_IDfromWGIP_def HTTP_AddWGIP_def HTTP_WGIPfromID_def good_def split: option.splits prod.splits\<close>)
qed

lemma good_run:
  assumes "raw_keeps env src P"
    and "(http_step env)\<^sup>*\<^sup>* s s'" and "good src P s"
  shows "good src P s'"
  using assms(2,3) by (induction rule: rtranclp_induct) (auto intro: good_step [OF assms(1)])

section \<open>Properties\<close>

text \<open>
  The base URL of the SMD API: the result has no slash at its end, contains the
  version path, and normalising it again changes nothing.
\<close>

theorem base_url_normal_form:
  "normalizeBaseURL (normalizeBaseURL url) = normalizeBaseURL url \<and> Contains_str (normalizeBaseURL url) ''/hsm/v2'' \<and>
   (\<forall>u. normalizeBaseURL url \<noteq> u @ ''/'')"
proof -
  let ?t = "TrimRight (CHR ''/'') url"
  have slash: "TrimRight (CHR ''/'') (u @ ''/hsm/v2'') = u @ ''/hsm/v2''" for u by (simp add: TrimRight_def)
  have "Contains_str (u @ ''/hsm/v2'') ''/hsm/v2''" for u by (simp add: Contains_str_def suffix_imp_sublist)
  moreover have "normalizeBaseURL url = (if Contains_str ?t ''/hsm/v2'' then ?t else ?t @ ''/hsm/v2'')"
    by (simp add: normalizeBaseURL_def Let_def)
  moreover have "?t \<noteq> u @ ''/''" for u
  proof
    assume "?t = u @ ''/''"
    then have "rev ?t = CHR ''/'' # rev u" by simp
    then show False unfolding TrimRight_def rev_rev_ident by (metis (full_types) dropWhile_eq_Cons_conv)
  qed
  ultimately show ?thesis by (auto simp: normalizeBaseURL_def Let_def slash)
qed

text \<open>
  The answer for a component is kept for the lifetime of the cache: after it was
  fetched, the same question until then gets the same answer without any request; after that time
  the entry is not used any more.
\<close>

theorem component_cached_for_ttl:
  assumes "getComponent (hnow env n) cid (cache c) = None"
    and "HTTP_ComponentInformation env cid (c, n) = (Inr v, (c1, n1))"
  shows "(hnow env n2 \<le> hnow env n1 + ttl (cache c) \<longrightarrow> HTTP_ComponentInformation env cid (c1, n2) = (Inr v, (c1, n2))) \<and>
    (hnow env n1 + ttl (cache c) < hnow env n2 \<longrightarrow> getComponent (hnow env n2) cid (cache c1) = None)"
proof -
  from assms have "\<exists>k. cache c1 = setComponent (hnow env n1) cid v k \<and> ttl k = ttl (cache c)"
    by (auto simp: HTTP_ComponentInformation_def Let_def dest!: getRaw_client split: prod.splits sum.splits list.splits if_splits)
  then show ?thesis
    by (auto simp: HTTP_ComponentInformation_def components_cache.get_set)
qed

text \<open>A network that records the tokens it is shown and answers every request with one component.\<close>

definition http_env0 :: "(gotime \<times> string option list) http_env" where
  "http_env0 = \<lparr>hnow = fst, http_newRequest = (\<lambda>_. None),
     http_get = (\<lambda>u a n. (Inr \<lparr>ha_status = 200, ha_body = Inr ''doc'', ha_close = None\<rparr>, (fst n, a # snd n))),
     manager_token = (\<lambda>n. (Inr ''tok'', n)), tokenFn = (\<lambda>_. ''''),
     json_parse = (\<lambda>_. Inr (JObj [(''id'', JStr ''x0''), (''IP'', JStr ''10.0.0.1'')]))\<rparr>"

definition comp0 :: Component where
  "comp0 = \<lparr>comp_ID = ''x0'', comp_NID = 0, comp_Role = '''', comp_MAC = '''', comp_IP = ''10.0.0.1''\<rparr>"

definition hc0 :: HTTPClient where
  "hc0 = WithServiceTokenManager (NewHTTPClientWithTokenProvider ''http://smd/'')"

lemma dec_doc: "rbind (json_parse http_env0 b) dec_component =
    Inr \<lparr>cr_ID = ''x0'', cr_NID = 0, cr_Role = '''', cr_MAC = '''', cr_IP = ''10.0.0.1'', cr_IPAddress = ''''\<rparr>"
proof -
  have "dec_component (JObj [(''id'', JStr ''x0''), (''IP'', JStr ''10.0.0.1'')]) =
      Inr \<lparr>cr_ID = ''x0'', cr_NID = 0, cr_Role = '''', cr_MAC = '''', cr_IP = ''10.0.0.1'', cr_IPAddress = ''''\<rparr>"
    by code_simp
  then show ?thesis by (simp add: http_env0_def)
qed

lemma hc0_miss: "getComponent t cid (cache hc0) = None" "ttl (cache hc0) = minute" "tokens hc0 = TokenManager"
  by (simp_all add: hc0_def WithServiceTokenManager_def NewHTTPClientWithTokenProvider_def newSMDCache_def getComponent_def timed_get_def)

lemma getRaw_hc0:
  "getRaw http_env0 path params (hc0, (t, as)) = (Inr ''doc'', (hc0, (t, Some ''Bearer tok'' # as)))"
  by (simp add: getRaw_def authorization_def http_env0_def hc0_miss)

lemma fetch_hc0: "HTTP_ComponentInformation http_env0 ''x0'' (hc0, (0, [])) =
    (Inr comp0, (hc0\<lparr>cache := setComponent 0 ''x0'' comp0 (cache hc0)\<rparr>, (0, [Some ''Bearer tok''])))"
proof -
  have "hnow http_env0 n = fst n" for n by (simp add: http_env0_def)
  then show ?thesis
    by (simp add: HTTP_ComponentInformation_def component_of_def comp0_def Let_def dec_doc hc0_miss getRaw_hc0)
qed

theorem component_cached_for_ttl_witness:
  "\<exists>c1. fst (HTTP_ComponentInformation http_env0 ''x0'' (c1, (minute, []))) = Inr comp0 \<and>
     getComponent (minute + 1) ''x0'' (cache c1) = None"
proof -
  let ?c = "hc0\<lparr>cache := setComponent 0 ''x0'' comp0 (cache hc0)\<rparr>"
  have h: "hnow http_env0 n = fst n" for n by (simp add: http_env0_def)
  have "HTTP_ComponentInformation http_env0 ''x0'' (?c, (minute, [])) = (Inr comp0, (?c, (minute, [])))"
    using component_cached_for_ttl [OF hc0_miss(1) fetch_hc0, of "(minute, [])"] by (simp add: h hc0_miss)
  moreover have "getComponent (minute + 1) ''x0'' (cache ?c) = None"
    using component_cached_for_ttl [OF hc0_miss(1) fetch_hc0, of "(minute + 1, [])"] by (simp add: h hc0_miss)
  ultimately show ?thesis by (intro exI [of _ ?c]) simp
qed

text \<open>The requests of a run, for any property \<open>Q\<close> of the tokens the manager hands out.\<close>

lemma manager_run:
  fixes env :: "'n http_env" and seen :: "'n \<Rightarrow> string option list"
  assumes "\<And>u a n. seen (snd (http_get env u a n)) = a # seen n"
    and "\<And>n. seen (snd (manager_token env n)) = seen n" and "\<And>n t. fst (manager_token env n) = Inr t \<Longrightarrow> Q t"
    and "tokens c = TokenManager" and "seen n = []" and "(http_step env)\<^sup>*\<^sup>* (c, n) (c', n')"
  shows "\<forall>a \<in> set (seen n'). \<exists>t. a = Some (''Bearer '' @ t) \<and> Q t"
proof -
  let ?P = "\<lambda>n. \<forall>a \<in> set (seen n). \<exists>t. a = Some (''Bearer '' @ t) \<and> Q t"
  have auth: "(\<forall>e n1. authorization env (c, n) = (Inl e, n1) \<longrightarrow> seen n1 = seen n) \<and>
      (\<forall>a n1. authorization env (c, n) = (Inr a, n1) \<longrightarrow> seen n1 = seen n \<and> (\<exists>t. a = Some (''Bearer '' @ t) \<and> Q t))"
    if "tokens c = TokenManager" for c n
    using that assms(2,3) [of n]
    by (cases "manager_token env n") (auto simp: authorization_def split: sum.splits)
  have keeps: "raw_keeps env TokenManager ?P"
    unfolding raw_keeps_def
  proof (intro allI impI)
    fix c :: HTTPClient and n path params assume t: "tokens c = TokenManager" and p: "?P n"
    show "?P (snd (snd (getRaw env path params (c, n))))"
    proof (rule getRaw_network [of env path params c n])
      fix e assume "authorization env (c, n) = (Inl e, snd (snd (getRaw env path params (c, n))))"
      with auth [OF t] p show ?thesis by simp
    next
      fix u a n1
      assume a: "authorization env (c, n) = (Inr a, n1)" and n2: "snd (snd (getRaw env path params (c, n))) = snd (http_get env u a n1)"
      have "seen n1 = seen n" "\<exists>t. a = Some (''Bearer '' @ t) \<and> Q t" using auth [OF t, of n] a by auto
      with p assms(1) [of u a n1] show ?thesis unfolding n2 by simp
    qed (use p in simp)
  qed
  have "good TokenManager ?P (c, n)" using assms(4,5) by (simp add: good_def)
  from good_run [OF keeps assms(6) this] show ?thesis by (simp add: good_def)
qed

text \<open>
  A client with a token manager never sends a request without the manager's token:
  over any sequence of operations, every request the network saw carried \<open>Bearer\<close> and a token that
  is not empty. It is assumed that the network records each request's header, that asking for a
  token sends no SMD request, and that the manager's tokens are not empty.
\<close>

theorem requests_carry_manager_token:
  fixes env :: "'n http_env" and seen :: "'n \<Rightarrow> string option list"
  assumes "\<And>u a n. seen (snd (http_get env u a n)) = a # seen n"
    and "\<And>n. seen (snd (manager_token env n)) = seen n" and "\<And>n t. fst (manager_token env n) = Inr t \<Longrightarrow> t \<noteq> ''''"
    and "tokens c = TokenManager" and "seen n = []" and "(http_step env)\<^sup>*\<^sup>* (c, n) (c', n')"
  shows "\<forall>a \<in> set (seen n'). \<exists>t. a = Some (''Bearer '' @ t) \<and> t \<noteq> ''''"
  using assms by (rule manager_run [where Q = "\<lambda>t. t \<noteq> []"])

theorem requests_carry_manager_token_witness:
  "\<exists>t. snd (snd (snd (HTTP_ComponentInformation http_env0 ''x0'' (hc0, (0, []))))) = [Some (''Bearer '' @ t)] \<and> t \<noteq> ''''"
proof -
  obtain c' n' where s: "snd (HTTP_ComponentInformation http_env0 ''x0'' (hc0, (0, []))) = (c', n')" by (metis surj_pair)
  from this have one: "\<exists>a. snd n' = [a]" by (auto simp: fetch_hc0)
  have run: "(http_step http_env0)\<^sup>*\<^sup>* (hc0, (0, [])) (c', n')" unfolding s [symmetric] by (intro r_into_rtranclp http_step.component)
  have "\<forall>a \<in> set (snd n'). \<exists>t. a = Some (''Bearer '' @ t) \<and> t \<noteq> ''''"
    by (rule requests_carry_manager_token [where seen = snd, OF _ _ _ hc0_miss(3) _ run]) (simp_all add: http_env0_def)
  with one show ?thesis unfolding s by auto
qed

end
