(* ===== verification/SMD_Token.thy ===== *)
theory SMD_Token
  imports Prelude
begin

text \<open>
  The token manager of \<open>pkg/smdclient/service_token_manager.go\<close>. The packages it calls are not part
  of the repository or talk to the outside: the TokenSmith service client, the HTTP exchange with
  TokenSmith, the decoder of its answer, the certificate files, the clock and the context. They are
  the fields of the record \<open>tok_env\<close> over a state \<open>'w\<close> of the surroundings, which every operation
  passes on together with the manager. A method runs under the manager's own locks only for single
  reads and writes; methods are modelled as steps. The zero time is \<open>None\<close>.
\<close>

section \<open>Configuration\<close>

record TokenExchangeConfig =
  TokenSmithURL :: string
  BootstrapToken :: string
  TargetService :: string
  Scopes :: "string list"
  AuthMethod :: string
  ServiceIdentityCert :: string
  ServiceIdentityKey :: string
  ServiceIdentityCA :: string
  RefreshBefore :: duration
  AutoRefreshInterval :: duration
  BootstrapMaxAttempts :: int
  BootstrapInitialBackoff :: duration
  BootstrapMaxBackoff :: duration
  RefreshMaxAttempts :: int
  RefreshInitialBackoff :: duration
  RefreshMaxBackoff :: duration
  ServiceName :: string
  ServiceID :: string
  InstanceID :: string
  ClusterID :: string

abbreviation TokenAuthMethodBootstrapToken :: string where
  "TokenAuthMethodBootstrapToken \<equiv> ''bootstrap_token''"

abbreviation TokenAuthMethodMTLSIdentity :: string where
  "TokenAuthMethodMTLSIdentity \<equiv> ''mtls_identity''"

definition DefaultTokenExchangeConfig :: TokenExchangeConfig where
  "DefaultTokenExchangeConfig =
     \<lparr>TokenSmithURL = '''', BootstrapToken = '''', TargetService = ''smd'', Scopes = [], AuthMethod = '''',
      ServiceIdentityCert = '''', ServiceIdentityKey = '''', ServiceIdentityCA = '''',
      RefreshBefore = 5 * minute, AutoRefreshInterval = minute,
      BootstrapMaxAttempts = 5, BootstrapInitialBackoff = second, BootstrapMaxBackoff = 15 * second,
      RefreshMaxAttempts = 5, RefreshInitialBackoff = second, RefreshMaxBackoff = 15 * second,
      ServiceName = ''metadata-service'', ServiceID = ''metadata-service'', InstanceID = '''', ClusterID = ''''\<rparr>"

text \<open>A text setting, if it is not blank, and a positive number replace the default.\<close>

definition or_default :: "string \<Rightarrow> string \<Rightarrow> string" where
  "or_default x d = (if TrimSpace x \<noteq> '''' then TrimSpace x else d)"

definition pos_or :: "int \<Rightarrow> int \<Rightarrow> int" where
  "pos_or x d = (if 0 < x then x else d)"

text \<open>The settings merged into the defaults.\<close>

definition merge_config :: "TokenExchangeConfig \<Rightarrow> TokenExchangeConfig" where
  "merge_config c =
     (let d = DefaultTokenExchangeConfig in
      \<lparr>TokenSmithURL = or_default (TokenSmithURL c) (TokenSmithURL d),
      BootstrapToken = or_default (BootstrapToken c) (BootstrapToken d),
      TargetService = or_default (TargetService c) (TargetService d),
      Scopes = Scopes c,
      AuthMethod = or_default (AuthMethod c) (AuthMethod d),
      ServiceIdentityCert = or_default (ServiceIdentityCert c) (ServiceIdentityCert d),
      ServiceIdentityKey = or_default (ServiceIdentityKey c) (ServiceIdentityKey d),
      ServiceIdentityCA = or_default (ServiceIdentityCA c) (ServiceIdentityCA d),
      RefreshBefore = pos_or (RefreshBefore c) (RefreshBefore d),
      AutoRefreshInterval = pos_or (AutoRefreshInterval c) (AutoRefreshInterval d),
      BootstrapMaxAttempts = pos_or (BootstrapMaxAttempts c) (BootstrapMaxAttempts d),
      BootstrapInitialBackoff = pos_or (BootstrapInitialBackoff c) (BootstrapInitialBackoff d),
      BootstrapMaxBackoff = pos_or (BootstrapMaxBackoff c) (BootstrapMaxBackoff d),
      RefreshMaxAttempts = pos_or (RefreshMaxAttempts c) (RefreshMaxAttempts d),
      RefreshInitialBackoff = pos_or (RefreshInitialBackoff c) (RefreshInitialBackoff d),
      RefreshMaxBackoff = pos_or (RefreshMaxBackoff c) (RefreshMaxBackoff d),
      ServiceName = or_default (ServiceName c) (ServiceName d),
      ServiceID = or_default (ServiceID c) (ServiceID d),
      InstanceID = or_default (InstanceID c) (InstanceID d),
      ClusterID = or_default (ClusterID c) (ClusterID d)\<rparr>)"

definition normalizeTokenExchangeConfig :: "TokenExchangeConfig \<Rightarrow> TokenExchangeConfig" where
  "normalizeTokenExchangeConfig c =
     (let d1 = merge_config c;
          d2 = (if RefreshMaxAttempts d1 \<le> 0 then d1\<lparr>RefreshMaxAttempts := BootstrapMaxAttempts d1\<rparr> else d1);
          d3 = (if RefreshInitialBackoff d2 \<le> 0 then d2\<lparr>RefreshInitialBackoff := BootstrapInitialBackoff d2\<rparr> else d2);
          d4 = (if RefreshMaxBackoff d3 \<le> 0 then d3\<lparr>RefreshMaxBackoff := BootstrapMaxBackoff d3\<rparr> else d3) in
      if AuthMethod d4 = '''' then
        d4\<lparr>AuthMethod := (if ServiceIdentityCert d4 \<noteq> '''' \<and> ServiceIdentityKey d4 \<noteq> ''''
                           then TokenAuthMethodMTLSIdentity else TokenAuthMethodBootstrapToken)\<rparr>
      else d4)"

section \<open>The manager and its surroundings\<close>

record ServiceToken =
  Token :: string
  ExpiresAt :: "gotime option"

record OAuthTokenResponse =
  AccessToken :: string
  ExpiresIn :: int
  RefreshToken :: string
  RefreshExpiresIn :: int

text \<open>The arguments the TokenSmith service client is built with, and those of the TLS client.\<close>

record ServiceClientConfig =
  sc_URL :: string
  sc_ServiceName :: string
  sc_ServiceID :: string
  sc_InstanceID :: string
  sc_ClusterID :: string
  sc_TargetService :: string
  sc_RefreshBefore :: duration
  sc_AutoRefreshInterval :: duration
  sc_BootstrapMaxAttempts :: int
  sc_BootstrapInitialBackoff :: duration
  sc_BootstrapMaxBackoff :: duration
  sc_BootstrapToken :: "string option"

record tls_client =
  tls_cert :: string
  tls_key :: string
  tls_rootCAs :: "string option"

record ServiceTokenManager =
  config :: TokenExchangeConfig
  client :: "ServiceClientConfig option"
  httpClient :: "tls_client option"
  tokenEndpoint :: string
  sessionEndpoint :: string
  targetService :: string
  scopes :: "string list"
  authMethod :: string
  refreshMaxAttempts :: int
  refreshBackoff :: duration
  refreshMaxBackoff :: duration
  token :: "ServiceToken option"
  refreshToken :: string
  refreshExpiry :: "gotime option"
  unhealthy :: bool
  unhealthyErr :: string

datatype tok_body = JSONBody "(string \<times> string) list" "string list" | FormBody "(string \<times> string) list"

record tok_request =
  rq_url :: string
  rq_contentType :: string
  rq_body :: tok_body

record tok_response =
  rs_status :: int
  rs_body :: string

record 'w tok_env =
  ctx_err :: "'w \<Rightarrow> goerror option"
  sleep_or_done :: "duration \<Rightarrow> 'w \<Rightarrow> goerror option \<times> 'w"
  tnow :: "'w \<Rightarrow> gotime"
  sc_Initialize :: "'w \<Rightarrow> goerror option \<times> 'w"
  sc_RefreshTokenIfNeeded :: "'w \<Rightarrow> goerror option \<times> 'w"
  sc_GetServiceToken :: "'w \<Rightarrow> ServiceToken option"
  newRequest :: "string \<Rightarrow> goerror option"
  http_Do :: "tls_client \<Rightarrow> tok_request \<Rightarrow> 'w \<Rightarrow> tok_response result \<times> 'w"
  decode_oauth :: "string \<Rightarrow> OAuthTokenResponse result"
  LoadX509KeyPair :: "string \<Rightarrow> string \<Rightarrow> goerror option"
  read_ca :: "string \<Rightarrow> string result"
  AppendCertsFromPEM :: "string \<Rightarrow> bool"
  GrantTypeRefreshToken :: string

type_synonym 'w tstate = "ServiceTokenManager \<times> 'w"
type_synonym 'w tok_op = "'w tstate \<Rightarrow> goerror option \<times> 'w tstate"

definition NewServiceTokenManager :: "TokenExchangeConfig \<Rightarrow> ServiceTokenManager" where
  "NewServiceTokenManager cfg =
     (let n = normalizeTokenExchangeConfig cfg;
          baseURL = TrimRight (CHR ''/'') (TrimSpace (TokenSmithURL n)) in
      \<lparr>config = n,
       client = (if AuthMethod n = TokenAuthMethodBootstrapToken
         then Some \<lparr>sc_URL = TokenSmithURL n, sc_ServiceName = ServiceName n, sc_ServiceID = ServiceID n,
                    sc_InstanceID = InstanceID n, sc_ClusterID = ClusterID n, sc_TargetService = TargetService n,
                    sc_RefreshBefore = RefreshBefore n, sc_AutoRefreshInterval = AutoRefreshInterval n,
                    sc_BootstrapMaxAttempts = BootstrapMaxAttempts n,
                    sc_BootstrapInitialBackoff = BootstrapInitialBackoff n, sc_BootstrapMaxBackoff = BootstrapMaxBackoff n,
                    sc_BootstrapToken = (if BootstrapToken n \<noteq> '''' then Some (BootstrapToken n) else None)\<rparr>
         else None),
       httpClient = None, tokenEndpoint = baseURL @ ''/oauth/token'', sessionEndpoint = baseURL @ ''/service-identity/session'',
       targetService = TargetService n, scopes = Scopes n, authMethod = AuthMethod n,
       refreshMaxAttempts = RefreshMaxAttempts n, refreshBackoff = RefreshInitialBackoff n, refreshMaxBackoff = RefreshMaxBackoff n,
       token = None, refreshToken = '''', refreshExpiry = None, unhealthy = False, unhealthyErr = ''''\<rparr>)"

section \<open>Health\<close>

definition wrapEndpointError :: "string \<Rightarrow> string \<Rightarrow> goerror \<Rightarrow> goerror" where
  "wrapEndpointError action endpoint e = EWrap (action @ '' via '' @ endpoint @ '' failed: '') e ''''"

definition markUnhealthy :: "goerror option \<Rightarrow> ServiceTokenManager \<Rightarrow> goerror option \<times> ServiceTokenManager" where
  "markUnhealthy e m =
     (case e of
        None \<Rightarrow> (None, m)
      | Some e \<Rightarrow> (Some (EWrap ''dynamic TokenSmith auth unhealthy: '' e ''''),
                  m\<lparr>unhealthy := True, unhealthyErr := err_text e\<rparr>))"

definition errIfUnhealthy :: "ServiceTokenManager \<Rightarrow> goerror option" where
  "errIfUnhealthy m =
     (if \<not> unhealthy m then None else Some (ENew (''dynamic TokenSmith auth unhealthy: '' @ unhealthyErr m)))"

definition isUnhealthy :: "ServiceTokenManager \<Rightarrow> bool" where
  "isUnhealthy m = unhealthy m"

definition healthStatus :: "ServiceTokenManager \<Rightarrow> bool \<times> string" where
  "healthStatus m = (unhealthy m, unhealthyErr m)"

definition HealthStatus :: "ServiceTokenManager \<Rightarrow> bool \<times> string" where
  "HealthStatus m = (let (bad, reason) = healthStatus m in if bad then (False, reason) else (True, ''''))"

record 'st ServiceTokenManagerStats =
  st_AuthMethod :: string
  st_TokenEndpoint :: string
  st_SessionEndpoint :: string
  st_TargetService :: string
  st_Scopes :: "string list"
  st_Unhealthy :: bool
  st_UnhealthyReason :: string
  st_ClientStats :: 'st

text \<open>The statistics of the TokenSmith client are its answer, or the zero value without a client.\<close>

definition Stats :: "'st \<Rightarrow> 'st \<Rightarrow> ServiceTokenManager \<Rightarrow> 'st ServiceTokenManagerStats" where
  "Stats zero answer m =
     (let (bad, reason) = healthStatus m in
      \<lparr>st_AuthMethod = authMethod m, st_TokenEndpoint = tokenEndpoint m, st_SessionEndpoint = sessionEndpoint m,
       st_TargetService = targetService m, st_Scopes = scopes m, st_Unhealthy = bad, st_UnhealthyReason = reason,
       st_ClientStats = (if client m \<noteq> None then answer else zero)\<rparr>)"

section \<open>Retries\<close>

datatype retry_end = Returned "goerror option" | Exhausted goerror

text \<open>
  The loop with the number of attempts that are left, never zero when it is entered; \<open>Exhausted\<close>
  carries the error of the last attempt.
\<close>

fun retry_loop :: "'w tok_env \<Rightarrow> nat \<Rightarrow> duration \<Rightarrow> duration \<Rightarrow> 'w tok_op \<Rightarrow> 'w tstate \<Rightarrow> retry_end \<times> 'w tstate" where
  "retry_loop env 0 backoff maxBackoff f s = (Exhausted (ENew ''''), s)"
| "retry_loop env (Suc k) backoff maxBackoff f s =
     (case ctx_err env (snd s) of
        Some e \<Rightarrow> (Returned (Some e), s)
      | None \<Rightarrow>
          let (r, (m1, w1)) = f s in
          (case r of
             None \<Rightarrow> (Returned None, (m1, w1))
           | Some e \<Rightarrow>
               if k = 0 then (Exhausted e, (m1, w1))
               else
                 let wait = (if 0 < maxBackoff \<and> maxBackoff < backoff then maxBackoff else backoff);
                     (d, w2) = sleep_or_done env wait w1 in
                 (case d of
                    Some e' \<Rightarrow> (Returned (Some e'), (m1, w2))
                  | None \<Rightarrow>
                      let b2 = int64 (backoff * 2);
                          b3 = (if 0 < maxBackoff \<and> maxBackoff < b2 then maxBackoff else b2) in
                      retry_loop env k b3 maxBackoff f (m1, w2))))"

definition withRetries :: "'w tok_env \<Rightarrow> string \<Rightarrow> string \<Rightarrow> int \<Rightarrow> duration \<Rightarrow> duration \<Rightarrow> bool \<Rightarrow> 'w tok_op \<Rightarrow> 'w tok_op" where
  "withRetries env action endpoint maxAttempts initialBackoff maxBackoff failClosed f s =
     (let attempts = (if maxAttempts \<le> 0 then 1 else maxAttempts);
          backoff = (if initialBackoff \<le> 0 then second else initialBackoff);
          (r, (m, w)) = retry_loop env (nat attempts) backoff maxBackoff f s in
      case r of
        Returned e \<Rightarrow> (e, (m, w))
      | Exhausted lastErr \<Rightarrow>
          let wrapped = EWrap (action @ '' via '' @ endpoint @ '' failed after '' @ int_str attempts @ '' attempts: '') lastErr '''' in
          if failClosed then let (e, m') = markUnhealthy (Some wrapped) m in (e, (m', w))
          else (Some wrapped, (m, w)))"

section \<open>The identity flow over mutual TLS\<close>

definition ensureMTLSHTTPClient :: "'w tok_env \<Rightarrow> ServiceTokenManager \<Rightarrow> tls_client result \<times> ServiceTokenManager" where
  "ensureMTLSHTTPClient env m =
     (case httpClient m of
        Some c \<Rightarrow> (Inr c, m)
      | None \<Rightarrow>
          let certPath = TrimSpace (ServiceIdentityCert (config m)); keyPath = TrimSpace (ServiceIdentityKey (config m)) in
          if certPath = '''' \<or> keyPath = '''' then (Inl (ENew ''mTLS service identity requires cert and key paths''), m)
          else case LoadX509KeyPair env certPath keyPath of
            Some e \<Rightarrow> (Inl (EWrap ''mTLS cert/key load failed: '' e ''''), m)
          | None \<Rightarrow>
              let caPath = TrimSpace (ServiceIdentityCA (config m)) in
              if caPath = '''' then
                (let c = \<lparr>tls_cert = certPath, tls_key = keyPath, tls_rootCAs = None\<rparr> in (Inr c, m\<lparr>httpClient := Some c\<rparr>))
              else case read_ca env caPath of
                Inl e \<Rightarrow> (Inl (EWrap (''mTLS CA read failed for '' @ caPath @ '': '') e ''''), m)
              | Inr pem \<Rightarrow>
                  if \<not> AppendCertsFromPEM env pem then (Inl (ENew (''mTLS CA parse failed for '' @ caPath)), m)
                  else (let c = \<lparr>tls_cert = certPath, tls_key = keyPath, tls_rootCAs = Some pem\<rparr> in
                        (Inr c, m\<lparr>httpClient := Some c\<rparr>)))"

definition decodeOAuthTokenResponse :: "'w tok_env \<Rightarrow> tok_response \<Rightarrow> OAuthTokenResponse result" where
  "decodeOAuthTokenResponse env r =
     (if rs_status r \<noteq> 200
      then Inl (ENew (''TokenSmith endpoint returned status='' @ int_str (rs_status r) @ '' body='' @ TrimSpace (rs_body r)))
      else case decode_oauth env (rs_body r) of
        Inl e \<Rightarrow> Inl (EWrap ''failed to decode token response: '' e '''')
      | Inr oa \<Rightarrow> Inr oa)"

definition updateMTLSTokens :: "gotime \<Rightarrow> OAuthTokenResponse \<Rightarrow> ServiceTokenManager \<Rightarrow> goerror option \<times> ServiceTokenManager" where
  "updateMTLSTokens now oa m =
     (if TrimSpace (AccessToken oa) = '''' \<or> ExpiresIn oa \<le> 0
      then (Some (ENew ''failed to decode token response: missing access_token or expires_in''), m)
      else if TrimSpace (RefreshToken oa) = '''' \<or> RefreshExpiresIn oa \<le> 0
      then (Some (ENew ''failed to decode token response: missing refresh_token or refresh_expires_in''), m)
      else (None, m\<lparr>token := Some \<lparr>Token = TrimSpace (AccessToken oa), ExpiresAt = Some (now + int64 (ExpiresIn oa * second))\<rparr>,
                    refreshToken := TrimSpace (RefreshToken oa),
                    refreshExpiry := Some (now + int64 (RefreshExpiresIn oa * second))\<rparr>))"

text \<open>The end of both exchanges: decode the answer and store the tokens.\<close>

definition store_answer :: "'w tok_env \<Rightarrow> tok_response \<Rightarrow> 'w tok_op" where
  "store_answer env resp s =
     (case s of (m, w) \<Rightarrow>
      (case decodeOAuthTokenResponse env resp of
         Inl e \<Rightarrow> (Some e, (m, w))
       | Inr oa \<Rightarrow> let (e, m') = updateMTLSTokens (tnow env w) oa m in (e, (m', w))))"

definition initializeMTLS :: "'w tok_env \<Rightarrow> 'w tok_op" where
  "initializeMTLS env s =
     (case s of (m0, w) \<Rightarrow>
      (case ensureMTLSHTTPClient env m0 of
         (Inl e, m) \<Rightarrow> (Some e, (m, w))
       | (Inr c, m) \<Rightarrow>
           let body = JSONBody [(''service_name'', TrimSpace (ServiceName (config m))), (''service_id'', TrimSpace (ServiceID (config m))),
                                (''instance_id'', TrimSpace (InstanceID (config m))), (''cluster_id'', TrimSpace (ClusterID (config m))),
                                (''target_service'', TrimSpace (TargetService (config m)))] (scopes m) in
           (case newRequest env (sessionEndpoint m) of
              Some e \<Rightarrow> (Some (EWrap ''failed to create mTLS service identity request: '' e ''''), (m, w))
            | None \<Rightarrow>
                (case http_Do env c \<lparr>rq_url = sessionEndpoint m, rq_contentType = ''application/json'', rq_body = body\<rparr> w of
                   (Inl e, w1) \<Rightarrow> (Some (EWrap ''mTLS service identity request failed: '' e ''''), (m, w1))
                 | (Inr resp, w1) \<Rightarrow> store_answer env resp (m, w1)))))"

definition refreshMTLS :: "'w tok_env \<Rightarrow> 'w tok_op" where
  "refreshMTLS env s =
     (case s of (m0, w) \<Rightarrow>
      (case ensureMTLSHTTPClient env m0 of
         (Inl e, m) \<Rightarrow> (Some e, (m, w))
       | (Inr c, m) \<Rightarrow>
           let rt = TrimSpace (refreshToken m) in
           if rt = '''' then (Some (ENew ''missing refresh token''), (m, w))
           else if (case refreshExpiry m of None \<Rightarrow> False | Some t \<Rightarrow> t < tnow env w)
           then (Some (ENew ''refresh token expired''), (m, w))
           else
             let body = FormBody [(''grant_type'', GrantTypeRefreshToken env), (''refresh_token'', rt)] in
             (case newRequest env (tokenEndpoint m) of
                Some e \<Rightarrow> (Some (EWrap ''failed to create refresh request: '' e ''''), (m, w))
              | None \<Rightarrow>
                  (case http_Do env c \<lparr>rq_url = tokenEndpoint m, rq_contentType = ''application/x-www-form-urlencoded'', rq_body = body\<rparr> w of
                     (Inl e, w1) \<Rightarrow> (Some (EWrap ''service token refresh request failed: '' e ''''), (m, w1))
                   | (Inr resp, w1) \<Rightarrow> store_answer env resp (m, w1)))))"

definition mtlsNeedsRefresh :: "'w tok_env \<Rightarrow> 'w tstate \<Rightarrow> bool" where
  "mtlsNeedsRefresh env s =
     (case token (fst s) of
        None \<Rightarrow> True
      | Some t \<Rightarrow>
          (case ExpiresAt t of
             None \<Rightarrow> True
           | Some x \<Rightarrow> sub_sat x (tnow env (snd s)) < RefreshBefore (config (fst s))))"

section \<open>The operations\<close>

text \<open>\<open>%q\<close> of the method's name, for a name without characters that need an escape.\<close>

definition unsupported :: "ServiceTokenManager \<Rightarrow> goerror" where
  "unsupported m = ENew (''unsupported token auth method '' @ [CHR 0x22] @ authMethod m @ [CHR 0x22])"

definition Initialize :: "'w tok_env \<Rightarrow> 'w tok_op" where
  "Initialize env s =
     (case s of (m, w) \<Rightarrow>
      (case errIfUnhealthy m of
         Some e \<Rightarrow> (Some e, (m, w))
       | None \<Rightarrow>
           if authMethod m = TokenAuthMethodBootstrapToken then
             (if client m = None
              then (Some (ENew (''bootstrap token exchange via '' @ tokenEndpoint m @ '' failed: service client not configured'')), (m, w))
              else case sc_Initialize env w of
                (Some e, w1) \<Rightarrow> (Some (wrapEndpointError ''bootstrap token exchange'' (tokenEndpoint m) e), (m, w1))
              | (None, w1) \<Rightarrow> (None, (m, w1)))
           else if authMethod m = TokenAuthMethodMTLSIdentity then
             withRetries env ''service identity session exchange'' (sessionEndpoint m) (BootstrapMaxAttempts (config m))
               (BootstrapInitialBackoff (config m)) (BootstrapMaxBackoff (config m)) False (initializeMTLS env) (m, w)
           else (Some (unsupported m), (m, w))))"

definition bootstrap_refresh :: "'w tok_env \<Rightarrow> 'w tok_op" where
  "bootstrap_refresh env s =
     (case s of (m, w) \<Rightarrow>
      if client m = None then (Some (ENew ''service client not configured''), (m, w))
      else case sc_RefreshTokenIfNeeded env w of
        (Some e, w1) \<Rightarrow> (Some (wrapEndpointError ''service token refresh'' (tokenEndpoint m) e), (m, w1))
      | (None, w1) \<Rightarrow> (None, (m, w1)))"

definition RefreshTokenIfNeeded :: "'w tok_env \<Rightarrow> 'w tok_op" where
  "RefreshTokenIfNeeded env s =
     (case s of (m, w) \<Rightarrow>
      (case errIfUnhealthy m of
         Some e \<Rightarrow> (Some e, (m, w))
       | None \<Rightarrow>
           if authMethod m = TokenAuthMethodBootstrapToken then
             withRetries env ''service token refresh'' (tokenEndpoint m) (refreshMaxAttempts m) (refreshBackoff m)
               (refreshMaxBackoff m) True (bootstrap_refresh env) (m, w)
           else if authMethod m = TokenAuthMethodMTLSIdentity then
             (if \<not> mtlsNeedsRefresh env (m, w) then (None, (m, w))
              else withRetries env ''service token refresh'' (tokenEndpoint m) (refreshMaxAttempts m) (refreshBackoff m)
                (refreshMaxBackoff m) True (refreshMTLS env) (m, w))
           else (Some (unsupported m), (m, w))))"

definition token_text :: "string \<Rightarrow> ServiceToken option \<Rightarrow> string result" where
  "token_text endpoint t =
     (case t of
        None \<Rightarrow> Inl (ENew (''service token unavailable from '' @ endpoint))
      | Some t \<Rightarrow> if TrimSpace (Token t) = '''' then Inl (ENew (''service token unavailable from '' @ endpoint))
                 else Inr (TrimSpace (Token t)))"

definition GetToken :: "'w tok_env \<Rightarrow> 'w tstate \<Rightarrow> string result \<times> 'w tstate" where
  "GetToken env s =
     (case errIfUnhealthy (fst s) of
        Some e \<Rightarrow> (Inl e, s)
      | None \<Rightarrow>
          (case RefreshTokenIfNeeded env s of
             (Some e, s1) \<Rightarrow> (Inl e, s1)
           | (None, (m, w)) \<Rightarrow>
               if authMethod m = TokenAuthMethodBootstrapToken then
                 (if client m = None then (Inl (ENew (''service token unavailable from '' @ tokenEndpoint m)), (m, w))
                  else (token_text (tokenEndpoint m) (sc_GetServiceToken env w), (m, w)))
               else if authMethod m = TokenAuthMethodMTLSIdentity then (token_text (sessionEndpoint m) (token m), (m, w))
               else (Inl (unsupported m), (m, w))))"

text \<open>
  The periodic worker on the ticks that come before the context is cancelled; the result also says
  whether the worker gave up.
\<close>

fun runAutoRefresh :: "'w tok_env \<Rightarrow> nat \<Rightarrow> 'w tstate \<Rightarrow> bool \<times> 'w tstate" where
  "runAutoRefresh env 0 s = (False, s)"
| "runAutoRefresh env (Suc ticks) s =
     (let (e, s1) = RefreshTokenIfNeeded env s in
      if e \<noteq> None \<and> isUnhealthy (fst s1) then (True, s1) else runAutoRefresh env ticks s1)"

section \<open>Configuration: normal form\<close>

lemma or_default_idem [simp]: "TrimSpace d = d \<Longrightarrow> or_default (or_default x d) d = or_default x d"
  by (simp add: or_default_def)

lemma pos_or_idem [simp]: "pos_or (pos_or x d) d = pos_or x d"
  by (simp add: pos_or_def)

lemma pos_or_pos: "0 < d \<Longrightarrow> 0 < pos_or x d"
  by (simp add: pos_or_def)

lemma default_texts: "TrimSpace ''smd'' = ''smd''" "TrimSpace ''metadata-service'' = ''metadata-service''"
    "TrimSpace ''bootstrap_token'' = ''bootstrap_token''" "TrimSpace ''mtls_identity'' = ''mtls_identity''"
  by code_simp+

lemma merge_config_positive:
  "0 < RefreshMaxAttempts (merge_config c)" "0 < RefreshInitialBackoff (merge_config c)" "0 < RefreshMaxBackoff (merge_config c)"
  "0 < BootstrapMaxAttempts (merge_config c)" "0 < BootstrapInitialBackoff (merge_config c)" "0 < BootstrapMaxBackoff (merge_config c)"
  "0 < RefreshBefore (merge_config c)" "0 < AutoRefreshInterval (merge_config c)"
  by (simp_all add: merge_config_def DefaultTokenExchangeConfig_def pos_or_pos)

text \<open>The replacements after the merge never apply, because the merged numbers are positive.\<close>

lemma normalize_simp:
  "normalizeTokenExchangeConfig c =
     (let d = merge_config c in
      if AuthMethod d = [] then
        d\<lparr>AuthMethod := (if ServiceIdentityCert d \<noteq> [] \<and> ServiceIdentityKey d \<noteq> [] then ''mtls_identity'' else ''bootstrap_token'')\<rparr>
      else d)"
  using merge_config_positive(1-3) [of c] by (simp add: normalizeTokenExchangeConfig_def Let_def)

lemma merge_config_auth [simp]: "merge_config (c\<lparr>AuthMethod := a\<rparr>) = (merge_config c)\<lparr>AuthMethod := or_default a []\<rparr>"
  by (simp add: merge_config_def DefaultTokenExchangeConfig_def)

lemma merge_config_idem [simp]: "merge_config (merge_config c) = merge_config c"
  by (simp add: merge_config_def DefaultTokenExchangeConfig_def default_texts)

section \<open>What the retries keep\<close>

text \<open>
  The contract of an operation that is retried: what it and the pauses keep, the retries keep. The
  pauses are known to be positive and no longer than the maximum.
\<close>

locale retried =
  fixes env :: "'w tok_env" and f :: "'w tok_op" and inv :: "'w tstate \<Rightarrow> bool" and maxB :: duration
  assumes f_inv: "inv s \<Longrightarrow> inv (snd (f s))"
    and sleep_inv: "inv (m, w) \<Longrightarrow> 0 < d \<Longrightarrow> d \<le> maxB \<Longrightarrow> inv (m, snd (sleep_or_done env d w))"
    and mark_inv: "inv (m, w) \<Longrightarrow> inv (m\<lparr>unhealthy := b, unhealthyErr := t\<rparr>, w)"
begin

lemma retry_loop_inv:
  assumes maxB: "0 < maxB" "maxB < 2 ^ 62" and "inv s" and "0 < backoff" and "backoff < 2 ^ 62"
  shows "inv (snd (retry_loop env k backoff maxB f s))"
  using assms(3-5)
proof (induction k arbitrary: backoff s)
  case (Suc k)
  obtain r m1 w1 where f: "f s = (r, (m1, w1))" by (metis surj_pair)
  have i1: "inv (m1, w1)" using f_inv [OF Suc.prems(1)] f by simp
  let ?w = "if maxB < backoff then maxB else backoff"
  let ?b = "if maxB < backoff * 2 then maxB else backoff * 2"
  obtain d w2 where d: "sleep_or_done env ?w w1 = (d, w2)" by (metis surj_pair)
  have i2: "inv (m1, w2)" using sleep_inv [OF i1, of ?w] d maxB(1) Suc.prems(2) by (auto split: if_splits)
  have "int64 (backoff * 2) = backoff * 2" using Suc.prems(2,3) by (intro int64_id) auto
  moreover have "inv (snd (retry_loop env k ?b maxB f (m1, w2)))"
    using i2 maxB Suc.prems(2) by (intro Suc.IH) auto
  ultimately show ?case
    using Suc.prems(1) i1 i2 f d maxB(1) by (auto simp: Let_def split: option.splits prod.splits)
qed simp

lemma withRetries_inv:
  assumes "0 < maxB" and "maxB < 2 ^ 62" and "inv s" and "initialBackoff < 2 ^ 62"
  shows "inv (snd (withRetries env action endpoint attempts initialBackoff maxB failClosed f s))"
proof -
  let ?b = "if initialBackoff \<le> 0 then second else initialBackoff"
  let ?k = "nat (if attempts \<le> 0 then 1 else attempts)"
  obtain r m w where l: "retry_loop env ?k ?b maxB f s = (r, (m, w))" by (metis surj_pair)
  have "inv (snd (retry_loop env ?k ?b maxB f s))" using assms by (intro retry_loop_inv) auto
  then have i: "inv (m, w)" unfolding l by simp
  then show ?thesis
    unfolding withRetries_def Let_def l by (cases r) (simp_all add: markUnhealthy_def mark_inv)
qed

end

text \<open>Both exchanges store tokens only in one way, so what they store is usable.\<close>

definition tok_ok :: "ServiceTokenManager \<Rightarrow> bool" where
  "tok_ok m \<longleftrightarrow> (\<forall>t. token m = Some t \<longrightarrow> Token t \<noteq> '''' \<and> TrimSpace (Token t) = Token t \<and> ExpiresAt t \<noteq> None \<and>
     refreshToken m \<noteq> '''' \<and> refreshExpiry m \<noteq> None)"

lemma tok_ok_update [wf_rules]: "tok_ok m \<Longrightarrow> tok_ok (snd (updateMTLSTokens now oa m))"
  by (auto simp: updateMTLSTokens_def tok_ok_def)

lemma ensureMTLSHTTPClient_frame:
  assumes "ensureMTLSHTTPClient env m = (r, m')"
  shows "token m' = token m" "refreshToken m' = refreshToken m" "refreshExpiry m' = refreshExpiry m"
    "config m' = config m" "authMethod m' = authMethod m" "unhealthy m' = unhealthy m" "sessionEndpoint m' = sessionEndpoint m"
    "tokenEndpoint m' = tokenEndpoint m" "client m' = client m" "scopes m' = scopes m"
  using assms by (auto simp: ensureMTLSHTTPClient_def Let_def split: option.splits sum.splits if_splits)

lemma tok_ok_ensure [wf_rules]: "tok_ok m \<Longrightarrow> tok_ok (snd (ensureMTLSHTTPClient env m))"
  using ensureMTLSHTTPClient_frame [of env m, OF surjective_pairing] by (simp add: tok_ok_def)

lemma tok_ok_store [wf_rules]: "tok_ok (fst s) \<Longrightarrow> tok_ok (fst (snd (store_answer env resp s)))"
  by (auto simp: store_answer_def Let_def case_prod_unfold intro: wf_rules split: sum.splits)

lemma tok_ok_initialize: "tok_ok (fst s) \<Longrightarrow> tok_ok (fst (snd (initializeMTLS env s)))"
  using tok_ok_ensure [of "fst s" env]
  by (auto simp: initializeMTLS_def Let_def intro!: wf_rules split: prod.splits sum.splits option.splits)

lemma tok_ok_refresh: "tok_ok (fst s) \<Longrightarrow> tok_ok (fst (snd (refreshMTLS env s)))"
  using tok_ok_ensure [of "fst s" env]
  by (auto simp: refreshMTLS_def Let_def intro!: wf_rules split: prod.splits sum.splits option.splits)

interpretation init_retried: retried env "initializeMTLS env" "\<lambda>s. tok_ok (fst s)" maxB for env maxB
  by unfold_locales (simp_all add: tok_ok_initialize, simp add: tok_ok_def)

interpretation refresh_retried: retried env "refreshMTLS env" "\<lambda>s. tok_ok (fst s)" maxB for env maxB
  by unfold_locales (simp_all add: tok_ok_refresh, simp add: tok_ok_def)

interpretation bootstrap_retried: retried env "bootstrap_refresh env" "\<lambda>s. tok_ok (fst s)" maxB for env maxB
  by unfold_locales (auto simp: bootstrap_refresh_def tok_ok_def split: prod.splits option.splits)

section \<open>How often an operation is tried\<close>

lemma retry_loop_count:
  fixes cnt :: "'w tstate \<Rightarrow> nat"
  assumes "\<And>s. cnt (snd (f s)) \<le> Suc (cnt s)" and "\<And>m w d. cnt (m, snd (sleep_or_done env d w)) = cnt (m, w)"
  shows "cnt (snd (retry_loop env k backoff maxB f s)) \<le> cnt s + k"
proof (induction k arbitrary: backoff s)
  case (Suc k)
  obtain r m1 w1 where f: "f s = (r, (m1, w1))" by (metis surj_pair)
  have c1: "cnt (m1, w1) \<le> Suc (cnt s)" using assms(1) [of s] f by simp
  let ?w = "if 0 < maxB \<and> maxB < backoff then maxB else backoff"
  obtain d w2 where d: "sleep_or_done env ?w w1 = (d, w2)" by (metis surj_pair)
  have c2: "cnt (m1, w2) \<le> Suc (cnt s)" using assms(2) [of m1 ?w w1] c1 d by simp
  have c3: "cnt (snd (retry_loop env k b maxB f (m1, w2))) \<le> Suc (cnt s + k)" for b
    using Suc.IH [of b "(m1, w2)"] c2 by simp
  show ?case
    unfolding retry_loop.simps f Let_def prod.case d using c1 c2 c3 by (simp split: option.splits)
qed simp

text \<open>Without cancellation the loop ends with a success or with its attempts used up.\<close>

lemma retry_loop_uncancelled:
  assumes "\<And>w. ctx_err env w = None" and "\<And>d w. fst (sleep_or_done env d w) = None"
    and "retry_loop env k backoff maxB f s = (Returned e, s')"
  shows "e = None"
  using assms(3)
proof (induction k arbitrary: backoff s)
  case (Suc k)
  have "sleep_or_done env d w = (r, w') \<Longrightarrow> r = None" for d w r w' using assms(2) [of d w] by simp
  with Suc show ?case by (auto simp: assms(1) Let_def split: option.splits prod.splits if_splits)
qed simp

text \<open>A success of the retries is a success of one attempt, on a state that keeps what attempts keep.\<close>

lemma retry_loop_success:
  assumes "retry_loop env k b maxB f s = (Returned None, s')" and "P s" and "\<And>s. P s \<Longrightarrow> P (snd (f s))"
    and "\<And>m w d. P (m, w) \<Longrightarrow> P (m, snd (sleep_or_done env d w))"
  shows "\<exists>s1. P s1 \<and> f s1 = (None, s')"
  using assms(1,2)
proof (induction k arbitrary: b s)
  case (Suc k)
  obtain r m1 w1 where f: "f s = (r, (m1, w1))" by (metis surj_pair)
  have p1: "P (m1, w1)" using assms(3) [OF Suc.prems(2)] f by simp
  let ?w = "if 0 < maxB \<and> maxB < b then maxB else b"
  obtain d w2 where d: "sleep_or_done env ?w w1 = (d, w2)" by (metis surj_pair)
  have p2: "P (m1, w2)" using assms(4) [OF p1, of ?w] d by simp
  show ?case
  proof (cases r)
    case None
    with Suc.prems(1) f have "s' = (m1, w1)" by (simp split: option.splits)
    with f None Suc.prems(2) show ?thesis by (intro exI [of _ s]) simp
  next
    case (Some e)
    with Suc.prems(1) obtain b2 where "retry_loop env k b2 maxB f (m1, w2) = (Returned None, s')"
      unfolding retry_loop.simps f Let_def prod.case d by (simp split: option.splits if_splits)
    then show ?thesis by (rule Suc.IH [OF _ p2])
  qed
qed simp

lemma withRetries_success:
  assumes "withRetries env action endpoint attempts b maxB failClosed f s = (None, s')" and "P s" and "\<And>s. P s \<Longrightarrow> P (snd (f s))"
    and "\<And>m w d. P (m, w) \<Longrightarrow> P (m, snd (sleep_or_done env d w))"
  shows "\<exists>s1. P s1 \<and> f s1 = (None, s')"
proof -
  obtain r m1 w1 where l: "retry_loop env (nat (if attempts \<le> 0 then 1 else attempts)) (if b \<le> 0 then second else b) maxB f s = (r, (m1, w1))"
    by (metis surj_pair)
  with assms(1) have "r = Returned None \<and> s' = (m1, w1)"
    unfolding withRetries_def Let_def by (cases r) (auto simp: markUnhealthy_def split: if_splits)
  with l show ?thesis
    using retry_loop_success [where P = P and f = f and s = s and env = env and maxB = maxB] assms(2-4) by blast
qed

lemma updateMTLSTokens_auth: "authMethod (snd (updateMTLSTokens now oa m)) = authMethod m"
  by (simp add: updateMTLSTokens_def)

lemma store_answer_auth: "authMethod (fst (snd (store_answer env r s))) = authMethod (fst s)"
  using updateMTLSTokens_auth by (auto simp: store_answer_def Let_def split: prod.splits sum.splits) (metis snd_conv)

lemma refreshMTLS_auth: "authMethod (fst (snd (refreshMTLS env s))) = authMethod (fst s)"
  by (auto simp: refreshMTLS_def Let_def store_answer_auth dest: ensureMTLSHTTPClient_frame(5) split: prod.splits sum.splits option.splits)

lemma refreshMTLS_ok:
  "refreshMTLS env s = (None, (m', w')) \<Longrightarrow> \<exists>oa m1. updateMTLSTokens (tnow env w') oa m1 = (None, m')"
  by (auto simp: refreshMTLS_def store_answer_def Let_def split: prod.splits sum.splits option.splits if_splits)

text \<open>The stored tokens stay usable through every operation of a manager with sane backoffs.\<close>

definition sane_backoffs :: "ServiceTokenManager \<Rightarrow> bool" where
  "sane_backoffs m \<longleftrightarrow> 0 < BootstrapMaxBackoff (config m) \<and> BootstrapMaxBackoff (config m) < 2 ^ 62 \<and>
     BootstrapInitialBackoff (config m) < 2 ^ 62 \<and> 0 < refreshMaxBackoff m \<and> refreshMaxBackoff m < 2 ^ 62 \<and> refreshBackoff m < 2 ^ 62"

lemma tok_ok_ops [wf_rules]:
  assumes "tok_ok (fst s)" and "sane_backoffs (fst s)"
  shows "tok_ok (fst (snd (Initialize env s)))" and "tok_ok (fst (snd (RefreshTokenIfNeeded env s)))"
    and "tok_ok (fst (snd (GetToken env s)))"
proof -
  obtain m w where s: "s = (m, w)" by (cases s)
  note a = assms [unfolded s fst_conv]
  have i: "tok_ok (fst (snd (withRetries env x y k (BootstrapInitialBackoff (config m)) (BootstrapMaxBackoff (config m)) b (initializeMTLS env) (m, w))))" for x y k b
    using init_retried.withRetries_inv [of "BootstrapMaxBackoff (config m)" "(m, w)" "BootstrapInitialBackoff (config m)"] a
    by (simp add: sane_backoffs_def)
  have r: "tok_ok (fst (snd (withRetries env x y k (refreshBackoff m) (refreshMaxBackoff m) b (refreshMTLS env) (m, w))))" for x y k b
    using refresh_retried.withRetries_inv [of "refreshMaxBackoff m" "(m, w)" "refreshBackoff m"] a by (simp add: sane_backoffs_def)
  have b: "tok_ok (fst (snd (withRetries env x y k (refreshBackoff m) (refreshMaxBackoff m) b (bootstrap_refresh env) (m, w))))" for x y k b
    using bootstrap_retried.withRetries_inv [of "refreshMaxBackoff m" "(m, w)" "refreshBackoff m"] a by (simp add: sane_backoffs_def)
  show "tok_ok (fst (snd (Initialize env s)))"
    using a i by (simp add: s Initialize_def split: option.splits prod.splits)
  show ref: "tok_ok (fst (snd (RefreshTokenIfNeeded env s)))"
    using a r b by (simp add: s RefreshTokenIfNeeded_def split: option.splits)
  then show "tok_ok (fst (snd (GetToken env s)))"
    using a by (auto simp: s GetToken_def split: option.splits prod.splits)
qed

section \<open>Runs of the manager\<close>

inductive tok_step :: "'w tok_env \<Rightarrow> 'w tstate \<Rightarrow> 'w tstate \<Rightarrow> bool" for env where
  init: "tok_step env s (snd (Initialize env s))"
| refresh: "tok_step env s (snd (RefreshTokenIfNeeded env s))"
| get: "tok_step env s (snd (GetToken env s))"
| worker: "tok_step env s (snd (runAutoRefresh env n s))"

lemma unhealthy_ops:
  assumes "unhealthy (fst s)"
  shows "snd (Initialize env s) = s" and "snd (RefreshTokenIfNeeded env s) = s" and "snd (GetToken env s) = s"
    and "\<exists>e. fst (Initialize env s) = Some e" and "\<exists>e. fst (RefreshTokenIfNeeded env s) = Some e" and "\<exists>e. fst (GetToken env s) = Inl e"
  using assms
  by (auto simp: Initialize_def RefreshTokenIfNeeded_def GetToken_def errIfUnhealthy_def split: prod.splits)

lemma unhealthy_worker: "unhealthy (fst s) \<Longrightarrow> snd (runAutoRefresh env n s) = s"
proof (cases n)
  case (Suc k)
  assume u: "unhealthy (fst s)"
  obtain e where "RefreshTokenIfNeeded env s = (Some e, s)"
    using unhealthy_ops(2,5) [OF u, of env] by (metis prod.collapse)
  then show ?thesis using u by (simp add: Suc isUnhealthy_def)
qed simp

lemma unhealthy_stuck: "(tok_step env)\<^sup>*\<^sup>* s s' \<Longrightarrow> unhealthy (fst s) \<Longrightarrow> s' = s"
  by (induction rule: rtranclp_induct) (auto elim!: tok_step.cases simp: unhealthy_ops unhealthy_worker)

lemma withRetries_fails_closed:
  assumes "\<And>w. ctx_err env w = None" and "\<And>d w. fst (sleep_or_done env d w) = None"
    and "withRetries env action endpoint attempts b maxB True f s = (Some e, (m, w))"
  shows "unhealthy m"
proof -
  let ?k = "nat (if attempts \<le> 0 then 1 else attempts)"
  let ?b = "if b \<le> 0 then second else b"
  obtain r m1 w1 where l: "retry_loop env ?k ?b maxB f s = (r, (m1, w1))" by (metis surj_pair)
  show ?thesis
  proof (cases r)
    case (Returned x)
    with retry_loop_uncancelled [OF assms(1,2)] l have "x = None" by blast
    with Returned assms(3) show ?thesis unfolding withRetries_def Let_def l by simp
  next
    case (Exhausted x)
    with assms(3) show ?thesis unfolding withRetries_def Let_def l by (auto simp: markUnhealthy_def)
  qed
qed

section \<open>Properties\<close>

text \<open>
  A TokenSmith that can be reached and answers with fixed tokens, or cannot be reached; the
  surroundings count the requests and keep the pauses.
\<close>

definition tok_env0 :: "bool \<Rightarrow> (nat \<times> duration list) tok_env" where
  "tok_env0 up = \<lparr>ctx_err = (\<lambda>_. None), sleep_or_done = (\<lambda>d w. (None, (fst w, d # snd w))), tnow = (\<lambda>_. 0),
     sc_Initialize = (\<lambda>w. (None, w)), sc_RefreshTokenIfNeeded = (\<lambda>w. (None, w)), sc_GetServiceToken = (\<lambda>_. None),
     newRequest = (\<lambda>_. None),
     http_Do = (\<lambda>c r w. (if up then Inr \<lparr>rs_status = 200, rs_body = ''ok''\<rparr> else Inl (ENew ''no route''), (Suc (fst w), snd w))),
     decode_oauth = (\<lambda>_. Inr \<lparr>AccessToken = '' tok '', ExpiresIn = 3600, RefreshToken = ''ref'', RefreshExpiresIn = 7200\<rparr>),
     LoadX509KeyPair = (\<lambda>_ _. None), read_ca = (\<lambda>_. Inr ''pem''), AppendCertsFromPEM = (\<lambda>_. True),
     GrantTypeRefreshToken = ''refresh_token''\<rparr>"

definition cfg_mtls :: TokenExchangeConfig where
  "cfg_mtls = DefaultTokenExchangeConfig\<lparr>TokenSmithURL := ''ts'', AuthMethod := ''mtls_identity'', ServiceIdentityCert := ''c'',
     ServiceIdentityKey := ''k'', BootstrapMaxAttempts := 2, RefreshMaxAttempts := 2\<rparr>"

lemma trims: "TrimSpace ''c'' = ''c''" "TrimSpace ''k'' = ''k''" "TrimSpace ''ts'' = ''ts''" "TrimSpace '' tok '' = ''tok''"
    "TrimSpace ''tok'' = ''tok''" "TrimSpace ''ref'' = ''ref''" "TrimRight (CHR ''/'') ''ts'' = ''ts''"
  by code_simp+

lemmas cfg_mtls_simps = cfg_mtls_def DefaultTokenExchangeConfig_def normalize_simp merge_config_def or_default_def pos_or_def
  default_texts trims

lemma mgr_mtls:
  "authMethod (NewServiceTokenManager cfg_mtls) = ''mtls_identity''" "unhealthy (NewServiceTokenManager cfg_mtls) = False"
  "refreshMaxAttempts (NewServiceTokenManager cfg_mtls) = 2" "token (NewServiceTokenManager cfg_mtls) = None"
  "config (NewServiceTokenManager cfg_mtls) = cfg_mtls\<lparr>AuthMethod := ''mtls_identity''\<rparr>" "refreshBackoff (NewServiceTokenManager cfg_mtls) = second"
  "refreshMaxBackoff (NewServiceTokenManager cfg_mtls) = 15 * second" "httpClient (NewServiceTokenManager cfg_mtls) = None"
  "refreshToken (NewServiceTokenManager cfg_mtls) = ''''" "refreshExpiry (NewServiceTokenManager cfg_mtls) = None"
  by (simp_all add: NewServiceTokenManager_def cfg_mtls_simps Let_def)

text \<open>
  The normal form of the configuration: normalising it again changes nothing, all
  durations and attempt counts in it are positive, and it names a target service, a service and an
  authentication method; without an explicit method the identity flow is chosen exactly when both
  the certificate and the key are given.
\<close>

theorem normalize_config_normal_form:
  "normalizeTokenExchangeConfig (normalizeTokenExchangeConfig c) = normalizeTokenExchangeConfig c \<and>
   (let n = normalizeTokenExchangeConfig c in
    0 < RefreshBefore n \<and> 0 < AutoRefreshInterval n \<and> 0 < BootstrapMaxAttempts n \<and> 0 < BootstrapInitialBackoff n \<and>
    0 < BootstrapMaxBackoff n \<and> 0 < RefreshMaxAttempts n \<and> 0 < RefreshInitialBackoff n \<and> 0 < RefreshMaxBackoff n \<and>
    TargetService n \<noteq> '''' \<and> ServiceName n \<noteq> '''' \<and> ServiceID n \<noteq> '''' \<and>
    AuthMethod n = (if TrimSpace (AuthMethod c) \<noteq> '''' then TrimSpace (AuthMethod c)
      else if TrimSpace (ServiceIdentityCert c) \<noteq> '''' \<and> TrimSpace (ServiceIdentityKey c) \<noteq> ''''
      then ''mtls_identity'' else ''bootstrap_token''))"
proof -
  have names: "TargetService (merge_config c) \<noteq> []" "ServiceName (merge_config c) \<noteq> []" "ServiceID (merge_config c) \<noteq> []"
    "AuthMethod (merge_config c) = TrimSpace (AuthMethod c)" "ServiceIdentityCert (merge_config c) = TrimSpace (ServiceIdentityCert c)"
    "ServiceIdentityKey (merge_config c) = TrimSpace (ServiceIdentityKey c)"
    by (simp_all add: merge_config_def DefaultTokenExchangeConfig_def or_default_def Let_def)
  have idem: "normalizeTokenExchangeConfig (normalizeTokenExchangeConfig c) = normalizeTokenExchangeConfig c"
    by (cases "AuthMethod (merge_config c) = []") (simp_all add: normalize_simp Let_def or_default_def default_texts)
  show ?thesis
    using idem names merge_config_positive [of c] by (simp add: normalize_simp Let_def)
qed

text \<open>
  C35 (safety). Failing closed: when a refresh fails for another reason than a cancelled context, the
  manager is unhealthy, and from then on, whatever operations run, nothing changes any more, neither
  the manager nor anything outside: no request is sent and no token is given out.
\<close>

theorem refresh_failure_is_final:
  assumes "\<And>w. ctx_err env w = None" and "\<And>d w. fst (sleep_or_done env d w) = None"
    and "authMethod m \<in> {''bootstrap_token'', ''mtls_identity''}"
    and "RefreshTokenIfNeeded env (m, w) = (Some e, (m', w'))" and "(tok_step env)\<^sup>*\<^sup>* (m', w') s"
  shows "unhealthy m' \<and> s = (m', w') \<and> (\<exists>e. GetToken env s = (Inl e, s)) \<and> HealthStatus (fst s) = (False, unhealthyErr m')"
proof -
  have u: "unhealthy m'"
  proof (cases "unhealthy m")
    case True
    then show ?thesis using unhealthy_ops(2) [of "(m, w)" env] assms(4) by simp
  next
    case False
    then show ?thesis
      using assms(3,4) withRetries_fails_closed [OF assms(1,2)]
      by (auto simp: RefreshTokenIfNeeded_def errIfUnhealthy_def split: if_splits)
  qed
  moreover have "s = (m', w')" using unhealthy_stuck [OF assms(5)] u by simp
  ultimately show ?thesis
    using unhealthy_ops(3,6) [of "(m', w')" env] by (auto simp: HealthStatus_def healthStatus_def prod_eq_iff)
qed

text \<open>A manager of the identity flow that has its TLS client and no tokens yet.\<close>

definition mgr1 :: ServiceTokenManager where
  "mgr1 = (NewServiceTokenManager cfg_mtls)\<lparr>httpClient := Some \<lparr>tls_cert = ''c'', tls_key = ''k'', tls_rootCAs = None\<rparr>\<rparr>"

lemma mgr1_simps:
  "authMethod mgr1 = ''mtls_identity''" "unhealthy mgr1 = False" "refreshMaxAttempts mgr1 = 2" "token mgr1 = None"
  "refreshBackoff mgr1 = second" "refreshMaxBackoff mgr1 = 15 * second" "refreshToken mgr1 = []" "refreshExpiry mgr1 = None"
  "httpClient mgr1 = Some \<lparr>tls_cert = ''c'', tls_key = ''k'', tls_rootCAs = None\<rparr>"
  by (simp_all add: mgr1_def mgr_mtls)

lemma refresh_mgr1: "refreshMTLS env (mgr1, w) = (Some (ENew ''missing refresh token''), (mgr1, w))"
  by (simp add: refreshMTLS_def ensureMTLSHTTPClient_def mgr1_simps)

theorem refresh_failure_is_final_witness:
  "\<exists>e m' w'. RefreshTokenIfNeeded (tok_env0 True) (mgr1, (0, [])) = (Some e, (m', w')) \<and>
     unhealthy m' \<and> \<not> res_ok (fst (GetToken (tok_env0 True) (m', w')))"
proof -
  let ?env = "tok_env0 True"
  obtain r m' w' where r: "RefreshTokenIfNeeded ?env (mgr1, (0, [])) = (r, (m', w'))" by (metis surj_pair)
  have "ctx_err ?env w = None" "sleep_or_done ?env d w = (None, (fst w, d # snd w))" for d w
    by (simp_all add: tok_env0_def)
  then obtain e where e: "r = Some e"
    using r by (auto simp: RefreshTokenIfNeeded_def errIfUnhealthy_def mgr1_simps mtlsNeedsRefresh_def withRetries_def
        numeral_2_eq_2 refresh_mgr1 Let_def markUnhealthy_def)
  have "unhealthy m' \<and> (\<exists>e. GetToken ?env (m', w') = (Inl e, (m', w')))"
    using refresh_failure_is_final [OF _ _ _ r [unfolded e] rtranclp.rtrancl_refl] by (simp add: tok_env0_def mgr1_simps)
  with r e show ?thesis by fastforce
qed

text \<open>
  The startup exchange over mutual TLS sends at most the configured number of requests,
  and every pause between two of them is positive and no longer than the configured maximum; the
  pauses and the requests are read off the surroundings, and no other operation there adds to them.
\<close>

theorem startup_exchange_bounded:
  fixes env :: "'w tok_env" and reqs :: "'w \<Rightarrow> nat" and pauses :: "'w \<Rightarrow> duration list"
  assumes "\<And>d w. pauses (snd (sleep_or_done env d w)) = d # pauses w \<and> reqs (snd (sleep_or_done env d w)) = reqs w"
    and "\<And>c r w. pauses (snd (http_Do env c r w)) = pauses w \<and> reqs (snd (http_Do env c r w)) = Suc (reqs w)"
    and "authMethod m = ''mtls_identity''" and "config m = normalizeTokenExchangeConfig cfg"
    and "BootstrapMaxBackoff (config m) < 2 ^ 62" and "BootstrapInitialBackoff (config m) < 2 ^ 62"
    and "Initialize env (m, w) = (e, (m', w'))"
  shows "reqs w' \<le> reqs w + nat (BootstrapMaxAttempts (config m)) \<and>
    (\<exists>ds. pauses w' = ds @ pauses w \<and> (\<forall>d \<in> set ds. 0 < d \<and> d \<le> BootstrapMaxBackoff (config m)))"
proof (cases "unhealthy m")
  case True
  then show ?thesis using unhealthy_ops(1) [of "(m, w)" env] assms(7) by auto
next
  case False
  let ?B = "BootstrapMaxBackoff (config m)" and ?A = "BootstrapMaxAttempts (config m)"
  let ?inv = "\<lambda>s. \<exists>ds. pauses (snd s) = ds @ pauses w \<and> (\<forall>d \<in> set ds. 0 < d \<and> d \<le> ?B)"
  have pos: "0 < ?B" "0 < ?A" using merge_config_positive [of cfg] assms(4) by (simp_all add: normalize_simp Let_def)
  have http: "pauses w2 = pauses w1 \<and> reqs w2 = Suc (reqs w1)" if "http_Do env c r w1 = (x, w2)" for c r w1 x w2
    using assms(2) [of c r w1] that by simp
  have store: "snd (snd (store_answer env r s)) = snd s" for r s
    by (simp add: store_answer_def Let_def split: prod.splits sum.splits)
  have f: "pauses (snd (snd (initializeMTLS env s))) = pauses (snd s) \<and> reqs (snd (snd (initializeMTLS env s))) \<le> Suc (reqs (snd s))" for s
    by (auto simp: initializeMTLS_def Let_def store dest: http split: prod.splits sum.splits option.splits)
  have i: "Initialize env (m, w) = withRetries env ''service identity session exchange'' (sessionEndpoint m) ?A
      (BootstrapInitialBackoff (config m)) ?B False (initializeMTLS env) (m, w)"
    using False assms(3) by (simp add: Initialize_def errIfUnhealthy_def)
  have "retried env (initializeMTLS env) ?inv ?B"
  proof
    fix m1 w1 d assume "?inv (m1, w1)" and d: "0 < d" "d \<le> ?B"
    then obtain ds where "pauses w1 = ds @ pauses w" "\<forall>d \<in> set ds. 0 < d \<and> d \<le> ?B" by auto
    with d assms(1) [of d w1] show "?inv (m1, snd (sleep_or_done env d w1))" by (intro exI [of _ "d # ds"]) auto
  qed (use f in auto)
  from retried.withRetries_inv [OF this pos(1) assms(5), of "(m, w)"] assms(6,7)
  have "?inv (m', w')" unfolding i by (metis append_Nil empty_iff list.set(1) snd_conv)
  moreover have "reqs w' \<le> reqs w + nat ?A"
  proof -
    obtain r m1 w1 where l: "retry_loop env (nat (if ?A \<le> 0 then 1 else ?A))
        (if BootstrapInitialBackoff (config m) \<le> 0 then second else BootstrapInitialBackoff (config m)) ?B (initializeMTLS env) (m, w) = (r, (m1, w1))"
      by (metis surj_pair)
    have sl: "reqs (snd (x, snd (sleep_or_done env d v))) = reqs (snd (x, v))" for x :: ServiceTokenManager and v d
      using assms(1) by simp
    have "reqs (snd (snd (r, (m1, w1)))) \<le> reqs (snd (m, w)) + nat (if ?A \<le> 0 then 1 else ?A)"
      unfolding l [symmetric] by (rule retry_loop_count [where cnt = "\<lambda>s. reqs (snd s)", OF conjunct2 [OF f] sl])
    then have "reqs w1 \<le> reqs w + nat ?A" using pos(2) by simp
    moreover have "w' = w1" using assms(7) unfolding i withRetries_def Let_def l by (cases r) auto
    ultimately show ?thesis by simp
  qed
  ultimately show ?thesis by simp
qed

theorem startup_exchange_bounded_witness:
  "fst (snd (snd (Initialize (tok_env0 False) (NewServiceTokenManager cfg_mtls, (0, []))))) \<le> 2"
proof -
  let ?m = "NewServiceTokenManager cfg_mtls"
  obtain e m' w' where i: "Initialize (tok_env0 False) (?m, (0, [])) = (e, (m', w'))" by (metis surj_pair)
  have c: "config ?m = normalizeTokenExchangeConfig cfg_mtls" by (simp add: NewServiceTokenManager_def Let_def)
  have b: "BootstrapMaxBackoff (config ?m) < 2 ^ 62" "BootstrapInitialBackoff (config ?m) < 2 ^ 62" "BootstrapMaxAttempts (config ?m) = 2"
    unfolding mgr_mtls by (simp_all add: cfg_mtls_def DefaultTokenExchangeConfig_def)
  have "fst w' \<le> fst (0, [] :: duration list) + nat (BootstrapMaxAttempts (config ?m))"
    using startup_exchange_bounded [where reqs = fst and pauses = snd, OF _ _ mgr_mtls(1) c b(1,2) i] by (simp add: tok_env0_def)
  then show ?thesis using b by (simp add: i)
qed

lemma token_text_ok: "token_text x k = Inr t \<Longrightarrow> t \<noteq> [] \<and> TrimSpace t = t \<and> (\<exists>tk. k = Some tk \<and> t = TrimSpace (Token tk))"
  by (auto simp: token_text_def split: option.splits if_splits)

lemma GetToken_not_blank: "fst (GetToken env s) = Inr t \<Longrightarrow> t \<noteq> [] \<and> TrimSpace t = t"
  by (cases s) (auto simp: GetToken_def dest: token_text_ok split: if_splits option.splits prod.splits)

text \<open>
  A token that \<open>GetToken\<close> hands out is not blank and carries no blanks around it. In
  the identity flow it is either the stored one, which then is valid for at least the configured
  time before expiry, and nothing was changed or sent, or one that a refresh in this very call
  stored with its expiry counted from the time of the answer.
\<close>

theorem handed_out_token_is_fresh:
  assumes "GetToken env (m, w) = (Inr t, (m', w'))"
  shows "t \<noteq> '''' \<and> TrimSpace t = t \<and>
    (authMethod m = ''mtls_identity'' \<longrightarrow>
       (m' = m \<and> w' = w \<and> (\<exists>tk x. token m = Some tk \<and> t = TrimSpace (Token tk) \<and> ExpiresAt tk = Some x \<and>
          RefreshBefore (config m) \<le> sub_sat x (tnow env w))) \<or>
       (\<exists>oa m1. updateMTLSTokens (tnow env w') oa m1 = (None, m') \<and> t = TrimSpace (AccessToken oa)))"
proof -
  from assms obtain m1 w1 where r: "RefreshTokenIfNeeded env (m, w) = (None, (m1, w1))" and h: "\<not> unhealthy m"
    by (auto simp: GetToken_def errIfUnhealthy_def split: if_splits option.splits prod.splits)
  have same: "m' = m1" "w' = w1" and nb: "t \<noteq> [] \<and> TrimSpace t = t"
    and stored: "authMethod m1 = ''mtls_identity'' \<Longrightarrow> \<exists>tk. token m1 = Some tk \<and> t = TrimSpace (Token tk)"
    using assms r h by (auto simp: GetToken_def errIfUnhealthy_def dest: token_text_ok split: if_splits)
  have "(m' = m \<and> w' = w \<and> (\<exists>tk x. token m = Some tk \<and> t = TrimSpace (Token tk) \<and> ExpiresAt tk = Some x \<and>
          RefreshBefore (config m) \<le> sub_sat x (tnow env w))) \<or>
       (\<exists>oa m1. updateMTLSTokens (tnow env w') oa m1 = (None, m') \<and> t = TrimSpace (AccessToken oa))"
    if a: "authMethod m = ''mtls_identity''"
  proof (cases "mtlsNeedsRefresh env (m, w)")
    case False
    then have "m1 = m" "w1 = w" using r a h by (simp_all add: RefreshTokenIfNeeded_def errIfUnhealthy_def)
    with False stored a same show ?thesis by (auto simp: mtlsNeedsRefresh_def split: option.splits)
  next
    case True
    then have "withRetries env ''service token refresh'' (tokenEndpoint m) (refreshMaxAttempts m) (refreshBackoff m)
        (refreshMaxBackoff m) True (refreshMTLS env) (m, w) = (None, (m1, w1))"
      using r a h by (simp add: RefreshTokenIfNeeded_def errIfUnhealthy_def)
    then have "\<exists>s. authMethod (fst s) = ''mtls_identity'' \<and> refreshMTLS env s = (None, (m1, w1))"
      by (rule withRetries_success [where P = "\<lambda>s. authMethod (fst s) = ''mtls_identity''"]) (simp_all add: a refreshMTLS_auth)
    then obtain s where s: "refreshMTLS env s = (None, (m1, w1))" and am: "authMethod (fst s) = ''mtls_identity''" by blast
    from refreshMTLS_ok [OF s] obtain oa m2 where u: "updateMTLSTokens (tnow env w1) oa m2 = (None, m1)" by blast
    have "authMethod m1 = ''mtls_identity''" using refreshMTLS_auth [of env s] s am by simp
    with stored obtain tk where "token m1 = Some tk" "t = TrimSpace (Token tk)" by blast
    moreover have "map_option Token (token m1) = Some (TrimSpace (AccessToken oa))"
      using u by (auto simp: updateMTLSTokens_def split: if_splits)
    ultimately have "t = TrimSpace (AccessToken oa)" by simp
    with u same show ?thesis by blast
  qed
  with nb show ?thesis by blast
qed

theorem handed_out_token_is_fresh_witness:
  "\<exists>m' w'. GetToken (tok_env0 True) (mgr1\<lparr>refreshToken := ''ref''\<rparr>, (0, [])) = (Inr ''tok'', (m', w')) \<and> TrimSpace ''tok'' = ''tok''"
proof -
  have "fst (GetToken (tok_env0 True) (mgr1\<lparr>refreshToken := ''ref''\<rparr>, (0, []))) = Inr ''tok''"
    by (simp add: GetToken_def errIfUnhealthy_def RefreshTokenIfNeeded_def mtlsNeedsRefresh_def withRetries_def numeral_2_eq_2
        refreshMTLS_def ensureMTLSHTTPClient_def mgr1_simps tok_env0_def store_answer_def decodeOAuthTokenResponse_def
        updateMTLSTokens_def trims token_text_def Let_def)
  then obtain m' w' where g: "GetToken (tok_env0 True) (mgr1\<lparr>refreshToken := ''ref''\<rparr>, (0, [])) = (Inr ''tok'', (m', w'))"
    by (metis prod.collapse)
  from handed_out_token_is_fresh [OF g] g show ?thesis by blast
qed

end
