(* ===== verification/SMD_Config.thy ===== *)
theory SMD_Config
  imports SMD_Service SMD_HTTP SMD_Token
begin

text \<open>
  \<open>cmd/server/smd.go\<close>: how the server chooses and configures its SMD client. Settings come from viper
  (flags, files) and from environment variables; both, and the files the service identity is read
  from, are fields of \<open>cfg_env\<close>. The runtime is an integration service over the in-memory client
  (Inl) or the HTTP client (Inr), with the token manager when TokenSmith is configured. The timeout of
  ten seconds around the first token exchange is part of the context of \<open>tok_env\<close>.
\<close>

section \<open>Settings\<close>

record cfg_env =
  viper_string :: "string \<Rightarrow> string"
  viper_IsSet :: "string \<Rightarrow> bool"
  viper_int :: "string \<Rightarrow> int"
  viper_bool :: "string \<Rightarrow> bool"
  os_Getenv :: "string \<Rightarrow> string"
  os_Stat_IsDir :: "string \<Rightarrow> bool result"
  os_Open :: "string \<Rightarrow> goerror option"
  file_Close :: "string \<Rightarrow> goerror option"
  mockSMD :: bool

text \<open>\<open>strconv.Atoi\<close> and \<open>strconv.ParseBool\<close>.\<close>

definition Atoi :: "string \<Rightarrow> int option" where
  "Atoi s =
     (let neg = (s \<noteq> [] \<and> hd s = CHR ''-'');
          digits = (if s \<noteq> [] \<and> hd s \<in> {CHR ''-'', CHR ''+''} then tl s else s);
          n = (if neg then - int (nat_of_digits digits) else int (nat_of_digits digits)) in
      if digits = [] \<or> \<not> list_all is_digit digits \<or> n < - (2 ^ 63) \<or> 2 ^ 63 \<le> n then None else Some n)"

definition ParseBool :: "string \<Rightarrow> bool option" where
  "ParseBool s =
     (if s \<in> {''1'', ''t'', ''T'', ''true'', ''TRUE'', ''True''} then Some True
      else if s \<in> {''0'', ''f'', ''F'', ''false'', ''FALSE'', ''False''} then Some False
      else None)"

fun first_env :: "cfg_env \<Rightarrow> string list \<Rightarrow> string" where
  "first_env env [] = ''''"
| "first_env env (v # vs) = (let x = TrimSpace (os_Getenv env v) in if x \<noteq> '''' then x else first_env env vs)"

definition firstConfiguredValue :: "cfg_env \<Rightarrow> string \<Rightarrow> string list \<Rightarrow> string" where
  "firstConfiguredValue env key envVars =
     (let x = TrimSpace (viper_string env key) in if x \<noteq> '''' then x else first_env env envVars)"

text \<open>The loop of the two typed settings: the first variable that parses.\<close>

fun first_parsed :: "cfg_env \<Rightarrow> (string \<Rightarrow> 'a option) \<Rightarrow> 'a \<Rightarrow> string list \<Rightarrow> 'a" where
  "first_parsed env parse d [] = d"
| "first_parsed env parse d (v # vs) =
     (let raw = TrimSpace (os_Getenv env v) in
      case (if raw \<noteq> '''' then parse raw else None) of Some x \<Rightarrow> x | None \<Rightarrow> first_parsed env parse d vs)"

definition configIntOrDefault :: "cfg_env \<Rightarrow> string \<Rightarrow> int \<Rightarrow> string list \<Rightarrow> int" where
  "configIntOrDefault env key d envKeys = (if viper_IsSet env key then viper_int env key else first_parsed env Atoi d envKeys)"

definition configBoolOrDefault :: "cfg_env \<Rightarrow> string \<Rightarrow> bool \<Rightarrow> string list \<Rightarrow> bool" where
  "configBoolOrDefault env key d envKeys = (if viper_IsSet env key then viper_bool env key else first_parsed env ParseBool d envKeys)"

definition defaultSMDSyncIntervalSeconds :: int where
  "defaultSMDSyncIntervalSeconds = 60"

definition smdSyncOptions :: "cfg_env \<Rightarrow> bool \<times> duration" where
  "smdSyncOptions env =
     (let enabled = configBoolOrDefault env ''smd_sync_enabled'' True [''SMD_SYNC_ENABLED''];
          i = configIntOrDefault env ''smd_sync_interval'' defaultSMDSyncIntervalSeconds [''SMD_SYNC_INTERVAL''];
          seconds = (if i \<le> 0 then defaultSMDSyncIntervalSeconds else i) in
      (enabled, int64 (seconds * second)))"

definition parseScopes :: "string \<Rightarrow> string list" where
  "parseScopes raw = (if TrimSpace raw = '''' then [] else filter (\<lambda>x. x \<noteq> '''') (map TrimSpace (Split (CHR '','') raw)))"

definition assertReadableFile :: "cfg_env \<Rightarrow> string \<Rightarrow> goerror option" where
  "assertReadableFile env path =
     (case os_Stat_IsDir env path of
        Inl e \<Rightarrow> Some e
      | Inr True \<Rightarrow> Some (ENew ''path is a directory'')
      | Inr False \<Rightarrow> (case os_Open env path of Some e \<Rightarrow> Some e | None \<Rightarrow> file_Close env path))"

section \<open>The token exchange\<close>

definition zero_token_config :: TokenExchangeConfig where
  "zero_token_config =
     \<lparr>TokenSmithURL = '''', BootstrapToken = '''', TargetService = '''', Scopes = [], AuthMethod = '''', ServiceIdentityCert = '''',
      ServiceIdentityKey = '''', ServiceIdentityCA = '''', RefreshBefore = 0, AutoRefreshInterval = 0, BootstrapMaxAttempts = 0,
      BootstrapInitialBackoff = 0, BootstrapMaxBackoff = 0, RefreshMaxAttempts = 0, RefreshInitialBackoff = 0, RefreshMaxBackoff = 0,
      ServiceName = '''', ServiceID = '''', InstanceID = '''', ClusterID = ''''\<rparr>"

text \<open>The settings that do not depend on the credentials.\<close>

definition token_base_config :: "cfg_env \<Rightarrow> string \<Rightarrow> TokenExchangeConfig" where
  "token_base_config env url =
     (let d = DefaultTokenExchangeConfig;
          target = firstConfiguredValue env ''tokensmith_target_service'' [''TOKENSMITH_TARGET_SERVICE''];
          skew = configIntOrDefault env ''tokensmith_refresh_skew_sec'' (RefreshBefore d div second) [''TOKENSMITH_REFRESH_SKEW_SEC''] in
      d\<lparr>TokenSmithURL := url,
        TargetService := (if target \<noteq> '''' then target else TargetService d),
        Scopes := parseScopes (firstConfiguredValue env ''tokensmith_scopes'' [''TOKENSMITH_SCOPES'']),
        RefreshBefore := (if 0 < skew then int64 (skew * second) else RefreshBefore d),
        ServiceIdentityCert := firstConfiguredValue env ''tokensmith_service_identity_cert'' [''TOKENSMITH_SERVICE_IDENTITY_CERT''],
        ServiceIdentityKey := firstConfiguredValue env ''tokensmith_service_identity_key'' [''TOKENSMITH_SERVICE_IDENTITY_KEY''],
        ServiceIdentityCA := firstConfiguredValue env ''tokensmith_service_identity_ca'' [''TOKENSMITH_SERVICE_IDENTITY_CA'']\<rparr>)"

definition with_bootstrap :: "TokenExchangeConfig \<Rightarrow> string \<Rightarrow> TokenExchangeConfig" where
  "with_bootstrap c t = c\<lparr>AuthMethod := TokenAuthMethodBootstrapToken, BootstrapToken := t\<rparr>"

definition loadTokenExchangeConfig :: "cfg_env \<Rightarrow> (TokenExchangeConfig \<times> bool) result" where
  "loadTokenExchangeConfig env =
     (let url = firstConfiguredValue env ''tokensmith_url'' [''TOKENSMITH_URL''] in
      if url = '''' then Inr (zero_token_config, False)
      else
        let c = token_base_config env url;
            boot = firstConfiguredValue env ''tokensmith_bootstrap_token'' [''TOKENSMITH_BOOTSTRAP_TOKEN''];
            cert = ServiceIdentityCert c; key = ServiceIdentityKey c in
        if cert \<noteq> '''' \<or> key \<noteq> '''' then
          (if cert = '''' \<or> key = '''' then
             (if boot \<noteq> '''' then Inr (with_bootstrap c boot, True)
              else Inl (ENew ''TokenSmith dynamic auth misconfigured: set both tokensmith_service_identity_cert and tokensmith_service_identity_key, or configure tokensmith_bootstrap_token''))
           else (case assertReadableFile env cert of
                   None \<Rightarrow>
                     (case assertReadableFile env key of
                        None \<Rightarrow> Inr (c\<lparr>AuthMethod := TokenAuthMethodMTLSIdentity\<rparr>, True)
                      | Some keyErr \<Rightarrow>
                          if boot \<noteq> '''' then Inr (with_bootstrap c boot, True)
                          else Inl (EWrap (''TokenSmith mTLS service identity key unreadable at '' @ key @ '': '') keyErr ''''))
                 | Some certErr \<Rightarrow>
                     if boot \<noteq> '''' then Inr (with_bootstrap c boot, True)
                     else Inl (EWrap (''TokenSmith mTLS service identity cert unreadable at '' @ cert @ '': '') certErr '''')))
        else if boot = '''' then
          Inl (ENew ''TokenSmith dynamic auth requires one of: (tokensmith_service_identity_cert + tokensmith_service_identity_key) or tokensmith_bootstrap_token'')
        else Inr (with_bootstrap c boot, True))"

section \<open>Clients\<close>

text \<open>The sample data: NICs are enabled and have their permanent address; an interface has one address.\<close>

definition sample_nic :: "string \<Rightarrow> string \<Rightarrow> string \<Rightarrow> EthernetNIC" where
  "sample_nic rid d mac = \<lparr>nic_RedfishID = rid, nic_Description = d, nic_MACAddress = mac, nic_PermanentMACAddress = mac, nic_InterfaceEnabled = True\<rparr>"

definition sample_iface :: "string \<Rightarrow> string \<Rightarrow> string \<Rightarrow> string \<Rightarrow> string \<Rightarrow> string \<Rightarrow> EthernetInterface" where
  "sample_iface i d mac ip net cid =
     \<lparr>if_ID = i, if_Description = d, if_MACAddress = mac, if_IPAddresses = [\<lparr>map_IPAddress = ip, map_Network = net\<rparr>],
      if_ComponentID = cid, if_Type = ''Node''\<rparr>"

definition createMockSMDClient :: MockSMDClient where
  "createMockSMDClient =
     (let mgmt = ''Node Management Network''; hsn = ''High Speed Network'';
          m0 = NewMockSMDClient;
          m1 = AddEthernetInterfaces ''x1000c0s0b0n0''
                 [sample_iface ''b42e99be1a6d'' mgmt ''b4:2e:99:be:1a:6d'' ''10.252.0.26'' ''HMN'' ''x1000c0s0b0n0'',
                  sample_iface ''b42e99be1a6e'' hsn ''b4:2e:99:be:1a:6e'' ''10.100.0.26'' ''HSN'' ''x1000c0s0b0n0'']
                 (AddEthernetNICInfo ''x1000c0s0b0n0'' [sample_nic ''1'' mgmt ''b4:2e:99:be:1a:6d'', sample_nic ''2'' hsn ''b4:2e:99:be:1a:6e'']
                 (AddGroupMembership ''x1000c0s0b0n0'' [''compute'', ''green'']
                 (AddComponent \<lparr>comp_ID = ''x1000c0s0b0n0'', comp_NID = 1000, comp_Role = ''compute'', comp_MAC = ''b4:2e:99:be:1a:6d'', comp_IP = ''10.252.0.26''\<rparr> m0)));
          m2 = AddEthernetInterfaces ''x1000c0s0b0n1''
                 [sample_iface ''b42e99be1a7d'' mgmt ''b4:2e:99:be:1a:7d'' ''10.252.0.27'' ''HMN'' ''x1000c0s0b0n1'',
                  sample_iface ''b42e99be1a7e'' hsn ''b4:2e:99:be:1a:7e'' ''10.100.0.27'' ''HSN'' ''x1000c0s0b0n1'']
                 (AddEthernetNICInfo ''x1000c0s0b0n1'' [sample_nic ''1'' mgmt ''b4:2e:99:be:1a:7d'', sample_nic ''2'' hsn ''b4:2e:99:be:1a:7e'']
                 (AddGroupMembership ''x1000c0s0b0n1'' [''compute'', ''blue'']
                 (AddComponent \<lparr>comp_ID = ''x1000c0s0b0n1'', comp_NID = 1001, comp_Role = ''compute'', comp_MAC = ''b4:2e:99:be:1a:7d'', comp_IP = ''10.252.0.27''\<rparr> m1))) in
      AddEthernetInterfaces ''x1000c0s1b0n0'' [sample_iface ''b42e99be1a8d'' mgmt ''b4:2e:99:be:1a:8d'' ''10.252.0.28'' ''HMN'' ''x1000c0s1b0n0'']
        (AddEthernetNICInfo ''x1000c0s1b0n0'' [sample_nic ''1'' mgmt ''b4:2e:99:be:1a:8d'']
        (AddGroupMembership ''x1000c0s1b0n0'' [''storage'']
        (AddComponent \<lparr>comp_ID = ''x1000c0s1b0n0'', comp_NID = 1002, comp_Role = ''storage'', comp_MAC = ''b4:2e:99:be:1a:8d'', comp_IP = ''10.252.0.28''\<rparr> m2))))"

definition requireSMDURLUnlessMock :: "cfg_env \<Rightarrow> string result" where
  "requireSMDURLUnlessMock env =
     (if mockSMD env then Inr ''''
      else let url = firstConfiguredValue env ''smd_url'' [''SMD_URL''] in
        if url = '''' then Inl (ENew ''SMD_URL is required unless --mock-smd is set'') else Inr url)"

text \<open>The client and, with TokenSmith, the manager whose refresh worker is started later.\<close>

definition initLiveSMDClient :: "cfg_env \<Rightarrow> 'w tok_env \<Rightarrow> 'w \<Rightarrow> (HTTPClient \<times> ServiceTokenManager option) result \<times> 'w" where
  "initLiveSMDClient env tenv w =
     (let url = firstConfiguredValue env ''smd_url'' [''SMD_URL''];
          jwt0 = firstConfiguredValue env ''smd_jwt'' [''SMD_JWT''];
          jwt = (if jwt0 = '''' then firstConfiguredValue env ''smd_token'' [''SMD_TOKEN''] else jwt0);
          c = NewHTTPClient url jwt in
      case loadTokenExchangeConfig env of
        Inl e \<Rightarrow> (Inl e, w)
      | Inr (cfg, enabled) \<Rightarrow>
          if \<not> enabled then (Inr (c, None), w)
          else (case Initialize tenv (NewServiceTokenManager cfg, w) of
                  (Some e, (m, w')) \<Rightarrow> (Inl e, w')
                | (None, (m, w')) \<Rightarrow> (Inr (WithServiceTokenManager c, Some m), w')))"

type_synonym smd_backend = "MockSMDClient + HTTPClient"

definition initSMDClient :: "cfg_env \<Rightarrow> 'w tok_env \<Rightarrow> 'w \<Rightarrow> smd_backend result \<times> 'w" where
  "initSMDClient env tenv w =
     (case requireSMDURLUnlessMock env of
        Inl e \<Rightarrow> (Inl e, w)
      | Inr _ \<Rightarrow>
          if mockSMD env then (Inr (Inl createMockSMDClient), w)
          else (case initLiveSMDClient env tenv w of
                  (Inl e, w') \<Rightarrow> (Inl e, w')
                | (Inr (c, _), w') \<Rightarrow> (Inr (Inr c), w')))"

text \<open>The runtime: the service and the manager; \<open>startWorkers\<close> starts the manager's worker, if there is one, and the service's.\<close>

record smdRuntime =
  sr_service :: "smd_backend SMDIntegrationService"
  sr_manager :: "ServiceTokenManager option"

definition initSMDRuntime :: "cfg_env \<Rightarrow> 'w tok_env \<Rightarrow> 'w \<Rightarrow> smdRuntime result \<times> 'w" where
  "initSMDRuntime env tenv w =
     (let (enabled, interval) = smdSyncOptions env in
      case requireSMDURLUnlessMock env of
        Inl e \<Rightarrow> (Inl e, w)
      | Inr _ \<Rightarrow>
          if mockSMD env
          then (Inr \<lparr>sr_service = NewSMDIntegrationService (Inl createMockSMDClient) enabled interval, sr_manager = None\<rparr>, w)
          else (case initLiveSMDClient env tenv w of
                  (Inl e, w') \<Rightarrow> (Inl e, w')
                | (Inr (c, m), w') \<Rightarrow> (Inr \<lparr>sr_service = NewSMDIntegrationService (Inr c) enabled interval, sr_manager = m\<rparr>, w')))"

text \<open>\<open>dynamicSMDHealthReporter\<close>: the manager first, then the service.\<close>

record 'b dynamicSMDHealthReporter =
  hr_service :: "'b SMDIntegrationService option"
  hr_tokenManager :: "ServiceTokenManager option"

definition Reporter_InitialSyncStatus :: "'b dynamicSMDHealthReporter \<Rightarrow> bool \<times> string" where
  "Reporter_InitialSyncStatus r =
     (let (ok, reason) = (case hr_tokenManager r of None \<Rightarrow> (True, '''') | Some m \<Rightarrow> HealthStatus m) in
      if \<not> ok then (False, reason)
      else (case hr_service r of None \<Rightarrow> (True, '''') | Some s \<Rightarrow> InitialSyncStatus s))"

section \<open>Properties\<close>

definition token_url :: "cfg_env \<Rightarrow> string" where
  "token_url env = firstConfiguredValue env ''tokensmith_url'' [''TOKENSMITH_URL'']"

definition bootstrap_setting :: "cfg_env \<Rightarrow> string" where
  "bootstrap_setting env = firstConfiguredValue env ''tokensmith_bootstrap_token'' [''TOKENSMITH_BOOTSTRAP_TOKEN'']"

text \<open>The specification's condition: a certificate and a key are configured and both files can be read.\<close>

definition identity_usable :: "cfg_env \<Rightarrow> bool" where
  "identity_usable env =
     (let c = token_base_config env (token_url env) in
      ServiceIdentityCert c \<noteq> '''' \<and> ServiceIdentityKey c \<noteq> '''' \<and>
      assertReadableFile env (ServiceIdentityCert c) = None \<and> assertReadableFile env (ServiceIdentityKey c) = None)"

lemma load_disabled: "token_url env = [] \<Longrightarrow> loadTokenExchangeConfig env = Inr (zero_token_config, False)"
  by (simp add: loadTokenExchangeConfig_def token_url_def)

lemma load_identity:
  assumes "token_url env \<noteq> []" and "identity_usable env"
  shows "loadTokenExchangeConfig env = Inr ((token_base_config env (token_url env))\<lparr>AuthMethod := TokenAuthMethodMTLSIdentity\<rparr>, True)"
  using assms unfolding loadTokenExchangeConfig_def identity_usable_def Let_def token_url_def [symmetric] by simp

lemma load_bootstrap:
  assumes "token_url env \<noteq> []" and "\<not> identity_usable env" and "bootstrap_setting env \<noteq> []"
  shows "loadTokenExchangeConfig env = Inr (with_bootstrap (token_base_config env (token_url env)) (bootstrap_setting env), True)"
  using assms unfolding loadTokenExchangeConfig_def identity_usable_def Let_def token_url_def [symmetric] bootstrap_setting_def [symmetric]
  by (auto split: option.splits)

lemma load_refused:
  assumes "token_url env \<noteq> []" and "\<not> identity_usable env" and "bootstrap_setting env = []"
  shows "\<exists>e. loadTokenExchangeConfig env = Inl e"
  using assms unfolding loadTokenExchangeConfig_def identity_usable_def Let_def token_url_def [symmetric] bootstrap_setting_def [symmetric]
  by (auto split: option.splits)

lemmas load_cases = load_disabled load_identity load_bootstrap load_refused

lemma TrimSpace_method [simp]: "TrimSpace ''mtls_identity'' = ''mtls_identity''" "TrimSpace ''bootstrap_token'' = ''bootstrap_token''"
  by code_simp+

lemma manager_method: "AuthMethod c = a \<Longrightarrow> TrimSpace a = a \<Longrightarrow> a \<noteq> [] \<Longrightarrow> authMethod (NewServiceTokenManager c) = a"
  by (simp add: NewServiceTokenManager_def Let_def normalize_simp merge_config_def or_default_def)

text \<open>The credentials the specification chooses.\<close>

definition chosen_config :: "cfg_env \<Rightarrow> TokenExchangeConfig" where
  "chosen_config env =
     (let c = token_base_config env (token_url env) in
      if identity_usable env then c\<lparr>AuthMethod := TokenAuthMethodMTLSIdentity\<rparr> else with_bootstrap c (bootstrap_setting env))"

lemma load_chosen:
  assumes "token_url env \<noteq> []"
  shows "identity_usable env \<or> bootstrap_setting env \<noteq> [] \<Longrightarrow> loadTokenExchangeConfig env = Inr (chosen_config env, True)"
    and "\<not> identity_usable env \<Longrightarrow> bootstrap_setting env = [] \<Longrightarrow> \<exists>e. loadTokenExchangeConfig env = Inl e"
  using assms load_identity [of env] load_bootstrap [of env] load_refused [of env] by (auto simp: chosen_config_def Let_def)

lemma initLive_dynamic:
  assumes "loadTokenExchangeConfig env = Inr (cfg, True)" and "initLiveSMDClient env tenv w = (Inr (c, mgr), w')"
  shows "\<exists>m. mgr = Some m \<and> tokens c = TokenManager \<and> Initialize tenv (NewServiceTokenManager cfg, w) = (None, (m, w'))"
  using assms by (auto simp: initLiveSMDClient_def WithServiceTokenManager_def Let_def split: prod.splits option.splits)

lemma chosen_method:
  "authMethod (NewServiceTokenManager (chosen_config env)) = (if identity_usable env then TokenAuthMethodMTLSIdentity else TokenAuthMethodBootstrapToken)"
  by (rule manager_method) (simp_all add: chosen_config_def with_bootstrap_def Let_def)

lemma runtime_live:
  assumes "\<not> mockSMD env" and "initSMDRuntime env tenv w = (Inr rt, w')"
  obtains c mgr where "initLiveSMDClient env tenv w = (Inr (c, mgr), w')" "sr_manager rt = mgr" "backend (sr_service rt) = Inr c"
  using assms that
  by (auto simp: initSMDRuntime_def NewSMDIntegrationService_def split: prod.splits sum.splits)

text \<open>
  C20 (safety). A server that has TokenSmith configured never falls back to the static token. When the
  runtime comes up, its client takes its tokens from a manager that has completed the first exchange
  with the chosen credentials: the service identity if certificate and key are configured and
  readable, else the bootstrap token. With neither, the start is refused before anything is sent.
\<close>

theorem tokensmith_never_bypassed:
  assumes "\<not> mockSMD env" and "token_url env \<noteq> ''''"
  shows "case initSMDRuntime env tenv w of
           (Inr rt, w') \<Rightarrow>
             (identity_usable env \<or> bootstrap_setting env \<noteq> '''') \<and>
             (\<exists>c m. backend (sr_service rt) = Inr c \<and> tokens c = TokenManager \<and> sr_manager rt = Some m \<and>
                Initialize tenv (NewServiceTokenManager (chosen_config env), w) = (None, (m, w')) \<and>
                authMethod (NewServiceTokenManager (chosen_config env)) =
                  (if identity_usable env then TokenAuthMethodMTLSIdentity else TokenAuthMethodBootstrapToken))
         | (Inl e, w') \<Rightarrow> w' = w \<or> identity_usable env \<or> bootstrap_setting env \<noteq> ''''"
proof (cases "initSMDRuntime env tenv w")
  case (Pair r w')
  show ?thesis
  proof (cases r)
    case (Inl e)
    have "w' = w" if "\<not> identity_usable env" "bootstrap_setting env = ''''"
      using load_chosen(2) [OF assms(2)] that assms(1) Pair
      by (auto simp: initSMDRuntime_def initLiveSMDClient_def Let_def split: prod.splits sum.splits)
    then show ?thesis using Pair Inl by auto
  next
    case (Inr rt)
    then obtain c mgr where l: "initLiveSMDClient env tenv w = (Inr (c, mgr), w')" "sr_manager rt = mgr" "backend (sr_service rt) = Inr c"
      using Pair runtime_live [OF assms(1), of tenv w rt w'] by auto
    have ok: "identity_usable env \<or> bootstrap_setting env \<noteq> ''''"
      using load_chosen(2) [OF assms(2)] l(1) by (auto simp: initLiveSMDClient_def Let_def)
    from initLive_dynamic [OF load_chosen(1) [OF assms(2) ok] l(1)] show ?thesis
      using ok l(2,3) chosen_method [of env] Pair Inr by auto
  qed
qed

text \<open>Settings with a TokenSmith URL, a readable certificate, an unreadable key and a bootstrap token.\<close>

definition cfg0 :: cfg_env where
  "cfg0 =
     \<lparr>viper_string = (\<lambda>k. if k = ''smd_url'' then ''http://smd'' else if k = ''tokensmith_url'' then ''http://ts''
        else if k = ''tokensmith_service_identity_cert'' then ''c'' else if k = ''tokensmith_service_identity_key'' then ''k'' else ''''),
      viper_IsSet = (\<lambda>_. False), viper_int = (\<lambda>_. 0), viper_bool = (\<lambda>_. False),
      os_Getenv = (\<lambda>v. if v = ''TOKENSMITH_BOOTSTRAP_TOKEN'' then '' boot '' else ''''),
      os_Stat_IsDir = (\<lambda>_. Inr False), os_Open = (\<lambda>p. if p = ''k'' then Some (ENew ''permission denied'') else None),
      file_Close = (\<lambda>_. None), mockSMD = False\<rparr>"

lemma cfg0_facts: "token_url cfg0 = ''http://ts''" "bootstrap_setting cfg0 = ''boot''" "identity_usable cfg0 \<longleftrightarrow> False" "mockSMD cfg0 \<longleftrightarrow> False"
  "requireSMDURLUnlessMock cfg0 = Inr ''http://smd''"
  by code_simp+

theorem tokensmith_never_bypassed_witness:
  "\<exists>rt w' c m. initSMDRuntime cfg0 (tok_env0 True) (0, []) = (Inr rt, w') \<and> backend (sr_service rt) = Inr c \<and> tokens c = TokenManager \<and>
     sr_manager rt = Some m \<and> authMethod (NewServiceTokenManager (chosen_config cfg0)) = ''bootstrap_token''"
proof -
  obtain r w' where r: "initSMDRuntime cfg0 (tok_env0 True) (0, []) = (r, w')" by (metis surj_pair)
  have "authMethod (NewServiceTokenManager (chosen_config cfg0)) = ''bootstrap_token''" using chosen_method [of cfg0] by (simp add: cfg0_facts)
  moreover have "client (NewServiceTokenManager (chosen_config cfg0)) \<noteq> None" "unhealthy (NewServiceTokenManager (chosen_config cfg0)) = False"
    using calculation by (simp_all add: NewServiceTokenManager_def Let_def)
  ultimately have "fst (Initialize (tok_env0 True) (NewServiceTokenManager (chosen_config cfg0), (0, []))) = None"
    by (simp add: Initialize_def errIfUnhealthy_def tok_env0_def)
  then have "\<exists>rt. r = Inr rt"
    using r load_chosen(1) [of cfg0]
    by (auto simp: initSMDRuntime_def initLiveSMDClient_def cfg0_facts Let_def split: prod.splits option.splits)
  then obtain rt where "initSMDRuntime cfg0 (tok_env0 True) (0, []) = (Inr rt, w')" using r by auto
  moreover from this have "\<exists>c m. backend (sr_service rt) = Inr c \<and> tokens c = TokenManager \<and> sr_manager rt = Some m \<and>
      authMethod (NewServiceTokenManager (chosen_config cfg0)) = ''bootstrap_token''"
    using tokensmith_never_bypassed [where env = cfg0 and tenv = "tok_env0 True" and w = "(0, [])"] by (auto simp: cfg0_facts)
  ultimately show ?thesis by blast
qed

end
