(* ===== verification/Go_Net.thy ===== *)
theory Go_Net
  imports Prelude
begin

text \<open>
  The part of Go's package \<open>net\<close> the service calls: addresses as byte slices (length 4 or 16,
  the empty list for \<open>nil\<close>), CIDR networks, parsing and printing. \<open>ParseIP\<close> and
  \<open>ParseCIDR\<close> follow \<open>netip.ParseAddr\<close>, for IPv4 and IPv6.
\<close>

unbundle bit_operations_syntax

type_synonym byte = "8 word"
type_synonym ip = "byte list"

record ipnet =
  net_ip :: ip
  net_mask :: "byte list"

section \<open>Addresses as bytes\<close>

definition v4InV6Prefix :: "byte list" where
  "v4InV6Prefix = replicate 10 0 @ [255, 255]"

definition To4 :: "ip \<Rightarrow> ip option" where
  "To4 i = (if length i = 4 then Some i
            else if length i = 16 \<and> take 12 i = v4InV6Prefix then Some (drop 12 i)
            else None)"

definition CIDRMask :: "nat \<Rightarrow> nat \<Rightarrow> byte list" where
  "CIDRMask ones bits = map (\<lambda>i. if 8 * i + 8 \<le> ones then 255
       else if ones \<le> 8 * i then 0 else NOT (mask (8 * i + 8 - ones))) [0..<bits div 8]"

text \<open>\<open>IP.Mask\<close>; the empty list stands for \<open>nil\<close>.\<close>

definition IP_Mask :: "ip \<Rightarrow> byte list \<Rightarrow> ip" where
  "IP_Mask i0 m0 =
     (let m = (if length m0 = 16 \<and> length i0 = 4 \<and> take 12 m0 = replicate 12 255 then drop 12 m0 else m0);
          i = (if length m = 4 \<and> length i0 = 16 \<and> take 12 i0 = v4InV6Prefix then drop 12 i0 else i0)
      in if length i = length m then map2 (AND) i m else [])"

definition IP_Equal :: "ip \<Rightarrow> ip \<Rightarrow> bool" where
  "IP_Equal i x =
     (if length i = length x then i = x
      else if length i = 4 \<and> length x = 16 then take 12 x = v4InV6Prefix \<and> i = drop 12 x
      else if length i = 16 \<and> length x = 4 then take 12 i = v4InV6Prefix \<and> drop 12 i = x
      else False)"

definition networkNumberAndMask :: "ipnet \<Rightarrow> ip \<times> byte list" where
  "networkNumberAndMask n =
     (let i = (case To4 (net_ip n) of Some i4 \<Rightarrow> i4 | None \<Rightarrow> net_ip n); m = net_mask n
      in if To4 (net_ip n) = None \<and> length i \<noteq> 16 then ([], [])
         else if length m = 4 then (if length i = 4 then (i, m) else ([], []))
         else if length m = 16 then (i, if length i = 4 then drop 12 m else m)
         else ([], []))"

definition Contains :: "ipnet \<Rightarrow> ip \<Rightarrow> bool" where
  "Contains n i0 =
     (let (nn, m) = networkNumberAndMask n;
          i = (case To4 i0 of Some i4 \<Rightarrow> i4 | None \<Rightarrow> i0)
      in length i = length nn \<and> map2 (AND) nn m = map2 (AND) i m)"

section \<open>Printing\<close>

definition join :: "string \<Rightarrow> string list \<Rightarrow> string" where
  "join sep ps = (case ps of [] \<Rightarrow> [] | p # rest \<Rightarrow> p @ concat (map (\<lambda>q. sep @ q) rest))"

definition hex_char :: "nat \<Rightarrow> char" where
  "hex_char d = char_of (if d < 10 then 48 + d else 87 + d)"

fun hex_str :: "nat \<Rightarrow> string" where
  "hex_str n = (if n < 16 then [hex_char n] else hex_str (n div 16) @ [hex_char (n mod 16)])"

declare hex_str.simps [simp del]

definition hex_byte :: "byte \<Rightarrow> string" where
  "hex_byte b = [hex_char (unat b div 16), hex_char (unat b mod 16)]"

text \<open>\<open>hex.EncodeToString\<close>.\<close>

definition hex_encode :: "byte list \<Rightarrow> string" where
  "hex_encode bs = concat (map hex_byte bs)"

fun groups16 :: "byte list \<Rightarrow> nat list" where
  "groups16 (a # b # r) = (256 * unat a + unat b) # groups16 r"
| "groups16 _ = []"

definition zero_run :: "nat list \<Rightarrow> nat \<Rightarrow> nat" where
  "zero_run gs i = length (takeWhile (\<lambda>g. g = 0) (drop i gs))"

text \<open>The first of the longest runs of at least two zero groups, as (start, length).\<close>

definition best_run :: "nat list \<Rightarrow> nat \<times> nat" where
  "best_run gs = fold (\<lambda>i (s, l). let r = zero_run gs i in if 2 \<le> r \<and> l < r then (i, r) else (s, l))
       [0..<length gs] (0, 0)"

definition ipv6_str :: "ip \<Rightarrow> string" where
  "ipv6_str i =
     (let gs = groups16 i; (s, l) = best_run gs in
      if l = 0 then join '':'' (map hex_str gs)
      else join '':'' (map hex_str (take s gs)) @ ''::'' @ join '':'' (map hex_str (drop (s + l) gs)))"

definition ipv4_str :: "ip \<Rightarrow> string" where
  "ipv4_str i = join ''.'' (map (\<lambda>b. nat_str (unat b)) i)"

text \<open>\<open>IP.String\<close>.\<close>

definition IP_String :: "ip \<Rightarrow> string" where
  "IP_String i =
     (if i = [] then ''<nil>''
      else case To4 i of
        Some i4 \<Rightarrow> ipv4_str i4
      | None \<Rightarrow> if length i = 16 then ipv6_str i else ''?'' @ hex_encode i)"

section \<open>Parsing\<close>

text \<open>The decimal fields of \<open>parseIPv4Fields\<close>: no empty field, no leading zero, at most 255, four of them.\<close>

definition ipv4_field :: "string \<Rightarrow> nat option" where
  "ipv4_field s =
     (if s \<noteq> [] \<and> list_all is_digit s \<and> (length s = 1 \<or> hd s \<noteq> CHR ''0'') \<and> nat_of_digits s \<le> 255
      then Some (nat_of_digits s) else None)"

definition parseIPv4Fields :: "string \<Rightarrow> byte list option" where
  "parseIPv4Fields s =
     (let fs = map ipv4_field (Split (CHR ''.'') s) in
      if length fs = 4 \<and> None \<notin> set fs then Some (map (\<lambda>f. of_nat (the f)) fs) else None)"

definition hex_val :: "char \<Rightarrow> nat option" where
  "hex_val c = (let n = (of_char c :: nat) in
     if 48 \<le> n \<and> n \<le> 57 then Some (n - 48)
     else if 97 \<le> n \<and> n \<le> 102 then Some (n - 87)
     else if 65 \<le> n \<and> n \<le> 70 then Some (n - 55)
     else None)"

definition is_hex :: "char \<Rightarrow> bool" where
  "is_hex c = (hex_val c \<noteq> None)"

definition hex_group :: "string \<Rightarrow> nat" where
  "hex_group s = foldl (\<lambda>n c. 16 * n + the (hex_val c)) 0 s"

text \<open>
  The loop of \<open>parseIPv6\<close>: the bytes read so far, the position of the ellipsis, the rest of the
  text. Each round reads one group of two bytes, so eight rounds are the most it makes; the first
  argument counts the rounds left.
\<close>

fun ipv6_loop :: "nat \<Rightarrow> byte list \<Rightarrow> nat option \<Rightarrow> string \<Rightarrow> (byte list \<times> nat option \<times> string) option" where
  "ipv6_loop 0 acc el s = Some (acc, el, s)"
| "ipv6_loop (Suc k) acc el s =
     (let ds = takeWhile is_hex s; rest = dropWhile is_hex s in
      if ds = [] \<or> 4 < length ds then None
      else if rest \<noteq> [] \<and> hd rest = CHR ''.'' then
        (if el = None \<and> length acc \<noteq> 12 then None
         else if 16 < length acc + 4 then None
         else map_option (\<lambda>bs. (acc @ bs, el, [])) (parseIPv4Fields s))
      else let acc' = acc @ [of_nat (hex_group ds div 256), of_nat (hex_group ds)] in
        (case rest of
           [] \<Rightarrow> Some (acc', el, [])
         | c # r \<Rightarrow>
             if c \<noteq> CHR '':'' \<or> r = [] then None
             else if hd r = CHR '':'' then
               (if el \<noteq> None then None
                else if tl r = [] then Some (acc', Some (length acc'), [])
                else ipv6_loop k acc' (Some (length acc')) (tl r))
             else ipv6_loop k acc' el r))"

definition parseIPv6 :: "string \<Rightarrow> byte list option" where
  "parseIPv6 s =
     (if CHR ''%'' \<in> set s then None
      else if s = ''::'' then Some (replicate 16 0)
      else case (if prefix ''::'' s then ipv6_loop 8 [] (Some 0) (drop 2 s) else ipv6_loop 8 [] None s) of
        None \<Rightarrow> None
      | Some (acc, el, rest) \<Rightarrow>
          if rest \<noteq> [] then None
          else if length acc < 16 then
            (case el of None \<Rightarrow> None
             | Some e \<Rightarrow> Some (take e acc @ replicate (16 - length acc) 0 @ drop e acc))
          else if el \<noteq> None then None
          else Some acc)"

text \<open>
  \<open>netip.ParseAddr\<close>: the first dot or colon decides the family. A zone is refused by both callers,
  so a text with a percent sign has no result. The bytes are 4 or 16, as \<open>Addr.BitLen\<close> says.
\<close>

definition ParseAddr :: "string \<Rightarrow> byte list option" where
  "ParseAddr s =
     (case dropWhile (\<lambda>c. c \<notin> {CHR ''.'', CHR '':'', CHR ''%''}) s of
        [] \<Rightarrow> None
      | c # _ \<Rightarrow> if c = CHR ''.'' then parseIPv4Fields s
                else if c = CHR '':'' then parseIPv6 s else None)"

definition As16 :: "byte list \<Rightarrow> ip" where
  "As16 bs = (if length bs = 4 then v4InV6Prefix @ bs else bs)"

definition ParseIP :: "string \<Rightarrow> ip option" where
  "ParseIP s = map_option As16 (ParseAddr s)"

text \<open>\<open>dtoi\<close> stops at \<open>0xFFFFFF\<close>; a prefix length above 128 is refused anyway.\<close>

definition ParseCIDR :: "string \<Rightarrow> (ip \<times> ipnet) option" where
  "ParseCIDR s =
     (let a = takeWhile (\<lambda>c. c \<noteq> CHR ''/'') s; r = dropWhile (\<lambda>c. c \<noteq> CHR ''/'') s in
      if r = [] then None
      else case ParseAddr a of
        None \<Rightarrow> None
      | Some bs \<Rightarrow>
          let m = tl r; n = nat_of_digits m; bits = 8 * length bs in
          if m = [] \<or> \<not> list_all is_digit m \<or> bits < n then None
          else Some (As16 bs, \<lparr>net_ip = IP_Mask (As16 bs) (CIDRMask n bits), net_mask = CIDRMask n bits\<rparr>))"

text \<open>The text of the error \<open>ParseCIDR\<close> returns.\<close>

definition cidr_error :: "string \<Rightarrow> goerror" where
  "cidr_error s = ENew (''invalid CIDR address: '' @ s)"

text \<open>\<open>IPNet.String\<close>: a canonical mask prints as its number of leading ones.\<close>

fun mask_ones :: "byte list \<Rightarrow> nat" where
  "mask_ones [] = 0"
| "mask_ones (b # bs) = (if b = 255 then 8 + mask_ones bs
     else length (takeWhile (\<lambda>i. bit b i) [7, 6, 5, 4, 3, 2, 1, 0]))"

definition IPNet_String :: "ipnet \<Rightarrow> string" where
  "IPNet_String n =
     (let (nn, m) = networkNumberAndMask n in
      if nn = [] \<or> m = [] then ''<nil>''
      else if m = CIDRMask (mask_ones m) (8 * length m) then IP_String nn @ ''/'' @ nat_str (mask_ones m)
      else IP_String nn @ ''/'' @ hex_encode m)"

text \<open>
  \<open>net.SplitHostPort\<close>, the host part; \<open>None\<close> for an error. The port follows the last colon, a
  bracketed host ends at its bracket, a bare host holds no further colon.
\<close>

definition SplitHostPort :: "string \<Rightarrow> string option" where
  "SplitHostPort s =
     (let tail = takeWhile (\<lambda>c. c \<noteq> CHR '':'') (rev s);
          front = rev (drop (length tail + 1) (rev s)) in
      if CHR '':'' \<notin> set s then None
      else if s \<noteq> [] \<and> hd s = CHR ''['' then
        (let h = takeWhile (\<lambda>c. c \<noteq> CHR '']'') (tl s);
             after = drop (length h + 2) s in
         if CHR '']'' \<notin> set s then None
         else if after = [] \<or> length h + 2 \<noteq> length front then None
         else if CHR ''['' \<in> set (drop 1 s) \<or> CHR '']'' \<in> set after then None
         else Some h)
      else if CHR '':'' \<in> set front then None
      else if CHR ''['' \<in> set s \<or> CHR '']'' \<in> set s then None
      else Some front)"

section \<open>IPv4 addresses print and parse back\<close>

lemma length_v4InV6Prefix [simp]: "length v4InV6Prefix = 12"
  by (simp add: v4InV6Prefix_def)

lemma To4_simps [simp]:
  "length i = 4 \<Longrightarrow> To4 i = Some i"
  "length i = 4 \<Longrightarrow> To4 (v4InV6Prefix @ i) = Some i"
  by (simp_all add: To4_def)

lemma To4_length: "To4 i = Some j \<Longrightarrow> length j = 4"
  by (auto simp: To4_def split: if_splits)

lemma ip4_cases:
  assumes "length i = 4"
  obtains a b c d where "i = [a, b, c, d]"
proof -
  from assms have "\<exists>a b c d. i = [a, b, c, d]"
    by (auto simp: length_Suc_conv numeral_eq_Suc)
  with that show ?thesis by blast
qed

lemma dot_not_digit: "\<not> is_digit (CHR ''.'')" "\<not> is_digit (CHR '':'')"
    "\<not> is_digit (CHR ''%'')" "\<not> is_digit (CHR ''/'')"
  by code_simp+

lemma nat_str_no_sep:
  "CHR ''.'' \<notin> set (nat_str n)" "CHR '':'' \<notin> set (nat_str n)"
  "CHR ''%'' \<notin> set (nat_str n)" "CHR ''/'' \<notin> set (nat_str n)"
  using nat_str_digits dot_not_digit by blast+

lemma ipv4_field_nat_str: "n \<le> 255 \<Longrightarrow> ipv4_field (nat_str n) = Some n"
proof -
  assume n: "n \<le> 255"
  have "length (nat_str n) = 1 \<or> hd (nat_str n) \<noteq> CHR ''0''"
  proof (cases "n = 0")
    case True
    then show ?thesis by (simp add: nat_str.simps [of 0])
  next
    case False
    then show ?thesis using nat_str_first by blast
  qed
  moreover have "list_all is_digit (nat_str n)"
    by (auto simp: list_all_iff intro: nat_str_digits)
  ultimately show ?thesis using n by (simp add: ipv4_field_def)
qed

lemma byte_le_255: "unat (b :: byte) \<le> 255"
proof -
  have "unat b < 2 ^ LENGTH(8)" by (rule unsigned_less)
  then show ?thesis by simp
qed

lemma Split_ipv4_str:
  "Split (CHR ''.'') (ipv4_str [a, b, c, d]) =
     [nat_str (unat a), nat_str (unat b), nat_str (unat c), nat_str (unat d)]"
  by (simp add: ipv4_str_def join_def Split_append Split_no_sep nat_str_no_sep)

lemma parseIPv4Fields_ipv4_str:
  assumes "length i = 4" shows "parseIPv4Fields (ipv4_str i) = Some i"
  using assms
  by (elim ip4_cases)
     (simp add: parseIPv4Fields_def Split_ipv4_str ipv4_field_nat_str byte_le_255)

lemma dropWhile_nat_str:
  "dropWhile (\<lambda>c. c \<notin> {CHR ''.'', CHR '':'', CHR ''%''}) (nat_str n @ CHR ''.'' # r) = CHR ''.'' # r"
  by (subst dropWhile_append2) (use nat_str_no_sep in auto)

lemma ParseAddr_ipv4_str:
  assumes "length i = 4" shows "ParseAddr (ipv4_str i) = Some i"
proof -
  from assms obtain a b c d where i: "i = [a, b, c, d]" by (rule ip4_cases)
  let ?r = "nat_str (unat b) @ ''.'' @ nat_str (unat c) @ ''.'' @ nat_str (unat d)"
  have "ipv4_str i = nat_str (unat a) @ CHR ''.'' # ?r"
    by (simp add: i ipv4_str_def join_def)
  then have "dropWhile (\<lambda>c. c \<notin> {CHR ''.'', CHR '':'', CHR ''%''}) (ipv4_str i) = CHR ''.'' # ?r"
    by (simp only: dropWhile_nat_str)
  then show ?thesis
    using parseIPv4Fields_ipv4_str [OF assms] by (simp only: ParseAddr_def list.case if_True simp_thms)
qed

lemma IP_String_v4 [simp]:
  "length i = 4 \<Longrightarrow> IP_String i = ipv4_str i"
  "length i = 4 \<Longrightarrow> IP_String (v4InV6Prefix @ i) = ipv4_str i"
  by (auto simp: IP_String_def)

lemma ParseIP_v4: "length i = 4 \<Longrightarrow> ParseIP (ipv4_str i) = Some (v4InV6Prefix @ i)"
  by (simp add: ParseIP_def ParseAddr_ipv4_str As16_def)

lemma ipv4_str_inj: "length i = 4 \<Longrightarrow> length j = 4 \<Longrightarrow> ipv4_str i = ipv4_str j \<longleftrightarrow> i = j"
  by (metis ParseAddr_ipv4_str option.inject)

lemma ipv4_str_nonempty: "length i = 4 \<Longrightarrow> ipv4_str i \<noteq> []"
  by (elim ip4_cases) (simp add: ipv4_str_def join_def)

lemma ipv4_str_no_slash: "length i = 4 \<Longrightarrow> CHR ''/'' \<notin> set (ipv4_str i)"
  by (elim ip4_cases) (simp add: ipv4_str_def join_def nat_str_no_sep)

lemma IP_Mask_v4:
  "length i = 4 \<Longrightarrow> length m = 4 \<Longrightarrow> IP_Mask (v4InV6Prefix @ i) m = map2 (AND) i m"
  "length i = 4 \<Longrightarrow> length m = 4 \<Longrightarrow> IP_Mask i m = map2 (AND) i m"
  by (simp_all add: IP_Mask_def)

lemma length_CIDRMask [simp]: "length (CIDRMask n b) = b div 8"
  by (simp add: CIDRMask_def)

lemma nat_str_all_digits: "list_all is_digit (nat_str n)"
  by (auto simp: list_all_iff intro: nat_str_digits)

lemma takeWhile_slash:
  "CHR ''/'' \<notin> set p \<Longrightarrow> takeWhile (\<lambda>c. c \<noteq> CHR ''/'') (p @ CHR ''/'' # r) = p"
  "CHR ''/'' \<notin> set p \<Longrightarrow> dropWhile (\<lambda>c. c \<noteq> CHR ''/'') (p @ CHR ''/'' # r) = CHR ''/'' # r"
  by (induction p) auto

text \<open>A printed IPv4 network parses back to its address and mask.\<close>

lemma ParseCIDR_v4:
  assumes "length i = 4" and "n \<le> 32"
  shows "ParseCIDR (ipv4_str i @ CHR ''/'' # nat_str n) =
    Some (v4InV6Prefix @ i, \<lparr>net_ip = map2 (AND) i (CIDRMask n 32), net_mask = CIDRMask n 32\<rparr>)"
  using assms ipv4_str_no_slash [OF assms(1)] nat_str_all_digits [of n]
  by (simp add: ParseCIDR_def takeWhile_slash ParseAddr_ipv4_str As16_def IP_Mask_v4)

end
