(* ===== verification/WG_Allocator.thy ===== *)
theory WG_Allocator
  imports Go_Net
begin

text \<open>
  The address allocator of \<open>pkg/wireguard/allocator.go\<close>. The mutex makes every method atomic, so
  a method is a function on the allocator's state. The loop of \<open>NextAvailable\<close> may run forever
  (its last byte wraps), so it is a \<open>partial_function\<close> whose value \<open>None\<close> means that the method
  never returns.
\<close>

section \<open>State and operations\<close>

record IPAllocator =
  network :: ipnet
  used :: "string \<rightharpoonup> bool"
  networkAddr :: ip
  broadcastAddr :: ip

definition NewIPAllocator :: "string \<Rightarrow> IPAllocator result" where
  "NewIPAllocator cidr =
     (case ParseCIDR cidr of
        None \<Rightarrow> Inl (cidr_error cidr)
      | Some (_, n) \<Rightarrow>
          let na = IP_Mask (net_ip n) (net_mask n) in
          Inr \<lparr>network = n, used = Map.empty, networkAddr = na,
               broadcastAddr = map2 (\<lambda>a m. a OR NOT m) na (net_mask n)\<rparr>)"

definition Reserve :: "ip \<Rightarrow> IPAllocator \<Rightarrow> goerror option \<times> IPAllocator" where
  "Reserve addr a =
     (if \<not> Contains (network a) addr then (Some (ENew ''IP not in subnet''), a)
      else (None, a\<lparr>used := (used a)(IP_String addr \<mapsto> True)\<rparr>))"

definition in_use :: "IPAllocator \<Rightarrow> ip \<Rightarrow> bool" where
  "in_use a i = (used a (IP_String i) = Some True)"

definition next_ip :: "ip \<Rightarrow> ip" where
  "next_ip i = i[3 := i ! 3 + 1]"

partial_function (option) next_loop :: "IPAllocator \<Rightarrow> ip \<Rightarrow> (ip result \<times> IPAllocator) option" where
  "next_loop a i =
     (if Contains (network a) i \<and> \<not> IP_Equal i (broadcastAddr a) then
        (if \<not> in_use a i then Some (Inr i, a\<lparr>used := (used a)(IP_String i \<mapsto> True)\<rparr>)
         else next_loop a (next_ip i))
      else Some (Inl (ENew ''no available IPs''), a))"

definition NextAvailable :: "IPAllocator \<Rightarrow> (ip result \<times> IPAllocator) option" where
  "NextAvailable a =
     (if length (networkAddr a) \<le> 3 then Some (Inl (EPanic ''index out of range''), a)
      else next_loop a (next_ip (networkAddr a)))"

definition Release :: "ip \<Rightarrow> IPAllocator \<Rightarrow> goerror option \<times> IPAllocator" where
  "Release addr a = (None, a\<lparr>used := (used a)(IP_String addr := None)\<rparr>)"

section \<open>Well-formed IPv4 allocators\<close>

text \<open>
  What \<open>NewIPAllocator\<close> builds from an IPv4 network with a prefix of \<open>n\<close> bits: masked network
  address, canonical mask, broadcast address with every host bit set.
\<close>

definition wf_v4 :: "nat \<Rightarrow> IPAllocator \<Rightarrow> bool" where
  "wf_v4 n a \<longleftrightarrow> n \<le> 32 \<and> length (networkAddr a) = 4 \<and>
     network a = \<lparr>net_ip = networkAddr a, net_mask = CIDRMask n 32\<rparr> \<and>
     map2 (AND) (networkAddr a) (CIDRMask n 32) = networkAddr a \<and>
     broadcastAddr a = map2 (\<lambda>b m. b OR NOT m) (networkAddr a) (CIDRMask n 32)"

lemma wf_v4_used [simp, wf_rules]: "wf_v4 n (a\<lparr>used := u\<rparr>) \<longleftrightarrow> wf_v4 n a"
  by (simp add: wf_v4_def)

lemma map2_and_idem:
  "map2 (AND) (map2 (AND) xs ms) ms = map2 (AND) xs (ms :: byte list)"
proof (induction xs arbitrary: ms)
  case (Cons x xs)
  then show ?case by (cases ms) (auto simp: ac_simps)
qed simp

lemma NewIPAllocator_v4:
  assumes "length i = 4" and "n \<le> 32"
  defines "na \<equiv> map2 (AND) i (CIDRMask n 32)"
  defines "a \<equiv> \<lparr>network = \<lparr>net_ip = na, net_mask = CIDRMask n 32\<rparr>, used = Map.empty, networkAddr = na,
         broadcastAddr = map2 (\<lambda>a m. a OR NOT m) na (CIDRMask n 32)\<rparr>"
  shows "NewIPAllocator (ipv4_str i @ CHR ''/'' # nat_str n) = Inr a" and "wf_v4 n a"
  using assms
  by (simp_all add: NewIPAllocator_def ParseCIDR_v4 IP_Mask_v4 wf_v4_def map2_and_idem Let_def)

lemma NewIPAllocator_obtain:
  assumes "length i = 4" and "n \<le> 32"
  obtains a where "NewIPAllocator (ipv4_str i @ CHR ''/'' # nat_str n) = Inr a" and "wf_v4 n a"
    and "networkAddr a = map2 (AND) i (CIDRMask n 32)" and "used a = Map.empty"
  using NewIPAllocator_v4 [OF assms] that by fastforce

subsection \<open>The bytes of the mask\<close>

lemma upt_4: "[0..<4] = [0, 1, 2, 3 :: nat]"
  by code_simp

lemma CIDRMask_32:
  "CIDRMask n 32 = map (\<lambda>i. if 8 * i + 8 \<le> n then 255 else if n \<le> 8 * i then 0 else NOT (mask (8 * i + 8 - n))) [0, 1, 2, 3]"
  by (simp add: CIDRMask_def upt_4)

lemma CIDRMask_host:
  assumes "24 \<le> n" "n \<le> 32"
  shows "CIDRMask n 32 = [255, 255, 255, NOT (mask (32 - n))]"
proof -
  consider "n = 24" | "n = 32" | "24 < n" "n < 32" using assms by linarith
  then show ?thesis
    by cases (simp_all add: CIDRMask_32 mask_eq_exp_minus_1)
qed

lemma and_255 [simp]: "(x :: byte) AND 255 = x"
proof -
  have "(255 :: byte) = -1" by simp
  then show ?thesis by (metis and.right_neutral)
qed

lemma CIDRMask_wide: "n < 24 \<Longrightarrow> CIDRMask n 32 ! 3 = 0"
  by (simp add: CIDRMask_32)

text \<open>The last byte of an address of the network, for \<open>h\<close> host bits.\<close>

lemma bit_and_not_mask: "bit ((k :: byte) AND NOT (mask h)) n \<longleftrightarrow> bit k n \<and> h \<le> n"
  by (auto simp: bit_simps dest: bit_imp_le_length)

lemma bit_byte: "bit (k :: byte) n \<Longrightarrow> n < 8"
  by (drule bit_imp_le_length) simp

lemma byte_256 [simp]: "(256 :: byte) = 0" "(- 256 :: byte) = 0"
  by simp_all

lemma and_not_mask_eq_iff:
  fixes k w :: byte
  assumes "w AND NOT (mask h) = w"
  shows "k AND NOT (mask h) = w \<longleftrightarrow> unat k div 2 ^ h = unat w div 2 ^ h"
proof -
  have "k AND NOT (mask h) = w \<longleftrightarrow> k AND NOT (mask h) = w AND NOT (mask h)"
    using assms by simp
  also have "\<dots> \<longleftrightarrow> (\<forall>n. (bit k n \<and> h \<le> n) = (bit w n \<and> h \<le> n))"
    by (auto simp: bit_eq_iff [of "k AND NOT (mask h)"] bit_and_not_mask dest: bit_byte)
  also have "\<dots> \<longleftrightarrow> (\<forall>n. bit k (h + n) = bit w (h + n))"
    by (metis le_add1 le_iff_add)
  also have "\<dots> \<longleftrightarrow> drop_bit h k = drop_bit h w"
    by (simp add: bit_eq_iff [of "drop_bit h k"] bit_drop_bit_eq)
       (metis add.commute add_lessD1 bit_byte)
  also have "\<dots> \<longleftrightarrow> unat (drop_bit h k) = unat (drop_bit h w)"
    by (rule word_unat_eq_iff)
  also have "\<dots> \<longleftrightarrow> unat k div 2 ^ h = unat w div 2 ^ h"
    by (simp only: unat_drop_bit_eq) (simp only: drop_bit_eq_div)
  finally show ?thesis .
qed

lemma masked_dvd:
  fixes w :: byte
  assumes "w AND NOT (mask h) = w"
  shows "2 ^ h dvd unat w"
proof -
  have "w AND mask h = (w AND NOT (mask h)) AND mask h" using assms by simp
  then have "w AND mask h = 0" by (simp add: and.assoc)
  then have "take_bit h w = 0" by (simp add: take_bit_eq_mask)
  then have "take_bit h (unat w) = 0" by (metis unat_0 unsigned_take_bit_eq)
  then show ?thesis by (simp add: take_bit_eq_mod dvd_eq_mod_eq_0)
qed

lemma masked_room:
  fixes w :: byte
  assumes "w AND NOT (mask h) = w" and "h \<le> 8"
  shows "unat w + 2 ^ h \<le> 256"
proof -
  from masked_dvd [OF assms(1)] obtain q where q: "unat w = 2 ^ h * q" by blast
  have "(256 :: nat) = 2 ^ h * 2 ^ (8 - h)"
    using assms(2) by (simp flip: power_add)
  moreover have "2 ^ h * q < (256 :: nat)" using q byte_le_255 [of w] by simp
  ultimately have "q < 2 ^ (8 - h)" by (metis mult_less_cancel1)
  then have "Suc q \<le> 2 ^ (8 - h)" by simp
  then have "2 ^ h * Suc q \<le> 2 ^ h * 2 ^ (8 - h)" by (rule mult_le_mono2)
  with q \<open>256 = _\<close> show ?thesis by simp
qed

lemma unat_host:
  fixes w :: byte
  assumes "unat w + j < 256" shows "unat (w + of_nat j) = unat w + j"
  using assms by (simp add: unat_word_ariths unat_of_nat take_bit_eq_mod)

lemma unat_or_mask:
  fixes w :: byte
  assumes "w AND NOT (mask h) = w" and "h \<le> 8"
  shows "w OR mask h = w + of_nat (2 ^ h - 1)"
proof -
  have "w AND mask h = (w AND NOT (mask h)) AND mask h" using assms by simp
  then have "w AND mask h = 0" by (simp add: and.assoc)
  then have "w OR mask h = w + mask h" by (simp add: disjunctive_add_eq_or)
  moreover have "(of_nat (2 ^ h - 1) :: byte) = mask h"
    by (simp add: mask_eq_exp_minus_1 of_nat_diff)
  ultimately show ?thesis by simp
qed

section \<open>The addresses the loop visits\<close>

text \<open>The address whose last byte is \<open>j\<close> steps after the network address, modulo 256.\<close>

definition host :: "IPAllocator \<Rightarrow> nat \<Rightarrow> ip" where
  "host a j = (networkAddr a)[3 := networkAddr a ! 3 + of_nat j]"

lemma host_used [simp]: "host (a\<lparr>used := u\<rparr>) j = host a j"
  by (simp add: host_def)

lemma host_Suc: "length (networkAddr a) = 4 \<Longrightarrow> next_ip (host a j) = host a (Suc j)"
  by (simp add: host_def next_ip_def ac_simps)

lemma next_ip_networkAddr: "next_ip (networkAddr a) = host a 1"
  by (simp add: host_def next_ip_def)

lemma length_host: "length (networkAddr a) = 4 \<Longrightarrow> length (host a j) = 4"
  by (simp add: host_def)

lemma of_nat_byte_eq: "(of_nat i :: byte) = of_nat j \<longleftrightarrow> i mod 256 = j mod 256"
  by (simp add: word_of_nat_eq_iff take_bit_eq_mod)

lemma host_eq_iff:
  "length (networkAddr a) = 4 \<Longrightarrow> host a i = host a j \<longleftrightarrow> i mod 256 = j mod 256"
  by (auto simp: host_def of_nat_byte_eq [symmetric] list_eq_iff_nth_eq nth_list_update)

lemma host_wrap: "host a 256 = networkAddr a"
  by (simp add: host_def)

lemma wf_v4_length: "wf_v4 n a \<Longrightarrow> length (networkAddr a) = 4"
  by (simp add: wf_v4_def)

lemma wf_v4_bytes:
  assumes "wf_v4 n a"
  obtains x y z w m0 m1 m2 m3 where "networkAddr a = [x, y, z, w]"
    and "CIDRMask n 32 = [m0, m1, m2, m3]"
    and "x AND m0 = x" "y AND m1 = y" "z AND m2 = z" "w AND m3 = w"
    and "broadcastAddr a = [x OR NOT m0, y OR NOT m1, z OR NOT m2, w OR NOT m3]"
    and "network a = \<lparr>net_ip = [x, y, z, w], net_mask = [m0, m1, m2, m3]\<rparr>"
proof -
  from assms have "length (networkAddr a) = 4" by (rule wf_v4_length)
  then obtain x y z w where na: "networkAddr a = [x, y, z, w]" by (rule ip4_cases)
  obtain m0 m1 m2 m3 where m: "CIDRMask n 32 = [m0, m1, m2, m3]"
    by (rule ip4_cases [of "CIDRMask n 32"]) auto
  show ?thesis using assms na m by (intro that [OF na m]) (simp_all add: wf_v4_def)
qed

lemma Contains_v4:
  assumes "length na = 4" "length m = 4" "length i = 4"
  shows "Contains \<lparr>net_ip = na, net_mask = m\<rparr> i \<longleftrightarrow> map2 (AND) na m = map2 (AND) i m"
  using assms by (simp add: Contains_def networkNumberAndMask_def)

lemma Contains_host:
  assumes "wf_v4 n a"
  shows "Contains (network a) (host a j) \<longleftrightarrow>
    (networkAddr a ! 3 + of_nat j) AND (CIDRMask n 32 ! 3) = networkAddr a ! 3"
  using assms by (elim wf_v4_bytes) (auto simp: Contains_v4 host_def)

lemma IP_Equal_v4: "length i = length j \<Longrightarrow> IP_Equal i j \<longleftrightarrow> i = j"
  by (simp add: IP_Equal_def)

subsection \<open>Prefixes of 24 bits and more\<close>

lemma Contains_host_24:
  assumes "wf_v4 n a" "24 \<le> n" and "j < 2 ^ (32 - n)"
  shows "Contains (network a) (host a j)"
proof -
  from assms(1) have n: "n \<le> 32" by (simp add: wf_v4_def)
  from assms(1) obtain x y z w where b: "networkAddr a = [x, y, z, w]"
    "w AND NOT (mask (32 - n)) = w"
    by (rule wf_v4_bytes) (use CIDRMask_host [OF assms(2) n] in auto)
  have h: "32 - n \<le> 8" using assms(2) by simp
  have u: "unat (w + of_nat j) = unat w + j"
    using masked_room [OF b(2) h] assms(3) by (intro unat_host) simp
  obtain q where q: "unat w = 2 ^ (32 - n) * q" using masked_dvd [OF b(2)] by blast
  have "(unat w + j) div 2 ^ (32 - n) = unat w div 2 ^ (32 - n)"
    using assms(3) by (simp add: q)
  then show ?thesis
    using b u CIDRMask_host [OF assms(2) n]
    by (simp add: Contains_host [OF assms(1)] and_not_mask_eq_iff)
qed

lemma broadcast_24:
  assumes "wf_v4 n a" "24 \<le> n"
  shows "broadcastAddr a = host a (2 ^ (32 - n) - 1)"
proof -
  from assms(1) have n: "n \<le> 32" by (simp add: wf_v4_def)
  have h: "32 - n \<le> 8" using assms(2) by simp
  from assms(1) show ?thesis
    by (rule wf_v4_bytes) (use CIDRMask_host [OF assms(2) n] unat_or_mask [OF _ h] in \<open>auto simp: host_def\<close>)
qed

lemma host_not_broadcast_24:
  assumes "wf_v4 n a" "24 \<le> n" and "j < 2 ^ (32 - n) - 1"
  shows "\<not> IP_Equal (host a j) (broadcastAddr a)"
proof -
  have "(2 :: nat) ^ (32 - n) \<le> 2 ^ 8" using assms(2) by (intro power_increasing) auto
  then have "j mod 256 \<noteq> (2 ^ (32 - n) - 1) mod 256" using assms(3) by simp
  then show ?thesis
    using assms wf_v4_length [OF assms(1)]
    by (simp add: broadcast_24 IP_Equal_v4 length_host host_eq_iff)
qed

text \<open>
  The reference: the first free address among the hosts of the network, in order, the network
  address and the broadcast address left out.
\<close>

definition first_free :: "IPAllocator \<Rightarrow> nat list \<Rightarrow> (ip result \<times> IPAllocator) option \<Rightarrow>
    (ip result \<times> IPAllocator) option" where
  "first_free a js none =
     (case find (\<lambda>j. \<not> in_use a (host a j)) js of
        None \<Rightarrow> none
      | Some j \<Rightarrow> Some (Inr (host a j), a\<lparr>used := (used a)(IP_String (host a j) \<mapsto> True)\<rparr>))"

lemma first_free_Cons:
  "first_free a (j # js) none =
     (if \<not> in_use a (host a j) then Some (Inr (host a j), a\<lparr>used := (used a)(IP_String (host a j) \<mapsto> True)\<rparr>)
      else first_free a js none)"
  by (simp add: first_free_def)

lemma next_loop_24:
  assumes "wf_v4 n a" "24 \<le> n"
  shows "j \<le> 2 ^ (32 - n) - 1 \<Longrightarrow>
    next_loop a (host a j) = first_free a [j..<2 ^ (32 - n) - 1] (Some (Inl (ENew ''no available IPs''), a))"
proof (induction "2 ^ (32 - n) - 1 - j" arbitrary: j)
  case 0
  then have j: "j = 2 ^ (32 - n) - 1" by simp
  have "IP_Equal (host a j) (broadcastAddr a)"
    using broadcast_24 [OF assms] by (simp add: j IP_Equal_v4)
  then show ?case by (subst next_loop.simps) (simp add: j first_free_def)
next
  case (Suc d)
  then have lt: "j < 2 ^ (32 - n) - 1" by simp
  have IH: "next_loop a (host a (Suc j)) =
      first_free a [Suc j..<2 ^ (32 - n) - 1] (Some (Inl (ENew ''no available IPs''), a))"
    using Suc by (intro Suc.hyps) auto
  have c: "Contains (network a) (host a j)"
    using lt by (intro Contains_host_24 [OF assms]) simp
  show ?case
    using host_not_broadcast_24 [OF assms lt] c IH lt wf_v4_length [OF assms(1)]
    by (subst next_loop.simps) (simp add: upt_conv_Cons first_free_Cons host_Suc)
qed

subsection \<open>Shorter prefixes\<close>

text \<open>With fewer than 24 bits the last byte is unmasked and never reaches the broadcast address.\<close>

lemma Contains_host_wide:
  assumes "wf_v4 n a" "n < 24"
  shows "Contains (network a) (host a j)"
proof -
  have "networkAddr a ! 3 = 0"
    using assms(1) by (rule wf_v4_bytes) (use CIDRMask_wide [OF assms(2)] in auto)
  then show ?thesis using CIDRMask_wide [OF assms(2)] by (simp add: Contains_host [OF assms(1)])
qed

lemma or_not_fix:
  fixes z m :: byte
  assumes "z AND m = z" and "z OR NOT m = z"
  shows "NOT m = 0"
proof -
  have "NOT m = NOT m AND (z OR NOT m)" by (simp add: bit_eq_iff bit_simps)
  also have "\<dots> = NOT m AND z" using assms(2) by simp
  also have "\<dots> = NOT m AND (z AND m)" using assms(1) by simp
  also have "\<dots> = 0" by (auto simp: bit_eq_iff bit_simps)
  finally show ?thesis .
qed

lemma CIDRMask_wide_2: "n < 24 \<Longrightarrow> NOT (CIDRMask n 32 ! 2) \<noteq> 0"
proof (cases "n \<le> 16")
  case True
  then show ?thesis by (simp add: CIDRMask_32)
next
  case False
  assume "n < 24"
  then have "bit (mask (24 - n) :: byte) 0" by (simp add: bit_mask_iff)
  then have "(mask (24 - n) :: byte) \<noteq> 0" by (metis bit_0_eq bot_apply bot_bool_def)
  with False \<open>n < 24\<close> show ?thesis by (simp add: CIDRMask_32)
qed

lemma host_not_broadcast_wide:
  assumes "wf_v4 n a" "n < 24"
  shows "\<not> IP_Equal (host a j) (broadcastAddr a)"
  using assms(1)
proof (rule wf_v4_bytes)
  fix x y z w m0 m1 m2 m3
  assume b: "networkAddr a = [x, y, z, w]" "CIDRMask n 32 = [m0, m1, m2, m3]" "z AND m2 = z"
    "broadcastAddr a = [x OR NOT m0, y OR NOT m1, z OR NOT m2, w OR NOT m3]"
  have "NOT m2 \<noteq> 0" using CIDRMask_wide_2 [OF assms(2)] b(2) by simp
  then have "z OR NOT m2 \<noteq> z" using or_not_fix [OF b(3)] by blast
  with b show ?thesis by (simp add: host_def IP_Equal_v4)
qed

lemma next_loop_wide_step:
  assumes "wf_v4 n a" "n < 24"
  shows "next_loop a (host a j) =
    (if \<not> in_use a (host a j) then Some (Inr (host a j), a\<lparr>used := (used a)(IP_String (host a j) \<mapsto> True)\<rparr>)
     else next_loop a (host a (Suc j)))"
  using assms wf_v4_length [OF assms(1)]
  by (subst next_loop.simps) (simp add: Contains_host_wide host_not_broadcast_wide host_Suc)

text \<open>When every address with the same first three bytes is in use the loop has no result.\<close>

lemma next_loop_diverges:
  assumes wf: "wf_v4 n a" "n < 24" and full: "\<And>j. in_use a (host a j)"
  shows "next_loop a (host a j) = None"
proof (rule ccontr)
  assume "next_loop a (host a j) \<noteq> None"
  then obtain r where r: "next_loop a (host a j) = Some r" by blast
  have "b = a \<longrightarrow> (\<forall>k. i \<noteq> host a k)" if "next_loop b i = Some r" for b i r
  proof (rule next_loop.raw_induct [where P = "\<lambda>b i r. b = a \<longrightarrow> (\<forall>k. i \<noteq> host a k)", OF _ that])
    fix f b i r
    assume IH: "\<And>b i r. f b i = Some r \<Longrightarrow> b = a \<longrightarrow> (\<forall>k. i \<noteq> host a k)"
      and eq: "(if Contains (network b) i \<and> \<not> IP_Equal i (broadcastAddr b)
        then if \<not> in_use b i then Some (Inr i, b\<lparr>used := (used b)(IP_String i \<mapsto> True)\<rparr>)
             else f b (next_ip i)
        else Some (Inl (ENew ''no available IPs''), b)) = Some r"
    show "b = a \<longrightarrow> (\<forall>k. i \<noteq> host a k)"
    proof (intro impI allI notI)
      fix k assume "b = a" and "i = host a k"
      with eq wf full have "f a (host a (Suc k)) = Some r"
        by (simp add: Contains_host_wide host_not_broadcast_wide host_Suc wf_v4_length)
      from IH [OF this] show False by blast
    qed
  qed
  from this [OF r] show False by blast
qed

lemma next_loop_wide:
  assumes "wf_v4 n a" "n < 24"
  shows "j \<le> k \<Longrightarrow> next_loop a (host a j) = first_free a [j..<k] (next_loop a (host a k))"
proof (induction "k - j" arbitrary: j)
  case 0
  then show ?case by (simp add: first_free_def)
next
  case (Suc d)
  then have "next_loop a (host a (Suc j)) = first_free a [Suc j..<k] (next_loop a (host a k))"
    by (intro Suc.hyps) auto
  with Suc show ?case
    by (subst next_loop_wide_step [OF assms]) (simp add: upt_conv_Cons first_free_Cons)
qed

lemma all_hosts_mod:
  assumes "length (networkAddr a) = 4" and "\<And>j. j \<in> {1..256} \<Longrightarrow> in_use a (host a j)"
  shows "in_use a (host a j)"
proof -
  let ?k = "if j mod 256 = 0 then 256 else j mod 256"
  have "?k mod 256 = j mod 256" by simp
  then have "host a ?k = host a j" using assms(1) by (simp add: host_eq_iff)
  moreover have "?k \<in> {1..256}" using mod_less_divisor [of 256 j] by (auto simp: less_imp_le)
  ultimately show ?thesis using assms(2) by metis
qed

section \<open>The interface: a pool of addresses\<close>

text \<open>
  What the controller and the \<open>/wg-init\<close> route rely on: an allocation hands out an address that
  was not taken and takes it, a failed one changes nothing, a release gives back one address.
\<close>

locale ip_pool =
  fixes alloc :: "'s \<Rightarrow> ('i result \<times> 's) option"
    and free :: "'i \<Rightarrow> 's \<Rightarrow> 's"
    and taken :: "'s \<Rightarrow> string set"
    and key :: "'i \<Rightarrow> string"
  assumes alloc_fresh: "alloc s = Some (Inr i, t) \<Longrightarrow> key i \<notin> taken s"
    and alloc_taken: "alloc s = Some (Inr i, t) \<Longrightarrow> taken t = insert (key i) (taken s)"
    and alloc_err: "alloc s = Some (Inl e, t) \<Longrightarrow> t = s"
    and free_taken: "taken (free i s) = taken s - {key i}"

text \<open>
  The leases outstanding while clients allocate and release in any order; a step of the pool pairs
  its state with the list of leases.
\<close>

inductive lease_step :: "('s \<Rightarrow> ('i result \<times> 's) option) \<Rightarrow> ('i \<Rightarrow> 's \<Rightarrow> 's) \<Rightarrow>
    's \<times> 'i list \<Rightarrow> 's \<times> 'i list \<Rightarrow> bool" for alloc free where
  lease: "alloc s = Some (Inr i, t) \<Longrightarrow> lease_step alloc free (s, L) (t, i # L)"
| refuse: "alloc s = Some (Inl e, t) \<Longrightarrow> lease_step alloc free (s, L) (t, L)"
| give_back: "i \<in> set L \<Longrightarrow> lease_step alloc free (s, L) (free i s, remove1 i L)"

inductive_simps lease_step_simps: "lease_step alloc free (s, L) st"

context ip_pool begin

definition lease_inv :: "'s \<times> 'i list \<Rightarrow> bool" where
  "lease_inv st \<longleftrightarrow> distinct (map key (snd st)) \<and> key ` set (snd st) \<subseteq> taken (fst st)"

lemma lease_inv_step: "lease_step alloc free st st' \<Longrightarrow> lease_inv st \<Longrightarrow> lease_inv st'"
proof (induction rule: lease_step.induct)
  case (lease s i t L)
  then show ?case using alloc_fresh alloc_taken by (fastforce simp: lease_inv_def)
next
  case (refuse s e t L)
  then show ?case by (auto simp: lease_inv_def dest!: alloc_err)
next
  case (give_back i L s)
  then have d: "distinct (map key L)" and sub: "key ` set L \<subseteq> taken s"
    by (simp_all add: lease_inv_def)
  have r: "map key (remove1 i L) = remove1 (key i) (map key L)"
    using give_back(1) d by (induction L) (auto simp: remove1_idem, metis imageI)
  have "key ` set (remove1 i L) = set (remove1 (key i) (map key L))"
    by (metis list.set_map r)
  also have "\<dots> = key ` set L - {key i}" using d by simp
  finally show ?case using d sub by (auto simp: lease_inv_def r free_taken)
qed

lemma lease_inv_run:
  "(lease_step alloc free)\<^sup>*\<^sup>* (s, []) (t, L) \<Longrightarrow> lease_inv (t, L)"
  by (induction rule: rtranclp_induct2) (auto simp: lease_inv_def [of "(_, [])"] intro: lease_inv_step)

end

text \<open>The allocator's taken addresses, by the text it uses as key.\<close>

definition taken_keys :: "IPAllocator \<Rightarrow> string set" where
  "taken_keys a = {s. used a s = Some True}"

lemma in_use_taken: "in_use a i \<longleftrightarrow> IP_String i \<in> taken_keys a"
  by (simp add: in_use_def taken_keys_def)

lemma next_loop_result:
  assumes "next_loop a i = Some r"
  shows "r = (Inl (ENew ''no available IPs''), a) \<or>
    (\<exists>j. r = (Inr j, a\<lparr>used := (used a)(IP_String j \<mapsto> True)\<rparr>) \<and> \<not> in_use a j \<and>
         Contains (network a) j \<and> \<not> IP_Equal j (broadcastAddr a))"
proof (rule next_loop.raw_induct [where P = "\<lambda>a i r. r = (Inl (ENew ''no available IPs''), a) \<or>
    (\<exists>j. r = (Inr j, a\<lparr>used := (used a)(IP_String j \<mapsto> True)\<rparr>) \<and> \<not> in_use a j \<and>
         Contains (network a) j \<and> \<not> IP_Equal j (broadcastAddr a))", OF _ assms], goal_cases)
  case (1 f a i r)
  then show ?case by (auto split: if_splits)
qed

lemma NextAvailable_result:
  assumes "NextAvailable a = Some (r, b)"
  shows "(\<exists>e. r = Inl e \<and> b = a) \<or>
    (\<exists>j. r = Inr j \<and> b = a\<lparr>used := (used a)(IP_String j \<mapsto> True)\<rparr> \<and> \<not> in_use a j \<and>
         Contains (network a) j \<and> \<not> IP_Equal j (broadcastAddr a))"
  using assms by (auto simp: NextAvailable_def split: if_splits dest!: next_loop_result)

interpretation wg_pool: ip_pool NextAvailable "\<lambda>i a. snd (Release i a)" taken_keys IP_String
proof
  fix s t i assume h: "NextAvailable s = Some (Inr i, t)"
  from NextAvailable_result [OF this] have t: "t = s\<lparr>used := (used s)(IP_String i \<mapsto> True)\<rparr>"
    and f: "\<not> in_use s i" by auto
  from f show "IP_String i \<notin> taken_keys s" by (simp add: in_use_taken)
  from t show "taken_keys t = insert (IP_String i) (taken_keys s)"
    by (auto simp: taken_keys_def)
next
  fix s t e assume "NextAvailable s = Some (Inl e, t)"
  then show "t = s" by (auto dest: NextAvailable_result)
next
  fix i s show "taken_keys (snd (Release i s)) = taken_keys s - {IP_String i}"
    by (auto simp: taken_keys_def Release_def)
qed

section \<open>The first free address\<close>

lemma NextAvailable_first_free:
  assumes "wf_v4 n a" and "24 \<le> n"
  shows "NextAvailable a =
    first_free a [1..<2 ^ (32 - n) - 1] (Some (Inl (ENew ''no available IPs''), a))"
proof (cases "n = 32")
  case True
  have "\<not> Contains (network a) (host a 1)"
    using assms True CIDRMask_host [of 32] by (simp add: Contains_host)
  then have "next_loop a (host a 1) = Some (Inl (ENew ''no available IPs''), a)"
    by (subst next_loop.simps) simp
  with assms True show ?thesis
    by (simp add: NextAvailable_def next_ip_networkAddr wf_v4_length first_free_def)
next
  case False
  with assms have "(2 :: nat) ^ 1 \<le> 2 ^ (32 - n)"
    by (intro power_increasing) (auto simp: wf_v4_def)
  with assms show ?thesis
    by (simp add: NextAvailable_def next_ip_networkAddr wf_v4_length next_loop_24)
qed

lemma NextAvailable_first_free_wide:
  assumes "wf_v4 n a" and "n < 24"
  shows "NextAvailable a = first_free a [1..<257] None"
proof -
  have split: "next_loop a (host a 1) = first_free a [1..<257] (next_loop a (host a 257))"
    by (rule next_loop_wide [OF assms]) simp
  show ?thesis
  proof (cases "find (\<lambda>j. \<not> in_use a (host a j)) [1..<257]")
    case None
    then have "\<And>j. j \<in> {1..256} \<Longrightarrow> in_use a (host a j)"
      by (auto simp: find_None_iff)
    then have "\<And>j. in_use a (host a j)"
      by (rule all_hosts_mod [OF wf_v4_length [OF assms(1)]])
    then have "next_loop a (host a 257) = None" by (rule next_loop_diverges [OF assms])
    with split assms show ?thesis
      by (simp add: NextAvailable_def next_ip_networkAddr wf_v4_length)
  next
    case (Some j)
    with split assms show ?thesis
      by (simp add: NextAvailable_def next_ip_networkAddr wf_v4_length first_free_def)
  qed
qed

section \<open>Properties\<close>

text \<open>A small pool: \<open>10.0.0.0/30\<close> with its first host taken.\<close>

definition pool30 :: IPAllocator where
  "pool30 = \<lparr>network = \<lparr>net_ip = [10, 0, 0, 0], net_mask = [255, 255, 255, 252]\<rparr>,
     used = [''10.0.0.1'' \<mapsto> True], networkAddr = [10, 0, 0, 0], broadcastAddr = [10, 0, 0, 3]\<rparr>"

lemma wf_pool30: "wf_v4 30 pool30"
  by code_simp

lemma NextAvailable_pool30:
  "NextAvailable pool30 = Some (Inr [10, 0, 0, 2], pool30\<lparr>used := (used pool30)(''10.0.0.2'' \<mapsto> True)\<rparr>)"
proof -
  have "find (\<lambda>j. \<not> in_use pool30 (host pool30 j)) [1..<3] = Some 2" by code_simp
  moreover have "host pool30 2 = [10, 0, 0, 2]" and "IP_String [10, 0, 0, 2] = ''10.0.0.2''"
    by code_simp+
  ultimately show ?thesis
    using NextAvailable_first_free [OF wf_pool30] by (simp add: first_free_def)
qed

text \<open>
  C1 (functional). For an allocator made from an IPv4 network of 24 to 32 prefix bits, whatever
  addresses are in use, \<open>NextAvailable\<close> returns: it takes the first host address that is not in
  use, counting up from the one after the network address and stopping before the broadcast
  address, and reports \<open>no available IPs\<close>, leaving the allocator as it was, exactly when every
  host address is in use.
\<close>

theorem NextAvailable_24:
  assumes "length i = 4" and "24 \<le> n" and "n \<le> 32"
  shows "\<exists>a. NewIPAllocator (ipv4_str i @ CHR ''/'' # nat_str n) = Inr a \<and>
    (\<forall>u. let b = a\<lparr>used := u\<rparr> in NextAvailable b =
       first_free b [1..<2 ^ (32 - n) - 1] (Some (Inl (ENew ''no available IPs''), b)))"
proof -
  obtain a where "NewIPAllocator (ipv4_str i @ CHR ''/'' # nat_str n) = Inr a" and "wf_v4 n a"
    using NewIPAllocator_obtain [OF assms(1,3)] .
  then show ?thesis unfolding Let_def by (metis wf_v4_used NextAvailable_first_free assms(2))
qed

theorem NextAvailable_24_witness:
  "\<exists>a. NewIPAllocator (ipv4_str [10, 0, 0, 0] @ CHR ''/'' # nat_str 30) = Inr a \<and>
     NextAvailable (a\<lparr>used := [''10.0.0.1'' \<mapsto> True, ''10.0.0.2'' \<mapsto> True]\<rparr>) =
       Some (Inl (ENew ''no available IPs''), a\<lparr>used := [''10.0.0.1'' \<mapsto> True, ''10.0.0.2'' \<mapsto> True]\<rparr>)"
proof -
  let ?u = "[''10.0.0.1'' \<mapsto> True, ''10.0.0.2'' \<mapsto> True]"
  obtain a where a: "NewIPAllocator (ipv4_str [10, 0, 0, 0] @ CHR ''/'' # nat_str 30) = Inr a"
    and n: "\<And>u. NextAvailable (a\<lparr>used := u\<rparr>) =
      first_free (a\<lparr>used := u\<rparr>) [1..<2 ^ (32 - 30) - 1] (Some (Inl (ENew ''no available IPs''), a\<lparr>used := u\<rparr>))"
    using NextAvailable_24 [of "[10, 0, 0, 0]" 30] by (auto simp: Let_def)
  have "networkAddr a = [10, 0, 0, 0]"
    by (rule NewIPAllocator_obtain [of "[10, 0, 0, 0]" 30]) (use a in \<open>simp_all add: CIDRMask_host\<close>)
  moreover have "IP_String [10, 0, 0, 1] = ''10.0.0.1''" "IP_String [10, 0, 0, 2] = ''10.0.0.2''"
    by code_simp+
  moreover have "[1..<3] = [1, 2 :: nat]" by code_simp
  ultimately have "first_free (a\<lparr>used := ?u\<rparr>) [1..<2 ^ (32 - 30) - 1] none = none" for none
    by (simp add: first_free_def in_use_def host_def)
  with a n show ?thesis by metis
qed

text \<open>
  C33 (termination, a flaw). For an allocator made from an IPv4 network of fewer than 24 prefix
  bits, such as the \<open>100.97.0.1/16\<close> of the server's help text, only the 256 addresses that share
  the network's first three bytes are ever considered: the last byte wraps, the network address
  itself is handed out after the other 255, and when all 256 are in use the loop never ends.
\<close>

theorem NextAvailable_wide:
  assumes "length i = 4" and "n < 24"
  shows "\<exists>a. NewIPAllocator (ipv4_str i @ CHR ''/'' # nat_str n) = Inr a \<and> host a 256 = networkAddr a \<and>
    (\<forall>u. let b = a\<lparr>used := u\<rparr> in NextAvailable b = first_free b [1..<257] None)"
proof -
  have "n \<le> 32" using assms(2) by simp
  then obtain a where "NewIPAllocator (ipv4_str i @ CHR ''/'' # nat_str n) = Inr a" and "wf_v4 n a"
    using NewIPAllocator_obtain [OF assms(1)] by blast
  then show ?thesis
    unfolding Let_def by (metis wf_v4_used NextAvailable_first_free_wide assms(2) host_wrap)
qed

theorem NextAvailable_wide_witness:
  "\<exists>a. NewIPAllocator (ipv4_str [100, 97, 0, 1] @ CHR ''/'' # nat_str 16) = Inr a \<and>
     NextAvailable (a\<lparr>used := (\<lambda>_. Some True)\<rparr>) = None"
proof -
  obtain a where a: "NewIPAllocator (ipv4_str [100, 97, 0, 1] @ CHR ''/'' # nat_str 16) = Inr a"
    and n: "\<And>u. NextAvailable (a\<lparr>used := u\<rparr>) = first_free (a\<lparr>used := u\<rparr>) [1..<257] None"
    using NextAvailable_wide [of "[100, 97, 0, 1]" 16] by (auto simp: Let_def)
  have "first_free (a\<lparr>used := (\<lambda>_. Some True)\<rparr>) js None = None" for js
    by (induction js) (simp_all add: first_free_def in_use_def)
  with a n show ?thesis by simp
qed

text \<open>
  However allocations and releases follow each other, the outstanding leases
  are pairwise different addresses, and every one of them is marked as used.
\<close>

theorem leases_never_collide:
  assumes "(lease_step NextAvailable (\<lambda>i a. snd (Release i a)))\<^sup>*\<^sup>* (a, []) (b, L)"
  shows "distinct (map IP_String L) \<and> (\<forall>i \<in> set L. in_use b i)"
  using wg_pool.lease_inv_run [OF assms]
  by (auto simp: wg_pool.lease_inv_def in_use_taken)

theorem leases_never_collide_witness:
  "\<exists>b. (lease_step NextAvailable (\<lambda>i a. snd (Release i a)))\<^sup>*\<^sup>* (pool30, []) (b, [[10, 0, 0, 2]]) \<and>
     in_use b [10, 0, 0, 2]"
proof -
  from NextAvailable_pool30
  have run: "(lease_step NextAvailable (\<lambda>i a. snd (Release i a)))\<^sup>*\<^sup>* (pool30, [])
      (pool30\<lparr>used := (used pool30)(''10.0.0.2'' \<mapsto> True)\<rparr>, [[10, 0, 0, 2]])"
    by (intro r_into_rtranclp lease_step.lease)
  with leases_never_collide [OF run] show ?thesis by auto
qed

end
