(* ===== verification/Go_Encoding.thy ===== *)
theory Go_Encoding
  imports Go_Net
begin

text \<open>
  \<open>base64.StdEncoding\<close> of the Go standard library: the padded alphabet of RFC 4648, a decoder that
  skips carriage returns and line feeds and refuses everything else outside the alphabet.
\<close>

definition b64_alphabet :: string where
  "b64_alphabet = ''ABCDEFGHIJKLMNOPQRSTUVWXYZabcdefghijklmnopqrstuvwxyz0123456789+/''"

definition b64_char :: "nat \<Rightarrow> char" where
  "b64_char n = b64_alphabet ! n"

definition b64_val :: "char \<Rightarrow> nat option" where
  "b64_val c = (let i = length (takeWhile (\<lambda>x. x \<noteq> c) b64_alphabet) in if i < 64 then Some i else None)"

text \<open>Three bytes are four sextets: the pieces each direction computes.\<close>

definition sext1 :: "byte \<Rightarrow> nat" where "sext1 a = unat a div 4"

definition sext2 :: "byte \<Rightarrow> byte \<Rightarrow> nat" where "sext2 a b = unat a mod 4 * 16 + unat b div 16"

definition sext3 :: "byte \<Rightarrow> byte \<Rightarrow> nat" where "sext3 b c = unat b mod 16 * 4 + unat c div 64"

definition sext4 :: "byte \<Rightarrow> nat" where "sext4 c = unat c mod 64"

definition oct1 :: "nat \<Rightarrow> nat \<Rightarrow> byte" where "oct1 w x = of_nat (w * 4 + x div 16)"

definition oct2 :: "nat \<Rightarrow> nat \<Rightarrow> byte" where "oct2 x y = of_nat (x mod 16 * 16 + y div 4)"

definition oct3 :: "nat \<Rightarrow> nat \<Rightarrow> byte" where "oct3 y z = of_nat (y mod 4 * 64 + z)"

fun b64_encode :: "byte list \<Rightarrow> string" where
  "b64_encode [] = []"
| "b64_encode [a] = [b64_char (sext1 a), b64_char (sext2 a 0), CHR ''='', CHR ''='']"
| "b64_encode [a, b] = [b64_char (sext1 a), b64_char (sext2 a b), b64_char (sext3 b 0), CHR ''='']"
| "b64_encode (a # b # c # r) =
     [b64_char (sext1 a), b64_char (sext2 a b), b64_char (sext3 b c), b64_char (sext4 c)] @ b64_encode r"

fun b64_quads :: "string \<Rightarrow> byte list option" where
  "b64_quads [] = Some []"
| "b64_quads (p # q # r # s # rest) =
     (case (b64_val p, b64_val q) of
        (Some w, Some x) \<Rightarrow>
          if r = CHR ''='' then (if s = CHR ''='' \<and> rest = [] then Some [oct1 w x] else None)
          else (case b64_val r of
            None \<Rightarrow> None
          | Some y \<Rightarrow>
              if s = CHR ''='' then (if rest = [] then Some [oct1 w x, oct2 x y] else None)
              else (case (b64_val s, b64_quads rest) of
                 (Some z, Some bs) \<Rightarrow> Some (oct1 w x # oct2 x y # oct3 y z # bs)
               | _ \<Rightarrow> None))
      | _ \<Rightarrow> None)"
| "b64_quads _ = None"

text \<open>\<open>DecodeString\<close>; the text of its error names a byte offset, which no caller looks at.\<close>

definition b64_decode :: "string \<Rightarrow> byte list option" where
  "b64_decode s = b64_quads (filter (\<lambda>c. c \<noteq> CHR 0x0A \<and> c \<noteq> CHR 0x0D) s)"

definition b64_error :: goerror where
  "b64_error = ENew ''illegal base64 data''"

section \<open>Decoding an encoded text gives it back\<close>

lemma b64_table:
  "list_all (\<lambda>n. b64_val (b64_char n) = Some n \<and> b64_char n \<noteq> CHR ''='' \<and>
      b64_char n \<noteq> CHR 0x0A \<and> b64_char n \<noteq> CHR 0x0D) [0..<64]"
  by code_simp

lemma b64_char_props:
  assumes "n < 64"
  shows "b64_val (b64_char n) = Some n" "b64_char n \<noteq> CHR ''=''"
    "b64_char n \<noteq> CHR 0x0A" "b64_char n \<noteq> CHR 0x0D"
  using b64_table assms by (auto simp: list_all_iff)

lemma byte_lt_256: "unat (b :: byte) < 256"
  using byte_le_255 [of b] by simp

lemma sextets:
  "sext1 a < 64" "sext2 a b < 64" "sext3 b c < 64" "sext4 c < 64"
  unfolding sext1_def sext2_def sext3_def sext4_def
  using byte_lt_256 [of a] byte_lt_256 [of b] byte_lt_256 [of c] by linarith+

lemma octets:
  "oct1 (sext1 a) (sext2 a b) = a"
  "oct2 (sext2 a b) (sext3 b c) = b"
  "oct3 (sext3 b c) (sext4 c) = c"
proof -
  have div16: "unat b div 16 < 16" using byte_lt_256 [of b] by linarith
  have div64: "unat c div 64 < 4" using byte_lt_256 [of c] by linarith
  show "oct1 (sext1 a) (sext2 a b) = a"
    using div16 by (simp add: oct1_def sext1_def sext2_def flip: of_nat_mult of_nat_add)
  show "oct2 (sext2 a b) (sext3 b c) = b"
    using div16 div64 by (simp add: oct2_def sext2_def sext3_def flip: of_nat_mult of_nat_add)
  show "oct3 (sext3 b c) (sext4 c) = c"
    using div64 by (simp add: oct3_def sext3_def sext4_def flip: of_nat_mult of_nat_add)
qed

lemmas b64_facts = b64_char_props [OF sextets(1)] b64_char_props [OF sextets(2)]
  b64_char_props [OF sextets(3)] b64_char_props [OF sextets(4)] octets

lemma b64_quads_encode: "b64_quads (b64_encode bs) = Some bs"
  by (induction bs rule: b64_encode.induct) (simp_all add: b64_facts)

lemma b64_encode_no_newline: "c \<in> set (b64_encode bs) \<Longrightarrow> c \<noteq> CHR 0x0A \<and> c \<noteq> CHR 0x0D"
  by (induction bs rule: b64_encode.induct) (auto simp: b64_facts)

lemma b64_decode_encode [simp]: "b64_decode (b64_encode bs) = Some bs"
proof -
  have "filter (\<lambda>c. c \<noteq> CHR 0x0A \<and> c \<noteq> CHR 0x0D) (b64_encode bs) = b64_encode bs"
    by (rule filter_True) (use b64_encode_no_newline in blast)
  then show ?thesis by (simp only: b64_decode_def b64_quads_encode)
qed

lemma b64_encode_inj: "b64_encode xs = b64_encode ys \<longleftrightarrow> xs = ys"
  by (metis b64_decode_encode option.inject)

end
