(* ===== verification/WG_Device.thy ===== *)
theory WG_Device
  imports Go_Encoding
begin

text \<open>
  The device of \<open>pkg/wireguard/device.go\<close> and the state file of \<open>pkg/wireguard/persistence.go\<close>.
  The packages \<open>wireguard-go\<close> (\<open>tun\<close>, \<open>device\<close>) and \<open>yaml.v3\<close> are not part of the repository:
  their operations are the fields of the record \<open>WireGuardGo\<close> and two function arguments. The
  operating system's answers to one call of \<open>Save\<close> or \<open>Load\<close> are the fields of \<open>os_env\<close>; a disk
  maps a path to the bytes of its file. \<open>Save\<close> is modelled with every intermediate disk, because
  its promise is about what a crash leaves behind.
\<close>

section \<open>The device\<close>

record 'w WireGuardGo =
  CreateTUN :: "string \<Rightarrow> 'w result"
  TUN_Name :: "'w \<Rightarrow> string result"
  WG_NewDevice :: "string \<Rightarrow> 'w \<Rightarrow> 'w"
  IpcSet :: "string \<Rightarrow> 'w \<Rightarrow> goerror option \<times> 'w"
  WG_Up :: "'w \<Rightarrow> goerror option \<times> 'w"
  WG_Down :: "'w \<Rightarrow> goerror option \<times> 'w"
  WG_Close :: "'w \<Rightarrow> 'w"
  TUN_Close :: "'w \<Rightarrow> goerror option \<times> 'w"

record 'w Device =
  WG :: 'w
  listenPort :: int
  privateKey :: string
  publicKey :: string

definition NewDevice :: "'w WireGuardGo \<Rightarrow> string \<Rightarrow> int \<Rightarrow> 'w Device result" where
  "NewDevice api name port =
     (case CreateTUN api name of
        Inl e \<Rightarrow> Inl (EWrap ''failed to create TUN device: '' e '''')
      | Inr tun \<Rightarrow>
          (case TUN_Name api tun of
             Inl e \<Rightarrow> Inl (EWrap ''failed to get TUN name: '' e '''')
           | Inr realName \<Rightarrow>
               let w0 = WG_NewDevice api (''['' @ realName @ ''] '') tun;
                   (e1, w1) = IpcSet api (''listen_port='' @ int_str port @ nl) w0 in
               (case e1 of
                  Some e \<Rightarrow> Inl (EWrap ''failed to configure device: '' e '''')
                | None \<Rightarrow>
                    let (e2, w2) = WG_Up api w1 in
                    (case e2 of
                       Some e \<Rightarrow> Inl (EWrap ''failed to bring up device: '' e '''')
                     | None \<Rightarrow> Inr \<lparr>WG = w2, listenPort = port, privateKey = '''', publicKey = ''''\<rparr>))))"

text \<open>\<open>IpcSet\<close> on the wrapped device.\<close>

definition device_ipc :: "'w WireGuardGo \<Rightarrow> string \<Rightarrow> 'w Device \<Rightarrow> goerror option \<times> 'w Device" where
  "device_ipc api cfg d = (let (e, w) = IpcSet api cfg (WG d) in (e, d\<lparr>WG := w\<rparr>))"

definition SetPrivateKey :: "'w WireGuardGo \<Rightarrow> string \<Rightarrow> 'w Device \<Rightarrow> goerror option \<times> 'w Device" where
  "SetPrivateKey api pk d =
     (let d1 = d\<lparr>privateKey := pk\<rparr> in
      case b64_decode pk of
        None \<Rightarrow> (Some (EWrap ''decode private key: '' b64_error ''''), d1)
      | Some raw \<Rightarrow> device_ipc api (''private_key='' @ hex_encode raw @ nl) d1)"

definition PrivateKeyValue :: "'w Device \<Rightarrow> string result" where
  "PrivateKeyValue d = Inr (privateKey d)"

definition add_peer_cfg :: "byte list \<Rightarrow> string \<Rightarrow> string" where
  "add_peer_cfg raw allowed = ''public_key='' @ hex_encode raw @ nl @ ''allowed_ip='' @ allowed @ nl @
     ''persistent_keepalive_interval=25'' @ nl"

definition Device_AddPeer :: "'w WireGuardGo \<Rightarrow> string \<Rightarrow> string \<Rightarrow> 'w Device \<Rightarrow> goerror option \<times> 'w Device" where
  "Device_AddPeer api pub allowed d =
     (case b64_decode pub of
        None \<Rightarrow> (Some (EWrap ''decode public key: '' b64_error ''''), d)
      | Some raw \<Rightarrow> device_ipc api (add_peer_cfg raw allowed) d)"

definition Device_RemovePeer :: "'w WireGuardGo \<Rightarrow> string \<Rightarrow> 'w Device \<Rightarrow> goerror option \<times> 'w Device" where
  "Device_RemovePeer api pub d =
     (case b64_decode pub of
        None \<Rightarrow> (Some (EWrap ''decode public key: '' b64_error ''''), d)
      | Some raw \<Rightarrow> device_ipc api (''public_key='' @ hex_encode raw @ nl @ ''remove=true'' @ nl) d)"

definition PublicKeyValue :: "'w Device \<Rightarrow> string" where
  "PublicKeyValue d = publicKey d"

definition SetPublicKeyValue :: "string \<Rightarrow> 'w Device \<Rightarrow> 'w Device" where
  "SetPublicKeyValue pub d = d\<lparr>publicKey := pub\<rparr>"

definition ListenPortValue :: "'w Device \<Rightarrow> int" where
  "ListenPortValue d = listenPort d"

definition Device_Close :: "'w WireGuardGo \<Rightarrow> 'w Device \<Rightarrow> goerror option \<times> 'w Device" where
  "Device_Close api d =
     (let (downErr, w1) = WG_Down api (WG d);
          w2 = WG_Close api w1;
          (tunErr, w3) = TUN_Close api w2 in
      (if downErr \<noteq> None then downErr else tunErr, d\<lparr>WG := w3\<rparr>))"

text \<open>The peer operations touch the wrapped device only.\<close>

lemma Device_AddPeer_keeps:
  assumes "Device_AddPeer api pub allowed d = (e, d')"
  shows "privateKey d' = privateKey d" "publicKey d' = publicKey d" "listenPort d' = listenPort d"
  using assms by (auto simp: Device_AddPeer_def device_ipc_def split: option.splits prod.splits)

lemma Device_RemovePeer_keeps:
  assumes "Device_RemovePeer api pub d = (e, d')"
  shows "privateKey d' = privateKey d" "publicKey d' = publicKey d" "listenPort d' = listenPort d"
  using assms by (auto simp: Device_RemovePeer_def device_ipc_def split: option.splits prod.splits)

section \<open>The state file\<close>

record PersistentPeerState =
  pp_PeerID :: string
  pp_PublicKey :: string
  pp_VPNIP :: string
  pp_ClientIP :: string
  pp_AllowedIP :: string

record ControllerState =
  Version :: string
  ServerPrivateKey :: string
  ServerPublicKey :: string
  AllocatedIPs :: "string list"
  cs_Peers :: "PersistentPeerState list"

record Persistence =
  filePath :: string

type_synonym disk = "string \<rightharpoonup> string"

text \<open>
  What the operating system answers: each field is the error of the call it is named after, if any;
  \<open>os_tmp\<close> is the name \<open>CreateTemp\<close> chose, \<open>os_write\<close> the number of bytes that reached the file
  before a write error, \<open>os_remove\<close> whether the deferred removal fails.
\<close>

record os_env =
  os_mkdir :: "goerror option"
  os_read :: "goerror option"
  os_tmp :: "string result"
  os_write :: "(nat \<times> goerror) option"
  os_close :: "goerror option"
  os_rename :: "goerror option"
  os_remove :: bool

definition NewPersistence :: "os_env \<Rightarrow> string \<Rightarrow> Persistence result" where
  "NewPersistence os path =
     (case os_mkdir os of
        Some e \<Rightarrow> Inl (EWrap ''failed to create persistence directory: '' e '''')
      | None \<Rightarrow> Inr \<lparr>filePath = path\<rparr>)"

definition Load :: "(string \<Rightarrow> ControllerState result) \<Rightarrow> os_env \<Rightarrow> Persistence \<Rightarrow> disk \<Rightarrow> ControllerState result" where
  "Load unmarshal os p d =
     (case os_read os of
        Some e \<Rightarrow> Inl (EWrap ''failed to read persistence file: '' e '''')
      | None \<Rightarrow>
          (case d (filePath p) of
             None \<Rightarrow> Inr \<lparr>Version = ''1'', ServerPrivateKey = '''', ServerPublicKey = '''',
                          AllocatedIPs = [], cs_Peers = []\<rparr>
           | Some data \<Rightarrow>
               (case unmarshal data of
                  Inl e \<Rightarrow> Inl (EWrap ''failed to parse persistence file: '' e '''')
                | Inr st \<Rightarrow> Inr st)))"

text \<open>
  \<open>Save\<close> with the disks it passes through, the first one last: the deferred removal of the
  temporary file is the last step of every path after its creation.
\<close>

definition remove_tmp :: "os_env \<Rightarrow> string \<Rightarrow> disk \<Rightarrow> disk" where
  "remove_tmp os tmp d = (if os_remove os then d else d(tmp := None))"

definition Save_trace :: "(ControllerState \<Rightarrow> string result) \<Rightarrow> os_env \<Rightarrow> Persistence \<Rightarrow> ControllerState \<Rightarrow>
    disk \<Rightarrow> goerror option \<times> disk list" where
  "Save_trace marshal os p st d =
     (case marshal st of
        Inl e \<Rightarrow> (Some (EWrap ''failed to marshal state: '' e ''''), [d])
      | Inr data \<Rightarrow>
          (case os_tmp os of
             Inl e \<Rightarrow> (Some (EWrap ''failed to create temp file: '' e ''''), [d])
           | Inr tmp \<Rightarrow>
               let d1 = d(tmp \<mapsto> '''') in
               (case os_write os of
                  Some (n, e) \<Rightarrow>
                    let d2 = d1(tmp \<mapsto> take n data) in
                    (Some (EWrap ''failed to write temp file: '' e ''''), [remove_tmp os tmp d2, d2, d1, d])
                | None \<Rightarrow>
                    let d2 = d1(tmp \<mapsto> data) in
                    (case os_close os of
                       Some e \<Rightarrow> (Some (EWrap ''failed to close temp file: '' e ''''), [remove_tmp os tmp d2, d2, d1, d])
                     | None \<Rightarrow>
                         (case os_rename os of
                            Some e \<Rightarrow> (Some (EWrap ''failed to rename temp file: '' e ''''), [remove_tmp os tmp d2, d2, d1, d])
                          | None \<Rightarrow>
                              let d3 = d2(filePath p \<mapsto> data, tmp := None) in
                              (None, [remove_tmp os tmp d3, d3, d2, d1, d]))))))"

definition Save :: "(ControllerState \<Rightarrow> string result) \<Rightarrow> os_env \<Rightarrow> Persistence \<Rightarrow> ControllerState \<Rightarrow>
    disk \<Rightarrow> goerror option \<times> disk" where
  "Save marshal os p st d = (let (e, ds) = Save_trace marshal os p st d in (e, hd ds))"

text \<open>What \<open>CreateTemp\<close> documents: the name is new, so it is not the state file's.\<close>

definition fresh_tmp :: "os_env \<Rightarrow> Persistence \<Rightarrow> disk \<Rightarrow> bool" where
  "fresh_tmp os p d = (\<forall>tmp. os_tmp os = Inr tmp \<longrightarrow> tmp \<noteq> filePath p \<and> d tmp = None)"

lemma fresh_tmpD: "fresh_tmp os p d \<Longrightarrow> os_tmp os = Inr tmp \<Longrightarrow> tmp \<noteq> filePath p \<and> d tmp = None"
  by (simp add: fresh_tmp_def)

lemma Save_ok:
  assumes "Save marshal os p st d = (None, d')" and "fresh_tmp os p d"
  obtains data where "marshal st = Inr data" and "d' = d(filePath p \<mapsto> data)"
proof -
  from assms(1) obtain data tmp where s: "marshal st = Inr data" "os_tmp os = Inr tmp"
      and d: "d' = remove_tmp os tmp (d(tmp \<mapsto> data, filePath p \<mapsto> data, tmp := None))"
    by (auto simp: Save_def Save_trace_def Let_def split: sum.splits option.splits)
  from fresh_tmpD [OF assms(2) s(2)] have "d' = d(filePath p \<mapsto> data)"
    by (auto simp: d remove_tmp_def)
  with s that show ?thesis by blast
qed

lemma Save_err:
  assumes "Save marshal os p st d = (Some e, d')" and "fresh_tmp os p d"
  shows "d' (filePath p) = d (filePath p)"
  using assms
  by (auto simp: Save_def Save_trace_def Let_def remove_tmp_def
      dest!: fresh_tmpD split: sum.splits option.splits if_splits prod.splits)

text \<open>What was saved is what is loaded, when the encoder and the decoder are inverse.\<close>

lemma Load_Save:
  assumes "Save marshal os p st d = (None, d')" and "fresh_tmp os p d"
    and "\<And>data. marshal st = Inr data \<Longrightarrow> unmarshal data = Inr st" and "os_read os' = None"
  shows "Load unmarshal os' p d' = Inr st"
  using assms by (elim Save_ok) (auto simp: Load_def)

section \<open>Properties\<close>

text \<open>
  C3 (safety). \<open>Save\<close> is atomic: in every state of the disk it passes through, whatever call of the
  operating system fails and wherever the process dies, the state file holds either all of its old
  contents or all of the new ones; every other file than the temporary one is never touched; the
  error is nil exactly when the final disk has the new contents where they differ from the old.
\<close>

theorem Save_atomic:
  assumes "fresh_tmp os p d" and "Save_trace marshal os p st d = (e, ds)" and "d' \<in> set ds"
  shows "(d' (filePath p) = d (filePath p) \<or> (\<exists>data. marshal st = Inr data \<and> d' (filePath p) = Some data)) \<and>
    (\<forall>f. f \<noteq> filePath p \<longrightarrow> os_tmp os \<noteq> Inr f \<longrightarrow> d' f = d f) \<and>
    (e = None \<longrightarrow> (\<exists>data. marshal st = Inr data \<and> hd ds = d(filePath p \<mapsto> data))) \<and>
    (e \<noteq> None \<longrightarrow> hd ds (filePath p) = d (filePath p))"
proof -
  have s: "Save marshal os p st d = (e, hd ds)" using assms(2) by (simp add: Save_def)
  have "e = None \<longrightarrow> (\<exists>data. marshal st = Inr data \<and> hd ds = d(filePath p \<mapsto> data))"
    using s assms(1) by (metis Save_ok)
  moreover have "e \<noteq> None \<longrightarrow> hd ds (filePath p) = d (filePath p)"
    using s assms(1) by (metis Save_err option.exhaust)
  moreover have "d' (filePath p) = d (filePath p) \<or> (\<exists>data. marshal st = Inr data \<and> d' (filePath p) = Some data)"
    using assms by (auto simp: Save_trace_def Let_def remove_tmp_def
      dest!: fresh_tmpD split: sum.splits option.splits if_splits prod.splits)
  moreover have "\<forall>f. f \<noteq> filePath p \<longrightarrow> os_tmp os \<noteq> Inr f \<longrightarrow> d' f = d f"
    using assms(2,3) by (auto simp: Save_trace_def Let_def remove_tmp_def
      split: sum.splits option.splits if_splits prod.splits)
  ultimately show ?thesis by blast
qed

text \<open>An operating system where every call succeeds, and a marshaller that prints the keys.\<close>

definition os_good :: "string \<Rightarrow> os_env" where
  "os_good tmp = \<lparr>os_mkdir = None, os_read = None, os_tmp = Inr tmp, os_write = None,
     os_close = None, os_rename = None, os_remove = False\<rparr>"

lemma fresh_os_good: "tmp \<noteq> filePath p \<Longrightarrow> d tmp = None \<Longrightarrow> fresh_tmp (os_good tmp) p d"
  by (simp add: fresh_tmp_def os_good_def)

definition empty_state :: ControllerState where
  "empty_state = \<lparr>Version = ''1'', ServerPrivateKey = ''k'', ServerPublicKey = ''p'', AllocatedIPs = [], cs_Peers = []\<rparr>"

theorem Save_atomic_witness:
  "let os = (os_good ''t'')\<lparr>os_write := Some (2, ENew ''disk full'')\<rparr>;
       r = Save_trace (\<lambda>_. Inr ''data'') os \<lparr>filePath = ''f''\<rparr> empty_state [''f'' \<mapsto> ''old''] in
   length (snd r) = 4 \<and> (snd r ! 1) ''t'' = Some ''da'' \<and> (snd r ! 1) ''f'' = Some ''old'' \<and>
   hd (snd r) ''f'' = Some ''old''"
proof -
  let ?os = "(os_good ''t'')\<lparr>os_write := Some (2, ENew ''disk full'')\<rparr>"
  let ?r = "Save_trace (\<lambda>_. Inr ''data'') ?os \<lparr>filePath = ''f''\<rparr> empty_state [''f'' \<mapsto> ''old'']"
  have f: "fresh_tmp ?os \<lparr>filePath = ''f''\<rparr> [''f'' \<mapsto> ''old'']" by (simp add: fresh_tmp_def os_good_def)
  have e: "fst ?r \<noteq> None" and l: "length (snd ?r) = 4" and t: "(snd ?r ! 1) ''t'' = Some ''da''"
      and n: "(snd ?r ! 1) ''f'' = Some ''old''" and m: "snd ?r ! 1 \<in> set (snd ?r)"
    by (simp_all add: Save_trace_def os_good_def Let_def)
  show ?thesis using Save_atomic [OF f surjective_pairing m] e l t n by (simp add: Let_def)
qed

end
