(* ===== verification/WG_Controller.thy ===== *)
theory WG_Controller
  imports WG_Allocator WG_Device
begin

text \<open>
  The controller of \<open>pkg/wireguard/controller.go\<close>: the peers by their identifier, the allocator,
  the device and the state file. Every method holds the mutex, so it is one function on the
  controller and the disk. What lies outside the repository comes in with the record \<open>ctl_env\<close>: the
  \<open>wireguard-go\<close> operations, the YAML codec, the operating system's answers and the order in which
  Go iterates over the peers. A method whose call of \<open>NextAvailable\<close> may not return has an option
  result. Warnings written to the console are left out.
\<close>

section \<open>State\<close>

record PeerState =
  PublicKey :: string
  VPNIP :: string
  ClientIP :: string
  AllowedIP :: string

record 'w Controller =
  Device :: "'w Device"
  Network :: ipnet
  ServerIP :: ip
  Peers :: "string \<rightharpoonup> PeerState"
  IPAllocator :: IPAllocator
  Persistence :: "Persistence option"

record 'w ctl_env =
  wg_api :: "'w WireGuardGo"
  yaml_Marshal :: "ControllerState \<Rightarrow> string result"
  yaml_Unmarshal :: "string \<Rightarrow> ControllerState result"
  ctl_os :: os_env
  peer_order :: "string list"

type_synonym 'w cstate = "'w Controller \<times> disk"

section \<open>Keys\<close>

text \<open>\<open>rand.Read\<close> yields an error or 32 bytes; \<open>X25519\<close> is the curve's scalar multiplication.\<close>

definition derivePublicKey :: "(byte list \<Rightarrow> byte list result) \<Rightarrow> string \<Rightarrow> string result" where
  "derivePublicKey x25519 private =
     (case b64_decode private of
        None \<Rightarrow> Inl (EWrap ''decode private key: '' b64_error '''')
      | Some privBytes \<Rightarrow>
          if length privBytes \<noteq> 32
          then Inl (ENew (''private key must be 32 bytes, got '' @ nat_str (length privBytes)))
          else (case x25519 privBytes of
                  Inl e \<Rightarrow> Inl (EWrap ''derive public key: '' e '''')
                | Inr pubBytes \<Rightarrow> Inr (b64_encode pubBytes)))"

definition generateKeypair :: "(byte list \<Rightarrow> byte list result) \<Rightarrow> byte list result \<Rightarrow> (string \<times> string) result" where
  "generateKeypair x25519 rand =
     (case rand of
        Inl e \<Rightarrow> Inl e
      | Inr privBytes \<Rightarrow>
          let private = b64_encode privBytes in
          map_sum id (\<lambda>public. (private, public)) (derivePublicKey x25519 private))"

section \<open>Persistence of the peers\<close>

definition collectAllocatedIPsFromPeers :: "PersistentPeerState list \<Rightarrow> string list" where
  "collectAllocatedIPsFromPeers peers = map pp_VPNIP (filter (\<lambda>p. pp_VPNIP p \<noteq> '''') peers)"

definition persistent_peer :: "PeerState \<Rightarrow> PersistentPeerState" where
  "persistent_peer p = \<lparr>pp_PeerID = ClientIP p, pp_PublicKey = PublicKey p, pp_VPNIP = VPNIP p,
     pp_ClientIP = ClientIP p, pp_AllowedIP = AllowedIP p\<rparr>"

definition controller_state :: "string list \<Rightarrow> string \<Rightarrow> 'w Controller \<Rightarrow> ControllerState" where
  "controller_state order privKey c =
     (let peers = map (persistent_peer \<circ> snd) (entries (Peers c) order) in
      \<lparr>Version = ''1'', ServerPrivateKey = privKey, ServerPublicKey = PublicKeyValue (Device c),
       AllocatedIPs = collectAllocatedIPsFromPeers peers, cs_Peers = peers\<rparr>)"

definition persistState :: "'w ctl_env \<Rightarrow> 'w cstate \<Rightarrow> goerror option \<times> disk" where
  "persistState env s =
     (case s of (c, d) \<Rightarrow>
      (case Persistence c of
         None \<Rightarrow> (None, d)
       | Some p \<Rightarrow>
           (case PrivateKeyValue (Device c) of
              Inl e \<Rightarrow> (Some (EWrap ''get private key: '' e ''''), d)
            | Inr privKey \<Rightarrow>
                Save (yaml_Marshal env) (ctl_os env) p (controller_state (peer_order env) privKey c) d)))"

text \<open>The \<open>if c.Persistence != nil\<close> that ends every method: a failure is a warning.\<close>

definition persist_after :: "'w ctl_env \<Rightarrow> 'w Controller \<Rightarrow> disk \<Rightarrow> 'w cstate" where
  "persist_after env c d = (if Persistence c \<noteq> None then (c, snd (persistState env (c, d))) else (c, d))"

text \<open>\<open>net.ParseIP\<close> where the caller does not look at nil: a nil address has no bytes.\<close>

definition ip_or_nil :: "string \<Rightarrow> ip" where
  "ip_or_nil s = (case ParseIP s of None \<Rightarrow> [] | Some i \<Rightarrow> i)"

fun reconstructPeers :: "PersistentPeerState list \<Rightarrow> IPAllocator \<Rightarrow> (string \<rightharpoonup> PeerState) \<Rightarrow>
    (string \<rightharpoonup> PeerState) \<times> IPAllocator" where
  "reconstructPeers [] a peers = (peers, a)"
| "reconstructPeers (pp # pps) a peers =
     reconstructPeers pps
       (if pp_VPNIP pp \<noteq> '''' then snd (Reserve (ip_or_nil (pp_VPNIP pp)) a) else a)
       (peers(pp_PeerID pp \<mapsto> \<lparr>PublicKey = pp_PublicKey pp, VPNIP = pp_VPNIP pp,
                               ClientIP = pp_ClientIP pp, AllowedIP = pp_AllowedIP pp\<rparr>))"

definition reconstructPeersFromState :: "ControllerState \<Rightarrow> IPAllocator \<Rightarrow> (string \<rightharpoonup> PeerState) \<times> IPAllocator" where
  "reconstructPeersFromState st a = reconstructPeers (cs_Peers st) a Map.empty"

section \<open>The constructor\<close>

text \<open>Putting the restored peers on the device; an error is a warning.\<close>

fun restore_peers :: "'w WireGuardGo \<Rightarrow> PeerState list \<Rightarrow> 'w Device \<Rightarrow> 'w Device" where
  "restore_peers api [] d = d"
| "restore_peers api (p # ps) d = restore_peers api ps (snd (Device_AddPeer api (PublicKey p) (AllowedIP p) d))"

text \<open>
  The state file, if there is one: its name and, when it could be loaded and holds a private key,
  the keys, the peers and the allocator with their addresses reserved.
\<close>

definition load_persisted :: "'w ctl_env \<Rightarrow> string \<Rightarrow> disk \<Rightarrow> IPAllocator \<Rightarrow>
    (Persistence option \<times> string \<times> string \<times> (string \<rightharpoonup> PeerState) \<times> IPAllocator) result" where
  "load_persisted env file d a =
     (if file = '''' then Inr (None, '''', '''', Map.empty, a)
      else case NewPersistence (ctl_os env) file of
        Inl e \<Rightarrow> Inl (EWrap ''failed to initialize persistence: '' e '''')
      | Inr p \<Rightarrow>
          (case Load (yaml_Unmarshal env) (ctl_os env) p d of
             Inl e \<Rightarrow> Inr (Some p, '''', '''', Map.empty, a)
           | Inr st \<Rightarrow>
               if ServerPrivateKey st \<noteq> '''' then
                 (let (peers, a') = reconstructPeersFromState st a in
                  Inr (Some p, ServerPrivateKey st, ServerPublicKey st, peers, a'))
               else Inr (Some p, '''', '''', Map.empty, a)))"

definition choose_keys :: "(byte list \<Rightarrow> byte list result) \<Rightarrow> byte list result \<Rightarrow> string \<Rightarrow> string \<Rightarrow> (string \<times> string) result" where
  "choose_keys x25519 rand priv pub =
     (if priv = '''' then
        (case generateKeypair x25519 rand of
           Inl e \<Rightarrow> Inl (EWrap ''failed to generate wireguard keypair: '' e '''')
         | Inr kp \<Rightarrow> Inr kp)
      else Inr (priv, pub))"

definition NewController :: "'w ctl_env \<Rightarrow> (byte list \<Rightarrow> byte list result) \<Rightarrow> byte list result \<Rightarrow>
    string \<Rightarrow> ip \<Rightarrow> ipnet \<Rightarrow> int \<Rightarrow> string \<Rightarrow> disk \<Rightarrow> 'w Controller result" where
  "NewController env x25519 rand name srv nw port file d =
     (case NewDevice (wg_api env) name port of
        Inl e \<Rightarrow> Inl (EWrap ''failed to create userspace device: '' e '''')
      | Inr dev \<Rightarrow>
          (case NewIPAllocator (IPNet_String nw) of
             Inl e \<Rightarrow> Inl (EWrap ''failed to create IP allocator: '' e '''')
           | Inr a0 \<Rightarrow>
               (case Reserve srv a0 of
                  (Some e, _) \<Rightarrow> Inl (EWrap ''failed to reserve server IP: '' e '''')
                | (None, a1) \<Rightarrow>
                    (case load_persisted env file d a1 of
                       Inl e \<Rightarrow> Inl e
                     | Inr (pers, priv0, pub0, peers, a2) \<Rightarrow>
                         (case choose_keys x25519 rand priv0 pub0 of
                            Inl e \<Rightarrow> Inl e
                          | Inr (priv, pub) \<Rightarrow>
                              (case SetPrivateKey (wg_api env) priv dev of
                                 (Some e, _) \<Rightarrow> Inl (EWrap ''failed to set private key: '' e '''')
                               | (None, dev1) \<Rightarrow>
                                   Inr \<lparr>Device = restore_peers (wg_api env) (map snd (entries peers (peer_order env)))
                                                   (SetPublicKeyValue pub dev1),
                                        Network = nw, ServerIP = srv, Peers = peers,
                                        IPAllocator = a2, Persistence = pers\<rparr>))))))"

section \<open>The methods\<close>

definition AddPeer :: "'w ctl_env \<Rightarrow> string \<Rightarrow> string \<Rightarrow> 'w cstate \<Rightarrow> (string result \<times> 'w cstate) option" where
  "AddPeer env client pub s =
     (case s of (c, d) \<Rightarrow>
      (case Peers c client of
         Some peer \<Rightarrow> Some (Inr (VPNIP peer), (c, d))
       | None \<Rightarrow>
           (case NextAvailable (IPAllocator c) of
              None \<Rightarrow> None
            | Some (Inl e, a) \<Rightarrow>
                Some (Inl (case e of EPanic m \<Rightarrow> EPanic m | _ \<Rightarrow> EWrap ''failed to allocate VPN IP: '' e ''''),
                      (c\<lparr>IPAllocator := a\<rparr>, d))
            | Some (Inr ip, a) \<Rightarrow>
                let vpn = IP_String ip in
                (case Device_AddPeer (wg_api env) pub (vpn @ ''/32'') (Device c) of
                   (Some e, dev) \<Rightarrow>
                     Some (Inl (EWrap ''failed to add peer: '' e ''''),
                           (c\<lparr>Device := dev, IPAllocator := snd (Release ip a)\<rparr>, d))
                 | (None, dev) \<Rightarrow>
                     Some (Inr vpn,
                       persist_after env
                         (c\<lparr>Device := dev, IPAllocator := a,
                            Peers := (Peers c)(client \<mapsto> \<lparr>PublicKey = pub, VPNIP = vpn, ClientIP = client,
                                                          AllowedIP = ''''\<rparr>)\<rparr>) d)))))"

text \<open>The address of a CIDR as \<open>UpsertPeer\<close> stores it: empty when it does not parse.\<close>

definition cidr_ip_string :: "string \<Rightarrow> string" where
  "cidr_ip_string s = (case ParseCIDR s of None \<Rightarrow> '''' | Some (i, _) \<Rightarrow> IP_String i)"

definition UpsertPeer :: "'w ctl_env \<Rightarrow> string \<Rightarrow> string \<Rightarrow> string \<Rightarrow> 'w cstate \<Rightarrow> goerror option \<times> 'w cstate" where
  "UpsertPeer env peerID pub allowed s =
     (case s of (c, d) \<Rightarrow>
      (case Peers c peerID of
         Some peer \<Rightarrow>
           if PublicKey peer = pub \<and> AllowedIP peer = allowed then (None, (c, d))
           else (case Device_AddPeer (wg_api env) pub allowed (Device c) of
                   (Some e, dev) \<Rightarrow> (Some (EWrap ''failed to update peer: '' e ''''), (c\<lparr>Device := dev\<rparr>, d))
                 | (None, dev) \<Rightarrow>
                     (None, persist_after env
                       (c\<lparr>Device := dev,
                          Peers := (Peers c)(peerID \<mapsto> \<lparr>PublicKey = pub, VPNIP = VPNIP peer,
                                                        ClientIP = ClientIP peer, AllowedIP = allowed\<rparr>)\<rparr>) d))
       | None \<Rightarrow>
           (case Device_AddPeer (wg_api env) pub allowed (Device c) of
              (Some e, dev) \<Rightarrow> (Some (EWrap ''failed to add peer: '' e ''''), (c\<lparr>Device := dev\<rparr>, d))
            | (None, dev) \<Rightarrow>
                (None, persist_after env
                  (c\<lparr>Device := dev,
                     Peers := (Peers c)(peerID \<mapsto> \<lparr>PublicKey = pub, VPNIP = cidr_ip_string allowed,
                                                   ClientIP = peerID, AllowedIP = allowed\<rparr>)\<rparr>) d))))"

definition RemovePeerByID :: "'w ctl_env \<Rightarrow> string \<Rightarrow> 'w cstate \<Rightarrow> goerror option \<times> 'w cstate" where
  "RemovePeerByID env peerID s =
     (case s of (c, d) \<Rightarrow>
      (case Peers c peerID of
         None \<Rightarrow> (Some (ENew (''peer not found: '' @ peerID)), (c, d))
       | Some peer \<Rightarrow>
           (case Device_RemovePeer (wg_api env) (PublicKey peer) (Device c) of
              (Some e, dev) \<Rightarrow> (Some (EWrap ''failed to remove peer: '' e ''''), (c\<lparr>Device := dev\<rparr>, d))
            | (None, dev) \<Rightarrow>
                (None, persist_after env (c\<lparr>Device := dev, Peers := (Peers c)(peerID := None)\<rparr>) d))))"

definition GetPeerVPNIP :: "string \<Rightarrow> 'w Controller \<Rightarrow> string \<times> bool" where
  "GetPeerVPNIP peerID c =
     (case Peers c peerID of
        None \<Rightarrow> ('''', False)
      | Some peer \<Rightarrow> if VPNIP peer = '''' then ('''', False) else (VPNIP peer, True))"

definition RemovePeer :: "'w ctl_env \<Rightarrow> string \<Rightarrow> 'w cstate \<Rightarrow> goerror option \<times> 'w cstate" where
  "RemovePeer env client s =
     (case s of (c, d) \<Rightarrow>
      (case Peers c client of
         None \<Rightarrow> (Some (ENew (''peer not found: '' @ client)), (c, d))
       | Some peer \<Rightarrow>
           (case Device_RemovePeer (wg_api env) (PublicKey peer) (Device c) of
              (Some e, dev) \<Rightarrow> (Some (EWrap ''failed to remove peer: '' e ''''), (c\<lparr>Device := dev\<rparr>, d))
            | (None, dev) \<Rightarrow>
                (None, persist_after env
                  (c\<lparr>Device := dev, IPAllocator := snd (Release (ip_or_nil (VPNIP peer)) (IPAllocator c)),
                     Peers := (Peers c)(client := None)\<rparr>) d))))"

definition PublicKey_of :: "'w Controller \<Rightarrow> string" where
  "PublicKey_of c = PublicKeyValue (Device c)"

definition ListenPort :: "'w Controller \<Rightarrow> int" where
  "ListenPort c = ListenPortValue (Device c)"

definition ServerIPString :: "'w Controller \<Rightarrow> string" where
  "ServerIPString c = IP_String (ServerIP c)"

section \<open>Persisting changes the disk only\<close>

lemma fst_persist_after [simp]: "fst (persist_after env c d) = c"
  by (simp add: persist_after_def)

lemma persist_after_disk:
  "persist_after env c d = (c, if Persistence c = None then d else snd (persistState env (c, d)))"
  by (simp add: persist_after_def)

lemma persistState_simps:
  "Persistence c = None \<Longrightarrow> persistState env (c, d) = (None, d)"
  "Persistence c = Some p \<Longrightarrow> persistState env (c, d) =
     Save (yaml_Marshal env) (ctl_os env) p (controller_state (peer_order env) (privateKey (Device c)) c) d"
  by (simp_all add: persistState_def PrivateKeyValue_def)

section \<open>What each method does\<close>

lemma AddPeer_known:
  "Peers c client = Some peer \<Longrightarrow> AddPeer env client pub (c, d) = Some (Inr (VPNIP peer), (c, d))"
  by (simp add: AddPeer_def)

lemma AddPeer_ok:
  assumes "AddPeer env client pub (c, d) = Some (Inr vpn, (c', d'))" and "Peers c client = None"
  obtains ip a dev where "NextAvailable (IPAllocator c) = Some (Inr ip, a)" "vpn = IP_String ip"
    "Device_AddPeer (wg_api env) pub (vpn @ ''/32'') (Device c) = (None, dev)"
    "c' = c\<lparr>Device := dev, IPAllocator := a,
        Peers := (Peers c)(client \<mapsto> \<lparr>PublicKey = pub, VPNIP = vpn, ClientIP = client, AllowedIP = ''''\<rparr>)\<rparr>"
  using assms
  by (auto simp: AddPeer_def Let_def persist_after_disk split: option.splits sum.splits prod.splits)

lemma AddPeer_failed:
  assumes "AddPeer env client pub (c, d) = Some (Inl e, (c', d'))"
  shows "Peers c client = None" and "d' = d" and "Peers c' = Peers c" and "Persistence c' = Persistence c"
    and "taken_keys (IPAllocator c') = taken_keys (IPAllocator c)"
    and "IPAllocator c' = (IPAllocator c)\<lparr>used := used (IPAllocator c')\<rparr>"
proof -
  from assms show "Peers c client = None" "d' = d" "Peers c' = Peers c" "Persistence c' = Persistence c"
    by (auto simp: AddPeer_def Let_def persist_after_disk split: option.splits sum.splits prod.splits)
  from assms consider
      e' where "NextAvailable (IPAllocator c) = Some (Inl e', IPAllocator c')"
    | ip a where "NextAvailable (IPAllocator c) = Some (Inr ip, a)" "IPAllocator c' = snd (Release ip a)"
    by (auto simp: AddPeer_def Let_def split: option.splits sum.splits prod.splits)
  then have "taken_keys (IPAllocator c') = taken_keys (IPAllocator c) \<and>
    IPAllocator c' = (IPAllocator c)\<lparr>used := used (IPAllocator c')\<rparr>"
  proof cases
    case (1 e')
    from wg_pool.alloc_err [OF this] show ?thesis by simp
  next
    case (2 ip a)
    then have "a = (IPAllocator c)\<lparr>used := (used (IPAllocator c))(IP_String ip \<mapsto> True)\<rparr>"
      using NextAvailable_result by fastforce
    moreover have "taken_keys (IPAllocator c') = taken_keys (IPAllocator c)"
      using 2 wg_pool.alloc_fresh [OF 2(1)] wg_pool.alloc_taken [OF 2(1)] by (simp add: wg_pool.free_taken)
    ultimately show ?thesis using 2(2) by (simp add: Release_def)
  qed
  then show "taken_keys (IPAllocator c') = taken_keys (IPAllocator c)"
    "IPAllocator c' = (IPAllocator c)\<lparr>used := used (IPAllocator c')\<rparr>" by blast+
qed

lemma UpsertPeer_ok:
  assumes "UpsertPeer env k pub allowed (c, d) = (None, (c', d'))"
  obtains peer where "Peers c' = (Peers c)(k \<mapsto> peer)" "PublicKey peer = pub" "AllowedIP peer = allowed"
    "ClientIP peer = (case Peers c k of None \<Rightarrow> k | Some p \<Rightarrow> ClientIP p)"
    "VPNIP peer = (case Peers c k of None \<Rightarrow> cidr_ip_string allowed | Some p \<Rightarrow> VPNIP p)"
    "IPAllocator c' = IPAllocator c" "Persistence c' = Persistence c"
proof (cases "Peers c k")
  case None
  with assms that show ?thesis
    by (auto simp: UpsertPeer_def persist_after_disk split: option.splits prod.splits)
next
  case (Some p)
  show ?thesis
  proof (cases "PublicKey p = pub \<and> AllowedIP p = allowed")
    case True
    with Some assms have "c' = c" by (simp add: UpsertPeer_def)
    then show ?thesis by (intro that [of p]) (use Some True in \<open>auto simp: fun_upd_idem\<close>)
  next
    case False
    with Some assms that show ?thesis
      by (auto simp: UpsertPeer_def persist_after_disk split: option.splits prod.splits if_splits)
  qed
qed

lemma UpsertPeer_err:
  assumes "UpsertPeer env k pub allowed (c, d) = (Some e, (c', d'))"
  shows "Peers c' = Peers c" "IPAllocator c' = IPAllocator c" "Persistence c' = Persistence c" "d' = d"
  using assms by (auto simp: UpsertPeer_def split: option.splits prod.splits if_splits)

lemma RemovePeerByID_ok:
  assumes "RemovePeerByID env k (c, d) = (None, (c', d'))"
  shows "Peers c k \<noteq> None" "Peers c' = (Peers c)(k := None)" "IPAllocator c' = IPAllocator c"
    "Persistence c' = Persistence c"
  using assms by (auto simp: RemovePeerByID_def persist_after_disk split: option.splits prod.splits)

lemma RemovePeerByID_err:
  assumes "RemovePeerByID env k (c, d) = (Some e, (c', d'))"
  shows "Peers c' = Peers c" "IPAllocator c' = IPAllocator c" "Persistence c' = Persistence c" "d' = d"
  using assms by (auto simp: RemovePeerByID_def split: option.splits prod.splits)

lemma RemovePeer_ok:
  assumes "RemovePeer env k (c, d) = (None, (c', d'))"
  obtains peer where "Peers c k = Some peer" "Peers c' = (Peers c)(k := None)"
    "IPAllocator c' = snd (Release (ip_or_nil (VPNIP peer)) (IPAllocator c))" "Persistence c' = Persistence c"
  using assms that by (auto simp: RemovePeer_def persist_after_disk split: option.splits prod.splits)

lemma RemovePeer_err:
  assumes "RemovePeer env k (c, d) = (Some e, (c', d'))"
  shows "Peers c' = Peers c" "IPAllocator c' = IPAllocator c" "Persistence c' = Persistence c" "d' = d"
  using assms by (auto simp: RemovePeer_def split: option.splits prod.splits)

section \<open>Runs of the controller\<close>

text \<open>
  The methods in any order and with any environment: \<open>lease_op\<close> has the methods that deal in
  addresses of the pool, \<open>ctl_step\<close> adds the reconciler's \<open>UpsertPeer\<close>, whose address the caller
  chooses.
\<close>

inductive lease_op :: "'w cstate \<Rightarrow> 'w cstate \<Rightarrow> bool" where
  add: "AddPeer env client pub s = Some (r, s') \<Longrightarrow> lease_op s s'"
| remove: "RemovePeer env client s = (r, s') \<Longrightarrow> lease_op s s'"
| remove_id: "RemovePeerByID env peerID s = (r, s') \<Longrightarrow> lease_op s s'"

inductive ctl_step :: "'w cstate \<Rightarrow> 'w cstate \<Rightarrow> bool" where
  lease: "lease_op s s' \<Longrightarrow> ctl_step s s'"
| upsert: "UpsertPeer env peerID pub allowed s = (r, s') \<Longrightarrow> ctl_step s s'"

inductive_cases lease_opE: "lease_op s s'"
inductive_cases ctl_stepE: "ctl_step s s'"

subsection \<open>Peers are filed under their own identifier\<close>

definition keyed :: "'w cstate \<Rightarrow> bool" where
  "keyed s \<longleftrightarrow> (\<forall>k p. Peers (fst s) k = Some p \<longrightarrow> ClientIP p = k)"

lemma keyedD: "keyed (c, d) \<Longrightarrow> Peers c k = Some p \<Longrightarrow> ClientIP p = k"
  by (simp add: keyed_def)

lemma keyed_AddPeer [wf_rules]:
  assumes "AddPeer env client pub (c, d) = Some (r, (c', d'))" and "keyed (c, d)"
  shows "keyed (c', d')"
proof (cases r)
  case (Inl e)
  with AddPeer_failed(3) assms show ?thesis by (metis keyed_def fst_conv)
next
  case (Inr vpn)
  show ?thesis
  proof (cases "Peers c client")
    case None
    from assms(1) have "Peers c' = (Peers c)(client \<mapsto>
        \<lparr>PublicKey = pub, VPNIP = vpn, ClientIP = client, AllowedIP = []\<rparr>)"
      unfolding Inr by (rule AddPeer_ok [OF _ None]) simp
    with assms(2) show ?thesis by (auto simp: keyed_def)
  next
    case (Some p)
    with assms show ?thesis by (simp add: AddPeer_known)
  qed
qed

lemma keyed_RemovePeer [wf_rules]:
  assumes "RemovePeer env k (c, d) = (r, (c', d'))" and "keyed (c, d)"
  shows "keyed (c', d')"
proof (cases r)
  case None
  with assms show ?thesis by (auto simp: keyed_def split: if_splits elim!: RemovePeer_ok)
next
  case (Some e)
  with assms show ?thesis by (auto simp: keyed_def dest: RemovePeer_err(1))
qed

lemma keyed_RemovePeerByID [wf_rules]:
  assumes "RemovePeerByID env k (c, d) = (r, (c', d'))" and "keyed (c, d)"
  shows "keyed (c', d')"
proof (cases r)
  case None
  with RemovePeerByID_ok(2) [of env k c d c' d'] assms show ?thesis
    by (auto simp: keyed_def split: if_splits)
next
  case (Some e)
  with assms show ?thesis by (auto simp: keyed_def dest: RemovePeerByID_err(1))
qed

lemma keyed_UpsertPeer [wf_rules]:
  assumes "UpsertPeer env k pub allowed (c, d) = (r, (c', d'))" and "keyed (c, d)"
  shows "keyed (c', d')"
proof (cases r)
  case None
  obtain peer where p: "Peers c' = (Peers c)(k \<mapsto> peer)"
      "ClientIP peer = (case Peers c k of None \<Rightarrow> k | Some p \<Rightarrow> ClientIP p)"
    using assms(1) unfolding None by (rule UpsertPeer_ok) simp
  then have "ClientIP peer = k" using assms(2) by (auto split: option.splits dest: keyedD)
  with p assms(2) show ?thesis by (auto simp: keyed_def split: if_splits)
next
  case (Some e)
  with assms show ?thesis by (auto simp: keyed_def dest: UpsertPeer_err(1))
qed

lemma keyed_step: "ctl_step s s' \<Longrightarrow> keyed s \<Longrightarrow> keyed s'"
  by (cases s; cases s') (auto elim!: ctl_stepE lease_opE intro: wf_rules)

lemma keyed_run: "ctl_step\<^sup>*\<^sup>* s s' \<Longrightarrow> keyed s \<Longrightarrow> keyed s'"
  by (induction rule: rtranclp_induct) (auto intro: keyed_step)

subsection \<open>Leased addresses do not collide\<close>

definition addr_inv :: "nat \<Rightarrow> 'w cstate \<Rightarrow> bool" where
  "addr_inv n s \<longleftrightarrow> (let c = fst s in wf_v4 n (IPAllocator c) \<and>
     (\<forall>k p. Peers c k = Some p \<longrightarrow> (\<exists>i. length i = 4 \<and> VPNIP p = ipv4_str i \<and> VPNIP p \<in> taken_keys (IPAllocator c))) \<and>
     (\<forall>k p k' p'. Peers c k = Some p \<longrightarrow> Peers c k' = Some p' \<longrightarrow> VPNIP p = VPNIP p' \<longrightarrow> k = k'))"

lemma addr_invI:
  assumes "wf_v4 n (IPAllocator c)"
    and "\<And>k p. Peers c k = Some p \<Longrightarrow> \<exists>i. length i = 4 \<and> VPNIP p = ipv4_str i \<and> VPNIP p \<in> taken_keys (IPAllocator c)"
    and "\<And>k p k' p'. Peers c k = Some p \<Longrightarrow> Peers c k' = Some p' \<Longrightarrow> VPNIP p = VPNIP p' \<Longrightarrow> k = k'"
  shows "addr_inv n (c, d)"
  unfolding addr_inv_def Let_def fst_conv using assms by blast

lemma addr_invD:
  assumes "addr_inv n (c, d)"
  shows "wf_v4 n (IPAllocator c)"
    and "Peers c k = Some p \<Longrightarrow> \<exists>i. length i = 4 \<and> VPNIP p = ipv4_str i \<and> VPNIP p \<in> taken_keys (IPAllocator c)"
    and "Peers c k = Some p \<Longrightarrow> Peers c k' = Some p' \<Longrightarrow> VPNIP p = VPNIP p' \<Longrightarrow> k = k'"
  using assms unfolding addr_inv_def Let_def fst_conv by blast+

lemma first_free_host:
  assumes "first_free a js none = Some (Inr i, b)" and "\<And>i b. none \<noteq> Some (Inr i, b)"
    and "length (networkAddr a) = 4"
  shows "length i = 4"
  using assms by (auto simp: first_free_def length_host split: option.splits)

lemma NextAvailable_v4:
  assumes "wf_v4 n a" and "NextAvailable a = Some (Inr i, b)"
  shows "length i = 4" and "wf_v4 n b"
proof -
  note len = wf_v4_length [OF assms(1)]
  show "length i = 4"
  proof (cases "24 \<le> n")
    case True
    show ?thesis
      by (rule first_free_host [OF _ _ len])
         (use assms(2) in \<open>auto simp only: NextAvailable_first_free [OF assms(1) True]\<close>)
  next
    case False
    then have "first_free a [1..<257] None = Some (Inr i, b)"
      using assms NextAvailable_first_free_wide by (metis not_le)
    then show ?thesis by (rule first_free_host [OF _ _ len]) simp
  qed
  from NextAvailable_result [OF assms(2)] assms(1) show "wf_v4 n b" by auto
qed

lemma addr_inv_AddPeer [wf_rules]:
  assumes "AddPeer env client pub (c, d) = Some (r, (c', d'))" and inv: "addr_inv n (c, d)"
  shows "addr_inv n (c', d')"
proof (cases r)
  case (Inl e)
  have eq: "Peers c' = Peers c" "taken_keys (IPAllocator c') = taken_keys (IPAllocator c)"
    "IPAllocator c' = (IPAllocator c)\<lparr>used := used (IPAllocator c')\<rparr>"
    using AddPeer_failed [of env client pub c d e c' d'] assms(1) Inl by simp_all
  then have "wf_v4 n (IPAllocator c')" using addr_invD(1) [OF inv] by (metis wf_v4_used)
  then show ?thesis by (rule addr_invI) (use eq inv in \<open>auto dest: addr_invD\<close>)
next
  case (Inr vpn)
  show ?thesis
  proof (cases "Peers c client")
    case None
    obtain ip a dev where na: "NextAvailable (IPAllocator c) = Some (Inr ip, a)" and vpn: "vpn = IP_String ip"
      and c': "IPAllocator c' = a" "Peers c' = (Peers c)(client \<mapsto>
          \<lparr>PublicKey = pub, VPNIP = vpn, ClientIP = client, AllowedIP = ''''\<rparr>)"
      using assms(1) unfolding Inr by (rule AddPeer_ok [OF _ None]) simp
    note v4 = NextAvailable_v4 [OF addr_invD(1) [OF inv] na]
    have fresh: "vpn \<notin> taken_keys (IPAllocator c)" using wg_pool.alloc_fresh [OF na] vpn by simp
    have taken: "taken_keys a = insert vpn (taken_keys (IPAllocator c))"
      using wg_pool.alloc_taken [OF na] vpn by simp
    have new: "VPNIP p \<noteq> vpn" if "Peers c k = Some p" for k p
      using fresh addr_invD(2) [OF inv that] by auto
    show ?thesis
    proof (rule addr_invI)
      show "wf_v4 n (IPAllocator c')" using v4 c' by simp
      show "\<exists>i. length i = 4 \<and> VPNIP p = ipv4_str i \<and> VPNIP p \<in> taken_keys (IPAllocator c')"
        if "Peers c' k = Some p" for k p
        using that v4(1) vpn addr_invD(2) [OF inv, of k p] by (auto simp: c' taken split: if_splits)
      show "k = k'" if "Peers c' k = Some p" "Peers c' k' = Some p'" "VPNIP p = VPNIP p'" for k p k' p'
        using that new addr_invD(3) [OF inv] by (auto simp: c' split: if_splits) metis+
    qed
  next
    case (Some p)
    with assms show ?thesis by (simp add: AddPeer_known)
  qed
qed

lemma ip_or_nil_v4: "length i = 4 \<Longrightarrow> IP_String (ip_or_nil (ipv4_str i)) = ipv4_str i"
  by (simp add: ip_or_nil_def ParseIP_v4)

lemma wf_v4_Release [wf_rules]: "wf_v4 n a \<Longrightarrow> wf_v4 n (snd (Release i a))"
  by (simp add: Release_def)

lemma addr_inv_RemovePeer [wf_rules]:
  assumes "RemovePeer env k (c, d) = (r, (c', d'))" and inv: "addr_inv n (c, d)"
  shows "addr_inv n (c', d')"
proof (cases r)
  case None
  obtain peer where p: "Peers c k = Some peer" "Peers c' = (Peers c)(k := None)"
      and a: "IPAllocator c' = snd (Release (ip_or_nil (VPNIP peer)) (IPAllocator c))"
    using assms(1) unfolding None by (rule RemovePeer_ok)
  from addr_invD(2) [OF inv p(1)] have "IP_String (ip_or_nil (VPNIP peer)) = VPNIP peer"
    by (auto simp: ip_or_nil_v4)
  then have t: "taken_keys (IPAllocator c') = taken_keys (IPAllocator c) - {VPNIP peer}"
    by (simp add: a wg_pool.free_taken)
  show ?thesis
  proof (rule addr_invI)
    show "wf_v4 n (IPAllocator c')" using addr_invD(1) [OF inv] by (simp add: a wf_rules)
    show "\<exists>i. length i = 4 \<and> VPNIP q = ipv4_str i \<and> VPNIP q \<in> taken_keys (IPAllocator c')"
      if "Peers c' j = Some q" for j q
      using that addr_invD(2) [OF inv, of j q] addr_invD(3) [OF inv p(1), of j q]
      by (auto simp: p t split: if_splits)
    show "j = j'" if "Peers c' j = Some q" "Peers c' j' = Some q'" "VPNIP q = VPNIP q'" for j q j' q'
      using that addr_invD(3) [OF inv] by (auto simp: p split: if_splits)
  qed
next
  case (Some e)
  with assms RemovePeer_err [of env k c d e c' d'] show ?thesis by (simp add: addr_inv_def)
qed

lemma addr_inv_RemovePeerByID [wf_rules]:
  assumes "RemovePeerByID env k (c, d) = (r, (c', d'))" and inv: "addr_inv n (c, d)"
  shows "addr_inv n (c', d')"
proof (cases r)
  case None
  have p: "Peers c' = (Peers c)(k := None)" "IPAllocator c' = IPAllocator c"
    using RemovePeerByID_ok [of env k c d c' d'] assms(1) None by simp_all
  show ?thesis
    by (rule addr_invI) (use p inv in \<open>auto dest: addr_invD split: if_splits\<close>)
next
  case (Some e)
  with assms RemovePeerByID_err [of env k c d e c' d'] show ?thesis by (simp add: addr_inv_def)
qed

lemma addr_inv_step: "lease_op s s' \<Longrightarrow> addr_inv n s \<Longrightarrow> addr_inv n s'"
  by (cases s; cases s') (auto elim!: lease_opE intro: wf_rules)

lemma addr_inv_run: "lease_op\<^sup>*\<^sup>* s s' \<Longrightarrow> addr_inv n s \<Longrightarrow> addr_inv n s'"
  by (induction rule: rtranclp_induct) (auto intro: addr_inv_step)

section \<open>Saving and restoring\<close>

definition peer_of :: "PersistentPeerState \<Rightarrow> PeerState" where
  "peer_of pp = \<lparr>PublicKey = pp_PublicKey pp, VPNIP = pp_VPNIP pp, ClientIP = pp_ClientIP pp, AllowedIP = pp_AllowedIP pp\<rparr>"

lemma peer_of_persistent [simp]: "peer_of (persistent_peer p) = p"
  by (simp add: peer_of_def persistent_peer_def)

lemma reconstructPeers_fst:
  "fst (reconstructPeers pps a m) = assign_all (map (\<lambda>pp. (pp_PeerID pp, peer_of pp)) pps) m"
  by (induction pps arbitrary: a m) (simp_all add: peer_of_def)

lemma network_Reserve [simp]: "network (snd (Reserve i a)) = network a"
  by (simp add: Reserve_def)

lemma taken_Reserve:
  "taken_keys (snd (Reserve i a)) = taken_keys a \<union> {s. s = IP_String i \<and> Contains (network a) i}"
  by (auto simp: Reserve_def taken_keys_def)

lemma reconstructPeers_taken:
  "taken_keys (snd (reconstructPeers pps a m)) = taken_keys a \<union>
     {IP_String (ip_or_nil (pp_VPNIP pp)) | pp. pp \<in> set pps \<and> pp_VPNIP pp \<noteq> '''' \<and> Contains (network a) (ip_or_nil (pp_VPNIP pp))}"
  by (induction pps arbitrary: a m) (auto simp: taken_Reserve)

lemma restored_peers:
  assumes "keyed (c, d)" and "range_order (Peers c) order"
  shows "fst (reconstructPeersFromState (controller_state order priv c) a) = Peers c"
proof -
  have "map (\<lambda>pp. (pp_PeerID pp, peer_of pp)) (map (persistent_peer \<circ> snd) (entries (Peers c) order)) = entries (Peers c) order"
    using keyedD [OF assms(1)] by (auto simp: persistent_peer_def peer_of_def set_entries intro!: map_idI)
  then show ?thesis
    using assms(2) map_of_range_order [OF assms(2)] distinct_entries [of order "Peers c"]
    by (simp add: reconstructPeersFromState_def controller_state_def reconstructPeers_fst Let_def
        assign_all_distinct range_order_def)
qed

lemma restored_taken:
  assumes "range_order (Peers c) order" and "Peers c k = Some p" and "VPNIP p = ipv4_str i" and "length i = 4"
    and "Contains (network a) (v4InV6Prefix @ i)"
  shows "VPNIP p \<in> taken_keys (snd (reconstructPeersFromState (controller_state order priv c) a))"
proof -
  have "(k, p) \<in> set (entries (Peers c) order)"
    using assms(1,2) by (auto simp: set_entries range_order_def)
  then have "persistent_peer p \<in> set (cs_Peers (controller_state order priv c))"
    by (force simp: controller_state_def Let_def)
  moreover have "ip_or_nil (VPNIP p) = v4InV6Prefix @ i" using assms by (simp add: ip_or_nil_def ParseIP_v4)
  ultimately show ?thesis
    using assms ipv4_str_nonempty
    by (auto simp: reconstructPeersFromState_def reconstructPeers_taken persistent_peer_def
        intro!: exI [of _ "persistent_peer p"])
qed

lemma restore_peers_keeps:
  "privateKey (restore_peers api ps d) = privateKey d \<and> publicKey (restore_peers api ps d) = publicKey d"
proof (induction ps arbitrary: d)
  case (Cons p ps)
  then show ?case
    using Device_AddPeer_keeps [of api "PublicKey p" "AllowedIP p" d, OF surjective_pairing] by simp
qed simp

lemma SetPrivateKey_key: "SetPrivateKey api pk d = (e, d') \<Longrightarrow> privateKey d' = pk"
  by (auto simp: SetPrivateKey_def device_ipc_def Let_def split: option.splits prod.splits)

lemma load_persisted_saved:
  assumes "keyed (c, d)" and "range_order (Peers c) (peer_order env)" and "Persistence c = Some p"
    and "persistState env (c, d) = (None, d')" and "fresh_tmp (ctl_os env) p d"
    and "\<And>data. yaml_Marshal env (controller_state (peer_order env) (privateKey (Device c)) c) = Inr data \<Longrightarrow>
           yaml_Unmarshal env' data = Inr (controller_state (peer_order env) (privateKey (Device c)) c)"
    and "filePath p \<noteq> ''''" and "privateKey (Device c) \<noteq> ''''"
    and "os_mkdir (ctl_os env') = None" and "os_read (ctl_os env') = None"
  shows "load_persisted env' (filePath p) d' a = Inr (Some p, privateKey (Device c), publicKey (Device c), Peers c,
    snd (reconstructPeersFromState (controller_state (peer_order env) (privateKey (Device c)) c) a))"
proof -
  let ?st = "controller_state (peer_order env) (privateKey (Device c)) c"
  have "Save (yaml_Marshal env) (ctl_os env) p ?st d = (None, d')"
    using assms(3,4) by (simp add: persistState_simps)
  then have "Load (yaml_Unmarshal env') (ctl_os env') p d' = Inr ?st"
    by (rule Load_Save [OF _ assms(5) _ assms(10)]) (rule assms(6))
  moreover have "fst (reconstructPeersFromState ?st a) = Peers c" by (rule restored_peers [OF assms(1,2)])
  moreover have "ServerPrivateKey ?st = privateKey (Device c)" "ServerPublicKey ?st = publicKey (Device c)"
    by (simp_all add: controller_state_def Let_def PublicKeyValue_def)
  moreover have "NewPersistence (ctl_os env') (filePath p) = Inr p" using assms(9) by (simp add: NewPersistence_def)
  ultimately show ?thesis
    using assms(7,8) by (simp add: load_persisted_def case_prod_unfold Let_def prod_eq_iff)
qed

section \<open>A concrete environment\<close>

text \<open>
  A \<open>wireguard-go\<close> that accepts every command and keeps a log of them, the newest first, and a
  controller without state file on the pool \<open>10.0.0.0/30\<close> whose server holds the first address.
\<close>

definition log_api :: "string list WireGuardGo" where
  "log_api = \<lparr>CreateTUN = (\<lambda>_. Inr []), TUN_Name = (\<lambda>_. Inr ''wg0''), WG_NewDevice = (\<lambda>_ w. w),
     IpcSet = (\<lambda>cfg w. (None, cfg # w)), WG_Up = (\<lambda>w. (None, w)), WG_Down = (\<lambda>w. (None, w)),
     WG_Close = (\<lambda>w. w), TUN_Close = (\<lambda>w. (None, w))\<rparr>"

definition env0 :: "string list \<Rightarrow> ControllerState \<Rightarrow> string list ctl_env" where
  "env0 order st = \<lparr>wg_api = log_api, yaml_Marshal = (\<lambda>_. Inr ''state''), yaml_Unmarshal = (\<lambda>_. Inr st),
     ctl_os = os_good ''tmp'', peer_order = order\<rparr>"

abbreviation env1 :: "string list ctl_env" where
  "env1 \<equiv> env0 [] empty_state"

definition ctl0 :: "string list Controller" where
  "ctl0 = \<lparr>Device = \<lparr>WG = [], listenPort = 80, privateKey = ''cHJpdg=='', publicKey = ''cHVi''\<rparr>,
     Network = \<lparr>net_ip = [10, 0, 0, 0], net_mask = [255, 255, 255, 252]\<rparr>, ServerIP = [10, 0, 0, 1],
     Peers = Map.empty, IPAllocator = pool30, Persistence = None\<rparr>"

lemmas ctl0_simps = ctl0_def env0_def log_api_def os_good_def

lemma b64_keys:
  "b64_decode ''a2V5'' = Some [107, 101, 121]" "b64_decode ''cHJpdg=='' = Some [112, 114, 105, 118]"
  by code_simp+

lemma dec_strings: "ipv4_str [10, 0, 0, 2] = ''10.0.0.2''" "IP_String [10, 0, 0, 2] = ''10.0.0.2''"
  by code_simp+

lemma AddPeer_ctl0:
  "AddPeer env1 ''node1'' ''a2V5'' (ctl0, d) = Some (Inr ''10.0.0.2'',
     (ctl0\<lparr>Device := (Device ctl0)\<lparr>WG := [add_peer_cfg [107, 101, 121] ''10.0.0.2/32'']\<rparr>,
           IPAllocator := pool30\<lparr>used := (used pool30)(''10.0.0.2'' \<mapsto> True)\<rparr>,
           Peers := [''node1'' \<mapsto> \<lparr>PublicKey = ''a2V5'', VPNIP = ''10.0.0.2'', ClientIP = ''node1'', AllowedIP = ''''\<rparr>]\<rparr>, d))"
  by (simp add: AddPeer_def ctl0_simps NextAvailable_pool30 dec_strings Device_AddPeer_def b64_keys device_ipc_def
      persist_after_def Let_def)

lemma addr_inv_ctl0: "addr_inv 30 (ctl0, d)"
  by (simp add: addr_inv_def ctl0_def wf_pool30)

section \<open>Properties\<close>

text \<open>
  C2 (invariant). Starting from a controller without peers on an IPv4 pool, after any sequence of
  \<open>AddPeer\<close>, \<open>RemovePeer\<close> and \<open>RemovePeerByID\<close> calls, with any failures of the device, of the codec
  and of the disk, two different peers never hold the same VPN address, every peer is filed under
  its own identifier, and the address of every peer is marked as used in the allocator.
\<close>

theorem peers_never_share_address:
  assumes "lease_op\<^sup>*\<^sup>* (c, d) (c', d')" and "Peers c = Map.empty" and "wf_v4 n (IPAllocator c)"
    and "Peers c' k = Some p"
  shows "ClientIP p = k \<and> VPNIP p \<in> taken_keys (IPAllocator c') \<and>
    (\<forall>k' p'. Peers c' k' = Some p' \<longrightarrow> k' \<noteq> k \<longrightarrow> VPNIP p' \<noteq> VPNIP p)"
proof -
  have "addr_inv n (c, d)" by (rule addr_invI) (use assms in auto)
  then have a: "addr_inv n (c', d')" by (rule addr_inv_run [OF assms(1)])
  have "ctl_step\<^sup>*\<^sup>* (c, d) (c', d')"
    using assms(1) by (rule rtranclp_mono [THEN predicate2D, rotated]) (auto intro: ctl_step.lease)
  then have "keyed (c', d')" by (rule keyed_run) (simp add: keyed_def assms(2))
  then have "ClientIP p = k" using assms(4) by (rule keyedD)
  moreover have "VPNIP p \<in> taken_keys (IPAllocator c')" using addr_invD(2) [OF a assms(4)] by blast
  ultimately show ?thesis using addr_invD(3) [OF a _ assms(4)] by blast
qed

theorem peers_never_share_address_witness:
  "\<exists>c' p. lease_op\<^sup>*\<^sup>* (ctl0, Map.empty) (c', Map.empty) \<and> Peers c' ''node1'' = Some p \<and>
     VPNIP p \<in> taken_keys (IPAllocator c')"
proof -
  let ?c = "ctl0\<lparr>Device := (Device ctl0)\<lparr>WG := [add_peer_cfg [107, 101, 121] ''10.0.0.2/32'']\<rparr>,
           IPAllocator := pool30\<lparr>used := (used pool30)(''10.0.0.2'' \<mapsto> True)\<rparr>,
           Peers := [''node1'' \<mapsto> \<lparr>PublicKey = ''a2V5'', VPNIP = ''10.0.0.2'', ClientIP = ''node1'', AllowedIP = ''''\<rparr>]\<rparr>"
  have run: "lease_op\<^sup>*\<^sup>* (ctl0, Map.empty) (?c, Map.empty)"
    using AddPeer_ctl0 by (intro r_into_rtranclp lease_op.add)
  have p: "Peers ?c ''node1'' = Some \<lparr>PublicKey = ''a2V5'', VPNIP = ''10.0.0.2'', ClientIP = ''node1'', AllowedIP = ''''\<rparr>"
    by simp
  have "wf_v4 30 (IPAllocator ctl0)" "Peers ctl0 = Map.empty" using wf_pool30 by (simp_all add: ctl0_def)
  from peers_never_share_address [OF run this(2,1) p] run p show ?thesis by blast
qed

text \<open>
  C6 (functional). \<open>AddPeer\<close> on every branch. A known client gets the address it already has and
  nothing changes. For a new client a success records the peer with an address that was free and is
  now in use, after the device accepted the key with that address as a \<open>/32\<close>; a failure, of the
  allocator or of the device, leaves the peers, the addresses in use and the disk as they were.
\<close>

theorem AddPeer_spec:
  assumes "AddPeer env client pub (c, d) = Some (r, (c', d'))"
  shows "case Peers c client of
      Some peer \<Rightarrow> r = Inr (VPNIP peer) \<and> (c', d') = (c, d)
    | None \<Rightarrow>
        (case r of
           Inr vpn \<Rightarrow> vpn \<notin> taken_keys (IPAllocator c) \<and>
             taken_keys (IPAllocator c') = insert vpn (taken_keys (IPAllocator c)) \<and>
             Peers c' = (Peers c)(client \<mapsto> \<lparr>PublicKey = pub, VPNIP = vpn, ClientIP = client, AllowedIP = ''''\<rparr>) \<and>
             Device_AddPeer (wg_api env) pub (vpn @ ''/32'') (Device c) = (None, Device c')
         | Inl e \<Rightarrow> Peers c' = Peers c \<and> taken_keys (IPAllocator c') = taken_keys (IPAllocator c) \<and> d' = d)"
proof (cases "Peers c client")
  case None
  show ?thesis
  proof (cases r)
    case (Inl e)
    then show ?thesis using assms None by (auto dest: AddPeer_failed)
  next
    case (Inr vpn)
    from assms(1) show ?thesis unfolding Inr
    proof (rule AddPeer_ok [OF _ None])
      fix ip a dev
      assume h: "NextAvailable (IPAllocator c) = Some (Inr ip, a)" "vpn = IP_String ip"
        "Device_AddPeer (wg_api env) pub (vpn @ ''/32'') (Device c) = (None, dev)"
        "c' = c\<lparr>Device := dev, IPAllocator := a,
          Peers := (Peers c)(client \<mapsto> \<lparr>PublicKey = pub, VPNIP = vpn, ClientIP = client, AllowedIP = ''''\<rparr>)\<rparr>"
      show "case Peers c client of Some peer \<Rightarrow> Inr vpn = Inr (VPNIP peer) \<and> (c', d') = (c, d)
        | None \<Rightarrow> (case Inr vpn of
             Inr vpn \<Rightarrow> vpn \<notin> taken_keys (IPAllocator c) \<and>
               taken_keys (IPAllocator c') = insert vpn (taken_keys (IPAllocator c)) \<and>
               Peers c' = (Peers c)(client \<mapsto> \<lparr>PublicKey = pub, VPNIP = vpn, ClientIP = client, AllowedIP = ''''\<rparr>) \<and>
               Device_AddPeer (wg_api env) pub (vpn @ ''/32'') (Device c) = (None, Device c')
           | Inl e \<Rightarrow> Peers c' = Peers c \<and> taken_keys (IPAllocator c') = taken_keys (IPAllocator c) \<and> d' = d)"
        using h wg_pool.alloc_fresh [OF h(1)] wg_pool.alloc_taken [OF h(1)] None by simp
    qed
  qed
next
  case (Some peer)
  with assms show ?thesis by (simp add: AddPeer_known)
qed

theorem AddPeer_spec_witness:
  "\<exists>c'. AddPeer env1 ''node1'' ''a2V5'' (ctl0, Map.empty) = Some (Inr ''10.0.0.2'', (c', Map.empty)) \<and>
     ''10.0.0.2'' \<notin> taken_keys (IPAllocator ctl0) \<and> ''10.0.0.2'' \<in> taken_keys (IPAllocator c')"
  using AddPeer_spec [OF AddPeer_ctl0 [of Map.empty]] AddPeer_ctl0 [of Map.empty] by (auto simp: ctl0_def)

text \<open>
  C5 (roundtrip). A controller restarted from the state file its predecessor wrote has the same
  server keys and the same peers, and it has reserved the VPN address of each of them that lies in
  its network, so it cannot hand it out again. It is assumed that the decoder reads back what the
  encoder wrote for this state, and that the device and the operating system accept the calls of
  the constructor; peers are kept under their own identifier in every reachable controller.
\<close>

theorem restart_restores_peers:
  assumes "ctl_step\<^sup>*\<^sup>* (c0, d0) (c, d)" and "Peers c0 = Map.empty"
    and "range_order (Peers c) (peer_order env)" and "Persistence c = Some p"
    and "persistState env (c, d) = (None, d')" and "fresh_tmp (ctl_os env) p d"
    and yaml: "\<And>st data. yaml_Marshal env st = Inr data \<Longrightarrow> st = controller_state (peer_order env) (privateKey (Device c)) c \<Longrightarrow>
           yaml_Unmarshal env' data = Inr st"
    and "filePath p \<noteq> ''''" and "privateKey (Device c) \<noteq> ''''"
    and "os_mkdir (ctl_os env') = None" and "os_read (ctl_os env') = None"
    and "NewDevice (wg_api env') name port = Inr dev"
    and "SetPrivateKey (wg_api env') (privateKey (Device c)) dev = (None, dev1)"
    and "NewIPAllocator (IPNet_String nw) = Inr a0" and "Reserve srv a0 = (None, a1)"
  shows "\<exists>c'. NewController env' x25519 rand name srv nw port (filePath p) d' = Inr c' \<and>
    Peers c' = Peers c \<and> Persistence c' = Some p \<and>
    privateKey (Device c') = privateKey (Device c) \<and> publicKey (Device c') = publicKey (Device c) \<and>
    (\<forall>k q i. Peers c k = Some q \<longrightarrow> VPNIP q = ipv4_str i \<longrightarrow> length i = 4 \<longrightarrow>
       Contains (network a1) (v4InV6Prefix @ i) \<longrightarrow> VPNIP q \<in> taken_keys (IPAllocator c'))"
proof -
  let ?st = "controller_state (peer_order env) (privateKey (Device c)) c"
  have "keyed (c, d)" by (rule keyed_run [OF assms(1)]) (simp add: keyed_def assms(2))
  then have "load_persisted env' (filePath p) d' a1 = Inr (Some p, privateKey (Device c), publicKey (Device c), Peers c,
      snd (reconstructPeersFromState ?st a1))"
    by (rule load_persisted_saved) (use assms in auto)
  moreover have "privateKey dev1 = privateKey (Device c)" by (rule SetPrivateKey_key [OF assms(13)])
  ultimately show ?thesis
    using assms(9,12-15) restored_taken [OF assms(3)]
    by (simp add: NewController_def choose_keys_def SetPublicKeyValue_def restore_peers_keeps)
qed

text \<open>A controller with a state file and one peer.\<close>

definition ctl1 :: "string list Controller" where
  "ctl1 = ctl0\<lparr>Device := (Device ctl0)\<lparr>WG := [add_peer_cfg [107, 101, 121] ''10.0.0.2/32'']\<rparr>,
     IPAllocator := pool30\<lparr>used := (used pool30)(''10.0.0.2'' \<mapsto> True)\<rparr>,
     Peers := [''node1'' \<mapsto> \<lparr>PublicKey = ''a2V5'', VPNIP = ''10.0.0.2'', ClientIP = ''node1'', AllowedIP = ''''\<rparr>],
     Persistence := Some \<lparr>filePath = ''f''\<rparr>\<rparr>"

abbreviation env2 :: "string list ctl_env" where
  "env2 \<equiv> env0 [''node1''] (controller_state [''node1''] ''cHJpdg=='' ctl1)"

lemma AddPeer_ctl1:
  "AddPeer env2 ''node1'' ''a2V5'' (ctl0\<lparr>Persistence := Some \<lparr>filePath = ''f''\<rparr>\<rparr>, Map.empty) =
     Some (Inr ''10.0.0.2'', (ctl1, [''f'' \<mapsto> ''state'']))"
  by (simp add: AddPeer_def ctl0_simps ctl1_def NextAvailable_pool30 dec_strings Device_AddPeer_def b64_keys device_ipc_def
      persist_after_def Let_def persistState_simps Save_def Save_trace_def remove_tmp_def)

lemma pool30_fresh:
  obtains a0 a1 where "NewIPAllocator (IPNet_String (Network ctl0)) = Inr a0" and "Reserve [10, 0, 0, 1] a0 = (None, a1)"
    and "network a1 = Network ctl0"
proof -
  have s: "IPNet_String (Network ctl0) = ''10.0.0.0/30''" by code_simp
  have "case NewIPAllocator ''10.0.0.0/30'' of Inl _ \<Rightarrow> False
    | Inr a0 \<Rightarrow> fst (Reserve [10, 0, 0, 1] a0) = None \<and> network (snd (Reserve [10, 0, 0, 1] a0)) = Network ctl0"
    by code_simp
  with that show ?thesis by (auto simp: s prod_eq_iff split: sum.splits)
qed

theorem restart_restores_peers_witness:
  "\<exists>c'. NewController env2 (\<lambda>b. Inr b) (Inr []) ''wg0'' [10, 0, 0, 1] (Network ctl0) 80 ''f'' [''f'' \<mapsto> ''state''] = Inr c' \<and>
     Peers c' = Peers ctl1 \<and> ''10.0.0.2'' \<in> taken_keys (IPAllocator c')"
proof -
  let ?p = "\<lparr>filePath = ''f''\<rparr>"
  let ?dev = "\<lparr>WG = [''listen_port=80'' @ nl], listenPort = 80, privateKey = '''', publicKey = ''''\<rparr>"
  have run: "ctl_step\<^sup>*\<^sup>* (ctl0\<lparr>Persistence := Some ?p\<rparr>, Map.empty) (ctl1, [''f'' \<mapsto> ''state''])"
    using AddPeer_ctl1 by (intro r_into_rtranclp ctl_step.lease lease_op.add)
  have o: "range_order (Peers ctl1) (peer_order env2)" by (simp add: range_order_def ctl1_def env0_def)
  have s: "persistState env2 (ctl1, [''f'' \<mapsto> ''state'']) = (None, [''f'' \<mapsto> ''state''])"
    by (simp add: persistState_simps ctl1_def ctl0_simps Save_def Save_trace_def remove_tmp_def Let_def)
  have f: "fresh_tmp (ctl_os env2) ?p [''f'' \<mapsto> ''state'']" by (simp add: fresh_tmp_def env0_def os_good_def)
  have i: "int_str 80 = ''80''" by code_simp
  have n: "NewDevice (wg_api env2) ''wg0'' 80 = Inr ?dev" by (simp add: NewDevice_def env0_def log_api_def i)
  obtain dev1 where k: "SetPrivateKey (wg_api env2) (privateKey (Device ctl1)) ?dev = (None, dev1)"
    by (simp add: SetPrivateKey_def ctl1_def ctl0_simps b64_keys device_ipc_def)
  obtain a0 a1 where a: "NewIPAllocator (IPNet_String (Network ctl0)) = Inr a0" "Reserve [10, 0, 0, 1] a0 = (None, a1)"
    and w: "network a1 = Network ctl0" by (rule pool30_fresh)
  have c: "Contains (Network ctl0) (v4InV6Prefix @ [10, 0, 0, 2])" by code_simp
  have "Peers (ctl0\<lparr>Persistence := Some ?p\<rparr>) = Map.empty" "Persistence ctl1 = Some ?p"
    "privateKey (Device ctl1) = ''cHJpdg==''" "os_mkdir (ctl_os env2) = None" "os_read (ctl_os env2) = None"
    by (simp_all add: ctl1_def ctl0_simps)
  moreover have "st = controller_state [''node1''] ''cHJpdg=='' ctl1 \<Longrightarrow> yaml_Unmarshal env2 data = Inr st" for st data
    by (simp add: env0_def)
  moreover have "peer_order env2 = [''node1'']" by (simp add: env0_def)
  ultimately obtain c' where c': "NewController env2 (\<lambda>b. Inr b) (Inr []) ''wg0'' [10, 0, 0, 1] (Network ctl0) 80 (filePath ?p) [''f'' \<mapsto> ''state''] = Inr c'"
      "Peers c' = Peers ctl1" and r: "\<And>k q i. Peers ctl1 k = Some q \<Longrightarrow> VPNIP q = ipv4_str i \<Longrightarrow> length i = 4 \<Longrightarrow>
       Contains (network a1) (v4InV6Prefix @ i) \<Longrightarrow> VPNIP q \<in> taken_keys (IPAllocator c')"
    using restart_restores_peers [OF run _ o _ s f _ _ _ _ _ n k a, of "\<lambda>b. Inr b" "Inr []"] by auto
  have "''10.0.0.2'' \<in> taken_keys (IPAllocator c')"
    using r [of "''node1''" _ "[10, 0, 0, 2]"] c w by (simp add: ctl1_def dec_strings)
  with c' show ?thesis by auto
qed

text \<open>
  C34 (error, a flaw). The peer \<open>AddPeer\<close> records has no allowed address: the device was given
  \<open>allowed_ip=<address>/32\<close>, the saved peer holds the empty text, and a restarted controller sends
  the device \<open>allowed_ip=\<close> with nothing behind it for that peer.
\<close>

theorem restart_loses_allowed_ip:
  assumes "AddPeer env client pub (c, d) = Some (Inr vpn, (c', d'))" and "Peers c client = None"
  shows "\<exists>peer raw. Peers c' client = Some peer \<and> b64_decode pub = Some raw \<and>
    device_ipc (wg_api env) (add_peer_cfg raw (vpn @ ''/32'')) (Device c) = (None, Device c') \<and>
    (\<forall>api dev. restore_peers api [peer_of (persistent_peer peer)] dev = snd (device_ipc api (add_peer_cfg raw '''') dev))"
  using assms
  by (rule AddPeer_ok) (auto simp: Device_AddPeer_def split: option.splits)

theorem restart_loses_allowed_ip_witness:
  "\<exists>peer. Peers ctl1 ''node1'' = Some peer \<and>
     WG (restore_peers log_api [peer_of (persistent_peer peer)] (Device ctl0)) =
       [''public_key=6b6579'' @ nl @ ''allowed_ip='' @ nl @ ''persistent_keepalive_interval=25'' @ nl]"
proof -
  have h: "hex_encode [107, 101, 121] = ''6b6579''" by code_simp
  have n: "Peers (ctl0\<lparr>Persistence := Some \<lparr>filePath = ''f''\<rparr>\<rparr>) ''node1'' = None" by (simp add: ctl0_def)
  obtain peer where p: "Peers ctl1 ''node1'' = Some peer"
    and "restore_peers log_api [peer_of (persistent_peer peer)] (Device ctl0) =
      snd (device_ipc log_api (add_peer_cfg [107, 101, 121] '''') (Device ctl0))"
    using restart_loses_allowed_ip [OF AddPeer_ctl1 n] unfolding b64_keys(1) by blast
  then show ?thesis by (simp add: device_ipc_def log_api_def add_peer_cfg_def h ctl0_def)
qed

text \<open>
  \<open>UpsertPeer\<close> does not reserve the address it is given: after it stored a
  peer with the address the allocator would hand out next, \<open>AddPeer\<close> gives the same address to
  another client, and both peers hold it.
\<close>

theorem upsert_address_is_reused:
  assumes "UpsertPeer env k pub (ipv4_str i @ ''/32'') (c, d) = (None, (c1, d1))" and "Peers c k = None"
    and "NextAvailable (IPAllocator c) = Some (Inr i, a)" and "length i = 4"
    and "AddPeer env' client pub' (c1, d1) = Some (Inr vpn, (c2, d2))" and "Peers c client = None" and "client \<noteq> k"
  shows "vpn = ipv4_str i \<and> map_option VPNIP (Peers c2 k) = Some vpn \<and> map_option VPNIP (Peers c2 client) = Some vpn"
proof -
  have "nat_str 32 = ''32''" by code_simp
  then have v: "cidr_ip_string (ipv4_str i @ ''/32'') = ipv4_str i"
    using ParseCIDR_v4 [of i 32] assms(4) by (simp add: cidr_ip_string_def)
  obtain peer where p: "Peers c1 = (Peers c)(k \<mapsto> peer)" "VPNIP peer = ipv4_str i" "IPAllocator c1 = IPAllocator c"
    using assms(1) by (rule UpsertPeer_ok) (simp add: assms(2) v)
  have none: "Peers c1 client = None" using p assms(6,7) by simp
  from assms(5) none show ?thesis
    by (rule AddPeer_ok) (use p assms in auto)
qed

theorem upsert_address_is_reused_witness:
  "\<exists>c2 d2. AddPeer env1 ''node2'' ''a2V5'' (snd (UpsertPeer env1 ''node1'' ''a2V5'' ''10.0.0.2/32'' (ctl0, Map.empty))) =
     Some (Inr ''10.0.0.2'', (c2, d2)) \<and> map_option VPNIP (Peers c2 ''node1'') = Some ''10.0.0.2''"
proof -
  obtain c1 d1 where u: "UpsertPeer env1 ''node1'' ''a2V5'' (ipv4_str [10, 0, 0, 2] @ ''/32'') (ctl0, Map.empty) = (None, (c1, d1))"
    and c1: "IPAllocator c1 = pool30" "Peers c1 ''node2'' = None" "Persistence c1 = None" "d1 = Map.empty"
    by (simp add: UpsertPeer_def ctl0_simps Device_AddPeer_def b64_keys device_ipc_def persist_after_def)
  obtain c2 d2 where a: "AddPeer env1 ''node2'' ''a2V5'' (c1, d1) = Some (Inr ''10.0.0.2'', (c2, d2))"
    by (simp add: AddPeer_def c1 NextAvailable_pool30 dec_strings Device_AddPeer_def b64_keys device_ipc_def
        env0_def log_api_def persist_after_def Let_def)
  have n: "NextAvailable (IPAllocator ctl0) = Some (Inr [10, 0, 0, 2], pool30\<lparr>used := (used pool30)(''10.0.0.2'' \<mapsto> True)\<rparr>)"
    by (simp add: ctl0_def NextAvailable_pool30)
  have "map_option VPNIP (Peers c2 ''node1'') = Some ''10.0.0.2''"
    using upsert_address_is_reused [OF u _ n _ a] by (auto simp: ctl0_def)
  with a u show ?thesis by (auto simp: dec_strings)
qed

text \<open>
  An address taken for a peer that the reconciler then adds with
  \<open>UpsertPeer\<close> and removes with \<open>RemovePeerByID\<close> is not given back: each such cycle leaves the peers
  as they were and one more address in use, whereas \<open>RemovePeer\<close> gives the address back.
\<close>

theorem remove_by_id_leaks_address:
  assumes "NextAvailable (IPAllocator c) = Some (Inr i, a)" and "Peers c uid = None"
    and "UpsertPeer env uid pub (IP_String i @ ''/32'') (c\<lparr>IPAllocator := a\<rparr>, d) = (None, (c1, d1))"
    and "RemovePeerByID env' uid (c1, d1) = (None, (c2, d2))"
  shows "Peers c2 = Peers c \<and> IP_String i \<notin> taken_keys (IPAllocator c) \<and>
    taken_keys (IPAllocator c2) = insert (IP_String i) (taken_keys (IPAllocator c))"
proof -
  obtain peer where "Peers c1 = (Peers c)(uid \<mapsto> peer)" "IPAllocator c1 = a"
    using assms(3) by (rule UpsertPeer_ok) simp
  with assms(2) RemovePeerByID_ok [OF assms(4)] have "Peers c2 = Peers c" "IPAllocator c2 = a"
    by (auto simp: fun_upd_idem)
  then show ?thesis using wg_pool.alloc_fresh [OF assms(1)] wg_pool.alloc_taken [OF assms(1)] by simp
qed

theorem remove_by_id_leaks_address_witness:
  "\<exists>c2. snd (RemovePeerByID env1 ''u'' (snd (UpsertPeer env1 ''u'' ''a2V5'' ''10.0.0.2/32''
       (ctl0\<lparr>IPAllocator := pool30\<lparr>used := (used pool30)(''10.0.0.2'' \<mapsto> True)\<rparr>\<rparr>, Map.empty)))) = (c2, Map.empty) \<and>
     Peers c2 = Map.empty \<and> ''10.0.0.2'' \<in> taken_keys (IPAllocator c2)"
proof -
  let ?a = "pool30\<lparr>used := (used pool30)(''10.0.0.2'' \<mapsto> True)\<rparr>"
  have n: "NextAvailable (IPAllocator ctl0) = Some (Inr [10, 0, 0, 2], ?a)"
    by (simp add: ctl0_def NextAvailable_pool30)
  obtain c1 where u: "UpsertPeer env1 ''u'' ''a2V5'' (IP_String [10, 0, 0, 2] @ ''/32'') (ctl0\<lparr>IPAllocator := ?a\<rparr>, Map.empty) = (None, (c1, Map.empty))"
    and c1: "map_option PublicKey (Peers c1 ''u'') = Some ''a2V5''" "Persistence c1 = None"
    by (simp add: UpsertPeer_def ctl0_simps Device_AddPeer_def b64_keys device_ipc_def persist_after_def)
  obtain c2 where r: "RemovePeerByID env1 ''u'' (c1, Map.empty) = (None, (c2, Map.empty))"
    using c1 by (auto simp: RemovePeerByID_def Device_RemovePeer_def b64_keys device_ipc_def env0_def log_api_def persist_after_def)
  have "Peers ctl0 ''u'' = None" by (simp add: ctl0_def)
  from remove_by_id_leaks_address [OF n this u r] u r show ?thesis by (simp add: dec_strings ctl0_def)
qed

section \<open>The interface of the reconciler\<close>

text \<open>
  \<open>WireGuardPeerController\<close> of \<open>pkg/reconcilers\<close>: what the reconciler needs of the controller, the
  key and the allowed address configured for each peer. The error for an unknown peer is recognised
  by its text.
\<close>

locale peer_controller =
  fixes upsert :: "string \<Rightarrow> string \<Rightarrow> string \<Rightarrow> 's \<Rightarrow> goerror option \<times> 's"
    and remove :: "string \<Rightarrow> 's \<Rightarrow> goerror option \<times> 's"
    and peer :: "'s \<Rightarrow> string \<rightharpoonup> string \<times> string"
  assumes upsert_ok: "upsert k pub allowed s = (None, s') \<Longrightarrow> peer s' = (peer s)(k \<mapsto> (pub, allowed))"
    and upsert_err: "upsert k pub allowed s = (Some e, s') \<Longrightarrow> peer s' = peer s"
    and upsert_same: "peer s k = Some (pub, allowed) \<Longrightarrow> upsert k pub allowed s = (None, s)"
    and remove_ok: "remove k s = (None, s') \<Longrightarrow> peer s' = (peer s)(k := None)"
    and remove_err: "remove k s = (Some e, s') \<Longrightarrow> peer s' = peer s"
    and remove_absent: "peer s k = None \<Longrightarrow>
      \<exists>e. remove k s = (Some e, s) \<and> Contains_str (ToLower (err_text e)) ''peer not found''"

definition configured :: "'w cstate \<Rightarrow> string \<rightharpoonup> string \<times> string" where
  "configured s k = map_option (\<lambda>p. (PublicKey p, AllowedIP p)) (Peers (fst s) k)"

lemma peer_not_found_text: "Contains_str (ToLower (''peer not found: '' @ k)) ''peer not found''"
proof -
  have "ToLower (''peer not found: '' @ k) = ''peer not found'' @ ToLower ('': '' @ k)"
    by (simp add: ToLower_def lower_char_def)
  then show ?thesis by (simp add: Contains_str_def prefix_imp_sublist)
qed

interpretation wg_ctl: peer_controller "UpsertPeer env" "RemovePeerByID env" configured for env
proof
  fix k pub allowed and s s' :: "'a cstate"
  assume h: "UpsertPeer env k pub allowed s = (None, s')"
  obtain c d c' d' where s: "s = (c, d)" "s' = (c', d')" by (cases s; cases s')
  obtain peer where "Peers c' = (Peers c)(k \<mapsto> peer)" "PublicKey peer = pub" "AllowedIP peer = allowed"
    using h unfolding s by (rule UpsertPeer_ok)
  then show "configured s' = (configured s)(k \<mapsto> (pub, allowed))" by (auto simp: s configured_def)
next
  fix k pub allowed e and s s' :: "'a cstate"
  assume "UpsertPeer env k pub allowed s = (Some e, s')"
  then show "configured s' = configured s"
    by (cases s; cases s') (auto simp: configured_def fun_eq_iff dest: UpsertPeer_err(1))
next
  fix k pub allowed and s :: "'a cstate"
  assume "configured s k = Some (pub, allowed)"
  then show "UpsertPeer env k pub allowed s = (None, s)"
    by (cases s) (auto simp: configured_def UpsertPeer_def)
next
  fix k and s s' :: "'a cstate"
  assume "RemovePeerByID env k s = (None, s')"
  then show "configured s' = (configured s)(k := None)"
    by (cases s; cases s') (auto simp: configured_def fun_eq_iff dest: RemovePeerByID_ok(2))
next
  fix k e and s s' :: "'a cstate"
  assume "RemovePeerByID env k s = (Some e, s')"
  then show "configured s' = configured s"
    by (cases s; cases s') (auto simp: configured_def fun_eq_iff dest: RemovePeerByID_err(1))
next
  fix k and s :: "'a cstate"
  assume "configured s k = None"
  then show "\<exists>e. RemovePeerByID env k s = (Some e, s) \<and> Contains_str (ToLower (err_text e)) ''peer not found''"
    using peer_not_found_text [of k] by (cases s) (auto simp: configured_def RemovePeerByID_def)
qed

end
