(* ===== verification/Resources.thy ===== *)
theory Resources
  imports Go_Net
begin

text \<open>
  The resource types of \<open>apis/cloud-init.openchami.io/v1\<close>: ClusterDefaults, Group, InstanceInfo and
  WireGuardPeer, with their validation. All four have the same outer fields, so they are instances of
  one record with the types of the spec and the status as parameters. Of \<open>fabrica.Metadata\<close> the
  record has the fields the repository uses.

  Group validation extracts the variables of a template with two regular expressions, renders the
  template (pongo2), parses the result (yaml.v3) and keeps a history of template versions (SHA-256);
  the three libraries, the clock and the order in which Go visits a map are fields of
  \<open>template_env\<close>.
\<close>

section \<open>Values of type any\<close>

text \<open>The dynamic types the code stores in maps of type \<open>map[string]any\<close>.\<close>

datatype any =
    AStr string
  | AInt int
  | AInt64 int
  | ABool bool
  | AStrs "string list"
  | AMap "string \<Rightarrow> any option"
  | AMaps "(string \<Rightarrow> any option) list"
  | AStrMaps "(string \<Rightarrow> string option) list"
  | AGroups "string \<Rightarrow> (string \<Rightarrow> any option) option"
  | ANil

type_synonym dict = "string \<rightharpoonup> any"
type_synonym strmap = "string \<rightharpoonup> string"

section \<open>Resources\<close>

record Metadata =
  md_Name :: string
  md_UID :: string
  md_Labels :: "strmap option"
  md_Annotations :: "strmap option"
  md_CreatedAt :: gotime
  md_UpdatedAt :: gotime

record ('sp, 'st) resource =
  APIVersion :: string
  Kind :: string
  Meta :: Metadata
  Spec :: 'sp
  Status :: 'st

record ClusterDefaultsSpec =
  cd_Description :: string
  cd_BaseURL :: string
  cd_CloudProvider :: string
  cd_Region :: string
  cd_AvailabilityZone :: string
  cd_ClusterName :: string
  cd_ShortName :: string
  cd_NidLength :: int
  cd_PublicKeys :: "string list"

text \<open>ClusterDefaults and InstanceInfo have the same status.\<close>

record PhaseStatus =
  ph_Phase :: string
  ph_Message :: string
  ph_Ready :: bool

record TemplateVersionInfo =
  tv_Version :: string
  tv_Timestamp :: string
  tv_Valid :: bool
  tv_ErrorMessage :: string

record GroupSpec =
  g_Description :: string
  g_Template :: string
  g_MetaData :: strmap
  g_OSVersion :: string

record GroupStatus =
  gs_LastApplied :: string
  gs_Valid :: bool
  gs_ErrorMessage :: string
  gs_ErrorDetails :: string
  gs_TemplateHash :: string
  gs_TemplateVersion :: string
  gs_CurrentTemplateVersion :: string
  gs_Version :: string
  gs_TemplateHistory :: "TemplateVersionInfo list"
  gs_RequiredVariables :: "string list"

record InstanceInfoSpec =
  ii_Description :: string
  ii_InstanceID :: string
  ii_LocalHostname :: string
  ii_Hostname :: string
  ii_CloudInitBaseURL :: string
  ii_PublicKeys :: "string list"
  ii_DefaultProfile :: string

record WireGuardPeerSpec =
  wp_Description :: string
  wp_PublicKey :: string
  wp_AllowedIP :: string

record WireGuardPeerStatus =
  ws_Phase :: string
  ws_Message :: string
  ws_Ready :: bool
  ws_Version :: string

type_synonym ClusterDefaults = "(ClusterDefaultsSpec, PhaseStatus) resource"
type_synonym Group = "(GroupSpec, GroupStatus) resource"
type_synonym InstanceInfo = "(InstanceInfoSpec, PhaseStatus) resource"
type_synonym WireGuardPeer = "(WireGuardPeerSpec, WireGuardPeerStatus) resource"

definition GetName :: "('sp, 'st) resource \<Rightarrow> string" where
  "GetName r = md_Name (Meta r)"

definition GetUID :: "('sp, 'st) resource \<Rightarrow> string" where
  "GetUID r = md_UID (Meta r)"

section \<open>Validation of ClusterDefaults, InstanceInfo and WireGuardPeer\<close>

definition ClusterDefaults_Validate :: "ClusterDefaults \<Rightarrow> goerror option" where
  "ClusterDefaults_Validate r = None"

definition InstanceInfo_Validate :: "InstanceInfo \<Rightarrow> goerror option" where
  "InstanceInfo_Validate r = None"

definition WireGuardPeer_Validate :: "WireGuardPeer \<Rightarrow> goerror option" where
  "WireGuardPeer_Validate r =
     (if wp_AllowedIP (Spec r) = '''' then Some (ENew ''allowed_ip is required (CIDR)'')
      else if wp_PublicKey (Spec r) = '''' then Some (ENew ''public_key is required'')
      else (case ParseCIDR (wp_AllowedIP (Spec r)) of
              None \<Rightarrow> Some (EWrap ''allowed_ip must be a valid CIDR: '' (cidr_error (wp_AllowedIP (Spec r))) '''')
            | Some _ \<Rightarrow> None))"

section \<open>Variables of a template\<close>

definition word_char :: "char \<Rightarrow> bool" where
  "word_char c = (let n = (of_char c :: nat) in
     (48 \<le> n \<and> n \<le> 57) \<or> (65 \<le> n \<and> n \<le> 90) \<or> (97 \<le> n \<and> n \<le> 122) \<or> c = CHR ''_'')"

definition var_char :: "char \<Rightarrow> bool" where
  "var_char c = (word_char c \<or> c = CHR ''.'')"

text \<open>\<open>\s\<close> of the package \<open>regexp\<close>.\<close>

definition re_space :: "char \<Rightarrow> bool" where
  "re_space c = (c \<in> {CHR 0x09, CHR 0x0A, CHR 0x0C, CHR 0x0D, CHR 0x20})"

text \<open>
  One attempt to match the expression for \<open>{{ name }}\<close> at the head of a text: the captured name and
  the length of the match. The character classes of neighbouring parts of the expression are disjoint,
  so that the greedy match is the only one.
\<close>

definition var_match :: "string \<Rightarrow> (string \<times> nat) option" where
  "var_match s =
     (let s1 = dropWhile re_space (drop 2 s); v = takeWhile var_char s1; s2 = dropWhile re_space (dropWhile var_char s1) in
      if HasPrefix s ''{{'' \<and> v \<noteq> [] \<and> HasPrefix s2 ''}}'' then Some (v, length s - (length s2 - 2)) else None)"

text \<open>The same for \<open>{% for x in name %}\<close>.\<close>

definition loop_match :: "string \<Rightarrow> (string \<times> nat) option" where
  "loop_match s =
     (let s1 = dropWhile re_space (drop 2 s); s2 = drop 3 s1; s3 = dropWhile re_space s2; s4 = dropWhile word_char s3;
          s5 = dropWhile re_space s4; s6 = drop 2 s5; s7 = dropWhile re_space s6; v = takeWhile var_char s7;
          s8 = dropWhile re_space (dropWhile var_char s7) in
      if HasPrefix s ''{%'' \<and> HasPrefix s1 ''for'' \<and> s3 \<noteq> s2 \<and> s4 \<noteq> s3 \<and> s5 \<noteq> s4 \<and> HasPrefix s5 ''in'' \<and> s7 \<noteq> s6 \<and>
         v \<noteq> [] \<and> HasPrefix s8 ''%}''
      then Some (v, length s - (length s8 - 2)) else None)"

text \<open>\<open>FindAllStringSubmatch\<close>: the captures of the matches from left to right, none overlapping another.\<close>

function find_all :: "(string \<Rightarrow> (string \<times> nat) option) \<Rightarrow> string \<Rightarrow> string list" where
  "find_all m [] = []"
| "find_all m (c # cs) =
     (case m (c # cs) of
        None \<Rightarrow> find_all m cs
      | Some (v, n) \<Rightarrow> v # find_all m (drop (n - 1) cs))"
  by pat_completeness auto
termination by (relation "measure (\<lambda>(m, s). length s)") auto

text \<open>The name and, when it has a dot after its first component, that component.\<close>

definition with_root :: "string \<Rightarrow> string list" where
  "with_root v =
     (let root = takeWhile word_char v in
      if root \<noteq> [] \<and> HasPrefix (dropWhile word_char v) ''.'' then [v, root] else [v])"

definition template_vars :: "string \<Rightarrow> string set" where
  "template_vars tmpl = set (concat (map with_root (find_all var_match tmpl @ find_all loop_match tmpl)))"

definition extractTemplateVariables :: "(string set \<Rightarrow> string list) \<Rightarrow> string \<Rightarrow> string list" where
  "extractTemplateVariables order tmpl = order (template_vars tmpl)"

section \<open>Metadata for validation\<close>

text \<open>The loops of \<open>MergeMetadata\<close> write into a new map; the entries of the group come last.\<close>

definition MergeMetadata :: "dict \<Rightarrow> strmap \<Rightarrow> dict" where
  "MergeMetadata defaultMeta groupMeta = defaultMeta ++ (\<lambda>k. map_option AStr (groupMeta k))"

fun lookup_path :: "any \<Rightarrow> string list \<Rightarrow> bool" where
  "lookup_path current [] = True"
| "lookup_path current (part # parts) =
     (case current of
        AMap typed \<Rightarrow> (case typed part of None \<Rightarrow> False | Some v \<Rightarrow> lookup_path v parts)
      | _ \<Rightarrow> False)"

definition hasTemplateVariableData :: "dict \<Rightarrow> string \<Rightarrow> bool" where
  "hasTemplateVariableData metadata variable = lookup_path (AMap metadata) (Split (CHR ''.'') variable)"

definition rack1 :: any where
  "rack1 = AMap [''rack1'' \<mapsto> AMap [''syslog_forwarder'' \<mapsto> AStr ''syslog.rack1.local'']]"

definition sampleMetadata :: dict where
  "sampleMetadata =
     [ ''cluster_name'' \<mapsto> AStr ''test-cluster'',
       ''base_url'' \<mapsto> AStr ''http://cloud-init.local'',
       ''cloud_provider'' \<mapsto> AStr ''OpenCHAMI'',
       ''region'' \<mapsto> AStr ''us-west-1'',
       ''availability_zone'' \<mapsto> AStr ''us-west-1a'',
       ''hostname'' \<mapsto> AStr ''test-host'',
       ''instance_id'' \<mapsto> AStr ''x1000c0s0b0n0'',
       ''nid'' \<mapsto> AInt 1000,
       ''role'' \<mapsto> AStr ''compute'',
       ''mac'' \<mapsto> AStr ''00:11:22:33:44:55'',
       ''ip'' \<mapsto> AStr ''192.0.2.1'',
       ''domain'' \<mapsto> AStr ''example.com'',
       ''os_version'' \<mapsto> AStr ''ubuntu-22.04'',
       ''ssh_keys'' \<mapsto> AStr ''ssh-rsa AAAAB3Nza...'',
       ''tags'' \<mapsto> AStr ''role=compute,env=prod'',
       ''vendor_data'' \<mapsto> AMap
         [ ''version'' \<mapsto> AStr ''1.0'',
           ''cloud_init_base_url'' \<mapsto> AStr ''http://cloud-init.local'',
           ''cluster_name'' \<mapsto> AStr ''test-cluster'',
           ''nid'' \<mapsto> AInt 1000,
           ''role'' \<mapsto> AStr ''compute'',
           ''mac'' \<mapsto> AStr ''00:11:22:33:44:55'',
           ''groups'' \<mapsto> rack1 ],
       ''meta_data'' \<mapsto> AMap
         [ ''instance-id'' \<mapsto> AStr ''x1000c0s0b0n0'',
           ''local-hostname'' \<mapsto> AStr ''test-host'',
           ''hostname'' \<mapsto> AStr ''test-host'',
           ''cluster-name'' \<mapsto> AStr ''test-cluster'',
           ''instance_data'' \<mapsto> AMap [''v1'' \<mapsto> AMap [''vendor_data'' \<mapsto> AMap [''groups'' \<mapsto> rack1]]] ] ]"

section \<open>Validation of Group\<close>

record template_env =
  te_render :: "string \<Rightarrow> dict \<Rightarrow> string result"     \<comment> \<open>\<open>RenderTemplateString\<close> of pongo2\<close>
  te_yaml :: "string \<Rightarrow> goerror option"                 \<comment> \<open>\<open>yaml.Unmarshal\<close> into any\<close>
  te_sha256 :: "string \<Rightarrow> byte list"
  te_now :: string                                       \<comment> \<open>the time as RFC 3339 text\<close>
  te_order :: "string set \<Rightarrow> string list"

definition RenderTemplate :: "template_env \<Rightarrow> string \<Rightarrow> dict \<Rightarrow> string result" where
  "RenderTemplate env templateStr metadata = te_render env templateStr metadata"

definition validateYAML :: "template_env \<Rightarrow> string \<Rightarrow> goerror option" where
  "validateYAML env s = te_yaml env s"

definition generateTemplateVersion :: "template_env \<Rightarrow> string \<Rightarrow> string" where
  "generateTemplateVersion env template = ''v-'' @ hex_encode (take 4 (te_sha256 env template))"

text \<open>The loop that replaces the first entry of the same version; None when there is none.\<close>

fun replace_version :: "TemplateVersionInfo \<Rightarrow> TemplateVersionInfo list \<Rightarrow> TemplateVersionInfo list option" where
  "replace_version info [] = None"
| "replace_version info (x # xs) =
     (if tv_Version x = tv_Version info then Some (info # xs) else map_option ((#) x) (replace_version info xs))"

definition trackTemplateVersion :: "template_env \<Rightarrow> bool \<Rightarrow> string \<Rightarrow> Group \<Rightarrow> Group" where
  "trackTemplateVersion env valid errorMsg r =
     (let version = generateTemplateVersion env (g_Template (Spec r));
          info = \<lparr>tv_Version = version, tv_Timestamp = te_now env, tv_Valid = valid, tv_ErrorMessage = errorMsg\<rparr>;
          h = gs_TemplateHistory (Status r) in
      case replace_version info h of
        Some h' \<Rightarrow> r\<lparr>Status := (Status r)\<lparr>gs_TemplateHistory := h', gs_CurrentTemplateVersion := version\<rparr>\<rparr>
      | None \<Rightarrow>
          let h' = h @ [info] in
          r\<lparr>Status := (Status r)\<lparr>gs_TemplateHistory := (if length h' > 10 then drop (length h' - 10) h' else h'),
                                  gs_CurrentTemplateVersion := version\<rparr>\<rparr>)"

text \<open>The error branches of \<open>Validate\<close>: record the failure and return it.\<close>

definition reject_group :: "template_env \<Rightarrow> string \<Rightarrow> Group \<Rightarrow> goerror option \<times> Group" where
  "reject_group env msg r =
     (Some (ENew msg), trackTemplateVersion env False msg (r\<lparr>Status := (Status r)\<lparr>gs_Valid := False, gs_ErrorMessage := msg\<rparr>\<rparr>))"

definition missing_text :: "string list \<Rightarrow> string" where
  "missing_text missing = ''missing required variables: ['' @ join '' '' missing @ '']''"

definition Group_Validate :: "template_env \<Rightarrow> Group \<Rightarrow> goerror option \<times> Group" where
  "Group_Validate env r =
     (if g_Template (Spec r) = '''' then reject_group env ''template is required'' r
      else
        let vars = extractTemplateVariables (te_order env) (g_Template (Spec r));
            r1 = r\<lparr>Status := (Status r)\<lparr>gs_RequiredVariables := vars\<rparr>\<rparr>;
            merged = MergeMetadata sampleMetadata (g_MetaData (Spec r));
            missing = filter (\<lambda>v. \<not> hasTemplateVariableData merged v) vars in
        if missing \<noteq> [] then reject_group env (missing_text missing) r1
        else (case RenderTemplate env (g_Template (Spec r)) merged of
                Inl e \<Rightarrow> reject_group env (''template render error: '' @ err_text e) r1
              | Inr rendered \<Rightarrow>
                  (case validateYAML env rendered of
                     Some e \<Rightarrow> reject_group env (''template YAML invalid after rendering: '' @ err_text e) r1
                   | None \<Rightarrow> (None, trackTemplateVersion env True ''''
                       (r1\<lparr>Status := (Status r1)\<lparr>gs_Valid := True, gs_ErrorMessage := ''''\<rparr>\<rparr>)))))"

section \<open>What a scan finds\<close>

text \<open>
  A matcher whose matches are prefixes of the text, never empty, and cannot overlap: no match starts
  strictly inside another. For such a matcher the left-to-right scan finds exactly the texts captured
  by a match somewhere.
\<close>

locale scanner =
  fixes m :: "string \<Rightarrow> (string \<times> nat) option"
  assumes match_bounds: "m s = Some (v, n) \<Longrightarrow> 0 < n \<and> n \<le> length s"
    and no_overlap: "m s = Some (v, n) \<Longrightarrow> 0 < k \<Longrightarrow> m (drop k s) = Some (v', n') \<Longrightarrow> n \<le> k"
begin

lemma no_match_Nil: "m [] = None"
  using match_bounds [of "[]"] by (cases "m []") auto

lemma find_all_sound: "v \<in> set (find_all m s) \<Longrightarrow> \<exists>k n. m (drop k s) = Some (v, n)"
proof (induction m s rule: find_all.induct)
  case (2 m c cs)
  show ?case
  proof (cases "m (c # cs)")
    case None
    with 2 obtain k n where "m (drop k cs) = Some (v, n)" by auto
    then show ?thesis by (metis drop_Suc_Cons)
  next
    case (Some p)
    then obtain w n where w: "m (c # cs) = Some (w, n)" by (cases p) auto
    show ?thesis
    proof (cases "v = w")
      case True
      with w have "m (drop 0 (c # cs)) = Some (v, n)" by simp
      then show ?thesis by blast
    next
      case False
      with 2(3) w have "v \<in> set (find_all m (drop (n - 1) cs))" by simp
      with 2(2) [OF w refl] obtain k n' where "m (drop k (drop (n - 1) cs)) = Some (v, n')" by auto
      then have "m (drop (Suc (k + (n - 1))) (c # cs)) = Some (v, n')" by simp
      then show ?thesis by blast
    qed
  qed
qed simp

lemma find_all_complete: "m (drop k s) = Some (v, n) \<Longrightarrow> v \<in> set (find_all m s)"
proof (induction "length s" arbitrary: s k rule: less_induct)
  case less
  show ?case
  proof (cases s)
    case Nil
    with less.prems no_match_Nil show ?thesis by simp
  next
    case (Cons c cs)
    show ?thesis
    proof (cases "m s")
      case None
      with less.prems obtain j where j: "k = Suc j" by (cases k) auto
      with less Cons None show ?thesis by (auto simp: less.hyps [of cs j])
    next
      case (Some p)
      then obtain w l where w: "m s = Some (w, l)" by (cases p) auto
      show ?thesis
      proof (cases k)
        case 0
        with less.prems w Cons show ?thesis by simp
      next
        case (Suc j)
        with no_overlap [OF w _ less.prems] have "l \<le> k" by simp
        moreover have "0 < l" using match_bounds [OF w] by simp
        ultimately have "drop k s = drop (k - l) (drop (l - 1) cs)" using Cons by (simp add: drop_Cons')
        with less.prems have "m (drop (k - l) (drop (l - 1) cs)) = Some (v, n)" by simp
        moreover have "length (drop (l - 1) cs) < length s" using Cons by simp
        ultimately show ?thesis using less.hyps Cons w by simp
      qed
    qed
  qed
qed

lemma find_all_iff: "v \<in> set (find_all m s) \<longleftrightarrow> (\<exists>k n. m (drop k s) = Some (v, n))"
  using find_all_sound find_all_complete by blast

end

text \<open>The shape of a text that starts with a variable reference, and with a loop over a variable.\<close>

definition blank :: "string \<Rightarrow> bool" where
  "blank w = list_all re_space w"

definition name_ok :: "string \<Rightarrow> bool" where
  "name_ok v = (v \<noteq> [] \<and> list_all var_char v)"

definition var_text :: "string \<Rightarrow> string \<Rightarrow> string \<Rightarrow> string" where
  "var_text w v w' = ''{{'' @ w @ v @ w' @ ''}}''"

definition loop_text :: "string \<Rightarrow> string \<Rightarrow> string \<Rightarrow> string \<Rightarrow> string \<Rightarrow> string \<Rightarrow> string \<Rightarrow> string" where
  "loop_text w a x b c v d = ''{%'' @ w @ ''for'' @ a @ x @ b @ ''in'' @ c @ v @ d @ ''%}''"

lemma re_space_cases: "re_space c \<Longrightarrow> \<not> var_char c \<and> \<not> word_char c \<and> c \<noteq> CHR ''{'' \<and> c \<noteq> CHR ''}'' \<and> c \<noteq> CHR ''%''"
  by (auto simp: re_space_def var_char_def word_char_def)

lemma var_char_cases: "var_char c \<Longrightarrow> \<not> re_space c \<and> c \<noteq> CHR ''{'' \<and> c \<noteq> CHR ''}'' \<and> c \<noteq> CHR ''%''"
  using re_space_cases [of c] by (auto simp: var_char_def word_char_def)

lemma word_char_var: "word_char c \<Longrightarrow> var_char c"
  by (simp add: var_char_def)

lemma span_skip: "list_all P w \<Longrightarrow> (xs = [] \<or> \<not> P (hd xs)) \<Longrightarrow> dropWhile P (w @ xs) = xs \<and> takeWhile P (w @ xs) = w"
  by (cases xs; induction w) auto

lemma punct: "\<not> re_space (CHR ''}'')" "\<not> var_char (CHR ''}'')" "\<not> re_space (CHR ''%'')" "\<not> var_char (CHR ''%'')"
  by (simp_all add: re_space_def var_char_def word_char_def)

lemma list_all_takeWhile: "list_all P (takeWhile P s)"
  by (auto simp: list_all_iff dest: set_takeWhileD)

lemma var_match_text:
  assumes "blank w" "name_ok v" "blank w'"
  shows "var_match (var_text w v w' @ post) = Some (v, length (var_text w v w'))"
proof -
  obtain c cs where v: "v = c # cs" "var_char c" using assms(2) by (cases v) (auto simp: name_ok_def)
  have "re_space c = False" using v var_char_cases by blast
  then have 1: "dropWhile re_space (w @ v @ w' @ ''}}'' @ post) = v @ w' @ ''}}'' @ post"
    using assms(1) v by (simp add: blank_def span_skip)
  have "w' = [] \<or> \<not> var_char (hd w')" using assms(3) re_space_cases by (cases w') (auto simp: blank_def)
  then have "(w' @ ''}}'' @ post) = [] \<or> \<not> var_char (hd (w' @ ''}}'' @ post))" using var_char_cases by (cases w') auto
  with assms(2) have 2: "dropWhile var_char (v @ w' @ ''}}'' @ post) = w' @ ''}}'' @ post \<and> takeWhile var_char (v @ w' @ ''}}'' @ post) = v"
    by (intro span_skip) (auto simp: name_ok_def)
  have 3: "dropWhile re_space (w' @ ''}}'' @ post) = ''}}'' @ post"
    using assms(3) by (intro span_skip [THEN conjunct1]) (simp_all add: blank_def punct)
  from v show ?thesis
    unfolding var_match_def Let_def using 1 2 3 by (simp add: var_text_def HasPrefix_def)
qed

lemma var_match_shape:
  assumes "var_match s = Some (v, n)"
  shows "\<exists>w w' post. s = var_text w v w' @ post \<and> blank w \<and> name_ok v \<and> blank w' \<and> n = length (var_text w v w')"
proof -
  let ?s1 = "dropWhile re_space (drop 2 s)" and ?s2 = "dropWhile re_space (dropWhile var_char (dropWhile re_space (drop 2 s)))"
  from assms have p: "prefix ''{{'' s" "prefix ''}}'' ?s2" and v: "v = takeWhile var_char ?s1" "v \<noteq> []" and n: "n = length s - (length ?s2 - 2)"
    by (auto simp: var_match_def Let_def HasPrefix_def split: if_splits)
  from p obtain rest post where s: "s = ''{{'' @ rest" and post: "?s2 = ''}}'' @ post" by (auto simp: prefix_def)
  let ?w = "takeWhile re_space (drop 2 s)" and ?w' = "takeWhile re_space (dropWhile var_char ?s1)"
  have d: "drop 2 s = rest" using s by simp
  have "s = ''{{'' @ ?w @ ?s1" unfolding takeWhile_dropWhile_id d by (rule s)
  moreover have "?s1 = v @ ?w' @ ?s2" unfolding v(1) takeWhile_dropWhile_id by (rule refl)
  ultimately have "s = ''{{'' @ ?w @ v @ ?w' @ ''}}'' @ post" unfolding post by (rule trans [OF _ arg_cong])
  then have eq: "s = var_text ?w v ?w' @ post" unfolding var_text_def append_assoc .
  have "name_ok v" unfolding name_ok_def using v(2) unfolding v(1) by (simp add: list_all_takeWhile)
  moreover have "n = length (var_text ?w v ?w')"
  proof -
    have "length s = length (var_text ?w v ?w') + length post" by (rule arg_cong [OF eq, of length, unfolded length_append])
    moreover have "length ?s2 - 2 = length post" unfolding post by simp
    ultimately show ?thesis using n by linarith
  qed
  ultimately show ?thesis using eq unfolding blank_def by (intro exI conjI) (rule eq list_all_takeWhile | assumption)+
qed

lemma prefix_drop: "prefix p s \<Longrightarrow> length p = n \<Longrightarrow> s = p @ drop n s"
  by (auto simp: prefix_def)

lemma dropWhile_moved: "dropWhile P s \<noteq> s \<Longrightarrow> takeWhile P s \<noteq> []"
  by (metis append_Nil takeWhile_dropWhile_id)

lemma loop_match_shape:
  assumes "loop_match s = Some (v, n)"
  shows "\<exists>w a x b c d post. s = loop_text w a x b c v d @ post \<and> blank w \<and> blank a \<and> a \<noteq> [] \<and> list_all word_char x \<and> x \<noteq> [] \<and>
    blank b \<and> b \<noteq> [] \<and> blank c \<and> c \<noteq> [] \<and> name_ok v \<and> blank d \<and> n = length (loop_text w a x b c v d)"
proof -
  define s1 s2 s3 s4 where "s1 = dropWhile re_space (drop 2 s)" and "s2 = drop 3 s1" and "s3 = dropWhile re_space s2" and "s4 = dropWhile word_char s3"
  define s5 s6 s7 s8 where "s5 = dropWhile re_space s4" and "s6 = drop 2 s5" and "s7 = dropWhile re_space s6" and "s8 = dropWhile re_space (dropWhile var_char s7)"
  note defs = s1_def s2_def s3_def s4_def s5_def s6_def s7_def s8_def
  have p: "prefix ''{%'' s" "prefix ''for'' s1" "s3 \<noteq> s2" "s4 \<noteq> s3" "s5 \<noteq> s4" "prefix ''in'' s5" "s7 \<noteq> s6" "takeWhile var_char s7 \<noteq> []"
      "prefix ''%}'' s8" and v: "v = takeWhile var_char s7" and n: "n = length s - (length s8 - 2)"
    using assms unfolding loop_match_def Let_def defs [symmetric] HasPrefix_def by (simp_all split: if_splits)
  define w a x b where "w = takeWhile re_space (drop 2 s)" and "a = takeWhile re_space s2" and "x = takeWhile word_char s3" and "b = takeWhile re_space s4"
  define c d post where "c = takeWhile re_space s6" and "d = takeWhile re_space (dropWhile var_char s7)" and "post = drop 2 s8"
  note parts = w_def a_def x_def b_def c_def d_def post_def
  have 1: "s = ''{%'' @ w @ s1" using prefix_drop [OF p(1), of 2] by (simp add: parts s1_def)
  have 2: "s1 = ''for'' @ a @ s3" using prefix_drop [OF p(2), of 3] by (simp add: parts s2_def s3_def)
  have 3: "s3 = x @ b @ s5" by (simp add: parts s4_def s5_def)
  have 4: "s5 = ''in'' @ c @ s7" using prefix_drop [OF p(6), of 2] by (simp add: parts s6_def s7_def)
  have 5: "s7 = v @ d @ s8" by (simp add: parts v s8_def)
  have 6: "s8 = ''%}'' @ post" using prefix_drop [OF p(9), of 2] by (simp add: parts)
  have eq: "s = loop_text w a x b c v d @ post" unfolding loop_text_def by (subst 1, subst 2, subst 3, subst 4, subst 5, subst 6) simp
  have ok: "blank w" "blank a" "list_all word_char x" "blank b" "blank c" "blank d" "name_ok v"
    using p(8) by (simp_all add: parts v blank_def name_ok_def list_all_takeWhile)
  have ne: "a \<noteq> []" "x \<noteq> []" "b \<noteq> []" "c \<noteq> []"
    unfolding parts using p(3,4,5,7) unfolding s3_def s4_def s5_def s7_def by (simp_all add: dropWhile_moved)
  have "length s = length (loop_text w a x b c v d) + length post" by (rule arg_cong [OF eq, of length, unfolded length_append])
  then have "n = length (loop_text w a x b c v d)" using n 6 by simp
  with eq ok ne show ?thesis by blast
qed

lemma skip:
  "list_all P w \<Longrightarrow> xs \<noteq> [] \<Longrightarrow> \<not> P (hd xs) \<Longrightarrow> dropWhile P (w @ xs) = xs"
  "list_all P w \<Longrightarrow> xs \<noteq> [] \<Longrightarrow> \<not> P (hd xs) \<Longrightarrow> takeWhile P (w @ xs) = w"
  using span_skip [of P w xs] by auto

lemma hd_blank: "blank w \<Longrightarrow> w \<noteq> [] \<Longrightarrow> \<not> var_char (hd (w @ xs)) \<and> \<not> word_char (hd (w @ xs))"
  using re_space_cases by (cases w) (auto simp: blank_def)

lemma loop_match_text:
  assumes "blank w" "blank a" "a \<noteq> []" "list_all word_char x" "x \<noteq> []" "blank b" "b \<noteq> []" "blank c" "c \<noteq> []" "name_ok v" "blank d"
  shows "loop_match (loop_text w a x b c v d @ post) = Some (v, length (loop_text w a x b c v d))"
proof -
  let ?s8 = "''%}'' @ post" and ?s7 = "v @ d @ ''%}'' @ post" and ?s5 = "''in'' @ c @ v @ d @ ''%}'' @ post"
  let ?s3 = "x @ b @ ?s5"
  have hx: "\<not> re_space (hd (x @ xs))" for xs using assms(4,5) word_char_var var_char_cases by (cases x) auto
  have hv: "\<not> re_space (hd (v @ xs))" for xs using assms(10) var_char_cases by (cases v) (auto simp: name_ok_def)
  have hd_d: "\<not> var_char (hd (d @ ''%}'' @ post))" using assms(11) re_space_cases punct by (cases d) (auto simp: blank_def)
  have 1: "dropWhile re_space (w @ ''for'' @ a @ ?s3) = ''for'' @ a @ ?s3"
    using assms(1) by (intro skip) (simp_all add: blank_def re_space_def)
  have 3: "dropWhile re_space (a @ ?s3) = ?s3" using assms(2,5) hx by (intro skip) (simp_all add: blank_def)
  have 4: "dropWhile word_char ?s3 = b @ ?s5" using assms(4,6,7) hd_blank [of b] by (intro skip) simp_all
  have 5: "dropWhile re_space (b @ ?s5) = ?s5" using assms(6) by (intro skip) (simp_all add: blank_def re_space_def)
  have 7: "dropWhile re_space (c @ ?s7) = ?s7" using assms(8,10) hv by (intro skip) (simp_all add: blank_def name_ok_def)
  have v: "dropWhile var_char ?s7 = d @ ?s8" "takeWhile var_char ?s7 = v"
    using assms(10) hd_d by (intro skip; simp add: name_ok_def)+
  have 8: "dropWhile re_space (d @ ?s8) = ?s8" using assms(11) punct by (intro skip) (simp_all add: blank_def)
  have pre: "drop 2 (loop_text w a x b c v d @ post) = w @ ''for'' @ a @ ?s3" "drop 3 (''for'' @ a @ ?s3) = a @ ?s3" "drop 2 ?s5 = c @ ?s7"
    by (simp_all add: loop_text_def)
  have "a @ ?s3 \<noteq> ?s3" "?s3 \<noteq> b @ ?s5" "b @ ?s5 \<noteq> ?s5" "c @ ?s7 \<noteq> ?s7" "v \<noteq> []"
    using assms(3,5,7,9,10) by (simp_all add: name_ok_def)
  then show ?thesis
    unfolding loop_match_def Let_def pre 1 3 4 5 7 v 8 by (simp add: loop_text_def HasPrefix_def)
qed

lemma brace_beyond:
  assumes "s = [x, y] @ body @ post" "CHR ''{'' \<notin> set body" "2 \<le> k" "drop k s = CHR ''{'' # r"
  shows "2 + length body \<le> k"
proof (rule ccontr)
  assume "\<not> ?thesis"
  then have k: "k < length s" "k - 2 < length body" using assms(1,3) by auto
  have "s ! k = CHR ''{''" using assms(4) k(1) by (metis hd_drop_conv_nth list.sel(1))
  moreover have "s ! k = body ! (k - 2)" using assms(1,3) k(2) by (simp add: nth_Cons' nth_append) (metis One_nat_def diff_diff_left numeral_2_eq_2 plus_1_eq_Suc)
  ultimately show False using assms(2) k(2) nth_mem by metis
qed

lemma not_in_all: "list_all P w \<Longrightarrow> \<not> P c \<Longrightarrow> c \<notin> set w"
  by (auto simp: list_all_iff)

lemma no_brace: "blank w \<Longrightarrow> CHR ''{'' \<notin> set w" "name_ok v \<Longrightarrow> CHR ''{'' \<notin> set v" "list_all word_char x \<Longrightarrow> CHR ''{'' \<notin> set x"
  unfolding blank_def name_ok_def by (auto simp: re_space_def var_char_def word_char_def dest!: not_in_all [where c = "CHR ''{''"])

interpretation var_scan: scanner var_match
proof
  fix s v n assume "var_match s = Some (v, n)"
  from var_match_shape [OF this] show "0 < n \<and> n \<le> length s" by (auto simp: var_text_def)
next
  fix s v n k v' n'
  assume m: "var_match s = Some (v, n)" and k: "0 < k" and m': "var_match (drop k s) = Some (v', n')"
  from var_match_shape [OF m] obtain w w' post where
    s: "s = [CHR ''{'', CHR ''{''] @ (w @ v @ w' @ ''}}'') @ post" and nb: "CHR ''{'' \<notin> set (w @ v @ w' @ ''}}'')" and n: "n = 2 + length (w @ v @ w' @ ''}}'')"
    using no_brace by (auto simp: var_text_def)
  from var_match_shape [OF m'] obtain r where r: "drop k s = CHR ''{'' # CHR ''{'' # r" by (auto simp: var_text_def)
  show "n \<le> k"
  proof (cases "k = 1")
    case True
    with r s have "hd (w @ v @ w' @ ''}}'' @ post) = CHR ''{''" by simp
    with nb show ?thesis by (cases w; cases v; cases w') auto
  next
    case False
    with k have "2 \<le> k" by simp
    from brace_beyond [OF s nb this r] n show ?thesis by simp
  qed
qed

interpretation loop_scan: scanner loop_match
proof
  fix s v n assume "loop_match s = Some (v, n)"
  from loop_match_shape [OF this] show "0 < n \<and> n \<le> length s" by (auto simp: loop_text_def)
next
  fix s v n k v' n'
  assume m: "loop_match s = Some (v, n)" and k: "0 < k" and m': "loop_match (drop k s) = Some (v', n')"
  from loop_match_shape [OF m] obtain w a x b c d post where
    s: "s = [CHR ''{'', CHR ''%''] @ (w @ ''for'' @ a @ x @ b @ ''in'' @ c @ v @ d @ ''%}'') @ post"
    and nb: "CHR ''{'' \<notin> set (w @ ''for'' @ a @ x @ b @ ''in'' @ c @ v @ d @ ''%}'')"
    and n: "n = 2 + length (w @ ''for'' @ a @ x @ b @ ''in'' @ c @ v @ d @ ''%}'')"
    using no_brace by (auto simp: loop_text_def)
  from loop_match_shape [OF m'] obtain r where r: "drop k s = CHR ''{'' # r" by (auto simp: loop_text_def)
  have "k \<noteq> 1" using r s by auto
  with k have "2 \<le> k" by simp
  from brace_beyond [OF s nb this r] n show "n \<le> k" by simp
qed

text \<open>The specification of the extraction: a template refers to a name, in an expression or as the range of a loop.\<close>

definition references :: "string \<Rightarrow> string \<Rightarrow> bool" where
  "references tmpl u \<longleftrightarrow>
     (\<exists>pre w w' post. tmpl = pre @ var_text w u w' @ post \<and> blank w \<and> name_ok u \<and> blank w') \<or>
     (\<exists>pre w a x b c d post. tmpl = pre @ loop_text w a x b c u d @ post \<and> blank w \<and> blank a \<and> a \<noteq> [] \<and> list_all word_char x \<and> x \<noteq> [] \<and>
        blank b \<and> b \<noteq> [] \<and> blank c \<and> c \<noteq> [] \<and> name_ok u \<and> blank d)"

lemma drop_split: "(\<exists>k. P (drop k s)) \<longleftrightarrow> (\<exists>pre t. s = pre @ t \<and> P t)"
  by (metis append_take_drop_id append_eq_conv_conj)

lemma var_match_iff: "(\<exists>n. var_match t = Some (u, n)) \<longleftrightarrow> (\<exists>w w' post. t = var_text w u w' @ post \<and> blank w \<and> name_ok u \<and> blank w')"
  using var_match_shape var_match_text by fastforce

lemma loop_match_iff: "(\<exists>n. loop_match t = Some (u, n)) \<longleftrightarrow>
    (\<exists>w a x b c d post. t = loop_text w a x b c u d @ post \<and> blank w \<and> blank a \<and> a \<noteq> [] \<and> list_all word_char x \<and> x \<noteq> [] \<and>
        blank b \<and> b \<noteq> [] \<and> blank c \<and> c \<noteq> [] \<and> name_ok u \<and> blank d)" (is "?l \<longleftrightarrow> ?r")
proof
  assume ?l then show ?r using loop_match_shape by meson
next
  assume ?r then show ?l using loop_match_text by fast
qed

lemma var_found: "u \<in> set (find_all var_match tmpl) \<longleftrightarrow>
    (\<exists>pre w w' post. tmpl = pre @ var_text w u w' @ post \<and> blank w \<and> name_ok u \<and> blank w')"
proof -
  have "u \<in> set (find_all var_match tmpl) \<longleftrightarrow> (\<exists>pre t. tmpl = pre @ t \<and> (\<exists>n. var_match t = Some (u, n)))"
    unfolding var_scan.find_all_iff by (rule drop_split)
  also have "\<dots> \<longleftrightarrow> (\<exists>pre w w' post. tmpl = pre @ var_text w u w' @ post \<and> blank w \<and> name_ok u \<and> blank w')"
    unfolding var_match_iff by blast
  finally show ?thesis .
qed

lemma loop_found: "u \<in> set (find_all loop_match tmpl) \<longleftrightarrow>
    (\<exists>pre w a x b c d post. tmpl = pre @ loop_text w a x b c u d @ post \<and> blank w \<and> blank a \<and> a \<noteq> [] \<and> list_all word_char x \<and> x \<noteq> [] \<and>
        blank b \<and> b \<noteq> [] \<and> blank c \<and> c \<noteq> [] \<and> name_ok u \<and> blank d)"
proof -
  have "u \<in> set (find_all loop_match tmpl) \<longleftrightarrow> (\<exists>pre t. tmpl = pre @ t \<and> (\<exists>n. loop_match t = Some (u, n)))"
    unfolding loop_scan.find_all_iff by (rule drop_split)
  also have "\<dots> \<longleftrightarrow> (\<exists>pre w a x b c d post. tmpl = pre @ loop_text w a x b c u d @ post \<and> blank w \<and> blank a \<and> a \<noteq> [] \<and> list_all word_char x \<and> x \<noteq> [] \<and>
        blank b \<and> b \<noteq> [] \<and> blank c \<and> c \<noteq> [] \<and> name_ok u \<and> blank d)"
    unfolding loop_match_iff by blast
  finally show ?thesis .
qed

lemma template_vars_iff: "v \<in> template_vars tmpl \<longleftrightarrow> (\<exists>u. references tmpl u \<and> v \<in> set (with_root u))"
  unfolding template_vars_def references_def var_found [symmetric] loop_found [symmetric] by auto

section \<open>The template history\<close>

lemma replace_version_Some:
  "replace_version info h = Some h' \<Longrightarrow> map tv_Version h' = map tv_Version h \<and> length h' = length h \<and> info \<in> set h'"
  by (induction h arbitrary: h') (auto split: if_splits)

lemma replace_version_None: "replace_version info h = None \<Longrightarrow> tv_Version info \<notin> tv_Version ` set h"
  by (induction h) (auto split: if_splits)

lemma distinct_map_drop: "distinct (map f xs) \<Longrightarrow> distinct (map f (drop k xs))"
  by (simp add: drop_map [symmetric])

lemma last_ten:
  assumes "distinct (map f xs)" "ys = (if length xs > 10 then drop (length xs - 10) xs else xs)"
  shows "length ys \<le> 10 \<and> distinct (map f ys)"
  using assms distinct_map_drop by auto

definition history_ok :: "Group \<Rightarrow> bool" where
  "history_ok r \<longleftrightarrow> length (gs_TemplateHistory (Status r)) \<le> 10 \<and> distinct (map tv_Version (gs_TemplateHistory (Status r)))"

text \<open>The entry of the current version, with its verdict, is in the history.\<close>

definition recorded :: "bool \<Rightarrow> string \<Rightarrow> Group \<Rightarrow> bool" where
  "recorded valid msg r \<longleftrightarrow>
     (\<exists>info \<in> set (gs_TemplateHistory (Status r)).
        tv_Version info = gs_CurrentTemplateVersion (Status r) \<and> tv_Valid info = valid \<and> tv_ErrorMessage info = msg)"

lemma trackTemplateVersion_history:
  assumes "trackTemplateVersion env valid msg r = r'"
  shows "recorded valid msg r'" "history_ok r \<Longrightarrow> history_ok r'" "Spec r' = Spec r" "Meta r' = Meta r"
    "gs_CurrentTemplateVersion (Status r') = generateTemplateVersion env (g_Template (Spec r))"
    "gs_Valid (Status r') = gs_Valid (Status r)" "gs_ErrorMessage (Status r') = gs_ErrorMessage (Status r)"
    "gs_RequiredVariables (Status r') = gs_RequiredVariables (Status r)"
proof -
  let ?v = "generateTemplateVersion env (g_Template (Spec r))" and ?h = "gs_TemplateHistory (Status r)"
  let ?i = "\<lparr>tv_Version = ?v, tv_Timestamp = te_now env, tv_Valid = valid, tv_ErrorMessage = msg\<rparr>"
  show "recorded valid msg r'"
  proof (cases "replace_version ?i ?h")
    case None
    have "?i \<in> set (if length (?h @ [?i]) > 10 then drop (length (?h @ [?i]) - 10) (?h @ [?i]) else ?h @ [?i])"
      by (auto simp: drop_append)
    with None assms show ?thesis by (force simp: trackTemplateVersion_def Let_def recorded_def)
  next
    case (Some h')
    with assms replace_version_Some [OF Some] show ?thesis by (force simp: trackTemplateVersion_def Let_def recorded_def)
  qed
  show "history_ok r'" if "history_ok r"
  proof (cases "replace_version ?i ?h")
    case None
    have d: "distinct (map tv_Version (?h @ [?i]))"
      using that replace_version_None [OF None] by (auto simp: history_ok_def)
    have "gs_TemplateHistory (Status r') = (if length (?h @ [?i]) > 10 then drop (length (?h @ [?i]) - 10) (?h @ [?i]) else ?h @ [?i])"
      using None assms by (auto simp: trackTemplateVersion_def Let_def)
    from last_ten [OF d this] show ?thesis unfolding history_ok_def .
  next
    case (Some h')
    with assms that replace_version_Some [OF Some] show ?thesis by (auto simp: trackTemplateVersion_def Let_def history_ok_def)
  qed
qed (use assms in \<open>auto simp: trackTemplateVersion_def Let_def split: option.splits\<close>)

section \<open>Properties\<close>

text \<open>Validation changes nothing but the status, and records its verdict in three places.\<close>

lemma reject_group_spec:
  assumes "reject_group env msg r = (e, r')"
  shows "e = Some (ENew msg)" "Spec r' = Spec r" "Meta r' = Meta r" "gs_Valid (Status r') = False" "gs_ErrorMessage (Status r') = msg"
    "recorded False msg r'" "history_ok r \<Longrightarrow> history_ok r'"
    "gs_CurrentTemplateVersion (Status r') = generateTemplateVersion env (g_Template (Spec r))"
proof -
  let ?r = "r\<lparr>Status := (Status r)\<lparr>gs_Valid := False, gs_ErrorMessage := msg\<rparr>\<rparr>"
  from assms have e: "e = Some (ENew msg)" and t: "trackTemplateVersion env False msg ?r = r'" by (simp_all add: reject_group_def)
  have h: "history_ok r \<Longrightarrow> history_ok r'" using trackTemplateVersion_history(2) [OF t] by (simp add: history_ok_def)
  show "e = Some (ENew msg)" "Spec r' = Spec r" "Meta r' = Meta r" "gs_Valid (Status r') = False" "gs_ErrorMessage (Status r') = msg"
    "recorded False msg r'" "history_ok r \<Longrightarrow> history_ok r'"
    "gs_CurrentTemplateVersion (Status r') = generateTemplateVersion env (g_Template (Spec r))"
    using trackTemplateVersion_history [OF t] e h by simp_all
qed

text \<open>The condition under which a template is accepted.\<close>

definition acceptable :: "template_env \<Rightarrow> GroupSpec \<Rightarrow> bool" where
  "acceptable env sp \<longleftrightarrow>
     g_Template sp \<noteq> '''' \<and>
     (\<forall>v \<in> template_vars (g_Template sp). hasTemplateVariableData (MergeMetadata sampleMetadata (g_MetaData sp)) v) \<and>
     (\<exists>text. te_render env (g_Template sp) (MergeMetadata sampleMetadata (g_MetaData sp)) = Inr text \<and> te_yaml env text = None)"

lemma Group_Validate_cases:
  assumes "set (te_order env (template_vars (g_Template (Spec r)))) = template_vars (g_Template (Spec r))"
  obtains (accept) r1 where "acceptable env (Spec r)" "Spec r1 = Spec r" "Meta r1 = Meta r"
      "gs_TemplateHistory (Status r1) = gs_TemplateHistory (Status r)" "gs_Valid (Status r1)" "gs_ErrorMessage (Status r1) = ''''"
      "Group_Validate env r = (None, trackTemplateVersion env True '''' r1)"
  | (reject) r1 msg where "\<not> acceptable env (Spec r)" "Spec r1 = Spec r" "Meta r1 = Meta r"
      "gs_TemplateHistory (Status r1) = gs_TemplateHistory (Status r)" "Group_Validate env r = reject_group env msg r1"
proof (cases "acceptable env (Spec r)")
  case True
  then have "g_Template (Spec r) \<noteq> ''''"
    "[v\<leftarrow>extractTemplateVariables (te_order env) (g_Template (Spec r)). \<not> hasTemplateVariableData (MergeMetadata sampleMetadata (g_MetaData (Spec r))) v] = []"
    using assms by (auto simp: acceptable_def extractTemplateVariables_def filter_empty_conv)
  with True show ?thesis
    by (intro accept [of "r\<lparr>Status := (Status r)\<lparr>gs_RequiredVariables := extractTemplateVariables (te_order env) (g_Template (Spec r)),
      gs_Valid := True, gs_ErrorMessage := ''''\<rparr>\<rparr>"]) (auto simp: acceptable_def Group_Validate_def Let_def RenderTemplate_def validateYAML_def)
next
  case False
  show ?thesis
  proof (cases "g_Template (Spec r) = ''''")
    case True
    with False show ?thesis by (intro reject [of r]) (simp_all add: Group_Validate_def)
  next
    case ne: False
    let ?vars = "extractTemplateVariables (te_order env) (g_Template (Spec r))" and ?meta = "MergeMetadata sampleMetadata (g_MetaData (Spec r))"
    let ?r1 = "r\<lparr>Status := (Status r)\<lparr>gs_RequiredVariables := ?vars\<rparr>\<rparr>"
    have "\<exists>msg. Group_Validate env r = reject_group env msg ?r1"
    proof (cases "[v\<leftarrow>?vars. \<not> hasTemplateVariableData ?meta v] = []")
      case True
      then have "\<forall>v \<in> template_vars (g_Template (Spec r)). hasTemplateVariableData ?meta v"
        using assms by (auto simp: extractTemplateVariables_def filter_empty_conv)
      with False ne True show ?thesis
        by (auto simp: acceptable_def Group_Validate_def Let_def RenderTemplate_def validateYAML_def split: sum.splits option.splits)
    next
      case False
      with ne show ?thesis by (auto simp: Group_Validate_def Let_def)
    qed
    with False show ?thesis by (auto intro: reject [of ?r1])
  qed
qed

text \<open>
  C25 (equivalence). The variables the two regular expressions of \<open>extractTemplateVariables\<close> find, scanning
  from left to right without overlaps, are exactly those that occur anywhere in the template as
  \<open>{{ name }}\<close> or \<open>{% for x in name %}\<close>, each with its first component when it has one before a dot.
\<close>

theorem extracted_variables_are_references:
  assumes "set (order (template_vars tmpl)) = template_vars tmpl"
  shows "v \<in> set (extractTemplateVariables order tmpl) \<longleftrightarrow> (\<exists>u. references tmpl u \<and> v \<in> set (with_root u))"
  unfolding extractTemplateVariables_def assms by (rule template_vars_iff)

definition tmpl0 :: string where
  "tmpl0 = ''{{{ vendor_data.role }}''"

lemma vars_tmpl0: "template_vars tmpl0 = {''vendor_data.role'', ''vendor_data''}"
  by code_simp

theorem extracted_variables_are_references_witness:
  "\<exists>u. references tmpl0 u \<and> ''vendor_data'' \<in> set (with_root u)"
  using extracted_variables_are_references [of "\<lambda>_. [''vendor_data.role'', ''vendor_data'']" tmpl0 "''vendor_data''"]
  by (simp add: vars_tmpl0 extractTemplateVariables_def)

text \<open>
  C26 (functional). \<open>Group.Validate\<close> accepts a group exactly when its template is not empty, every variable
  it refers to is present in the sample metadata or in the group's own, and it renders to valid
  YAML. It changes only the status, whose verdict and message agree with the returned error, and the
  version of the template is in the history with the same verdict.
\<close>

theorem group_validation_verdict:
  assumes "set (te_order env (template_vars (g_Template (Spec r)))) = template_vars (g_Template (Spec r))"
    and "Group_Validate env r = (e, r')"
  shows "(e = None \<longleftrightarrow> acceptable env (Spec r)) \<and> Spec r' = Spec r \<and> Meta r' = Meta r \<and>
    gs_Valid (Status r') = (e = None) \<and> gs_ErrorMessage (Status r') = (case e of None \<Rightarrow> '''' | Some x \<Rightarrow> err_text x) \<and>
    gs_CurrentTemplateVersion (Status r') = generateTemplateVersion env (g_Template (Spec r)) \<and>
    recorded (gs_Valid (Status r')) (gs_ErrorMessage (Status r')) r'"
  using assms(1)
proof (cases rule: Group_Validate_cases)
  case (accept r1)
  then have e: "e = None" and t: "trackTemplateVersion env True '''' r1 = r'" using assms(2) by simp_all
  from accept trackTemplateVersion_history [OF t] e show ?thesis by simp
next
  case (reject r1 msg)
  then have "reject_group env msg r1 = (e, r')" using assms(2) by simp
  from reject_group_spec [OF this] reject(1-3) show ?thesis by simp
qed

definition tenv0 :: template_env where
  "tenv0 = \<lparr>te_render = (\<lambda>t m. Inr t), te_yaml = (\<lambda>_. None), te_sha256 = (\<lambda>s. map of_char s), te_now = ''now'',
     te_order = (\<lambda>V. [''vendor_data.role'', ''vendor_data''])\<rparr>"

definition group0 :: Group where
  "group0 = \<lparr>APIVersion = ''v1'', Kind = ''Group'',
     Meta = \<lparr>md_Name = ''g'', md_UID = ''u'', md_Labels = None, md_Annotations = None, md_CreatedAt = 0, md_UpdatedAt = 0\<rparr>,
     Spec = \<lparr>g_Description = '''', g_Template = tmpl0, g_MetaData = Map.empty, g_OSVersion = ''''\<rparr>,
     Status = \<lparr>gs_LastApplied = '''', gs_Valid = False, gs_ErrorMessage = '''', gs_ErrorDetails = '''', gs_TemplateHash = '''',
       gs_TemplateVersion = '''', gs_CurrentTemplateVersion = '''', gs_Version = '''', gs_TemplateHistory = [], gs_RequiredVariables = []\<rparr>\<rparr>"

lemma vars_group0: "set (te_order tenv0 (template_vars (g_Template (Spec group0)))) = template_vars (g_Template (Spec group0))"
  by (simp add: tenv0_def group0_def vars_tmpl0)

lemma acceptable_group0: "acceptable tenv0 (Spec group0)"
proof -
  have "tmpl0 \<noteq> ''''" by (simp add: tmpl0_def)
  moreover have "hasTemplateVariableData (MergeMetadata sampleMetadata Map.empty) ''vendor_data.role''"
    "hasTemplateVariableData (MergeMetadata sampleMetadata Map.empty) ''vendor_data''"
    by (simp_all add: hasTemplateVariableData_def MergeMetadata_def sampleMetadata_def)
  ultimately show ?thesis by (simp add: acceptable_def group0_def tenv0_def vars_tmpl0)
qed

theorem group_validation_verdict_witness: "fst (Group_Validate tenv0 group0) = None \<and> gs_Valid (Status (snd (Group_Validate tenv0 group0)))"
  using group_validation_verdict [OF vars_group0, of "fst (Group_Validate tenv0 group0)" "snd (Group_Validate tenv0 group0)"] acceptable_group0
  by simp

text \<open>The life of a group object: its spec is replaced, and it is validated, at different times.\<close>

inductive group_step :: "Group \<Rightarrow> Group \<Rightarrow> bool" where
  edit: "group_step r (r\<lparr>Spec := sp\<rparr>)"
| validate: "group_step r (snd (Group_Validate env r))"

inductive_cases group_stepE: "group_step r r'"

text \<open>Every branch of the validation ends in \<open>trackTemplateVersion\<close> on a group with the same spec and history.\<close>

definition tracked :: "template_env \<Rightarrow> Group \<Rightarrow> Group \<Rightarrow> bool" where
  "tracked env r r' \<longleftrightarrow> (\<exists>r1 valid msg. Spec r1 = Spec r \<and> gs_TemplateHistory (Status r1) = gs_TemplateHistory (Status r) \<and>
     trackTemplateVersion env valid msg r1 = r')"

lemma tracked_reject:
  "Spec r1 = Spec r \<Longrightarrow> gs_TemplateHistory (Status r1) = gs_TemplateHistory (Status r) \<Longrightarrow> tracked env r (snd (reject_group env msg r1))"
  unfolding tracked_def reject_group_def snd_conv
  by (intro exI conjI; (rule refl)?) simp_all

lemma tracked_accept:
  "Spec r1 = Spec r \<Longrightarrow> gs_TemplateHistory (Status r1) = gs_TemplateHistory (Status r) \<Longrightarrow> tracked env r (trackTemplateVersion env valid msg r1)"
  unfolding tracked_def by blast

lemma tracked_Validate: "tracked env r (snd (Group_Validate env r))"
  unfolding Group_Validate_def Let_def
  by (auto intro!: tracked_reject tracked_accept split: sum.splits option.splits)

lemma tracked_history:
  assumes "tracked env r r'"
  shows "history_ok r \<Longrightarrow> history_ok r'" "\<exists>info \<in> set (gs_TemplateHistory (Status r')). tv_Version info = generateTemplateVersion env (g_Template (Spec r))"
proof -
  from assms obtain r1 valid msg where r1: "Spec r1 = Spec r" "gs_TemplateHistory (Status r1) = gs_TemplateHistory (Status r)"
    and t: "trackTemplateVersion env valid msg r1 = r'" by (auto simp: tracked_def)
  show "history_ok r \<Longrightarrow> history_ok r'" using trackTemplateVersion_history(2) [OF t] r1(2) by (simp add: history_ok_def)
  show "\<exists>info \<in> set (gs_TemplateHistory (Status r')). tv_Version info = generateTemplateVersion env (g_Template (Spec r))"
    using trackTemplateVersion_history(1,5) [OF t] r1(1) by (auto simp: recorded_def)
qed

text \<open>
  C32 (invariant). Over any sequence of changes of the spec and validations the template history never
  holds more than ten entries and never two entries of the same version; and after every
  validation the version of the template just validated is in it.
\<close>

theorem template_history_bounded:
  assumes "group_step\<^sup>*\<^sup>* r r'" and "history_ok r"
  shows "length (gs_TemplateHistory (Status r')) \<le> 10 \<and> distinct (map tv_Version (gs_TemplateHistory (Status r'))) \<and>
    (\<exists>info \<in> set (gs_TemplateHistory (Status (snd (Group_Validate env r')))). tv_Version info = generateTemplateVersion env (g_Template (Spec r')))"
proof -
  from assms have "history_ok r'"
  proof (induction rule: rtranclp_induct)
    case (step y z)
    from step(2) show ?case
    proof (cases rule: group_step.cases)
      case (edit sp)
      with step show ?thesis by (simp add: history_ok_def)
    next
      case (validate env)
      with step tracked_history(1) [OF tracked_Validate] show ?thesis by simp
    qed
  qed
  with tracked_history(2) [OF tracked_Validate, of env r'] show ?thesis by (simp add: history_ok_def)
qed

theorem template_history_bounded_witness:
  "length (gs_TemplateHistory (Status (snd (Group_Validate tenv0 group0)))) \<le> 10 \<and>
   (\<exists>info \<in> set (gs_TemplateHistory (Status (snd (Group_Validate tenv0 (snd (Group_Validate tenv0 group0)))))). tv_Version info = ''v-7b7b7b20'')"
proof -
  have "group_step\<^sup>*\<^sup>* group0 (snd (Group_Validate tenv0 group0))" by (intro r_into_rtranclp group_step.validate)
  moreover have "history_ok group0" by (simp add: history_ok_def group0_def)
  moreover have "Spec (snd (Group_Validate tenv0 group0)) = Spec group0"
    using acceptable_group0 vars_group0 by (rule_tac Group_Validate_cases [of tenv0 group0]) (simp_all add: trackTemplateVersion_history [OF refl])
  moreover have "generateTemplateVersion tenv0 tmpl0 = ''v-7b7b7b20''" by code_simp
  moreover have "g_Template (Spec group0) = tmpl0" by (simp add: group0_def)
  ultimately show ?thesis using template_history_bounded [of group0 "snd (Group_Validate tenv0 group0)" tenv0] by simp
qed

end
