(* ===== verification/Resource_JSON.thy ===== *)
theory Resource_JSON
  imports Resources Go_JSON
begin

text \<open>
  The JSON form of the resources, as \<open>encoding/json\<close> derives it from the struct tags of
  \<open>apis/cloud-init.openchami.io/v1\<close>. An encoder gives the document of a value; a decoder reads a
  document into a value that is already there. What a kind offers to the storage layer is the
  record \<open>kind_info\<close>, its laws are the locale \<open>resource_kind\<close>, and the four kinds of the API are
  its interpretations. The order in which the keys of a map are written is an argument.
\<close>

section \<open>Specs and statuses\<close>

definition zero_cd :: ClusterDefaultsSpec where
  "zero_cd = \<lparr>cd_Description = '''', cd_BaseURL = '''', cd_CloudProvider = '''', cd_Region = '''', cd_AvailabilityZone = '''',
     cd_ClusterName = '''', cd_ShortName = '''', cd_NidLength = 0, cd_PublicKeys = []\<rparr>"

definition enc_cd :: "ClusterDefaultsSpec \<Rightarrow> json" where
  "enc_cd x = JObj (omit_str ''description'' (cd_Description x) @ [(''base_url'', JStr (cd_BaseURL x))] @
     omit_str ''cloud_provider'' (cd_CloudProvider x) @ omit_str ''region'' (cd_Region x) @
     omit_str ''availability_zone'' (cd_AvailabilityZone x) @ [(''cluster_name'', JStr (cd_ClusterName x))] @
     omit_str ''short_name'' (cd_ShortName x) @ omit_int ''nid_length'' (cd_NidLength x) @ omit_list JStr ''public_keys'' (cd_PublicKeys x))"

fun dec_cd :: "ClusterDefaultsSpec \<Rightarrow> json \<Rightarrow> ClusterDefaultsSpec result" where
  "dec_cd x JNull = Inr x"
| "dec_cd x (JObj fs) =
     rbind (field into_str ''description'' fs (cd_Description x)) (\<lambda>d.
     rbind (field into_str ''base_url'' fs (cd_BaseURL x)) (\<lambda>b.
     rbind (field into_str ''cloud_provider'' fs (cd_CloudProvider x)) (\<lambda>c.
     rbind (field into_str ''region'' fs (cd_Region x)) (\<lambda>r.
     rbind (field into_str ''availability_zone'' fs (cd_AvailabilityZone x)) (\<lambda>a.
     rbind (field into_str ''cluster_name'' fs (cd_ClusterName x)) (\<lambda>n.
     rbind (field into_str ''short_name'' fs (cd_ShortName x)) (\<lambda>s.
     rbind (field into_int ''nid_length'' fs (cd_NidLength x)) (\<lambda>l.
     rbind (field (into_slice into_str '''') ''public_keys'' fs (cd_PublicKeys x)) (\<lambda>k.
     Inr \<lparr>cd_Description = d, cd_BaseURL = b, cd_CloudProvider = c, cd_Region = r, cd_AvailabilityZone = a,
       cd_ClusterName = n, cd_ShortName = s, cd_NidLength = l, cd_PublicKeys = k\<rparr>)))))))))"
| "dec_cd x _ = Inl type_error"

definition zero_phase :: PhaseStatus where
  "zero_phase = \<lparr>ph_Phase = '''', ph_Message = '''', ph_Ready = False\<rparr>"

definition enc_phase :: "PhaseStatus \<Rightarrow> json" where
  "enc_phase x = JObj (omit_str ''phase'' (ph_Phase x) @ omit_str ''message'' (ph_Message x) @ [(''ready'', JBool (ph_Ready x))])"

fun dec_phase :: "PhaseStatus \<Rightarrow> json \<Rightarrow> PhaseStatus result" where
  "dec_phase x JNull = Inr x"
| "dec_phase x (JObj fs) =
     rbind (field into_str ''phase'' fs (ph_Phase x)) (\<lambda>p.
     rbind (field into_str ''message'' fs (ph_Message x)) (\<lambda>m.
     rbind (field into_bool ''ready'' fs (ph_Ready x)) (\<lambda>r.
     Inr \<lparr>ph_Phase = p, ph_Message = m, ph_Ready = r\<rparr>)))"
| "dec_phase x _ = Inl type_error"

definition zero_gspec :: GroupSpec where
  "zero_gspec = \<lparr>g_Description = '''', g_Template = '''', g_MetaData = Map.empty, g_OSVersion = ''''\<rparr>"

definition enc_gspec :: "(strmap \<Rightarrow> string list) \<Rightarrow> GroupSpec \<Rightarrow> json" where
  "enc_gspec keys x = JObj (omit_str ''description'' (g_Description x) @ [(''template'', JStr (g_Template x))] @
     omit_map keys ''metaData'' (g_MetaData x) @ omit_str ''osVersion'' (g_OSVersion x))"

fun dec_gspec :: "GroupSpec \<Rightarrow> json \<Rightarrow> GroupSpec result" where
  "dec_gspec x JNull = Inr x"
| "dec_gspec x (JObj fs) =
     rbind (field into_str ''description'' fs (g_Description x)) (\<lambda>d.
     rbind (field into_str ''template'' fs (g_Template x)) (\<lambda>t.
     rbind (field into_map ''metaData'' fs (g_MetaData x)) (\<lambda>m.
     rbind (field into_str ''osVersion'' fs (g_OSVersion x)) (\<lambda>v.
     Inr \<lparr>g_Description = d, g_Template = t, g_MetaData = m, g_OSVersion = v\<rparr>))))"
| "dec_gspec x _ = Inl type_error"

definition zero_tvi :: TemplateVersionInfo where
  "zero_tvi = \<lparr>tv_Version = '''', tv_Timestamp = '''', tv_Valid = False, tv_ErrorMessage = ''''\<rparr>"

definition enc_tvi :: "TemplateVersionInfo \<Rightarrow> json" where
  "enc_tvi x = JObj ([(''version'', JStr (tv_Version x)), (''timestamp'', JStr (tv_Timestamp x)), (''valid'', JBool (tv_Valid x))] @
     omit_str ''errorMessage'' (tv_ErrorMessage x))"

fun dec_tvi :: "TemplateVersionInfo \<Rightarrow> json \<Rightarrow> TemplateVersionInfo result" where
  "dec_tvi x JNull = Inr x"
| "dec_tvi x (JObj fs) =
     rbind (field into_str ''version'' fs (tv_Version x)) (\<lambda>v.
     rbind (field into_str ''timestamp'' fs (tv_Timestamp x)) (\<lambda>t.
     rbind (field into_bool ''valid'' fs (tv_Valid x)) (\<lambda>b.
     rbind (field into_str ''errorMessage'' fs (tv_ErrorMessage x)) (\<lambda>e.
     Inr \<lparr>tv_Version = v, tv_Timestamp = t, tv_Valid = b, tv_ErrorMessage = e\<rparr>))))"
| "dec_tvi x _ = Inl type_error"

definition zero_gstatus :: GroupStatus where
  "zero_gstatus = \<lparr>gs_LastApplied = '''', gs_Valid = False, gs_ErrorMessage = '''', gs_ErrorDetails = '''', gs_TemplateHash = '''',
     gs_TemplateVersion = '''', gs_CurrentTemplateVersion = '''', gs_Version = '''', gs_TemplateHistory = [], gs_RequiredVariables = []\<rparr>"

definition enc_gstatus :: "GroupStatus \<Rightarrow> json" where
  "enc_gstatus x = JObj (omit_str ''lastApplied'' (gs_LastApplied x) @ [(''valid'', JBool (gs_Valid x))] @
     omit_str ''errorMessage'' (gs_ErrorMessage x) @ omit_str ''errorDetails'' (gs_ErrorDetails x) @
     omit_str ''templateHash'' (gs_TemplateHash x) @ omit_str ''templateVersion'' (gs_TemplateVersion x) @
     omit_str ''currentTemplateVersion'' (gs_CurrentTemplateVersion x) @ omit_str ''version'' (gs_Version x) @
     omit_list enc_tvi ''templateHistory'' (gs_TemplateHistory x) @ omit_list JStr ''requiredVariables'' (gs_RequiredVariables x))"

fun dec_gstatus :: "GroupStatus \<Rightarrow> json \<Rightarrow> GroupStatus result" where
  "dec_gstatus x JNull = Inr x"
| "dec_gstatus x (JObj fs) =
     rbind (field into_str ''lastApplied'' fs (gs_LastApplied x)) (\<lambda>a.
     rbind (field into_bool ''valid'' fs (gs_Valid x)) (\<lambda>b.
     rbind (field into_str ''errorMessage'' fs (gs_ErrorMessage x)) (\<lambda>c.
     rbind (field into_str ''errorDetails'' fs (gs_ErrorDetails x)) (\<lambda>d.
     rbind (field into_str ''templateHash'' fs (gs_TemplateHash x)) (\<lambda>e.
     rbind (field into_str ''templateVersion'' fs (gs_TemplateVersion x)) (\<lambda>f.
     rbind (field into_str ''currentTemplateVersion'' fs (gs_CurrentTemplateVersion x)) (\<lambda>g.
     rbind (field into_str ''version'' fs (gs_Version x)) (\<lambda>h.
     rbind (field (into_slice dec_tvi zero_tvi) ''templateHistory'' fs (gs_TemplateHistory x)) (\<lambda>i.
     rbind (field (into_slice into_str '''') ''requiredVariables'' fs (gs_RequiredVariables x)) (\<lambda>j.
     Inr \<lparr>gs_LastApplied = a, gs_Valid = b, gs_ErrorMessage = c, gs_ErrorDetails = d, gs_TemplateHash = e, gs_TemplateVersion = f,
       gs_CurrentTemplateVersion = g, gs_Version = h, gs_TemplateHistory = i, gs_RequiredVariables = j\<rparr>))))))))))"
| "dec_gstatus x _ = Inl type_error"

definition zero_ii :: InstanceInfoSpec where
  "zero_ii = \<lparr>ii_Description = '''', ii_InstanceID = '''', ii_LocalHostname = '''', ii_Hostname = '''', ii_CloudInitBaseURL = '''',
     ii_PublicKeys = [], ii_DefaultProfile = ''''\<rparr>"

definition enc_ii :: "InstanceInfoSpec \<Rightarrow> json" where
  "enc_ii x = JObj (omit_str ''description'' (ii_Description x) @ [(''instance_id'', JStr (ii_InstanceID x))] @
     omit_str ''local_hostname'' (ii_LocalHostname x) @ omit_str ''hostname'' (ii_Hostname x) @
     omit_str ''cloud_init_base_url'' (ii_CloudInitBaseURL x) @ omit_list JStr ''public_keys'' (ii_PublicKeys x) @
     omit_str ''default_profile'' (ii_DefaultProfile x))"

fun dec_ii :: "InstanceInfoSpec \<Rightarrow> json \<Rightarrow> InstanceInfoSpec result" where
  "dec_ii x JNull = Inr x"
| "dec_ii x (JObj fs) =
     rbind (field into_str ''description'' fs (ii_Description x)) (\<lambda>d.
     rbind (field into_str ''instance_id'' fs (ii_InstanceID x)) (\<lambda>i.
     rbind (field into_str ''local_hostname'' fs (ii_LocalHostname x)) (\<lambda>l.
     rbind (field into_str ''hostname'' fs (ii_Hostname x)) (\<lambda>h.
     rbind (field into_str ''cloud_init_base_url'' fs (ii_CloudInitBaseURL x)) (\<lambda>b.
     rbind (field (into_slice into_str '''') ''public_keys'' fs (ii_PublicKeys x)) (\<lambda>k.
     rbind (field into_str ''default_profile'' fs (ii_DefaultProfile x)) (\<lambda>p.
     Inr \<lparr>ii_Description = d, ii_InstanceID = i, ii_LocalHostname = l, ii_Hostname = h, ii_CloudInitBaseURL = b,
       ii_PublicKeys = k, ii_DefaultProfile = p\<rparr>)))))))"
| "dec_ii x _ = Inl type_error"

definition zero_wp :: WireGuardPeerSpec where
  "zero_wp = \<lparr>wp_Description = '''', wp_PublicKey = '''', wp_AllowedIP = ''''\<rparr>"

definition enc_wp :: "WireGuardPeerSpec \<Rightarrow> json" where
  "enc_wp x = JObj (omit_str ''description'' (wp_Description x) @ [(''public_key'', JStr (wp_PublicKey x)), (''allowed_ip'', JStr (wp_AllowedIP x))])"

fun dec_wp :: "WireGuardPeerSpec \<Rightarrow> json \<Rightarrow> WireGuardPeerSpec result" where
  "dec_wp x JNull = Inr x"
| "dec_wp x (JObj fs) =
     rbind (field into_str ''description'' fs (wp_Description x)) (\<lambda>d.
     rbind (field into_str ''public_key'' fs (wp_PublicKey x)) (\<lambda>p.
     rbind (field into_str ''allowed_ip'' fs (wp_AllowedIP x)) (\<lambda>a.
     Inr \<lparr>wp_Description = d, wp_PublicKey = p, wp_AllowedIP = a\<rparr>)))"
| "dec_wp x _ = Inl type_error"

definition zero_ws :: WireGuardPeerStatus where
  "zero_ws = \<lparr>ws_Phase = '''', ws_Message = '''', ws_Ready = False, ws_Version = ''''\<rparr>"

definition enc_ws :: "WireGuardPeerStatus \<Rightarrow> json" where
  "enc_ws x = JObj (omit_str ''phase'' (ws_Phase x) @ omit_str ''message'' (ws_Message x) @ omit_bool ''ready'' (ws_Ready x) @
     omit_str ''version'' (ws_Version x))"

fun dec_ws :: "WireGuardPeerStatus \<Rightarrow> json \<Rightarrow> WireGuardPeerStatus result" where
  "dec_ws x JNull = Inr x"
| "dec_ws x (JObj fs) =
     rbind (field into_str ''phase'' fs (ws_Phase x)) (\<lambda>p.
     rbind (field into_str ''message'' fs (ws_Message x)) (\<lambda>m.
     rbind (field into_bool ''ready'' fs (ws_Ready x)) (\<lambda>r.
     rbind (field into_str ''version'' fs (ws_Version x)) (\<lambda>v.
     Inr \<lparr>ws_Phase = p, ws_Message = m, ws_Ready = r, ws_Version = v\<rparr>))))"
| "dec_ws x _ = Inl type_error"

section \<open>Round trips\<close>

text \<open>The member names, folded.\<close>

lemma member_names:
  "ToLower ''description'' = ''description''"
  "ToLower ''base_url'' = ''base_url''"
  "ToLower ''cloud_provider'' = ''cloud_provider''"
  "ToLower ''region'' = ''region''"
  "ToLower ''availability_zone'' = ''availability_zone''"
  "ToLower ''cluster_name'' = ''cluster_name''"
  "ToLower ''short_name'' = ''short_name''"
  "ToLower ''nid_length'' = ''nid_length''"
  "ToLower ''public_keys'' = ''public_keys''"
  "ToLower ''phase'' = ''phase''"
  "ToLower ''message'' = ''message''"
  "ToLower ''ready'' = ''ready''"
  "ToLower ''template'' = ''template''"
  "ToLower ''metaData'' = ''metadata''"
  "ToLower ''osVersion'' = ''osversion''"
  "ToLower ''version'' = ''version''"
  "ToLower ''timestamp'' = ''timestamp''"
  "ToLower ''valid'' = ''valid''"
  "ToLower ''errorMessage'' = ''errormessage''"
  "ToLower ''lastApplied'' = ''lastapplied''"
  "ToLower ''errorDetails'' = ''errordetails''"
  "ToLower ''templateHash'' = ''templatehash''"
  "ToLower ''templateVersion'' = ''templateversion''"
  "ToLower ''currentTemplateVersion'' = ''currenttemplateversion''"
  "ToLower ''templateHistory'' = ''templatehistory''"
  "ToLower ''requiredVariables'' = ''requiredvariables''"
  "ToLower ''instance_id'' = ''instance_id''"
  "ToLower ''local_hostname'' = ''local_hostname''"
  "ToLower ''hostname'' = ''hostname''"
  "ToLower ''cloud_init_base_url'' = ''cloud_init_base_url''"
  "ToLower ''default_profile'' = ''default_profile''"
  "ToLower ''public_key'' = ''public_key''"
  "ToLower ''allowed_ip'' = ''allowed_ip''"
  "ToLower ''apiVersion'' = ''apiversion''"
  "ToLower ''kind'' = ''kind''"
  "ToLower ''metadata'' = ''metadata''"
  "ToLower ''spec'' = ''spec''"
  "ToLower ''status'' = ''status''"
  by code_simp+

lemmas json_simps = field_def EqualFold_def member_names

lemma into_slice_str: "into_slice into_str '''' [] (JArr (map JStr xs)) = Inr xs" "into_slice into_str '''' xs (JArr (map JStr xs)) = Inr xs"
  by (simp_all add: into_all_enc)

lemma enc_cd_into:
  assumes "- (2 ^ 63) \<le> cd_NidLength x" "cd_NidLength x < 2 ^ 63"
  shows "dec_cd zero_cd (enc_cd x) = Inr x" "dec_cd x (enc_cd x) = Inr x"
  using parse_int64_int_str [OF assms] into_slice_str by (cases x; simp add: enc_cd_def zero_cd_def json_simps)+

lemma enc_phase_into: "dec_phase zero_phase (enc_phase x) = Inr x" "dec_phase x (enc_phase x) = Inr x"
  by (cases x; simp add: enc_phase_def zero_phase_def json_simps)+

lemma enc_gspec_into:
  assumes "range_order (g_MetaData x) (keys (g_MetaData x))"
  shows "dec_gspec zero_gspec (enc_gspec keys x) = Inr x" "dec_gspec x (enc_gspec keys x) = Inr x"
proof -
  have e: "keys (g_MetaData x) = [] \<Longrightarrow> g_MetaData x = Map.empty" using assms unfolding range_order_def by auto
  note m = into_map_enc [OF assms]
  show "dec_gspec zero_gspec (enc_gspec keys x) = Inr x" "dec_gspec x (enc_gspec keys x) = Inr x"
    using e m by (cases x; auto simp add: enc_gspec_def zero_gspec_def json_simps)+
qed

lemma enc_tvi_into: "dec_tvi zero_tvi (enc_tvi x) = Inr x" "dec_tvi x (enc_tvi x) = Inr x"
  by (cases x; simp add: enc_tvi_def zero_tvi_def json_simps)+

lemma into_slice_tvi: "into_slice dec_tvi zero_tvi [] (JArr (map enc_tvi xs)) = Inr xs" "into_slice dec_tvi zero_tvi xs (JArr (map enc_tvi xs)) = Inr xs"
  using into_all_enc [of xs zero_tvi dec_tvi enc_tvi] enc_tvi_into by auto

lemma enc_gstatus_into: "dec_gstatus zero_gstatus (enc_gstatus x) = Inr x" "dec_gstatus x (enc_gstatus x) = Inr x"
  using into_slice_str [of "gs_RequiredVariables x"] into_slice_tvi [of "gs_TemplateHistory x"]
  by (cases x; simp add: enc_gstatus_def zero_gstatus_def json_simps)+

lemma enc_ii_into: "dec_ii zero_ii (enc_ii x) = Inr x" "dec_ii x (enc_ii x) = Inr x"
  using into_slice_str [of "ii_PublicKeys x"] by (cases x; simp add: enc_ii_def zero_ii_def json_simps)+

lemma enc_wp_into: "dec_wp zero_wp (enc_wp x) = Inr x" "dec_wp x (enc_wp x) = Inr x"
  by (cases x; simp add: enc_wp_def zero_wp_def json_simps)+

lemma enc_ws_into: "dec_ws zero_ws (enc_ws x) = Inr x" "dec_ws x (enc_ws x) = Inr x"
  by (cases x; simp add: enc_ws_def zero_ws_def json_simps)+

section \<open>Kinds\<close>

record ('sp, 'st) kind_info =
  k_name :: string
  k_plural :: string
  k_zero_spec :: 'sp
  k_zero_status :: 'st
  k_enc_spec :: "'sp \<Rightarrow> json"
  k_dec_spec :: "'sp \<Rightarrow> json \<Rightarrow> 'sp result"
  k_enc_status :: "'st \<Rightarrow> json"
  k_dec_status :: "'st \<Rightarrow> json \<Rightarrow> 'st result"

definition ClusterDefaults_kind :: "(ClusterDefaultsSpec, PhaseStatus) kind_info" where
  "ClusterDefaults_kind = \<lparr>k_name = ''ClusterDefaults'', k_plural = ''clusterdefaultss'', k_zero_spec = zero_cd, k_zero_status = zero_phase,
     k_enc_spec = enc_cd, k_dec_spec = dec_cd, k_enc_status = enc_phase, k_dec_status = dec_phase\<rparr>"

definition Group_kind :: "(strmap \<Rightarrow> string list) \<Rightarrow> (GroupSpec, GroupStatus) kind_info" where
  "Group_kind keys = \<lparr>k_name = ''Group'', k_plural = ''groups'', k_zero_spec = zero_gspec, k_zero_status = zero_gstatus,
     k_enc_spec = enc_gspec keys, k_dec_spec = dec_gspec, k_enc_status = enc_gstatus, k_dec_status = dec_gstatus\<rparr>"

definition InstanceInfo_kind :: "(InstanceInfoSpec, PhaseStatus) kind_info" where
  "InstanceInfo_kind = \<lparr>k_name = ''InstanceInfo'', k_plural = ''instanceinfos'', k_zero_spec = zero_ii, k_zero_status = zero_phase,
     k_enc_spec = enc_ii, k_dec_spec = dec_ii, k_enc_status = enc_phase, k_dec_status = dec_phase\<rparr>"

definition WireGuardPeer_kind :: "(WireGuardPeerSpec, WireGuardPeerStatus) kind_info" where
  "WireGuardPeer_kind = \<lparr>k_name = ''WireGuardPeer'', k_plural = ''wireguardpeers'', k_zero_spec = zero_wp, k_zero_status = zero_ws,
     k_enc_spec = enc_wp, k_dec_spec = dec_wp, k_enc_status = enc_ws, k_dec_status = dec_ws\<rparr>"

section \<open>Whole resources\<close>

text \<open>The JSON package and what it knows of \<open>fabrica.Metadata\<close>: the texts of documents, and the metadata codec.\<close>

record json_env =
  je_print :: "json \<Rightarrow> string"
  je_parse :: "string \<Rightarrow> json result"            \<comment> \<open>\<open>json.Unmarshal\<close>: the whole text\<close>
  je_first :: "string \<Rightarrow> json result"            \<comment> \<open>\<open>Decoder.Decode\<close>: the first value of the text\<close>
  je_enc_meta :: "Metadata \<Rightarrow> json result"
  je_dec_meta :: "Metadata \<Rightarrow> json \<Rightarrow> Metadata result"

definition zero_meta :: Metadata where
  "zero_meta = \<lparr>md_Name = '''', md_UID = '''', md_Labels = None, md_Annotations = None, md_CreatedAt = 0, md_UpdatedAt = 0\<rparr>"

definition zero_resource :: "('sp, 'st) kind_info \<Rightarrow> ('sp, 'st) resource" where
  "zero_resource K = \<lparr>APIVersion = '''', Kind = '''', Meta = zero_meta, Spec = k_zero_spec K, Status = k_zero_status K\<rparr>"

definition document :: "('sp, 'st) kind_info \<Rightarrow> ('sp, 'st) resource \<Rightarrow> json \<Rightarrow> json" where
  "document K r m = JObj
     [(''apiVersion'', JStr (APIVersion r)), (''kind'', JStr (Kind r)), (''metadata'', m),
      (''spec'', k_enc_spec K (Spec r)), (''status'', k_enc_status K (Status r))]"

definition Marshal :: "json_env \<Rightarrow> ('sp, 'st) kind_info \<Rightarrow> ('sp, 'st) resource \<Rightarrow> string result" where
  "Marshal je K r = rbind (je_enc_meta je (Meta r)) (\<lambda>m. Inr (je_print je (document K r m)))"

fun dec_resource :: "json_env \<Rightarrow> ('sp, 'st) kind_info \<Rightarrow> ('sp, 'st) resource \<Rightarrow> json \<Rightarrow> ('sp, 'st) resource result" where
  "dec_resource je K x JNull = Inr x"
| "dec_resource je K x (JObj fs) =
     rbind (field into_str ''apiVersion'' fs (APIVersion x)) (\<lambda>a.
     rbind (field into_str ''kind'' fs (Kind x)) (\<lambda>k.
     rbind (field (je_dec_meta je) ''metadata'' fs (Meta x)) (\<lambda>m.
     rbind (field (k_dec_spec K) ''spec'' fs (Spec x)) (\<lambda>sp.
     rbind (field (k_dec_status K) ''status'' fs (Status x)) (\<lambda>st.
     Inr \<lparr>APIVersion = a, Kind = k, Meta = m, Spec = sp, Status = st\<rparr>)))))"
| "dec_resource je K x _ = Inl type_error"

definition Unmarshal :: "json_env \<Rightarrow> ('sp, 'st) kind_info \<Rightarrow> string \<Rightarrow> ('sp, 'st) resource result" where
  "Unmarshal je K raw = rbind (je_parse je raw) (dec_resource je K (zero_resource K))"

text \<open>
  What the storage layer relies on of the JSON package: it reads back the text it printed for the
  resource, and the metadata in it. (The package replaces texts that are not valid UTF-8 and refuses
  years beyond 9999, so that this is a condition on the resource.)
\<close>

definition storable :: "json_env \<Rightarrow> ('sp, 'st) kind_info \<Rightarrow> ('sp, 'st) resource \<Rightarrow> bool" where
  "storable je K r \<longleftrightarrow>
     (\<exists>m. je_enc_meta je (Meta r) = Inr m \<and> je_dec_meta je zero_meta m = Inr (Meta r) \<and>
        je_parse je (je_print je (document K r m)) = Inr (document K r m))"

text \<open>
  The contract of a kind: a spec or a status that is well formed comes back from its document, read
  into a fresh value or over itself.
\<close>

locale resource_kind =
  fixes K :: "('sp, 'st) kind_info" and wf_spec :: "'sp \<Rightarrow> bool"
  assumes spec_fresh: "wf_spec sp \<Longrightarrow> k_dec_spec K (k_zero_spec K) (k_enc_spec K sp) = Inr sp"
    and spec_self: "wf_spec sp \<Longrightarrow> k_dec_spec K sp (k_enc_spec K sp) = Inr sp"
    and status_fresh: "k_dec_status K (k_zero_status K) (k_enc_status K st) = Inr st"
    and status_self: "k_dec_status K st (k_enc_status K st) = Inr st"
begin

lemma Unmarshal_Marshal:
  assumes "wf_spec (Spec r)" "storable je K r"
  shows "\<exists>data. Marshal je K r = Inr data \<and> Unmarshal je K data = Inr r"
proof -
  from assms(2) obtain m where m: "je_enc_meta je (Meta r) = Inr m" "je_dec_meta je zero_meta m = Inr (Meta r)"
    "je_parse je (je_print je (document K r m)) = Inr (document K r m)" by (auto simp: storable_def)
  with spec_fresh [OF assms(1)] status_fresh show ?thesis
    by (cases r) (auto simp: Marshal_def Unmarshal_def document_def zero_resource_def json_simps)
qed

end

interpretation cd_kind: resource_kind ClusterDefaults_kind "\<lambda>sp. - (2 ^ 63) \<le> cd_NidLength sp \<and> cd_NidLength sp < 2 ^ 63"
  by unfold_locales (simp_all add: ClusterDefaults_kind_def enc_cd_into enc_phase_into)

interpretation group_kind: resource_kind "Group_kind keys" "\<lambda>sp. range_order (g_MetaData sp) (keys (g_MetaData sp))" for keys
  by unfold_locales (simp_all add: Group_kind_def enc_gspec_into enc_gstatus_into)

interpretation ii_kind: resource_kind InstanceInfo_kind "\<lambda>_. True"
  by unfold_locales (simp_all add: InstanceInfo_kind_def enc_ii_into enc_phase_into)

interpretation wp_kind: resource_kind WireGuardPeer_kind "\<lambda>_. True"
  by unfold_locales (simp_all add: WireGuardPeer_kind_def enc_wp_into enc_ws_into)

end
