(* ===== verification/Storage.thy ===== *)
theory Storage
  imports Resource_JSON "HOL-Library.Countable"
begin

text \<open>
  \<open>internal/storage\<close>: the typed functions over a fabrica storage backend. The generated file has the
  same seven functions for each of the four kinds; they are instances of one family of definitions
  over \<open>kind_info\<close>. The backend is a parameter, a record of its operations over a state of any type;
  what the layer relies on is \<open>backend_ok\<close>. Before \<open>Init\<close> there is no backend, and every function panics.
\<close>

section \<open>Backend\<close>

record 'b StorageBackend =
  sb_LoadAll :: "string \<Rightarrow> 'b \<Rightarrow> string list result"
  sb_Load :: "string \<Rightarrow> string \<Rightarrow> 'b \<Rightarrow> string result"
  sb_Save :: "string \<Rightarrow> string \<Rightarrow> string \<Rightarrow> 'b \<Rightarrow> goerror option \<times> 'b"
  sb_Delete :: "string \<Rightarrow> string \<Rightarrow> 'b \<Rightarrow> goerror option \<times> 'b"
  sb_Exists :: "string \<Rightarrow> string \<Rightarrow> 'b \<Rightarrow> bool result"
  sb_List :: "string \<Rightarrow> 'b \<Rightarrow> string list result"
  sb_ErrNotFound :: string                               \<comment> \<open>the text of \<open>fabricaStorage.ErrNotFound\<close>\<close>

record 'b store_env =
  Backend :: "'b StorageBackend option"
  json :: json_env

definition Init :: "'b StorageBackend \<Rightarrow> 'b store_env \<Rightarrow> 'b store_env" where
  "Init backend env = env\<lparr>Backend := Some backend\<rparr>"

text \<open>\<open>InitFileBackend\<close>, given what \<open>fabricaStorage.NewFileBackend\<close> returns.\<close>

definition InitFileBackend :: "'b StorageBackend result \<Rightarrow> 'b store_env \<Rightarrow> goerror option \<times> 'b store_env" where
  "InitFileBackend opened env =
     (case opened of
        Inl e \<Rightarrow> (Some (EWrap ''failed to create file backend: '' e ''''), env)
      | Inr backend \<Rightarrow> (None, env\<lparr>Backend := Some backend\<rparr>))"

definition ensureBackend :: "'b store_env \<Rightarrow> 'b StorageBackend result" where
  "ensureBackend env =
     (case Backend env of
        None \<Rightarrow> Inl (EPanic ''storage backend not initialized: call storage.Init() or storage.InitFileBackend() in main.go'')
      | Some be \<Rightarrow> Inr be)"

section \<open>The functions of one kind\<close>

fun unmarshal_all :: "json_env \<Rightarrow> ('sp, 'st) kind_info \<Rightarrow> string list \<Rightarrow> ('sp, 'st) resource list result" where
  "unmarshal_all je K [] = Inr []"
| "unmarshal_all je K (raw # rest) =
     (case Unmarshal je K raw of
        Inl e \<Rightarrow> Inl (EWrap (''failed to unmarshal '' @ k_name K @ '': '') e '''')
      | Inr r \<Rightarrow> rbind (unmarshal_all je K rest) (\<lambda>rs. Inr (r # rs)))"

definition LoadAll_res :: "'b store_env \<Rightarrow> ('sp, 'st) kind_info \<Rightarrow> 'b \<Rightarrow> ('sp, 'st) resource list result" where
  "LoadAll_res env K b =
     rbind (ensureBackend env) (\<lambda>be.
       case sb_LoadAll be (k_name K) b of
         Inl e \<Rightarrow> Inl (EWrap (''failed to load all '' @ k_plural K @ '': '') e '''')
       | Inr rawData \<Rightarrow> unmarshal_all (json env) K rawData)"

definition Load_res :: "'b store_env \<Rightarrow> ('sp, 'st) kind_info \<Rightarrow> string \<Rightarrow> 'b \<Rightarrow> ('sp, 'st) resource result" where
  "Load_res env K uid b =
     rbind (ensureBackend env) (\<lambda>be.
       case sb_Load be (k_name K) uid b of
         Inl e \<Rightarrow> Inl (EWrap (''failed to load '' @ k_name K @ '' '' @ uid @ '': '') e '''')
       | Inr rawData \<Rightarrow>
           (case Unmarshal (json env) K rawData of
              Inl e \<Rightarrow> Inl (EWrap (''failed to unmarshal '' @ k_name K @ '': '') e '''')
            | Inr r \<Rightarrow> Inr r))"

text \<open>The part \<open>Save\<close> and \<open>Update\<close> share; they differ in the verb of the message.\<close>

definition write_res :: "string \<Rightarrow> 'b StorageBackend \<Rightarrow> json_env \<Rightarrow> ('sp, 'st) kind_info \<Rightarrow> ('sp, 'st) resource \<Rightarrow> 'b \<Rightarrow> goerror option \<times> 'b" where
  "write_res verb be je K r b =
     (case Marshal je K r of
        Inl e \<Rightarrow> (Some (EWrap (''failed to marshal '' @ k_name K @ '': '') e ''''), b)
      | Inr data \<Rightarrow>
          (case sb_Save be (k_name K) (md_UID (Meta r)) data b of
             (Some e, b') \<Rightarrow> (Some (EWrap (''failed to '' @ verb @ '' '' @ k_name K @ '': '') e ''''), b')
           | (None, b') \<Rightarrow> (None, b')))"

definition Save_res :: "'b store_env \<Rightarrow> ('sp, 'st) kind_info \<Rightarrow> ('sp, 'st) resource \<Rightarrow> 'b \<Rightarrow> goerror option \<times> 'b" where
  "Save_res env K r b =
     (case ensureBackend env of Inl p \<Rightarrow> (Some p, b) | Inr be \<Rightarrow> write_res ''save'' be (json env) K r b)"

definition Update_res :: "'b store_env \<Rightarrow> ('sp, 'st) kind_info \<Rightarrow> ('sp, 'st) resource \<Rightarrow> 'b \<Rightarrow> goerror option \<times> 'b" where
  "Update_res env K r b =
     (case ensureBackend env of
        Inl p \<Rightarrow> (Some p, b)
      | Inr be \<Rightarrow>
          (case sb_Exists be (k_name K) (md_UID (Meta r)) b of
             Inl e \<Rightarrow> (Some (EWrap (''failed to check '' @ k_name K @ '' existence: '') e ''''), b)
           | Inr False \<Rightarrow> (Some (ENotFound (sb_ErrNotFound be)), b)
           | Inr True \<Rightarrow> write_res ''update'' be (json env) K r b))"

definition Delete_res :: "'b store_env \<Rightarrow> ('sp, 'st) kind_info \<Rightarrow> string \<Rightarrow> 'b \<Rightarrow> goerror option \<times> 'b" where
  "Delete_res env K uid b =
     (case ensureBackend env of
        Inl p \<Rightarrow> (Some p, b)
      | Inr be \<Rightarrow>
          (case sb_Delete be (k_name K) uid b of
             (Some e, b') \<Rightarrow> (Some (EWrap (''failed to delete '' @ k_name K @ '' '' @ uid @ '': '') e ''''), b')
           | (None, b') \<Rightarrow> (None, b')))"

definition Exists_res :: "'b store_env \<Rightarrow> ('sp, 'st) kind_info \<Rightarrow> string \<Rightarrow> 'b \<Rightarrow> bool result" where
  "Exists_res env K uid b =
     rbind (ensureBackend env) (\<lambda>be.
       case sb_Exists be (k_name K) uid b of
         Inl e \<Rightarrow> Inl (EWrap (''failed to check '' @ k_name K @ '' existence: '') e '''')
       | Inr exists \<Rightarrow> Inr exists)"

definition ListUIDs_res :: "'b store_env \<Rightarrow> ('sp, 'st) kind_info \<Rightarrow> 'b \<Rightarrow> string list result" where
  "ListUIDs_res env K b =
     rbind (ensureBackend env) (\<lambda>be.
       case sb_List be (k_name K) b of
         Inl e \<Rightarrow> Inl (EWrap (''failed to list '' @ k_name K @ '' UIDs: '') e '''')
       | Inr uids \<Rightarrow> Inr uids)"

section \<open>The four kinds\<close>

text \<open>ClusterDefaults.\<close>

definition LoadAllClusterDefaultss :: "'b store_env \<Rightarrow> 'b \<Rightarrow> ClusterDefaults list result" where
  "LoadAllClusterDefaultss env = LoadAll_res env ClusterDefaults_kind"

definition LoadClusterDefaults :: "'b store_env \<Rightarrow> string \<Rightarrow> 'b \<Rightarrow> ClusterDefaults result" where
  "LoadClusterDefaults env = Load_res env ClusterDefaults_kind"

definition SaveClusterDefaults :: "'b store_env \<Rightarrow> ClusterDefaults \<Rightarrow> 'b \<Rightarrow> goerror option \<times> 'b" where
  "SaveClusterDefaults env = Save_res env ClusterDefaults_kind"

definition UpdateClusterDefaults :: "'b store_env \<Rightarrow> ClusterDefaults \<Rightarrow> 'b \<Rightarrow> goerror option \<times> 'b" where
  "UpdateClusterDefaults env = Update_res env ClusterDefaults_kind"

definition DeleteClusterDefaults :: "'b store_env \<Rightarrow> string \<Rightarrow> 'b \<Rightarrow> goerror option \<times> 'b" where
  "DeleteClusterDefaults env = Delete_res env ClusterDefaults_kind"

definition ExistsClusterDefaults :: "'b store_env \<Rightarrow> string \<Rightarrow> 'b \<Rightarrow> bool result" where
  "ExistsClusterDefaults env = Exists_res env ClusterDefaults_kind"

definition ListClusterDefaultsUIDs :: "'b store_env \<Rightarrow> 'b \<Rightarrow> string list result" where
  "ListClusterDefaultsUIDs env = ListUIDs_res env ClusterDefaults_kind"

text \<open>Group.\<close>

definition LoadAllGroups :: "'b store_env \<Rightarrow> (strmap \<Rightarrow> string list) \<Rightarrow> 'b \<Rightarrow> Group list result" where
  "LoadAllGroups env keys = LoadAll_res env (Group_kind keys)"

definition LoadGroup :: "'b store_env \<Rightarrow> (strmap \<Rightarrow> string list) \<Rightarrow> string \<Rightarrow> 'b \<Rightarrow> Group result" where
  "LoadGroup env keys = Load_res env (Group_kind keys)"

definition SaveGroup :: "'b store_env \<Rightarrow> (strmap \<Rightarrow> string list) \<Rightarrow> Group \<Rightarrow> 'b \<Rightarrow> goerror option \<times> 'b" where
  "SaveGroup env keys = Save_res env (Group_kind keys)"

definition UpdateGroup :: "'b store_env \<Rightarrow> (strmap \<Rightarrow> string list) \<Rightarrow> Group \<Rightarrow> 'b \<Rightarrow> goerror option \<times> 'b" where
  "UpdateGroup env keys = Update_res env (Group_kind keys)"

definition DeleteGroup :: "'b store_env \<Rightarrow> (strmap \<Rightarrow> string list) \<Rightarrow> string \<Rightarrow> 'b \<Rightarrow> goerror option \<times> 'b" where
  "DeleteGroup env keys = Delete_res env (Group_kind keys)"

definition ExistsGroup :: "'b store_env \<Rightarrow> (strmap \<Rightarrow> string list) \<Rightarrow> string \<Rightarrow> 'b \<Rightarrow> bool result" where
  "ExistsGroup env keys = Exists_res env (Group_kind keys)"

definition ListGroupUIDs :: "'b store_env \<Rightarrow> (strmap \<Rightarrow> string list) \<Rightarrow> 'b \<Rightarrow> string list result" where
  "ListGroupUIDs env keys = ListUIDs_res env (Group_kind keys)"

text \<open>InstanceInfo.\<close>

definition LoadAllInstanceInfos :: "'b store_env \<Rightarrow> 'b \<Rightarrow> InstanceInfo list result" where
  "LoadAllInstanceInfos env = LoadAll_res env InstanceInfo_kind"

definition LoadInstanceInfo :: "'b store_env \<Rightarrow> string \<Rightarrow> 'b \<Rightarrow> InstanceInfo result" where
  "LoadInstanceInfo env = Load_res env InstanceInfo_kind"

definition SaveInstanceInfo :: "'b store_env \<Rightarrow> InstanceInfo \<Rightarrow> 'b \<Rightarrow> goerror option \<times> 'b" where
  "SaveInstanceInfo env = Save_res env InstanceInfo_kind"

definition UpdateInstanceInfo :: "'b store_env \<Rightarrow> InstanceInfo \<Rightarrow> 'b \<Rightarrow> goerror option \<times> 'b" where
  "UpdateInstanceInfo env = Update_res env InstanceInfo_kind"

definition DeleteInstanceInfo :: "'b store_env \<Rightarrow> string \<Rightarrow> 'b \<Rightarrow> goerror option \<times> 'b" where
  "DeleteInstanceInfo env = Delete_res env InstanceInfo_kind"

definition ExistsInstanceInfo :: "'b store_env \<Rightarrow> string \<Rightarrow> 'b \<Rightarrow> bool result" where
  "ExistsInstanceInfo env = Exists_res env InstanceInfo_kind"

definition ListInstanceInfoUIDs :: "'b store_env \<Rightarrow> 'b \<Rightarrow> string list result" where
  "ListInstanceInfoUIDs env = ListUIDs_res env InstanceInfo_kind"

text \<open>WireGuardPeer.\<close>

definition LoadAllWireGuardPeers :: "'b store_env \<Rightarrow> 'b \<Rightarrow> WireGuardPeer list result" where
  "LoadAllWireGuardPeers env = LoadAll_res env WireGuardPeer_kind"

definition LoadWireGuardPeer :: "'b store_env \<Rightarrow> string \<Rightarrow> 'b \<Rightarrow> WireGuardPeer result" where
  "LoadWireGuardPeer env = Load_res env WireGuardPeer_kind"

definition SaveWireGuardPeer :: "'b store_env \<Rightarrow> WireGuardPeer \<Rightarrow> 'b \<Rightarrow> goerror option \<times> 'b" where
  "SaveWireGuardPeer env = Save_res env WireGuardPeer_kind"

definition UpdateWireGuardPeer :: "'b store_env \<Rightarrow> WireGuardPeer \<Rightarrow> 'b \<Rightarrow> goerror option \<times> 'b" where
  "UpdateWireGuardPeer env = Update_res env WireGuardPeer_kind"

definition DeleteWireGuardPeer :: "'b store_env \<Rightarrow> string \<Rightarrow> 'b \<Rightarrow> goerror option \<times> 'b" where
  "DeleteWireGuardPeer env = Delete_res env WireGuardPeer_kind"

definition ExistsWireGuardPeer :: "'b store_env \<Rightarrow> string \<Rightarrow> 'b \<Rightarrow> bool result" where
  "ExistsWireGuardPeer env = Exists_res env WireGuardPeer_kind"

definition ListWireGuardPeerUIDs :: "'b store_env \<Rightarrow> 'b \<Rightarrow> string list result" where
  "ListWireGuardPeerUIDs env = ListUIDs_res env WireGuardPeer_kind"

section \<open>The client of the reconcilers\<close>

text \<open>The dynamic types a reconciler gets as \<open>interface{}\<close> from this client.\<close>

datatype any_resource = RClusterDefaults ClusterDefaults | RGroup Group | RInstanceInfo InstanceInfo | RWireGuardPeer WireGuardPeer

record 'b StorageClient =
  sc_backend :: "'b StorageBackend"

definition NewStorageClient :: "'b store_env \<Rightarrow> 'b StorageClient result" where
  "NewStorageClient env = rbind (ensureBackend env) (\<lambda>be. Inr \<lparr>sc_backend = be\<rparr>)"

definition tag :: "('r \<Rightarrow> any_resource) \<Rightarrow> string \<Rightarrow> 'r result \<Rightarrow> any_resource result" where
  "tag con name r =
     (case r of
        Inl e \<Rightarrow> Inl (EWrap (''failed to unmarshal '' @ name @ '': '') e '''')
      | Inr x \<Rightarrow> Inr (con x))"

text \<open>The switch over the kind.\<close>

definition decode_kind :: "json_env \<Rightarrow> (strmap \<Rightarrow> string list) \<Rightarrow> string \<Rightarrow> string \<Rightarrow> any_resource result" where
  "decode_kind je keys kind raw =
     (if kind = ''ClusterDefaults'' then tag RClusterDefaults kind (Unmarshal je ClusterDefaults_kind raw)
      else if kind = ''Group'' then tag RGroup kind (Unmarshal je (Group_kind keys) raw)
      else if kind = ''InstanceInfo'' then tag RInstanceInfo kind (Unmarshal je InstanceInfo_kind raw)
      else if kind = ''WireGuardPeer'' then tag RWireGuardPeer kind (Unmarshal je WireGuardPeer_kind raw)
      else Inl (ENew (''unknown resource kind: '' @ kind)))"

definition Client_Get :: "json_env \<Rightarrow> (strmap \<Rightarrow> string list) \<Rightarrow> 'b StorageClient \<Rightarrow> string \<Rightarrow> string \<Rightarrow> 'b \<Rightarrow> any_resource result" where
  "Client_Get je keys c kind uid b = rbind (sb_Load (sc_backend c) kind uid b) (decode_kind je keys kind)"

fun decode_all :: "json_env \<Rightarrow> (strmap \<Rightarrow> string list) \<Rightarrow> string \<Rightarrow> string list \<Rightarrow> any_resource list result" where
  "decode_all je keys kind [] = Inr []"
| "decode_all je keys kind (raw # rest) =
     rbind (decode_kind je keys kind raw) (\<lambda>r. rbind (decode_all je keys kind rest) (\<lambda>rs. Inr (r # rs)))"

definition Client_List :: "json_env \<Rightarrow> (strmap \<Rightarrow> string list) \<Rightarrow> 'b StorageClient \<Rightarrow> string \<Rightarrow> 'b \<Rightarrow> any_resource list result" where
  "Client_List je keys c kind b =
     rbind (sb_LoadAll (sc_backend c) kind b) (\<lambda>rawData.
       if kind \<in> {''ClusterDefaults'', ''Group'', ''InstanceInfo'', ''WireGuardPeer''} then decode_all je keys kind rawData
       else Inl (ENew (''unknown resource kind: '' @ kind)))"

definition save_as :: "json_env \<Rightarrow> 'b StorageClient \<Rightarrow> ('sp, 'st) kind_info \<Rightarrow> ('sp, 'st) resource \<Rightarrow> 'b \<Rightarrow> goerror option \<times> 'b" where
  "save_as je c K r b =
     (case Marshal je K r of
        Inl e \<Rightarrow> (Some (EWrap ''failed to marshal resource: '' e ''''), b)
      | Inr data \<Rightarrow> sb_Save (sc_backend c) (k_name K) (md_UID (Meta r)) data b)"

fun Client_Update :: "json_env \<Rightarrow> (strmap \<Rightarrow> string list) \<Rightarrow> 'b StorageClient \<Rightarrow> any_resource \<Rightarrow> 'b \<Rightarrow> goerror option \<times> 'b" where
  "Client_Update je keys c (RClusterDefaults r) b = save_as je c ClusterDefaults_kind r b"
| "Client_Update je keys c (RGroup r) b = save_as je c (Group_kind keys) r b"
| "Client_Update je keys c (RInstanceInfo r) b = save_as je c InstanceInfo_kind r b"
| "Client_Update je keys c (RWireGuardPeer r) b = save_as je c WireGuardPeer_kind r b"

definition Client_Create :: "json_env \<Rightarrow> (strmap \<Rightarrow> string list) \<Rightarrow> 'b StorageClient \<Rightarrow> any_resource \<Rightarrow> 'b \<Rightarrow> goerror option \<times> 'b" where
  "Client_Create = Client_Update"

definition Client_Delete :: "'b StorageClient \<Rightarrow> string \<Rightarrow> string \<Rightarrow> 'b \<Rightarrow> goerror option \<times> 'b" where
  "Client_Delete c kind uid b = sb_Delete (sc_backend c) kind uid b"

section \<open>What the layer promises\<close>

text \<open>
  The backend keeps one text per kind and UID. The reads report it; a successful write or deletion
  changes that one entry. Nothing is assumed of a write that fails.
\<close>

type_synonym contents = "string \<Rightarrow> string \<rightharpoonup> string"

definition backend_ok :: "'b StorageBackend \<Rightarrow> ('b \<Rightarrow> contents) \<Rightarrow> bool" where
  "backend_ok be view \<longleftrightarrow>
     (\<forall>k u b. sb_Load be k u b = (case view b k u of None \<Rightarrow> Inl (ENotFound (sb_ErrNotFound be)) | Some d \<Rightarrow> Inr d)) \<and>
     (\<forall>k u b. sb_Exists be k u b = Inr (view b k u \<noteq> None)) \<and>
     (\<forall>k b. \<exists>us. range_order (view b k) us \<and> sb_List be k b = Inr us \<and> sb_LoadAll be k b = Inr (map (\<lambda>u. the (view b k u)) us)) \<and>
     (\<forall>k u d b b'. sb_Save be k u d b = (None, b') \<longrightarrow> view b' = (view b)(k := (view b k)(u \<mapsto> d))) \<and>
     (\<forall>k u b b'. sb_Delete be k u b = (None, b') \<longrightarrow> view b' = (view b)(k := (view b k)(u := None)))"

lemma backend_okD:
  assumes "backend_ok be view"
  shows "sb_Load be k u b = (case view b k u of None \<Rightarrow> Inl (ENotFound (sb_ErrNotFound be)) | Some d \<Rightarrow> Inr d)"
    and "sb_Exists be k u b = Inr (view b k u \<noteq> None)"
    and "sb_Save be k u d b = (None, b') \<Longrightarrow> view b' = (view b)(k := (view b k)(u \<mapsto> d))"
    and "sb_Delete be k u b = (None, b') \<Longrightarrow> view b' = (view b)(k := (view b k)(u := None))"
  using assms unfolding backend_ok_def by blast+

lemma backend_ok_LoadAll:
  assumes "backend_ok be view"
  obtains us where "range_order (view b k) us" "sb_List be k b = Inr us" "sb_LoadAll be k b = Inr (map (\<lambda>u. the (view b k u)) us)"
  using assms unfolding backend_ok_def by blast

text \<open>The typed contents: the resources of a kind by UID.\<close>

definition typed :: "json_env \<Rightarrow> ('sp, 'st) kind_info \<Rightarrow> contents \<Rightarrow> string \<rightharpoonup> ('sp, 'st) resource" where
  "typed je K c u = (case c (k_name K) u of None \<Rightarrow> None | Some d \<Rightarrow> (case Unmarshal je K d of Inl _ \<Rightarrow> None | Inr r \<Rightarrow> Some r))"

lemma typed_other: "k_name K \<noteq> k \<Longrightarrow> typed je K (c(k := m)) = typed je K c"
  by (simp add: typed_def fun_eq_iff)

lemma typed_delete: "typed je K (c(k_name K := (c (k_name K))(u := None))) = (typed je K c)(u := None)"
  by (auto simp: typed_def fun_eq_iff)

lemma Delete_res_ok:
  assumes "backend_ok be view" "Backend env = Some be" "Delete_res env K u b = (None, b')"
  shows "view b' = (view b)(k_name K := (view b (k_name K))(u := None))"
  using assms(2,3) backend_okD(4) [OF assms(1)] by (auto simp: Delete_res_def ensureBackend_def split: prod.splits option.splits)

lemma Load_res_found:
  assumes "backend_ok be view" "Backend env = Some be"
  shows "Load_res env K u b = Inr r \<longleftrightarrow> typed (json env) K (view b) u = Some r"
  using assms(2) backend_okD(1) [OF assms(1)]
  by (auto simp: Load_res_def ensureBackend_def typed_def split: option.splits sum.splits)

lemma Load_res_missing:
  assumes "backend_ok be view" "Backend env = Some be" "view b (k_name K) u = None"
  shows "\<exists>e. Load_res env K u b = Inl e \<and> is_not_found e"
  using assms(2,3) backend_okD(1) [OF assms(1)] by (auto simp: Load_res_def ensureBackend_def)

context resource_kind
begin

lemma Save_res_ok:
  assumes "backend_ok be view" "Backend env = Some be" "wf_spec (Spec r)" "storable (json env) K r"
    and "Save_res env K r b = (None, b')"
  shows "\<exists>d. view b' = (view b)(k_name K := (view b (k_name K))(md_UID (Meta r) \<mapsto> d))"
    and "typed (json env) K (view b') = (typed (json env) K (view b))(md_UID (Meta r) \<mapsto> r)"
proof -
  obtain d where d: "Marshal (json env) K r = Inr d" "Unmarshal (json env) K d = Inr r"
    using Unmarshal_Marshal [OF assms(3,4)] by blast
  from assms(2,5) d(1) have "sb_Save be (k_name K) (md_UID (Meta r)) d b = (None, b')"
    by (auto simp: Save_res_def ensureBackend_def write_res_def split: prod.splits option.splits)
  from backend_okD(3) [OF assms(1) this] have v: "view b' = (view b)(k_name K := (view b (k_name K))(md_UID (Meta r) \<mapsto> d))" .
  show "\<exists>d. view b' = (view b)(k_name K := (view b (k_name K))(md_UID (Meta r) \<mapsto> d))" using v by blast
  show "typed (json env) K (view b') = (typed (json env) K (view b))(md_UID (Meta r) \<mapsto> r)"
    unfolding v using d(2) by (auto simp: typed_def fun_eq_iff)
qed

lemma Update_res_ok:
  assumes "backend_ok be view" "Backend env = Some be"
  shows "(case view b (k_name K) (md_UID (Meta r)) of
       None \<Rightarrow> \<exists>e. Update_res env K r b = (Some e, b) \<and> is_not_found e
     | Some _ \<Rightarrow> (fst (Update_res env K r b) = None) = (fst (Save_res env K r b) = None) \<and> snd (Update_res env K r b) = snd (Save_res env K r b))"
  using assms(2) backend_okD(2) [OF assms(1)]
  by (auto simp: Update_res_def Save_res_def ensureBackend_def write_res_def split: option.splits sum.splits prod.splits)

end

section \<open>A backend in memory\<close>

text \<open>Entries of kind, UID and text; used to show that the assumptions can hold.\<close>

type_synonym mem = "(string \<times> string \<times> string) list"

definition mem_view :: "mem \<Rightarrow> contents" where
  "mem_view b k u = map_of (map (\<lambda>(k, u, d). ((k, u), d)) b) (k, u)"

definition mem_uids :: "string \<Rightarrow> mem \<Rightarrow> string list" where
  "mem_uids k b = remdups (map (fst \<circ> snd) (filter (\<lambda>e. fst e = k) b))"

definition mem_backend :: "mem StorageBackend" where
  "mem_backend =
     \<lparr>sb_LoadAll = (\<lambda>k b. Inr (map (\<lambda>u. the (mem_view b k u)) (mem_uids k b))),
      sb_Load = (\<lambda>k u b. case mem_view b k u of None \<Rightarrow> Inl (ENotFound ''not found'') | Some d \<Rightarrow> Inr d),
      sb_Save = (\<lambda>k u d b. (None, (k, u, d) # b)),
      sb_Delete = (\<lambda>k u b. if mem_view b k u = None then (Some (ENotFound ''not found''), b)
         else (None, filter (\<lambda>e. (fst e, fst (snd e)) \<noteq> (k, u)) b)),
      sb_Exists = (\<lambda>k u b. Inr (mem_view b k u \<noteq> None)),
      sb_List = (\<lambda>k b. Inr (mem_uids k b)), sb_ErrNotFound = ''not found''\<rparr>"

lemma mem_view_filter: "mem_view (filter (\<lambda>e. (fst e, fst (snd e)) \<noteq> (k, u)) b) = (mem_view b)(k := (mem_view b k)(u := None))"
  by (induction b) (auto simp: mem_view_def fun_eq_iff)

lemma mem_view_Cons: "mem_view ((k, u, d) # b) = (mem_view b)(k := (mem_view b k)(u \<mapsto> d))"
  by (auto simp: mem_view_def fun_eq_iff)

lemma mem_uids_range: "range_order (mem_view b k) (mem_uids k b)"
  by (induction b) (auto simp: range_order_def mem_view_def mem_uids_def dom_def)

lemma mem_backend_ok: "backend_ok mem_backend mem_view"
proof -
  have "mem_view b' = (mem_view b)(k := (mem_view b k)(u := None))"
    if "sb_Delete mem_backend k u b = (None, b')" for k u b b'
    using that mem_view_filter by (auto simp: mem_backend_def split: if_splits)
  moreover have "sb_Load mem_backend k u b = (case mem_view b k u of None \<Rightarrow> Inl (ENotFound (sb_ErrNotFound mem_backend)) | Some d \<Rightarrow> Inr d)" for k u b
    by (simp add: mem_backend_def split: option.splits)
  moreover have "sb_Exists mem_backend k u b = Inr (mem_view b k u \<noteq> None)" "sb_List mem_backend k b = Inr (mem_uids k b)"
    "sb_LoadAll mem_backend k b = Inr (map (\<lambda>u. the (mem_view b k u)) (mem_uids k b))" "sb_Save mem_backend k u d b = (None, (k, u, d) # b)" for k u d b
    by (simp_all add: mem_backend_def)
  ultimately show ?thesis unfolding backend_ok_def by (auto simp: mem_view_Cons mem_uids_range)
qed

instance json :: countable
  by countable_datatype

text \<open>Texts of documents by their number, and the metadata codec of values without labels: null for a nil map, an empty object otherwise.\<close>

definition enc_labels :: "strmap option \<Rightarrow> json" where
  "enc_labels m = (case m of None \<Rightarrow> JNull | Some _ \<Rightarrow> JObj [])"

definition dec_labels :: "json \<Rightarrow> strmap option" where
  "dec_labels j = (if j = JNull then None else Some Map.empty)"

definition json0 :: json_env where
  "json0 = \<lparr>je_print = (\<lambda>j. nat_str (to_nat j)), je_parse = (\<lambda>s. Inr (from_nat (nat_of_digits s))),
     je_first = (\<lambda>s. Inr (from_nat (nat_of_digits s))),
     je_enc_meta = (\<lambda>m. Inr (JArr [JStr (md_Name m), JStr (md_UID m), enc_labels (md_Labels m), enc_labels (md_Annotations m),
        JNum (nat_str (nat (md_CreatedAt m))), JNum (nat_str (nat (md_UpdatedAt m)))])),
     je_dec_meta = (\<lambda>m j. case j of
        JArr [JStr n, JStr u, l, a, JNum c, JNum d] \<Rightarrow>
          Inr \<lparr>md_Name = n, md_UID = u, md_Labels = dec_labels l, md_Annotations = dec_labels a,
               md_CreatedAt = int (nat_of_digits c), md_UpdatedAt = int (nat_of_digits d)\<rparr>
      | _ \<Rightarrow> Inr m)\<rparr>"

definition plain_labels :: "strmap option \<Rightarrow> bool" where
  "plain_labels m \<longleftrightarrow> m = None \<or> m = Some Map.empty"

lemma plain_labels_simps [simp]: "plain_labels None" "plain_labels (Some Map.empty)" "plain_labels m \<Longrightarrow> dec_labels (enc_labels m) = m"
  by (auto simp: plain_labels_def dec_labels_def enc_labels_def)

definition plain_meta :: "Metadata \<Rightarrow> bool" where
  "plain_meta m \<longleftrightarrow> plain_labels (md_Labels m) \<and> plain_labels (md_Annotations m) \<and> 0 \<le> md_CreatedAt m \<and> 0 \<le> md_UpdatedAt m"

lemma storable0: "plain_meta (Meta r) \<Longrightarrow> storable json0 K r"
  by (cases "Meta r") (auto simp: storable_def json0_def plain_meta_def)

definition store0 :: "mem store_env" where
  "store0 = \<lparr>Backend = Some mem_backend, json = json0\<rparr>"

section \<open>Properties\<close>

text \<open>
  C24 (refinement). For each of the four kinds the storage functions implement a map from UIDs to
  resources: loading reads it, a successful save of a resource whose document the JSON package can
  read back updates it at the resource's UID, a successful deletion removes the entry, and the other
  kinds are not touched. \<open>Update\<close> reports a missing resource and is otherwise a save.
\<close>

theorem storage_refines_map:
  assumes "resource_kind K ok" and "backend_ok be view" and "Backend env = Some be"
  shows "(Load_res env K u b = Inr r \<longleftrightarrow> typed (json env) K (view b) u = Some r) \<and>
    (ok (Spec r) \<and> storable (json env) K r \<and> Save_res env K r b = (None, b') \<longrightarrow>
       typed (json env) K (view b') = (typed (json env) K (view b))(md_UID (Meta r) \<mapsto> r) \<and> (\<forall>k. k \<noteq> k_name K \<longrightarrow> view b' k = view b k)) \<and>
    (Delete_res env K u b = (None, b') \<longrightarrow>
       typed (json env) K (view b') = (typed (json env) K (view b))(u := None) \<and> (\<forall>k. k \<noteq> k_name K \<longrightarrow> view b' k = view b k)) \<and>
    (view b (k_name K) (md_UID (Meta r)) = None \<longrightarrow> (\<exists>e. Update_res env K r b = (Some e, b) \<and> is_not_found e)) \<and>
    (view b (k_name K) (md_UID (Meta r)) \<noteq> None \<longrightarrow> snd (Update_res env K r b) = snd (Save_res env K r b))"
proof (intro conjI impI)
  show "Load_res env K u b = Inr r \<longleftrightarrow> typed (json env) K (view b) u = Some r" by (rule Load_res_found [OF assms(2,3)])
next
  assume a: "ok (Spec r) \<and> storable (json env) K r \<and> Save_res env K r b = (None, b')"
  note s = resource_kind.Save_res_ok [OF assms, where r = r and b = b and b' = b']
  show "typed (json env) K (view b') = (typed (json env) K (view b))(md_UID (Meta r) \<mapsto> r)" using s(2) a by blast
  show "\<forall>k. k \<noteq> k_name K \<longrightarrow> view b' k = view b k" using s(1) a by fastforce
next
  assume d: "Delete_res env K u b = (None, b')"
  note v = Delete_res_ok [OF assms(2,3) d]
  show "typed (json env) K (view b') = (typed (json env) K (view b))(u := None)" unfolding v by (rule typed_delete)
  show "\<forall>k. k \<noteq> k_name K \<longrightarrow> view b' k = view b k" unfolding v by simp
next
  note u = resource_kind.Update_res_ok [OF assms, where r = r and b = b]
  show "\<exists>e. Update_res env K r b = (Some e, b) \<and> is_not_found e" if "view b (k_name K) (md_UID (Meta r)) = None" using u that by simp
  show "snd (Update_res env K r b) = snd (Save_res env K r b)" if "view b (k_name K) (md_UID (Meta r)) \<noteq> None" using u that by (auto split: option.splits)
qed

definition peer0 :: WireGuardPeer where
  "peer0 = \<lparr>APIVersion = ''v1'', Kind = ''WireGuardPeer'',
     Meta = \<lparr>md_Name = ''n'', md_UID = ''p'', md_Labels = Some Map.empty, md_Annotations = Some Map.empty, md_CreatedAt = 1, md_UpdatedAt = 2\<rparr>,
     Spec = \<lparr>wp_Description = '''', wp_PublicKey = ''k'', wp_AllowedIP = ''10.0.0.2/32''\<rparr>, Status = zero_ws\<rparr>"

lemma peer0_storable: "storable json0 K peer0"
  by (rule storable0) (simp add: plain_meta_def peer0_def)

theorem storage_refines_map_witness: "\<exists>b'. Save_res store0 WireGuardPeer_kind peer0 [] = (None, b') \<and> typed json0 WireGuardPeer_kind (mem_view b') ''p'' = Some peer0"
proof -
  obtain d where "Marshal json0 WireGuardPeer_kind peer0 = Inr d" using wp_kind.Unmarshal_Marshal [OF _ peer0_storable] by blast
  then have s: "Save_res store0 WireGuardPeer_kind peer0 [] = (None, [(''WireGuardPeer'', ''p'', d)])"
    by (simp add: Save_res_def ensureBackend_def write_res_def store0_def mem_backend_def WireGuardPeer_kind_def peer0_def)
  have b: "Backend store0 = Some mem_backend" "json store0 = json0" "md_UID (Meta peer0) = ''p''" by (simp_all add: store0_def peer0_def)
  from storage_refines_map [OF wp_kind.resource_kind_axioms mem_backend_ok b(1), of "''p''" "[]" peer0 "[(''WireGuardPeer'', ''p'', d)]"] s peer0_storable b
  show ?thesis by simp
qed

end
