(* ===== verification/WG_Reconciler.thy ===== *)
theory WG_Reconciler
  imports WG_Controller Storage
begin

text \<open>
  \<open>pkg/reconcilers/wireguardpeer_reconciler.go\<close> and \<open>cmd/server/reconciliation_runtime.go\<close>: the reconciler
  brings the WireGuard controller in line with the stored WireGuardPeer resources, and the runtime
  feeds it with the resources found at start and with the events of the API.

  The reconciler sees the controller through the interface \<open>WireGuardPeerController\<close>, here a record of
  two operations over a state of any type. \<open>reconcile.BaseReconciler.UpdateStatus\<close> and the event bus are
  fabrica code and parameters.
\<close>

section \<open>The reconciler\<close>

record 's WireGuardPeerController =
  wpc_UpsertPeer :: "string \<Rightarrow> string \<Rightarrow> string \<Rightarrow> 's \<Rightarrow> goerror option \<times> 's"
  wpc_RemovePeerByID :: "string \<Rightarrow> 's \<Rightarrow> goerror option \<times> 's"

text \<open>A controller that is nil, also inside a non-nil interface value, is None: \<open>controllerConfigured\<close> tests both.\<close>

record ('s, 'b) WireGuardPeerReconciler =
  controller :: "'s WireGuardPeerController option"
  UpdateStatus :: "WireGuardPeer \<Rightarrow> 'b \<Rightarrow> goerror option \<times> 'b"
  rc_json :: json_env

definition NewWireGuardPeerReconciler :: "json_env \<Rightarrow> (WireGuardPeer \<Rightarrow> 'b \<Rightarrow> goerror option \<times> 'b) \<Rightarrow> 's WireGuardPeerController option \<Rightarrow>
    ('s, 'b) WireGuardPeerReconciler" where
  "NewWireGuardPeerReconciler je upd c = \<lparr>controller = c, UpdateStatus = upd, rc_json = je\<rparr>"

definition controllerConfigured :: "('s, 'b) WireGuardPeerReconciler \<Rightarrow> bool" where
  "controllerConfigured r = (controller r \<noteq> None)"

definition isPeerNotFound :: "goerror \<Rightarrow> bool" where
  "isPeerNotFound e = Contains_str (ToLower (err_text e)) ''peer not found''"

text \<open>The dynamic type of the argument of \<open>Reconcile\<close>.\<close>

datatype reconcile_input = PeerPointer WireGuardPeer | PeerValue WireGuardPeer | PeerBytes string | OtherType string

fun decodeWireGuardPeer :: "json_env \<Rightarrow> reconcile_input \<Rightarrow> WireGuardPeer result" where
  "decodeWireGuardPeer je (PeerPointer p) = Inr p"
| "decodeWireGuardPeer je (PeerValue p) = Inr p"
| "decodeWireGuardPeer je (PeerBytes raw) = Unmarshal je WireGuardPeer_kind raw"
| "decodeWireGuardPeer je (OtherType t) = Inl (ENew (''unsupported resource type '' @ t))"

definition updateStatus :: "('s, 'b) WireGuardPeerReconciler \<Rightarrow> WireGuardPeer \<Rightarrow> string \<Rightarrow> string \<Rightarrow> bool \<Rightarrow> 'b \<Rightarrow> goerror option \<times> 'b" where
  "updateStatus r peer phase message ready b =
     (let version = (if APIVersion peer \<noteq> '''' then APIVersion peer else ''v1'');
          peer' = peer\<lparr>Status := \<lparr>ws_Phase = phase, ws_Message = message, ws_Ready = ready, ws_Version = version\<rparr>\<rparr> in
      case UpdateStatus r peer' b of
        (Some e, b') \<Rightarrow> (Some (EWrap (''update status for WireGuardPeer '' @ md_UID (Meta peer) @ '': '') e ''''), b')
      | (None, b') \<Rightarrow> (None, b'))"

definition Reconcile :: "('s, 'b) WireGuardPeerReconciler \<Rightarrow> reconcile_input \<Rightarrow> 's \<times> 'b \<Rightarrow> goerror option \<times> 's \<times> 'b" where
  "Reconcile r resource sb =
     (case sb of (s, b) \<Rightarrow>
      (case decodeWireGuardPeer (rc_json r) resource of
         Inl e \<Rightarrow> (Some (EWrap ''decode WireGuardPeer: '' e ''''), (s, b))
       | Inr peer \<Rightarrow>
           if TrimSpace (wp_PublicKey (Spec peer)) = '''' then
             (let (e, b') = updateStatus r peer ''Error'' ''public_key is required'' False b in (e, (s, b')))
           else if ParseCIDR (wp_AllowedIP (Spec peer)) = None then
             (let (e, b') = updateStatus r peer ''Error''
                (''invalid allowed_ip '' @ go_quote (wp_AllowedIP (Spec peer)) @ '': '' @ err_text (cidr_error (wp_AllowedIP (Spec peer)))) False b in (e, (s, b')))
           else (case controller r of
             None \<Rightarrow> (let (e, b') = updateStatus r peer ''Degraded'' ''wireguard controller not configured; reconcile skipped'' False b in (e, (s, b')))
           | Some c \<Rightarrow>
               (case wpc_UpsertPeer c (md_UID (Meta peer)) (wp_PublicKey (Spec peer)) (wp_AllowedIP (Spec peer)) s of
                  (Some e, s') \<Rightarrow>
                    (case updateStatus r peer ''Error'' (''failed to upsert peer: '' @ err_text e) False b of
                       (Some e2, b') \<Rightarrow> (Some (EWrap ''upsert peer: '' e ('' (status update failed: '' @ err_text e2 @ '')'')), (s', b'))
                     | (None, b') \<Rightarrow> (Some (EWrap ''upsert peer: '' e ''''), (s', b')))
                | (None, s') \<Rightarrow>
                    (let (e, b') = updateStatus r peer ''Ready'' ''wireguard peer reconciled'' True b in (e, (s', b')))))))"

definition Reconciler_Delete :: "('s, 'b) WireGuardPeerReconciler \<Rightarrow> string \<Rightarrow> 's \<Rightarrow> goerror option \<times> 's" where
  "Reconciler_Delete r uid s =
     (case controller r of
        None \<Rightarrow> (None, s)
      | Some c \<Rightarrow>
          if uid = '''' then (None, s)
          else (case wpc_RemovePeerByID c uid s of
                  (Some e, s') \<Rightarrow> if isPeerNotFound e then (None, s') else (Some (EWrap (''remove peer '' @ go_quote uid @ '': '') e ''''), s')
                | (None, s') \<Rightarrow> (None, s')))"

section \<open>The runtime\<close>

record Event =
  ev_kind :: string
  ev_uid :: string
  ev_type :: string
  ev_action :: "any option"                  \<comment> \<open>the extension \<open>action\<close>\<close>

definition eventAction :: "Event \<Rightarrow> string" where
  "eventAction ev =
     (case ev_action ev of
        Some (AStr action) \<Rightarrow> ToLower action
      | _ \<Rightarrow> last (Split (CHR ''.'') (ToLower (ev_type ev))))"

record EventConfig =
  Enabled :: bool
  LifecycleEventsEnabled :: bool
  EventTypePrefix :: string
  EventSource :: string

record 'u EventBus =
  bus_Subscribe :: "string \<Rightarrow> 'u \<Rightarrow> string result \<times> 'u"
  bus_Unsubscribe :: "string \<Rightarrow> 'u \<Rightarrow> goerror option \<times> 'u"
  bus_Close :: "'u \<Rightarrow> goerror option \<times> 'u"

record ('s, 'b, 'u) reconciliationRuntime =
  eventBus :: "'u EventBus option"
  storageClient :: "'b StorageClient option"
  wireGuardPeerReconciler :: "('s, 'b) WireGuardPeerReconciler option"
  subscriptionIDs :: "string list"
  stopped :: bool

text \<open>What the functions take from outside: the storage, fabrica's status update, the order of map keys, a new event bus.\<close>

record ('s, 'b, 'u) rt_env =
  rt_store :: "'b store_env"
  rt_keys :: "strmap \<Rightarrow> string list"
  rt_UpdateStatus :: "WireGuardPeer \<Rightarrow> 'b \<Rightarrow> goerror option \<times> 'b"
  rt_controller :: "'s WireGuardPeerController option"
  rt_bus :: "'u EventBus"
  rt_stack :: string

fun resource_input :: "any_resource \<Rightarrow> reconcile_input" where
  "resource_input (RWireGuardPeer p) = PeerPointer p"
| "resource_input (RClusterDefaults r) = OtherType ''*v1.ClusterDefaults''"
| "resource_input (RGroup r) = OtherType ''*v1.Group''"
| "resource_input (RInstanceInfo r) = OtherType ''*v1.InstanceInfo''"

fun reconcile_all :: "('s, 'b) WireGuardPeerReconciler \<Rightarrow> any_resource list \<Rightarrow> 's \<times> 'b \<Rightarrow> goerror option \<times> 's \<times> 'b" where
  "reconcile_all r [] sb = (None, sb)"
| "reconcile_all r (item # items) sb =
     (case Reconcile r (resource_input item) sb of
        (Some e, sb') \<Rightarrow> (Some (EWrap ''reconcile existing WireGuardPeer: '' e ''''), sb')
      | (None, sb') \<Rightarrow> reconcile_all r items sb')"

definition reconcileExistingResources :: "('s, 'b, 'u) rt_env \<Rightarrow> 'b StorageClient \<Rightarrow> ('s, 'b) WireGuardPeerReconciler \<Rightarrow> 's \<times> 'b \<Rightarrow>
    goerror option \<times> 's \<times> 'b" where
  "reconcileExistingResources env c r sb =
     (case Client_List (json (rt_store env)) (rt_keys env) c ''WireGuardPeer'' (snd sb) of
        Inl e \<Rightarrow> (Some (EWrap ''list WireGuardPeer resources: '' e ''''), sb)
      | Inr items \<Rightarrow> reconcile_all r items sb)"

definition handleResourceEvent :: "('s, 'b, 'u) rt_env \<Rightarrow> 'b StorageClient \<Rightarrow> ('s, 'b) WireGuardPeerReconciler \<Rightarrow> Event \<Rightarrow> 's \<times> 'b \<Rightarrow>
    goerror option \<times> 's \<times> 'b" where
  "handleResourceEvent env c r ev sb =
     (if ev_kind ev \<noteq> ''WireGuardPeer'' \<or> ev_uid ev = '''' then (None, sb)
      else if eventAction ev \<in> {''delete'', ''deleted''} then
        (let (e, s') = Reconciler_Delete r (ev_uid ev) (fst sb) in (e, (s', snd sb)))
      else (case Client_Get (json (rt_store env)) (rt_keys env) c ''WireGuardPeer'' (ev_uid ev) (snd sb) of
              Inl e \<Rightarrow> if is_not_found e then (None, sb) else (Some (EWrap (''load WireGuardPeer '' @ ev_uid ev @ '': '') e ''''), sb)
            | Inr resource \<Rightarrow>
                (case Reconcile r (resource_input resource) sb of
                   (Some e, sb') \<Rightarrow> (Some (EWrap (''reconcile WireGuardPeer '' @ ev_uid ev @ '': '') e ''''), sb')
                 | (None, sb') \<Rightarrow> (None, sb'))))"

definition initializeEventing :: "EventConfig \<Rightarrow> EventConfig" where
  "initializeEventing config =
     config\<lparr>Enabled := True, LifecycleEventsEnabled := True,
       EventTypePrefix := (if EventTypePrefix config = '''' then ''io.fabrica'' else EventTypePrefix config),
       EventSource := (if EventSource config = '''' then ''metadata-service'' else EventSource config)\<rparr>"

definition registerEventHooks :: "('s, 'b, 'u) reconciliationRuntime \<Rightarrow> 'u \<Rightarrow> goerror option \<times> ('s, 'b, 'u) reconciliationRuntime \<times> 'u" where
  "registerEventHooks rt u =
     (case eventBus rt of
        None \<Rightarrow> (Some (ENew ''event bus is not initialized''), rt, u)
      | Some bus \<Rightarrow>
          (case bus_Subscribe bus ''**'' u of
             (Inl e, u') \<Rightarrow> (Some (EWrap ''subscribe to reconciliation events: '' e ''''), rt, u')
           | (Inr subID, u') \<Rightarrow> (None, rt\<lparr>subscriptionIDs := subscriptionIDs rt @ [subID]\<rparr>, u')))"

definition initialize :: "('s, 'b, 'u) rt_env \<Rightarrow> 's \<times> 'b \<Rightarrow> 'u \<Rightarrow> goerror option \<times> ('s, 'b, 'u) reconciliationRuntime \<times> ('s \<times> 'b) \<times> 'u" where
  "initialize env sb u =
     (let rt0 = \<lparr>eventBus = Some (rt_bus env), storageClient = None, wireGuardPeerReconciler = None, subscriptionIDs = [], stopped = False\<rparr> in
      case NewStorageClient (rt_store env) of
        Inl e \<Rightarrow> (Some e, rt0, sb, u)
      | Inr c \<Rightarrow>
          let r = NewWireGuardPeerReconciler (json (rt_store env)) (rt_UpdateStatus env) (rt_controller env);
              rt1 = rt0\<lparr>storageClient := Some c, wireGuardPeerReconciler := Some r\<rparr> in
          (case registerEventHooks rt1 u of
             (Some e, rt2, u') \<Rightarrow> (Some e, rt2, sb, u')
           | (None, rt2, u') \<Rightarrow> (let (e, sb') = reconcileExistingResources env c r sb in (e, rt2, sb', u'))))"

fun unsubscribe_all :: "'u EventBus \<Rightarrow> string list \<Rightarrow> 'u \<Rightarrow> string list \<times> 'u" where
  "unsubscribe_all bus [] u = ([], u)"
| "unsubscribe_all bus (subID # ids) u =
     (case bus_Unsubscribe bus subID u of
        (e, u') \<Rightarrow>
          (let (errs, u'') = unsubscribe_all bus ids u' in
           ((case e of None \<Rightarrow> errs | Some x \<Rightarrow> (''unsubscribe '' @ subID @ '': '' @ err_text x) # errs), u'')))"

text \<open>\<open>errors.Join\<close> of the collected errors.\<close>

definition join_errors :: "string list \<Rightarrow> goerror option" where
  "join_errors errs = (if errs = [] then None else Some (ENew (join nl errs)))"

definition Stop :: "('s, 'b, 'u) reconciliationRuntime \<Rightarrow> 'u \<Rightarrow> goerror option \<times> ('s, 'b, 'u) reconciliationRuntime \<times> 'u" where
  "Stop rt u =
     (if stopped rt then (None, rt, u)
      else (case eventBus rt of
        None \<Rightarrow> (None, rt\<lparr>subscriptionIDs := [], stopped := True\<rparr>, u)
      | Some bus \<Rightarrow>
          (let (errs, u1) = unsubscribe_all bus (subscriptionIDs rt) u; (e, u2) = bus_Close bus u1 in
           (join_errors (errs @ (case e of None \<Rightarrow> [] | Some x \<Rightarrow> [''close event bus: '' @ err_text x])),
            rt\<lparr>subscriptionIDs := [], stopped := True\<rparr>, u2))))"

text \<open>A panic during the initialisation becomes an error; the runtime is then dropped without being stopped.\<close>

definition initializeReconciliationRuntime :: "('s, 'b, 'u) rt_env \<Rightarrow> 's \<times> 'b \<Rightarrow> 'u \<Rightarrow> ('s, 'b, 'u) reconciliationRuntime result \<times> ('s \<times> 'b) \<times> 'u" where
  "initializeReconciliationRuntime env sb u =
     (case initialize env sb u of
        (Some (EPanic p), rt, sb', u') \<Rightarrow> (Inl (ENew (''reconciliation runtime panic: '' @ p @ nl @ rt_stack env)), sb', u')
      | (Some e, rt, sb', u') \<Rightarrow> (case Stop rt u' of (_, _, u'') \<Rightarrow> (Inl e, sb', u''))
      | (None, rt, sb', u') \<Rightarrow> (Inr rt, sb', u'))"

section \<open>What reconciling does\<close>

text \<open>The inputs the reconciler accepts, and the configuration a stored peer asks for.\<close>

definition intent_ok :: "WireGuardPeer \<Rightarrow> bool" where
  "intent_ok p \<longleftrightarrow> TrimSpace (wp_PublicKey (Spec p)) \<noteq> '''' \<and> ParseCIDR (wp_AllowedIP (Spec p)) \<noteq> None"

definition intent :: "WireGuardPeer \<Rightarrow> string \<times> string" where
  "intent p = (wp_PublicKey (Spec p), wp_AllowedIP (Spec p))"

context peer_controller
begin

abbreviation ops :: "'s WireGuardPeerController" where
  "ops \<equiv> \<lparr>wpc_UpsertPeer = upsert, wpc_RemovePeerByID = remove\<rparr>"

lemma Reconcile_valid:
  assumes "controller r = Some ops" "intent_ok p" "Reconcile r (PeerPointer p) (s, b) = (e, (s', b'))"
  shows "(fst (upsert (md_UID (Meta p)) (fst (intent p)) (snd (intent p)) s) = None \<and> peer s' = (peer s)(md_UID (Meta p) \<mapsto> intent p)) \<or> (e \<noteq> None \<and> peer s' = peer s)"
proof (cases "upsert (md_UID (Meta p)) (wp_PublicKey (Spec p)) (wp_AllowedIP (Spec p)) s")
  case (Pair e1 s1)
  show ?thesis
  proof (cases e1)
    case None
    with assms Pair have "s' = s1" by (auto simp: Reconcile_def intent_ok_def split: prod.splits)
    with upsert_ok Pair None show ?thesis by (simp add: intent_def)
  next
    case (Some x)
    with assms Pair have "s' = s1" "e \<noteq> None" by (auto simp: Reconcile_def intent_ok_def split: prod.splits option.splits)
    with upsert_err Pair Some show ?thesis by simp
  qed
qed

lemma Reconcile_invalid:
  assumes "\<not> intent_ok p" "Reconcile r (PeerPointer p) (s, b) = (e, (s', b'))"
  shows "s' = s"
  using assms by (auto simp: Reconcile_def intent_ok_def split: prod.splits if_splits)

text \<open>Without an error, the peer is configured as its spec says, or its spec is unusable and nothing changed.\<close>

lemma Reconcile_success:
  assumes "controller r = Some ops" "Reconcile r (PeerPointer p) (s, b) = (None, (s', b'))"
  shows "peer s' = (if intent_ok p then (peer s)(md_UID (Meta p) \<mapsto> intent p) else peer s)"
  using Reconcile_valid [OF assms(1) _ assms(2)] Reconcile_invalid [OF _ assms(2)] by auto

text \<open>Errors are told apart by their text, so a failure to remove a peer must not mention that it is missing.\<close>

lemma Delete_success:
  assumes "controller r = Some ops" "uid \<noteq> ''''" "Reconciler_Delete r uid s = (None, s')"
    and "\<And>e s1. peer s uid \<noteq> None \<Longrightarrow> remove uid s = (Some e, s1) \<Longrightarrow> \<not> isPeerNotFound e"
  shows "peer s' = (peer s)(uid := None)"
proof (cases "remove uid s")
  case (Pair e s1)
  then have s': "s' = s1" using assms by (auto simp: Reconciler_Delete_def split: option.splits if_splits)
  show ?thesis
  proof (cases e)
    case None
    with Pair remove_ok s' show ?thesis by simp
  next
    case (Some x)
    with Pair assms have "isPeerNotFound x" by (auto simp: Reconciler_Delete_def split: if_splits)
    with assms(4) Pair Some have "peer s uid = None" by blast
    with remove_absent [of s uid] Pair s' show ?thesis by (auto simp: fun_upd_idem)
  qed
qed

end

section \<open>Events\<close>

text \<open>The peer the client finds in the storage, and the part of it that the API owns.\<close>

definition stored_peer :: "('s, 'b, 'u) rt_env \<Rightarrow> 'b StorageClient \<Rightarrow> 'b \<Rightarrow> string \<Rightarrow> WireGuardPeer option" where
  "stored_peer env c b u =
     (case Client_Get (json (rt_store env)) (rt_keys env) c ''WireGuardPeer'' u b of Inr (RWireGuardPeer p) \<Rightarrow> Some p | _ \<Rightarrow> None)"

definition intents :: "('s, 'b, 'u) rt_env \<Rightarrow> 'b StorageClient \<Rightarrow> 'b \<Rightarrow> string \<Rightarrow> (string \<times> WireGuardPeerSpec) option" where
  "intents env c b u = map_option (\<lambda>p. (md_UID (Meta p), Spec p)) (stored_peer env c b u)"

text \<open>
  A status update writes the whole resource: of the specs it changes none, or the one under the peer's UID,
  to the spec of the copy it was given. The copy comes from the storage, with a new status.
\<close>

definition status_writes :: "('s, 'b, 'u) rt_env \<Rightarrow> 'b StorageClient \<Rightarrow> (WireGuardPeer \<Rightarrow> 'b \<Rightarrow> goerror option \<times> 'b) \<Rightarrow> bool" where
  "status_writes env c upd \<longleftrightarrow>
     (\<forall>b0 v p st b e b' u. stored_peer env c b0 v = Some p \<longrightarrow> upd (p\<lparr>Status := st\<rparr>) b = (e, b') \<longrightarrow>
        intents env c b' u = intents env c b u \<or> (u = md_UID (Meta p) \<and> intents env c b' u = Some (u, Spec p)))"

definition own_uids :: "('s, 'b, 'u) rt_env \<Rightarrow> 'b StorageClient \<Rightarrow> 'b \<Rightarrow> bool" where
  "own_uids env c b \<longleftrightarrow> (\<forall>u x. intents env c b u = Some x \<longrightarrow> fst x = u)"

definition is_delete :: "Event \<Rightarrow> bool" where
  "is_delete ev \<longleftrightarrow> eventAction ev \<in> {''delete'', ''deleted''}"

lemma stored_peerD: "stored_peer env c b u = Some p \<Longrightarrow> Client_Get (json (rt_store env)) (rt_keys env) c ''WireGuardPeer'' u b = Inr (RWireGuardPeer p)"
  by (auto simp: stored_peer_def split: sum.splits any_resource.splits)

lemma snd_updateStatus: "\<exists>st. snd (updateStatus r p ph m rd b) = snd (UpdateStatus r (p\<lparr>Status := st\<rparr>) b)"
proof -
  have c: "snd (case x of (Some e, b') \<Rightarrow> (Some (f e), b') | (None, b') \<Rightarrow> (None, b')) = snd x" for x :: "goerror option \<times> 'a" and f :: "goerror \<Rightarrow> goerror"
    by (cases x; cases "fst x") auto
  show ?thesis unfolding updateStatus_def Let_def c by blast
qed

lemma decode_kind_peer: "decode_kind je keys ''WireGuardPeer'' raw = Inr x \<Longrightarrow> \<exists>p. x = RWireGuardPeer p"
  by (auto simp: decode_kind_def tag_def split: sum.splits)

lemma Client_Get_peer: "Client_Get je keys c ''WireGuardPeer'' u b = Inr x \<Longrightarrow> \<exists>p. x = RWireGuardPeer p"
  by (cases "sb_Load (sc_backend c) ''WireGuardPeer'' u b") (auto simp: Client_Get_def dest: decode_kind_peer)

section \<open>Handling in steps\<close>

text \<open>
  The bus runs five workers (\<open>NewInMemoryEventBus(1000, 5)\<close>) and \<open>handleResourceEvent\<close> takes no lock, so
  other handlings and the API can come between its accesses to the shared state: reading the peer from
  the storage, calling the controller (whose methods hold its mutex), writing the status. \<open>handling\<close>
  says where a worker stands and what it carries in its local variables; \<open>handle_next\<close> does the next access.
\<close>

datatype handling =
    ToDelete string                                  \<comment> \<open>before \<open>Delete(ctx, uid)\<close>\<close>
  | ToLoad string                                    \<comment> \<open>before \<open>storageClient.Get\<close>\<close>
  | ToReconcile string any_resource                  \<comment> \<open>the resource is loaded\<close>
  | ToStatus string WireGuardPeer string string bool "goerror option"   \<comment> \<open>before \<open>updateStatus\<close>, with the error of \<open>UpsertPeer\<close>\<close>
  | Handled "goerror option"                         \<comment> \<open>returned; the worker is free\<close>

definition start_handling :: "Event \<Rightarrow> handling" where
  "start_handling ev =
     (if ev_kind ev \<noteq> ''WireGuardPeer'' \<or> ev_uid ev = '''' then Handled None
      else if eventAction ev \<in> {''delete'', ''deleted''} then ToDelete (ev_uid ev)
      else ToLoad (ev_uid ev))"

text \<open>\<open>Reconcile\<close> up to its status update, and the update with what \<open>Reconcile\<close> and \<open>handleResourceEvent\<close> wrap around its error.\<close>

definition reconcile_peer :: "('s, 'b) WireGuardPeerReconciler \<Rightarrow> string \<Rightarrow> any_resource \<Rightarrow> 's \<Rightarrow> handling \<times> 's" where
  "reconcile_peer r uid resource s =
     (case decodeWireGuardPeer (rc_json r) (resource_input resource) of
        Inl e \<Rightarrow> (Handled (Some (EWrap (''reconcile WireGuardPeer '' @ uid @ '': '') (EWrap ''decode WireGuardPeer: '' e '''') '''')), s)
      | Inr peer \<Rightarrow>
          if TrimSpace (wp_PublicKey (Spec peer)) = '''' then (ToStatus uid peer ''Error'' ''public_key is required'' False None, s)
          else if ParseCIDR (wp_AllowedIP (Spec peer)) = None then
            (ToStatus uid peer ''Error'' (''invalid allowed_ip '' @ go_quote (wp_AllowedIP (Spec peer)) @ '': '' @ err_text (cidr_error (wp_AllowedIP (Spec peer)))) False None, s)
          else (case controller r of
            None \<Rightarrow> (ToStatus uid peer ''Degraded'' ''wireguard controller not configured; reconcile skipped'' False None, s)
          | Some c \<Rightarrow>
              (case wpc_UpsertPeer c (md_UID (Meta peer)) (wp_PublicKey (Spec peer)) (wp_AllowedIP (Spec peer)) s of
                 (Some e, s') \<Rightarrow> (ToStatus uid peer ''Error'' (''failed to upsert peer: '' @ err_text e) False (Some e), s')
               | (None, s') \<Rightarrow> (ToStatus uid peer ''Ready'' ''wireguard peer reconciled'' True None, s'))))"

definition status_result :: "string \<Rightarrow> goerror option \<Rightarrow> goerror option \<Rightarrow> goerror option" where
  "status_result uid upserted updated =
     map_option (\<lambda>e. EWrap (''reconcile WireGuardPeer '' @ uid @ '': '') e '''')
       (case upserted of
          None \<Rightarrow> updated
        | Some e \<Rightarrow> Some (EWrap ''upsert peer: '' e
            (case updated of None \<Rightarrow> '''' | Some e2 \<Rightarrow> '' (status update failed: '' @ err_text e2 @ '')'')))"

fun handle_next :: "('s, 'b, 'u) rt_env \<Rightarrow> 'b StorageClient \<Rightarrow> ('s, 'b) WireGuardPeerReconciler \<Rightarrow> handling \<Rightarrow> 's \<times> 'b \<Rightarrow> handling \<times> 's \<times> 'b" where
  "handle_next env c r (ToDelete uid) (s, b) = (let (e, s') = Reconciler_Delete r uid s in (Handled e, (s', b)))"
| "handle_next env c r (ToLoad uid) (s, b) =
     (case Client_Get (json (rt_store env)) (rt_keys env) c ''WireGuardPeer'' uid b of
        Inl e \<Rightarrow> (Handled (if is_not_found e then None else Some (EWrap (''load WireGuardPeer '' @ uid @ '': '') e '''')), (s, b))
      | Inr resource \<Rightarrow> (ToReconcile uid resource, (s, b)))"
| "handle_next env c r (ToReconcile uid resource) (s, b) = (let (h, s') = reconcile_peer r uid resource s in (h, (s', b)))"
| "handle_next env c r (ToStatus uid peer phase message ready e) (s, b) =
     (let (e2, b') = updateStatus r peer phase message ready b in (Handled (status_result uid e e2), (s, b')))"
| "handle_next env c r (Handled e) (s, b) = (Handled e, (s, b))"

fun handle_steps :: "nat \<Rightarrow> ('s, 'b, 'u) rt_env \<Rightarrow> 'b StorageClient \<Rightarrow> ('s, 'b) WireGuardPeerReconciler \<Rightarrow> handling \<times> 's \<times> 'b \<Rightarrow> handling \<times> 's \<times> 'b" where
  "handle_steps 0 env c r x = x"
| "handle_steps (Suc n) env c r x = handle_steps n env c r (handle_next env c r (fst x) (snd x))"

text \<open>Three accesses are a whole handling: undisturbed, the steps are \<open>handleResourceEvent\<close>.\<close>

lemma reconcile_steps:
  "handle_steps 2 env c r (ToReconcile uid x, (s, b)) =
     (case Reconcile r (resource_input x) (s, b) of (e, sb') \<Rightarrow> (Handled (map_option (\<lambda>e. EWrap (''reconcile WireGuardPeer '' @ uid @ '': '') e '''') e), sb'))"
  by (simp add: numeral_2_eq_2 reconcile_peer_def Reconcile_def status_result_def Let_def split: sum.splits option.splits prod.splits)

lemma handling_undisturbed:
  "handle_steps 3 env c r (start_handling ev, sb) = (case handleResourceEvent env c r ev sb of (e, sb') \<Rightarrow> (Handled e, sb'))"
proof (cases "start_handling ev")
  case (ToLoad uid)
  obtain s b where sb: "sb = (s, b)" by fastforce
  show ?thesis
  proof (cases "Client_Get (json (rt_store env)) (rt_keys env) c ''WireGuardPeer'' uid b")
    case (Inl e)
    with ToLoad show ?thesis by (auto simp: sb numeral_3_eq_3 start_handling_def handleResourceEvent_def split: if_splits)
  next
    case (Inr x)
    have "handle_steps 3 env c r (ToLoad uid, sb) = handle_steps 2 env c r (ToReconcile uid x, (s, b))"
      using Inr by (simp add: sb numeral_3_eq_3 numeral_2_eq_2)
    with Inr ToLoad show ?thesis unfolding reconcile_steps
      by (auto simp: sb start_handling_def handleResourceEvent_def split: if_splits prod.splits option.splits)
  qed
next
  case (ToDelete uid)
  then show ?thesis by (cases sb) (auto simp: numeral_3_eq_3 start_handling_def handleResourceEvent_def Let_def split: if_splits prod.splits)
next
  case (Handled e)
  then show ?thesis by (cases sb) (auto simp: numeral_3_eq_3 start_handling_def handleResourceEvent_def split: if_splits)
qed (auto simp: start_handling_def split: if_splits)

section \<open>Runs\<close>

text \<open>
  A run interleaves the accesses of the five workers with writes of the storage by the API. An event goes to
  a worker that is free; one that could not be handled is logged and dropped.
\<close>

record ('s, 'b) rt_state =
  rs_ctl :: 's
  rs_store :: 'b
  rs_workers :: "nat \<Rightarrow> handling"

datatype 'b rt_action = Deliver nat Event | Advance nat | Write "'b \<Rightarrow> 'b"

inductive rt_step :: "('s, 'b, 'u) rt_env \<Rightarrow> 'b StorageClient \<Rightarrow> ('s, 'b) WireGuardPeerReconciler \<Rightarrow>
    ('s, 'b) rt_state \<Rightarrow> 'b rt_action \<Rightarrow> ('s, 'b) rt_state \<Rightarrow> bool" for env c r where
  deliver: "w < 5 \<Longrightarrow> rs_workers st w = Handled e \<Longrightarrow>
    rt_step env c r st (Deliver w ev) (st\<lparr>rs_workers := (rs_workers st)(w := start_handling ev)\<rparr>)"
| advance: "handle_next env c r (rs_workers st w) (rs_ctl st, rs_store st) = (h, (s', b')) \<Longrightarrow>
    rt_step env c r st (Advance w) \<lparr>rs_ctl = s', rs_store = b', rs_workers = (rs_workers st)(w := h)\<rparr>"
| write_store: "rt_step env c r st (Write f) (st\<lparr>rs_store := f (rs_store st)\<rparr>)"

lemma rt_step_cases:
  assumes "rt_step env c r st a st'"
  obtains (deliver) w e ev where "a = Deliver w ev" "st' = st\<lparr>rs_workers := (rs_workers st)(w := start_handling ev)\<rparr>" "rs_workers st w = Handled e"
  | (advance) w h s' b' where "a = Advance w" "st' = \<lparr>rs_ctl = s', rs_store = b', rs_workers = (rs_workers st)(w := h)\<rparr>"
      "handle_next env c r (rs_workers st w) (rs_ctl st, rs_store st) = (h, (s', b'))"
  | (write_store) f where "a = Write f" "st' = st\<lparr>rs_store := f (rs_store st)\<rparr>"
  using assms by (cases rule: rt_step.cases) auto

inductive_cases rt_deliverE: "rt_step env c r st (Deliver w ev) st'"

inductive rt_run :: "('s, 'b, 'u) rt_env \<Rightarrow> 'b StorageClient \<Rightarrow> ('s, 'b) WireGuardPeerReconciler \<Rightarrow>
    ('s, 'b) rt_state \<Rightarrow> 'b rt_action list \<Rightarrow> ('s, 'b) rt_state \<Rightarrow> bool" for env c r where
  stop: "rt_run env c r st [] st"
| step: "rt_step env c r st a st1 \<Longrightarrow> rt_run env c r st1 steps st2 \<Longrightarrow> rt_run env c r st (a # steps) st2"

inductive_cases rt_run_consE: "rt_run env c r st (a # steps) st'"

text \<open>The key and address that the storage asks for.\<close>

definition wanted :: "('s, 'b, 'u) rt_env \<Rightarrow> 'b StorageClient \<Rightarrow> 'b \<Rightarrow> string \<Rightarrow> (string \<times> string) option" where
  "wanted env c b u = map_option (\<lambda>x. (wp_PublicKey (snd x), wp_AllowedIP (snd x))) (intents env c b u)"

text \<open>Writes store each peer under its own UID.\<close>

fun sound_step :: "('s, 'b, 'u) rt_env \<Rightarrow> 'b StorageClient \<Rightarrow> 'b rt_action \<Rightarrow> bool" where
  "sound_step env c (Write f) = (\<forall>b. own_uids env c b \<longrightarrow> own_uids env c (f b))"
| "sound_step env c _ = True"

text \<open>Steps that leave \<open>u\<close> alone: writes that keep its spec, events other than its deletion (any event once it is gone).\<close>

fun quiet_step :: "('s, 'b, 'u) rt_env \<Rightarrow> 'b StorageClient \<Rightarrow> string \<Rightarrow> bool \<Rightarrow> 'b rt_action \<Rightarrow> bool" where
  "quiet_step env c u gone (Deliver w ev) = (gone \<or> \<not> is_delete ev \<or> ev_uid ev \<noteq> u)"
| "quiet_step env c u gone (Write f) = (\<forall>b. intents env c (f b) u = intents env c b u)"
| "quiet_step env c u gone (Advance w) = True"

text \<open>What a worker has loaded was in the storage at some time, and whether that is still what \<open>u\<close> asks for.\<close>

fun loaded_copy :: "('s, 'b, 'u) rt_env \<Rightarrow> 'b StorageClient \<Rightarrow> handling \<Rightarrow> bool" where
  "loaded_copy env c (ToReconcile v x) = (\<exists>p b. x = RWireGuardPeer p \<and> md_UID (Meta p) = v \<and> stored_peer env c b v = Some p)"
| "loaded_copy env c (ToStatus v p ph m rd e) = (\<exists>b. md_UID (Meta p) = v \<and> stored_peer env c b v = Some p)"
| "loaded_copy env c _ = True"

fun up_to_date :: "string \<Rightarrow> (string \<times> WireGuardPeerSpec) option \<Rightarrow> handling \<Rightarrow> bool" where
  "up_to_date u t (ToDelete v) = (v = u \<longrightarrow> t = None)"
| "up_to_date u t (ToReconcile v x) = (v = u \<longrightarrow> (\<forall>p. x = RWireGuardPeer p \<longrightarrow> t = Some (u, Spec p)))"
| "up_to_date u t (ToStatus v p ph m rd e) = (v = u \<longrightarrow> t = Some (u, Spec p))"
| "up_to_date u t _ = True"

definition workers_free :: "('s, 'b) rt_state \<Rightarrow> bool" where
  "workers_free st \<longleftrightarrow> (\<forall>w. \<exists>e. rs_workers st w = Handled e)"

lemma intent_ok_Spec: "Spec p = Spec q \<Longrightarrow> intent_ok p = intent_ok q"
  by (simp add: intent_ok_def)

lemma status_writesD:
  assumes "status_writes env c upd" "stored_peer env c b0 v = Some p" "upd (p\<lparr>Status := st\<rparr>) b = (e, b')"
  shows "intents env c b' u = intents env c b u \<or> (u = md_UID (Meta p) \<and> intents env c b' u = Some (u, Spec p))"
  using assms unfolding status_writes_def by blast

lemma updateStatus_writes:
  assumes "status_writes env c (UpdateStatus r)" "stored_peer env c b0 v = Some p" "updateStatus r p ph m rd b = (e, b')"
  shows "intents env c b' u = intents env c b u \<or> (u = md_UID (Meta p) \<and> intents env c b' u = Some (u, Spec p))"
proof -
  obtain st where "b' = snd (UpdateStatus r (p\<lparr>Status := st\<rparr>) b)" using snd_updateStatus [of r p ph m rd b] assms(3) by auto
  then show ?thesis using status_writesD [OF assms(1,2) prod.collapse [symmetric]] by blast
qed

text \<open>One access of one worker.\<close>

lemma handle_next_sound:
  assumes "status_writes env c (UpdateStatus r)" "own_uids env c b" "loaded_copy env c h" "handle_next env c r h (s, b) = (h', (s', b'))"
  shows "own_uids env c b' \<and> loaded_copy env c h'"
proof (cases h)
  case (ToLoad v)
  show ?thesis
  proof (cases "Client_Get (json (rt_store env)) (rt_keys env) c ''WireGuardPeer'' v b")
    case (Inr x)
    from Client_Get_peer [OF Inr] obtain p where p: "x = RWireGuardPeer p" ..
    with Inr have s: "stored_peer env c b v = Some p" by (simp add: stored_peer_def)
    with assms(2) have "md_UID (Meta p) = v" by (fastforce simp: own_uids_def intents_def)
    with s p Inr ToLoad assms(2,4) show ?thesis by auto
  qed (use ToLoad assms in auto)
next
  case (ToReconcile v x)
  with assms(3) obtain p b0 where p: "x = RWireGuardPeer p" "md_UID (Meta p) = v" "stored_peer env c b0 v = Some p" by auto
  with assms(2,4) ToReconcile show ?thesis
    by (auto simp: reconcile_peer_def split: if_splits option.splits prod.splits)
next
  case (ToStatus v p ph m rd e)
  with assms(3) obtain b0 where p: "md_UID (Meta p) = v" "stored_peer env c b0 v = Some p" by auto
  obtain e2 where "updateStatus r p ph m rd b = (e2, b')" "h' = Handled (status_result v e e2)"
    using assms(4) ToStatus by (auto split: prod.splits)
  with updateStatus_writes [OF assms(1) p(2), of ph m rd b e2 b'] assms(2) show ?thesis
    unfolding own_uids_def by (metis fst_conv loaded_copy.simps(5) option.sel)
qed (use assms in \<open>auto split: prod.splits\<close>)

lemma handle_next_intents:
  assumes "status_writes env c (UpdateStatus r)" "own_uids env c b" "loaded_copy env c h" "handle_next env c r h (s, b) = (h', (s', b'))"
    and "up_to_date u (intents env c b u) h"
  shows "intents env c b' u = intents env c b u \<and> up_to_date u (intents env c b u) h'"
proof (cases h)
  case (ToLoad v)
  show ?thesis
  proof (cases "Client_Get (json (rt_store env)) (rt_keys env) c ''WireGuardPeer'' v b")
    case (Inr x)
    from Client_Get_peer [OF Inr] obtain p where p: "x = RWireGuardPeer p" ..
    with Inr have s: "stored_peer env c b v = Some p" by (simp add: stored_peer_def)
    with assms(2) have "md_UID (Meta p) = v" by (fastforce simp: own_uids_def intents_def)
    with s p Inr ToLoad assms(4) show ?thesis by (auto simp: intents_def)
  qed (use ToLoad assms in auto)
next
  case (ToReconcile v x)
  with assms(3) obtain p where p: "x = RWireGuardPeer p" by auto
  with assms(4,5) ToReconcile show ?thesis
    by (auto simp: reconcile_peer_def split: if_splits option.splits prod.splits)
next
  case (ToStatus v p ph m rd e)
  with assms(3) obtain b0 where p: "md_UID (Meta p) = v" "stored_peer env c b0 v = Some p" by auto
  obtain e2 where "updateStatus r p ph m rd b = (e2, b')" "h' = Handled (status_result v e e2)"
    using assms(4) ToStatus by (auto split: prod.splits)
  with updateStatus_writes [OF assms(1) p(2), of ph m rd b e2 b' u] assms(5) ToStatus p(1) show ?thesis by auto
qed (use assms in \<open>auto split: prod.splits\<close>)

definition asked :: "(string \<times> WireGuardPeerSpec) option \<Rightarrow> (string \<times> string) option" where
  "asked t = map_option (\<lambda>x. (wp_PublicKey (snd x), wp_AllowedIP (snd x))) t"

lemma wanted_asked: "wanted env c b u = asked (intents env c b u)"
  by (simp add: wanted_def asked_def)

text \<open>What holds along a run.\<close>

definition run_sound :: "('s, 'b, 'u) rt_env \<Rightarrow> 'b StorageClient \<Rightarrow> ('s, 'b) rt_state \<Rightarrow> bool" where
  "run_sound env c st \<longleftrightarrow> own_uids env c (rs_store st) \<and> (\<forall>w. loaded_copy env c (rs_workers st w))"

definition run_quiet :: "('s, 'b, 'u) rt_env \<Rightarrow> 'b StorageClient \<Rightarrow> string \<Rightarrow> (string \<times> WireGuardPeerSpec) option \<Rightarrow> ('s, 'b) rt_state \<Rightarrow> bool" where
  "run_quiet env c u t st \<longleftrightarrow> run_sound env c st \<and> intents env c (rs_store st) u = t \<and> (\<forall>w. up_to_date u t (rs_workers st w))"

lemma start_handling_inv: "loaded_copy env c (start_handling ev)" "gone \<or> \<not> is_delete ev \<or> ev_uid ev \<noteq> u \<Longrightarrow> gone = (t = None) \<Longrightarrow> up_to_date u t (start_handling ev)"
  by (auto simp: start_handling_def is_delete_def)

lemma step_sound:
  assumes "status_writes env c (UpdateStatus r)" "rt_step env c r st a st'" "sound_step env c a" "run_sound env c st"
  shows "run_sound env c st'"
  using assms(2)
proof (cases rule: rt_step_cases)
  case (advance w h s' b')
  with handle_next_sound [OF assms(1) _ _ advance(3)] assms(4) show ?thesis by (simp add: run_sound_def)
qed (use assms(3,4) start_handling_inv(1) in \<open>auto simp: run_sound_def\<close>)

lemma run_sound_run:
  assumes "status_writes env c (UpdateStatus r)" "rt_run env c r st steps st'"
  shows "\<forall>x\<in>set steps. sound_step env c x \<Longrightarrow> run_sound env c st \<Longrightarrow> run_sound env c st'"
  using assms(2) by induction (auto dest: step_sound [OF assms(1)])

lemma rt_run_append: "rt_run env c r st xs st1 \<Longrightarrow> rt_run env c r st1 ys st2 \<Longrightarrow> rt_run env c r st (xs @ ys) st2"
  by (induction rule: rt_run.induct) (auto intro: rt_run.step)

lemma run_appendD: "rt_run env c r st (xs @ ys) st' \<Longrightarrow> \<exists>st1. rt_run env c r st xs st1 \<and> rt_run env c r st1 ys st'"
proof (induction xs arbitrary: st)
  case (Cons x xs)
  from Cons.prems [simplified] obtain st1 where "rt_step env c r st x st1" "rt_run env c r st1 (xs @ ys) st'" by (rule rt_run_consE)
  with Cons.IH show ?case by (meson rt_run.step)
qed (auto intro: rt_run.stop)

context peer_controller
begin

lemma reconcile_peer_cases:
  assumes "controller r = Some ops" "md_UID (Meta p) = v" "reconcile_peer r v (RWireGuardPeer p) s = (h', s')"
  obtains (configured) ph m rd where "h' = ToStatus v p ph m rd None" "peer s' = (peer s)(v \<mapsto> intent p)"
  | (failed) ph m rd e where "h' = ToStatus v p ph m rd (Some e)" "peer s' = peer s"
  | (unusable) ph m rd where "h' = ToStatus v p ph m rd None" "s' = s" "\<not> intent_ok p"
proof (cases "intent_ok p")
  case True
  obtain e s1 where u: "upsert v (wp_PublicKey (Spec p)) (wp_AllowedIP (Spec p)) s = (e, s1)" by fastforce
  show ?thesis
  proof (cases e)
    case None
    with u upsert_ok have "peer s1 = (peer s)(v \<mapsto> intent p)" by (simp add: intent_def)
    with assms u None True configured show ?thesis by (auto simp: reconcile_peer_def intent_ok_def)
  next
    case (Some x)
    with u upsert_err have "peer s1 = peer s" by simp
    with assms u Some True failed show ?thesis by (auto simp: reconcile_peer_def intent_ok_def)
  qed
qed (use assms unusable in \<open>auto simp: reconcile_peer_def intent_ok_def split: if_splits\<close>)

text \<open>A worker with an up-to-date copy leaves \<open>u\<close> in the controller as it is or makes it what is asked for.\<close>

lemma handle_next_peer:
  assumes "controller r = Some ops" "loaded_copy env c h" "handle_next env c r h (s, b) = (h', (s', b'))" "up_to_date u t h"
  shows "peer s' u = peer s u \<or> peer s' u = asked t"
proof (cases h)
  case (ToDelete v)
  with assms(3) obtain e where d: "Reconciler_Delete r v s = (e, s')" by (auto split: prod.splits)
  then have "peer s' = peer s \<or> peer s' = (peer s)(v := None)"
    using assms(1) remove_ok remove_err
    by (cases "remove v s") (auto simp: Reconciler_Delete_def split: option.splits if_splits)
  with assms(4) ToDelete show ?thesis by (auto simp: asked_def)
next
  case (ToReconcile v x)
  with assms(2) obtain p where p: "x = RWireGuardPeer p" "md_UID (Meta p) = v" by auto
  from assms(3) ToReconcile p(1) have "reconcile_peer r v (RWireGuardPeer p) s = (h', s')" by (auto split: prod.splits)
  from assms(1) p(2) this show ?thesis
    by (cases rule: reconcile_peer_cases) (use assms(4) ToReconcile p(1) in \<open>auto simp: asked_def intent_def\<close>)
qed (use assms(3) in \<open>auto split: sum.splits prod.splits\<close>)

text \<open>How far the handling of an event for \<open>u\<close> has come; it has succeeded only if the controller has what is asked for.\<close>

fun on_course :: "string \<Rightarrow> (string \<times> WireGuardPeerSpec) option \<Rightarrow> 's \<Rightarrow> handling \<Rightarrow> bool" where
  "on_course u t s (ToDelete v) = (v = u \<and> t = None)"
| "on_course u t s (ToLoad v) = (v = u \<and> t \<noteq> None)"
| "on_course u t s (ToReconcile v x) = (v = u \<and> t \<noteq> None)"
| "on_course u t s (ToStatus v p ph m rd e) = (v = u \<and> (e = None \<longrightarrow> peer s u = asked t))"
| "on_course u t s (Handled e) = (e = None \<longrightarrow> peer s u = asked t)"

lemma on_course_mono: "on_course u t s h \<Longrightarrow> peer s' u = peer s u \<or> peer s' u = asked t \<Longrightarrow> on_course u t s' h"
  by (cases h) auto

lemma on_course_next:
  assumes "controller r = Some ops" "u \<noteq> ''''" "loaded_copy env c h" "handle_next env c r h (s, b) = (h', (s', b'))"
    and "up_to_date u (intents env c b u) h" "on_course u (intents env c b u) s h"
    and "\<forall>p. intents env c b u = Some (u, Spec p) \<longrightarrow> intent_ok p"
    and "intents env c b u = None \<longrightarrow> (\<forall>s e s1. remove u s = (Some e, s1) \<and> peer s u \<noteq> None \<longrightarrow> \<not> isPeerNotFound e)"
  shows "on_course u (intents env c b u) s' h'"
proof (cases h)
  case (ToDelete v)
  with assms(4,6) obtain e where d: "Reconciler_Delete r u s = (e, s')" "h' = Handled e" "v = u" by (auto split: prod.splits)
  have n: "\<forall>s e s1. remove u s = (Some e, s1) \<and> peer s u \<noteq> None \<longrightarrow> \<not> isPeerNotFound e" using assms(6,8) ToDelete by simp
  have "peer s' = (peer s)(u := None)" if "e = None"
    by (rule Delete_success [OF assms(1,2) d(1) [unfolded that]]) (use n in blast)
  with d assms(6) ToDelete show ?thesis by (auto simp: asked_def)
next
  case (ToLoad v)
  with assms(6) have "v = u" and "intents env c b u \<noteq> None" by simp_all
  then obtain p where "stored_peer env c b v = Some p" by (auto simp: intents_def)
  from stored_peerD [OF this] assms(4,6) ToLoad show ?thesis by auto
next
  case (ToReconcile v x)
  with assms(3,6) obtain p where p: "x = RWireGuardPeer p" "md_UID (Meta p) = v" "v = u" by auto
  with assms(5,7) ToReconcile have t: "intents env c b u = Some (u, Spec p)" and ok: "intent_ok p" by auto
  from assms(4) ToReconcile p have "reconcile_peer r v (RWireGuardPeer p) s = (h', s')" by (auto split: prod.splits)
  from assms(1) p(2) this show ?thesis
    by (cases rule: reconcile_peer_cases) (use ok p(3) t in \<open>auto simp: asked_def intent_def\<close>)
next
  case (ToStatus v p ph m rd e)
  with assms(4,6) show ?thesis by (auto simp: status_result_def split: prod.splits option.splits)
qed (use assms(4,6) in simp)

lemma step_quiet:
  assumes "controller r = Some ops" "status_writes env c (UpdateStatus r)" "rt_step env c r st a st'"
    and "sound_step env c a" "quiet_step env c u (t = None) a" "run_quiet env c u t st"
  shows "run_quiet env c u t st' \<and> (peer (rs_ctl st') u = peer (rs_ctl st) u \<or> peer (rs_ctl st') u = asked t)"
proof -
  have so: "run_sound env c st'" using step_sound [OF assms(2-4)] assms(6) by (simp add: run_quiet_def)
  show ?thesis using assms(3)
  proof (cases rule: rt_step_cases)
    case (deliver w e ev)
    with assms(5,6) so start_handling_inv(2) show ?thesis by (auto simp: run_quiet_def)
  next
    case (advance w h s' b')
    from assms(6) have i: "own_uids env c (rs_store st)" "loaded_copy env c (rs_workers st w)" "intents env c (rs_store st) u = t"
      "up_to_date u t (rs_workers st w)" by (simp_all add: run_quiet_def run_sound_def)
    from handle_next_intents [OF assms(2) i(1,2) advance(3)] handle_next_peer [OF assms(1) i(2) advance(3) i(4)] i so assms(6) advance(2)
    show ?thesis by (auto simp: run_quiet_def)
  next
    case write_store
    with assms(5,6) so show ?thesis by (auto simp: run_quiet_def)
  qed
qed

lemma run_quiet_run:
  assumes "controller r = Some ops" "status_writes env c (UpdateStatus r)" "rt_run env c r st steps st'"
  shows "\<forall>x\<in>set steps. sound_step env c x \<and> quiet_step env c u (t = None) x \<Longrightarrow> run_quiet env c u t st \<Longrightarrow>
    run_quiet env c u t st' \<and> (peer (rs_ctl st) u = asked t \<longrightarrow> peer (rs_ctl st') u = asked t)"
  using assms(3)
proof induction
  case (step st a st1 steps st2)
  from step_quiet [OF assms(1,2) step.hyps(1), of u t] step.prems step.IH show ?case by auto
qed simp

text \<open>The worker that took the event for \<open>u\<close> stays on course while nobody else gives it work.\<close>

lemma step_on_course:
  assumes "controller r = Some ops" "status_writes env c (UpdateStatus r)" "rt_step env c r st a st'"
    and "sound_step env c a" "quiet_step env c u (t = None) a" "run_quiet env c u t st" "u \<noteq> ''''"
    and "\<forall>p. t = Some (u, Spec p) \<longrightarrow> intent_ok p" "t = None \<longrightarrow> (\<forall>s e s1. remove u s = (Some e, s1) \<and> peer s u \<noteq> None \<longrightarrow> \<not> isPeerNotFound e)"
    and "\<forall>ev. a \<noteq> Deliver w ev" "on_course u t (rs_ctl st) (rs_workers st w)"
  shows "on_course u t (rs_ctl st') (rs_workers st' w)"
proof -
  note pe = step_quiet [OF assms(1-6), THEN conjunct2]
  from assms(3) show ?thesis
  proof (cases rule: rt_step_cases)
    case (advance v h s' b')
    from assms(6) have i: "loaded_copy env c (rs_workers st w)" "intents env c (rs_store st) u = t" "up_to_date u t (rs_workers st w)"
      by (simp_all add: run_quiet_def run_sound_def)
    show ?thesis
    proof (cases "v = w")
      case True
      from on_course_next [OF assms(1,7) i(1) advance(3) [unfolded True]] i assms(8,9,11) advance(2) True show ?thesis by auto
    next
      case False
      with advance on_course_mono [OF assms(11) pe] show ?thesis by simp
    qed
  qed (use assms(10) on_course_mono [OF assms(11) pe] in auto)
qed

lemma run_on_course:
  assumes "controller r = Some ops" "status_writes env c (UpdateStatus r)" "rt_run env c r st steps st'" "u \<noteq> ''''"
    and "\<forall>p. t = Some (u, Spec p) \<longrightarrow> intent_ok p" "t = None \<longrightarrow> (\<forall>s e s1. remove u s = (Some e, s1) \<and> peer s u \<noteq> None \<longrightarrow> \<not> isPeerNotFound e)"
  shows "\<forall>x\<in>set steps. sound_step env c x \<and> quiet_step env c u (t = None) x \<and> (\<forall>ev. x \<noteq> Deliver w ev) \<Longrightarrow> run_quiet env c u t st \<Longrightarrow>
    on_course u t (rs_ctl st) (rs_workers st w) \<Longrightarrow> on_course u t (rs_ctl st') (rs_workers st' w)"
  using assms(3)
proof induction
  case (step st a st1 steps st2)
  then have a: "sound_step env c a" "quiet_step env c u (t = None) a" "\<forall>ev. a \<noteq> Deliver w ev" by auto
  from step_on_course [OF assms(1,2) step.hyps(1) a(1,2) step.prems(2) assms(4-6) a(3) step.prems(3)]
    step_quiet [OF assms(1,2) step.hyps(1) a(1,2) step.prems(2)] step show ?case by auto
qed

lemma run_converges:
  assumes "controller r = Some ops" "status_writes env c (UpdateStatus r)"
    and "workers_free st0" "own_uids env c (rs_store st0)" "rt_run env c r st0 before st1" "\<forall>x\<in>set before. sound_step env c x"
    and "\<forall>w. up_to_date u (intents env c (rs_store st1) u) (rs_workers st1 w)"
    and "rt_run env c r st1 (between @ Deliver w ev # handling) st2" "\<forall>ev'. Deliver w ev' \<notin> set handling" "rs_workers st2 w = Handled None"
    and "ev_kind ev = ''WireGuardPeer''" "ev_uid ev = u" "u \<noteq> ''''"
    and "is_delete ev \<longleftrightarrow> stored_peer env c (rs_store st1) u = None" "\<forall>p. stored_peer env c (rs_store st1) u = Some p \<longrightarrow> intent_ok p"
    and "is_delete ev \<longrightarrow> (\<forall>s e s1. remove u s = (Some e, s1) \<and> peer s u \<noteq> None \<longrightarrow> \<not> isPeerNotFound e)"
    and "rt_run env c r st2 after st3"
    and "\<forall>x\<in>set (between @ Deliver w ev # handling @ after). sound_step env c x \<and> quiet_step env c u (is_delete ev) x"
  shows "peer (rs_ctl st3) u = wanted env c (rs_store st3) u \<and> wanted env c (rs_store st3) u = wanted env c (rs_store st1) u"
proof -
  let ?t = "intents env c (rs_store st1) u"
  have del: "is_delete ev = (?t = None)" using assms(14) by (simp add: intents_def)
  have rem: "?t = None \<longrightarrow> (\<forall>s e s1. remove u s = (Some e, s1) \<and> peer s u \<noteq> None \<longrightarrow> \<not> isPeerNotFound e)" using assms(16) del by simp
  have ok: "\<forall>p. ?t = Some (u, Spec p) \<longrightarrow> intent_ok p"
  proof (intro allI impI)
    fix p :: WireGuardPeer assume "?t = Some (u, Spec p)"
    then obtain q where "stored_peer env c (rs_store st1) u = Some q" "Spec q = Spec p" by (auto simp: intents_def)
    with assms(15) intent_ok_Spec [of q p] show "intent_ok p" by simp
  qed
  have "run_sound env c st0" using assms(3,4) unfolding workers_free_def run_sound_def by (metis loaded_copy.simps(5))
  then have q1: "run_quiet env c u ?t st1" using run_sound_run [OF assms(2,5,6)] assms(7) by (simp add: run_quiet_def)
  obtain sta where a: "rt_run env c r st1 between sta" "rt_run env c r sta (Deliver w ev # handling) st2" using run_appendD [OF assms(8)] by blast
  from a(2) obtain stb where b: "rt_step env c r sta (Deliver w ev) stb" "rt_run env c r stb handling st2" by (rule rt_run_consE)
  have qa: "run_quiet env c u ?t sta" using run_quiet_run [OF assms(1,2) a(1), of u ?t] q1 assms(18) del by auto
  have qb: "run_quiet env c u ?t stb" using step_quiet [OF assms(1,2) b(1) _ _ qa] assms(18) del by auto
  have "start_handling ev = (if ?t = None then ToDelete u else ToLoad u)" using assms(11-13) del by (simp add: start_handling_def is_delete_def)
  then have "on_course u ?t (rs_ctl stb) (rs_workers stb w)" using b(1) by (auto elim!: rt_deliverE)
  then have "on_course u ?t (rs_ctl st2) (rs_workers st2 w)"
    using run_on_course [OF assms(1,2) b(2) assms(13) ok rem _ qb] assms(9,18) del by auto
  then have p2: "peer (rs_ctl st2) u = asked ?t" using assms(10) by simp
  have q2: "run_quiet env c u ?t st2" using run_quiet_run [OF assms(1,2) b(2), of u ?t] qb assms(18) del by auto
  have "run_quiet env c u ?t st3 \<and> peer (rs_ctl st3) u = asked ?t" using run_quiet_run [OF assms(1,2,17), of u ?t] q2 p2 assms(18) del by auto
  then show ?thesis by (simp add: wanted_asked run_quiet_def)
qed

end

section \<open>Startup\<close>

definition uid_of :: "WireGuardPeer \<Rightarrow> string" where
  "uid_of p = md_UID (Meta p)"

definition configure :: "WireGuardPeer list \<Rightarrow> (string \<rightharpoonup> string \<times> string) \<Rightarrow> string \<rightharpoonup> string \<times> string" where
  "configure ps m = fold (\<lambda>p m. if intent_ok p then m(uid_of p \<mapsto> intent p) else m) ps m"

lemma configure_other: "(\<And>p. p \<in> set ps \<Longrightarrow> intent_ok p \<Longrightarrow> uid_of p \<noteq> u) \<Longrightarrow> configure ps m u = m u"
  by (induction ps arbitrary: m) (auto simp: configure_def)

lemma configure_member: "p \<in> set ps \<Longrightarrow> intent_ok p \<Longrightarrow> distinct (map uid_of ps) \<Longrightarrow> configure ps m (uid_of p) = Some (intent p)"
proof (induction ps arbitrary: m)
  case (Cons q ps)
  show ?case
  proof (cases "p \<in> set ps")
    case True
    with Cons show ?thesis by (simp add: configure_def)
  next
    case False
    with Cons.prems have "q = p" "uid_of p \<notin> uid_of ` set ps" by auto
    then have "configure ps (m(uid_of p \<mapsto> intent p)) (uid_of p) = Some (intent p)"
      by (subst configure_other) (auto simp: image_iff)
    with Cons.prems \<open>q = p\<close> show ?thesis by (simp add: configure_def)
  qed
qed simp

lemma fst_updateStatus: "(\<And>st. fst (UpdateStatus r (p\<lparr>Status := st\<rparr>) b) = None) \<Longrightarrow> fst (updateStatus r p ph m rd b) = None"
proof -
  assume "\<And>st. fst (UpdateStatus r (p\<lparr>Status := st\<rparr>) b) = None"
  then have "\<exists>b'. UpdateStatus r (p\<lparr>Status := st\<rparr>) b = (None, b')" for st by (metis prod.collapse)
  then obtain b' where "UpdateStatus r (p\<lparr>Status := \<lparr>ws_Phase = ph, ws_Message = m, ws_Ready = rd,
      ws_Version = (if APIVersion p \<noteq> '''' then APIVersion p else ''v1'')\<rparr>\<rparr>) b = (None, b')" by blast
  then show ?thesis by (simp add: updateStatus_def Let_def)
qed

text \<open>Nothing in the way of a peer: the device takes it and its status can be written.\<close>

definition accepted :: "(string \<Rightarrow> string \<Rightarrow> string \<Rightarrow> 's \<Rightarrow> goerror option \<times> 's) \<Rightarrow> (WireGuardPeer \<Rightarrow> 'b \<Rightarrow> goerror option \<times> 'b) \<Rightarrow> WireGuardPeer \<Rightarrow> bool" where
  "accepted up upd p \<longleftrightarrow> (intent_ok p \<longrightarrow> (\<forall>s. fst (up (uid_of p) (fst (intent p)) (snd (intent p)) s) = None)) \<and>
     (\<forall>st b. fst (upd (p\<lparr>Status := st\<rparr>) b) = None)"

context peer_controller
begin

lemma Reconcile_total:
  assumes "controller r = Some ops" "accepted upsert (UpdateStatus r) p"
  obtains s' b' where "Reconcile r (PeerPointer p) (s, b) = (None, (s', b'))"
proof -
  have u: "fst (updateStatus r p ph m rd b) = None" for ph m rd b
    using assms(2) by (intro fst_updateStatus) (auto simp: accepted_def)
  have "fst (Reconcile r (PeerPointer p) (s, b)) = None"
  proof (cases "intent_ok p")
    case True
    with assms(2) have "fst (upsert (md_UID (Meta p)) (wp_PublicKey (Spec p)) (wp_AllowedIP (Spec p)) s) = None"
      by (simp add: accepted_def uid_of_def intent_def)
    with True u assms(1) show ?thesis
      by (auto simp: Reconcile_def intent_ok_def split: prod.splits option.splits) (metis fst_conv option.discI)
  next
    case False
    with u show ?thesis by (auto simp: Reconcile_def intent_ok_def split: prod.splits) (metis fst_conv)+
  qed
  then show ?thesis using that by (metis prod.collapse)
qed

lemma reconcile_all_total:
  assumes "controller r = Some ops"
  shows "\<forall>p\<in>set ps. accepted upsert (UpdateStatus r) p \<Longrightarrow>
    \<exists>s' b'. reconcile_all r (map RWireGuardPeer ps) (s, b) = (None, (s', b')) \<and> peer s' = configure ps (peer s)"
proof (induction ps arbitrary: s b)
  case (Cons p ps)
  then obtain s1 b1 where r: "Reconcile r (PeerPointer p) (s, b) = (None, (s1, b1))" using Reconcile_total [OF assms, of p s b] by fastforce
  from Reconcile_success [OF assms r] have "peer s1 = (if intent_ok p then (peer s)(uid_of p \<mapsto> intent p) else peer s)"
    by (simp add: uid_of_def)
  with Cons.IH [of s1 b1] Cons.prems r show ?case by (auto simp: configure_def)
qed (simp add: configure_def)

end

text \<open>What \<open>List\<close> returns when every stored peer can be decoded.\<close>

lemma decode_all_peers:
  assumes "\<And>u. u \<in> set us \<Longrightarrow> Unmarshal je WireGuardPeer_kind (f u) = Inr (g u)"
  shows "decode_all je keys ''WireGuardPeer'' (map f us) = Inr (map (\<lambda>u. RWireGuardPeer (g u)) us)"
  using assms by (induction us) (auto simp: decode_kind_def tag_def)

definition stored_ok :: "json_env \<Rightarrow> contents \<Rightarrow> bool" where
  "stored_ok je v \<longleftrightarrow> (\<forall>u d. v ''WireGuardPeer'' u = Some d \<longrightarrow> (\<exists>p. Unmarshal je WireGuardPeer_kind d = Inr p \<and> uid_of p = u))"

lemma Client_List_peers:
  assumes "backend_ok be view" "stored_ok je (view b)"
  obtains ps where "Client_List je keys \<lparr>sc_backend = be\<rparr> ''WireGuardPeer'' b = Inr (map RWireGuardPeer ps)"
    "distinct (map uid_of ps)" "\<forall>p. p \<in> set ps \<longleftrightarrow> typed je WireGuardPeer_kind (view b) (uid_of p) = Some p"
proof -
  obtain us where us: "range_order (view b ''WireGuardPeer'') us" "sb_LoadAll be ''WireGuardPeer'' b = Inr (map (\<lambda>u. the (view b ''WireGuardPeer'' u)) us)"
    using backend_ok_LoadAll [OF assms(1)] by metis
  let ?g = "\<lambda>u. the (typed je WireGuardPeer_kind (view b) u)"
  have k: "k_name WireGuardPeer_kind = ''WireGuardPeer''" by (simp add: WireGuardPeer_kind_def)
  have g: "Unmarshal je WireGuardPeer_kind (the (view b ''WireGuardPeer'' u)) = Inr (?g u)" "uid_of (?g u) = u"
    "typed je WireGuardPeer_kind (view b) u = Some (?g u)" if u: "u \<in> set us" for u
  proof -
    obtain d where d: "view b ''WireGuardPeer'' u = Some d" using us(1) u by (auto simp: range_order_def)
    with assms(2) obtain p where "Unmarshal je WireGuardPeer_kind d = Inr p" "uid_of p = u" unfolding stored_ok_def by blast
    with d show "Unmarshal je WireGuardPeer_kind (the (view b ''WireGuardPeer'' u)) = Inr (?g u)" "uid_of (?g u) = u"
      "typed je WireGuardPeer_kind (view b) u = Some (?g u)" by (simp_all add: typed_def k)
  qed
  from decode_all_peers [OF g(1)] us(2)
  have l: "Client_List je keys \<lparr>sc_backend = be\<rparr> ''WireGuardPeer'' b = Inr (map RWireGuardPeer (map ?g us))"
    by (simp add: Client_List_def comp_def)
  have "map uid_of (map ?g us) = us" using g(2) by (simp add: map_idI)
  then have d: "distinct (map uid_of (map ?g us))" using us(1) by (simp add: range_order_def)
  have "p \<in> set (map ?g us) \<longleftrightarrow> typed je WireGuardPeer_kind (view b) (uid_of p) = Some p" for p
  proof
    assume "p \<in> set (map ?g us)"
    then show "typed je WireGuardPeer_kind (view b) (uid_of p) = Some p" using g by auto
  next
    assume t: "typed je WireGuardPeer_kind (view b) (uid_of p) = Some p"
    then have "uid_of p \<in> set us" using us(1) by (auto simp: range_order_def typed_def k split: option.splits)
    with t show "p \<in> set (map ?g us)" by force
  qed
  with l d show thesis by (intro that) blast+
qed

section \<open>Properties\<close>

text \<open>The WireGuard controller behind the interface.\<close>

abbreviation controller_ops :: "'w ctl_env \<Rightarrow> 'w cstate WireGuardPeerController" where
  "controller_ops cenv \<equiv> \<lparr>wpc_UpsertPeer = UpsertPeer cenv, wpc_RemovePeerByID = RemovePeerByID cenv\<rparr>"

text \<open>
  C9 (liveness). The controller converges to the stored peers while five workers handle events and the API
  writes the storage, every access of a handling (load, controller call, status write) being a step of
  its own. Take a moment from which on the spec of a peer is not changed and at which no worker still
  carries an outdated copy of that peer (loaded before its last change) or an outdated deletion of it. When
  from then on a worker takes an event for the peer and finishes without an error (a deletion if the
  peer is gone, any other event if it is stored with a usable spec), the controller has the stored key and
  address, or no longer has the peer, at the end and at every later moment, whatever the other workers do in between,
  as long as no event of a deletion comes for a peer that is stored. It is assumed that the workers were idle at first, that writes store each peer under its own UID, that a status update writes nothing but the copy it is
  given, and that a failure to remove a peer from the device does not read as if the peer were missing.
  The next property shows what happens without the condition on outdated copies.
\<close>

theorem peer_events_converge:
  assumes "controller r = Some (controller_ops cenv)" "status_writes env c (UpdateStatus r)"
    and "workers_free st0" "own_uids env c (rs_store st0)" "rt_run env c r st0 before st1" "\<forall>x\<in>set before. sound_step env c x"
    and "\<forall>w. up_to_date u (intents env c (rs_store st1) u) (rs_workers st1 w)"
    and "rt_run env c r st1 (between @ Deliver w ev # handling) st2" "\<forall>ev'. Deliver w ev' \<notin> set handling" "rs_workers st2 w = Handled None"
    and "ev_kind ev = ''WireGuardPeer''" "ev_uid ev = u" "u \<noteq> ''''"
    and "is_delete ev \<longleftrightarrow> stored_peer env c (rs_store st1) u = None" "\<forall>p. stored_peer env c (rs_store st1) u = Some p \<longrightarrow> intent_ok p"
    and "is_delete ev \<longrightarrow> (\<forall>s e s1. RemovePeerByID cenv u s = (Some e, s1) \<and> configured s u \<noteq> None \<longrightarrow> \<not> isPeerNotFound e)"
    and "rt_run env c r st2 after st3"
    and "\<forall>x\<in>set (between @ Deliver w ev # handling @ after). sound_step env c x \<and> quiet_step env c u (is_delete ev) x"
  shows "configured (rs_ctl st3) u = wanted env c (rs_store st3) u \<and> wanted env c (rs_store st3) u = wanted env c (rs_store st1) u"
  using assms by (rule wg_ctl.run_converges)

text \<open>A worker that is not disturbed does what \<open>handleResourceEvent\<close> does.\<close>

lemma handling_alone:
  assumes "w < 5" "rs_workers st w = Handled e0" "handleResourceEvent env c r ev (rs_ctl st, rs_store st) = (e, (s', b'))"
  shows "rt_run env c r st [Deliver w ev, Advance w, Advance w, Advance w] \<lparr>rs_ctl = s', rs_store = b', rs_workers = (rs_workers st)(w := Handled e)\<rparr>"
proof -
  obtain h1 s1 b1 where h1: "handle_next env c r (start_handling ev) (rs_ctl st, rs_store st) = (h1, (s1, b1))" by (metis prod.collapse)
  obtain h2 s2 b2 where h2: "handle_next env c r h1 (s1, b1) = (h2, (s2, b2))" by (metis prod.collapse)
  have h3: "handle_next env c r h2 (s2, b2) = (Handled e, (s', b'))"
    using handling_undisturbed [of env c r ev "(rs_ctl st, rs_store st)"] assms(3) h1 h2 by (simp add: numeral_3_eq_3)
  have d: "rt_step env c r st (Deliver w ev) (st\<lparr>rs_workers := (rs_workers st)(w := start_handling ev)\<rparr>)"
    by (rule rt_step.deliver [OF assms(1,2)])
  have a: "rt_step env c r x (Advance w) \<lparr>rs_ctl = s, rs_store = b, rs_workers = (rs_workers st)(w := h)\<rparr>"
    if "handle_next env c r g (rs_ctl x, rs_store x) = (h, (s, b))" "rs_workers x = (rs_workers st)(w := g)" for x g h s b
    using rt_step.advance [of env c r x w h s b] that by simp
  from h1 have a1: "rt_step env c r (st\<lparr>rs_workers := (rs_workers st)(w := start_handling ev)\<rparr>) (Advance w)
      \<lparr>rs_ctl = s1, rs_store = b1, rs_workers = (rs_workers st)(w := h1)\<rparr>" by (intro a) simp_all
  from h2 have a2: "rt_step env c r \<lparr>rs_ctl = s1, rs_store = b1, rs_workers = (rs_workers st)(w := h1)\<rparr> (Advance w)
      \<lparr>rs_ctl = s2, rs_store = b2, rs_workers = (rs_workers st)(w := h2)\<rparr>" by (intro a) simp_all
  from h3 have a3: "rt_step env c r \<lparr>rs_ctl = s2, rs_store = b2, rs_workers = (rs_workers st)(w := h2)\<rparr> (Advance w)
      \<lparr>rs_ctl = s', rs_store = b', rs_workers = (rs_workers st)(w := Handled e)\<rparr>" by (intro a) simp_all
  show ?thesis by (rule rt_run.step [OF d rt_run.step [OF a1 rt_run.step [OF a2 rt_run.step [OF a3 rt_run.stop]]]])
qed

text \<open>The three accesses of a handling that loads a usable peer, when nothing is in the way of it.\<close>

lemma accepted_steps:
  assumes "controller r = Some (controller_ops cenv)" "accepted (UpsertPeer cenv) (UpdateStatus r) p" "intent_ok p" "md_UID (Meta p) = u"
  shows "\<exists>ph m rd. \<forall>s. \<exists>s'. reconcile_peer r u (RWireGuardPeer p) s = (ToStatus u p ph m rd None, s') \<and> configured s' = (configured s)(u \<mapsto> intent p)"
    and "\<exists>st. \<forall>b. fst (updateStatus r p ph m rd b) = None \<and> snd (updateStatus r p ph m rd b) = snd (UpdateStatus r (p\<lparr>Status := st\<rparr>) b)"
proof -
  have "fst (UpsertPeer cenv u (wp_PublicKey (Spec p)) (wp_AllowedIP (Spec p)) s) = None" for s
    using assms(2-4) by (cases s) (simp add: accepted_def uid_of_def intent_def)
  then have up: "\<exists>s'. UpsertPeer cenv u (wp_PublicKey (Spec p)) (wp_AllowedIP (Spec p)) s = (None, s')" for s by (metis prod.collapse)
  have "\<exists>s'. reconcile_peer r u (RWireGuardPeer p) s = (ToStatus u p ''Ready'' ''wireguard peer reconciled'' True None, s') \<and> configured s' = (configured s)(u \<mapsto> intent p)" for s
  proof -
    obtain s' where s': "UpsertPeer cenv u (wp_PublicKey (Spec p)) (wp_AllowedIP (Spec p)) s = (None, s')" using up by blast
    then have "configured s' = (configured s)(u \<mapsto> intent p)" using wg_ctl.upsert_ok by (simp add: intent_def)
    with s' assms(1,3,4) show ?thesis by (cases s') (simp add: reconcile_peer_def intent_ok_def)
  qed
  then show "\<exists>ph m rd. \<forall>s. \<exists>s'. reconcile_peer r u (RWireGuardPeer p) s = (ToStatus u p ph m rd None, s') \<and> configured s' = (configured s)(u \<mapsto> intent p)" by blast
next
  let ?st = "\<lparr>ws_Phase = ph, ws_Message = m, ws_Ready = rd, ws_Version = (if APIVersion p \<noteq> '''' then APIVersion p else ''v1'')\<rparr>"
  have "fst (updateStatus r p ph m rd b) = None \<and> snd (updateStatus r p ph m rd b) = snd (UpdateStatus r (p\<lparr>Status := ?st\<rparr>) b)" for b
  proof -
    have "fst (UpdateStatus r (p\<lparr>Status := ?st\<rparr>) b) = None" using assms(2) by (simp add: accepted_def)
    then obtain b' where "UpdateStatus r (p\<lparr>Status := ?st\<rparr>) b = (None, b')" by (cases "UpdateStatus r (p\<lparr>Status := ?st\<rparr>) b") simp
    then show ?thesis by (simp add: updateStatus_def Let_def)
  qed
  then show "\<exists>st. \<forall>b. fst (updateStatus r p ph m rd b) = None \<and> snd (updateStatus r p ph m rd b) = snd (UpdateStatus r (p\<lparr>Status := st\<rparr>) b)" by blast
qed

text \<open>
  C10 (safety). A handling with an outdated copy undoes an update. One worker loads a peer; the API then stores
  a new spec for it, and a second worker handles the event of that update from start to end; then the first
  worker goes on. Both handlings succeed and every worker is free again, but the controller has the key and address from before
  the update; and where the status update writes the whole resource, the storage has the old spec again, so
  that the accepted update is lost. Both specs are usable, and neither the device nor the storage refuses anything.
\<close>

theorem stale_handling_undoes_update:
  assumes "controller r = Some (controller_ops cenv)" "workers_free st" "u \<noteq> ''''"
    and "stored_peer env c (rs_store st) u = Some p" "stored_peer env c (f (rs_store st)) u = Some q" "md_UID (Meta p) = u" "md_UID (Meta q) = u"
    and "intent_ok p" "intent_ok q" "accepted (UpsertPeer cenv) (UpdateStatus r) p" "accepted (UpsertPeer cenv) (UpdateStatus r) q"
    and "ev_kind ev = ''WireGuardPeer''" "ev_uid ev = u" "\<not> is_delete ev" "ev_kind ev' = ''WireGuardPeer''" "ev_uid ev' = u" "\<not> is_delete ev'"
  shows "\<exists>st'. rt_run env c r st ([Deliver 0 ev, Advance 0, Write f] @ [Deliver 1 ev', Advance 1, Advance 1, Advance 1] @ [Advance 0, Advance 0]) st' \<and>
    workers_free st' \<and> rs_workers st' 0 = Handled None \<and> rs_workers st' 1 = Handled None \<and>
    wanted env c (f (rs_store st)) u = Some (intent q) \<and> configured (rs_ctl st') u = Some (intent p) \<and>
    ((\<forall>st b. intents env c (snd (UpdateStatus r (p\<lparr>Status := st\<rparr>) b)) u = Some (u, Spec p)) \<longrightarrow> wanted env c (rs_store st') u = Some (intent p))"
proof -
  let ?b = "rs_store st"
  let ?w = "rs_workers st"
  let ?wp = "?w(0 := ToReconcile u (RWireGuardPeer p))"
  have g: "Client_Get (json (rt_store env)) (rt_keys env) c ''WireGuardPeer'' u ?b = Inr (RWireGuardPeer p)" using stored_peerD [OF assms(4)] .
  have st0: "start_handling ev = ToLoad u" using assms(3,12-14) by (simp add: start_handling_def is_delete_def)
  obtain e0 e1 where e: "?w 0 = Handled e0" "?w 1 = Handled e1" using assms(2) unfolding workers_free_def by metis
  have r1: "rt_run env c r st [Deliver 0 ev, Advance 0, Write f] \<lparr>rs_ctl = rs_ctl st, rs_store = f ?b, rs_workers = ?wp\<rparr>"
  proof (rule rt_run.step [OF rt_step.deliver [of 0, OF _ e(1)]], simp, unfold st0)
    have "rt_step env c r (st\<lparr>rs_workers := ?w(0 := ToLoad u)\<rparr>) (Advance 0) \<lparr>rs_ctl = rs_ctl st, rs_store = ?b, rs_workers = ?wp\<rparr>"
      using rt_step.advance [of env c r "st\<lparr>rs_workers := ?w(0 := ToLoad u)\<rparr>" 0] g by simp
    moreover have "rt_step env c r \<lparr>rs_ctl = rs_ctl st, rs_store = ?b, rs_workers = ?wp\<rparr> (Write f) \<lparr>rs_ctl = rs_ctl st, rs_store = f ?b, rs_workers = ?wp\<rparr>"
      using rt_step.write_store [of env c r "\<lparr>rs_ctl = rs_ctl st, rs_store = ?b, rs_workers = ?wp\<rparr>" f] by simp
    ultimately show "rt_run env c r (st\<lparr>rs_workers := ?w(0 := ToLoad u)\<rparr>) [Advance 0, Write f] \<lparr>rs_ctl = rs_ctl st, rs_store = f ?b, rs_workers = ?wp\<rparr>"
      by (meson rt_run.step rt_run.stop)
  qed
  obtain s2 b2 where rec: "Reconcile r (PeerPointer q) (rs_ctl st, f ?b) = (None, (s2, b2))"
    by (rule wg_ctl.Reconcile_total [OF assms(1,11)])
  have "handleResourceEvent env c r ev' (rs_ctl st, f ?b) = (None, (s2, b2))"
    using assms(3,15-17) rec stored_peerD [OF assms(5)] by (simp add: handleResourceEvent_def is_delete_def)
  from handling_alone [of 1 "\<lparr>rs_ctl = rs_ctl st, rs_store = f ?b, rs_workers = ?wp\<rparr>" e1 env c r ev' None s2 b2] this e(2)
  have r2: "rt_run env c r \<lparr>rs_ctl = rs_ctl st, rs_store = f ?b, rs_workers = ?wp\<rparr> [Deliver 1 ev', Advance 1, Advance 1, Advance 1]
      \<lparr>rs_ctl = s2, rs_store = b2, rs_workers = ?wp(1 := Handled None)\<rparr>" by simp
  obtain ph m rd s3 where s3: "reconcile_peer r u (RWireGuardPeer p) s2 = (ToStatus u p ph m rd None, s3)" "configured s3 = (configured s2)(u \<mapsto> intent p)"
    using accepted_steps(1) [OF assms(1,10,8,6)] by meson
  obtain sv where sv: "\<forall>b. fst (updateStatus r p ph m rd b) = None \<and> snd (updateStatus r p ph m rd b) = snd (UpdateStatus r (p\<lparr>Status := sv\<rparr>) b)"
    using accepted_steps(2) [OF assms(1,10,8,6), of ph m rd] by blast
  then obtain b3 where b3: "updateStatus r p ph m rd b2 = (None, b3)" "b3 = snd (UpdateStatus r (p\<lparr>Status := sv\<rparr>) b2)" by (metis prod.collapse)
  let ?w3 = "?wp(1 := Handled None, 0 := ToStatus u p ph m rd None)"
  let ?st3 = "\<lparr>rs_ctl = s3, rs_store = b3, rs_workers = ?w3(0 := Handled None)\<rparr>"
  have "rt_step env c r \<lparr>rs_ctl = s2, rs_store = b2, rs_workers = ?wp(1 := Handled None)\<rparr> (Advance 0) \<lparr>rs_ctl = s3, rs_store = b2, rs_workers = ?w3\<rparr>"
    using rt_step.advance [of env c r "\<lparr>rs_ctl = s2, rs_store = b2, rs_workers = ?wp(1 := Handled None)\<rparr>" 0] s3(1) by simp
  moreover have "rt_step env c r \<lparr>rs_ctl = s3, rs_store = b2, rs_workers = ?w3\<rparr> (Advance 0) ?st3"
    using rt_step.advance [of env c r "\<lparr>rs_ctl = s3, rs_store = b2, rs_workers = ?w3\<rparr>" 0] b3(1) by (simp add: status_result_def)
  ultimately have r3: "rt_run env c r \<lparr>rs_ctl = s2, rs_store = b2, rs_workers = ?wp(1 := Handled None)\<rparr> [Advance 0, Advance 0] ?st3"
    by (meson rt_run.step rt_run.stop)
  have "workers_free ?st3" using assms(2) by (simp add: workers_free_def)
  moreover have "wanted env c (f ?b) u = Some (intent q)" using assms(5) by (simp add: wanted_def intents_def intent_def)
  moreover have "wanted env c b3 u = Some (intent p)" if "\<forall>st b. intents env c (snd (UpdateStatus r (p\<lparr>Status := st\<rparr>) b)) u = Some (u, Spec p)"
    using that b3(2) by (simp add: wanted_def intent_def)
  ultimately show ?thesis using rt_run_append [OF r1 rt_run_append [OF r2 r3]] s3(2) by (intro exI [of _ ?st3]) simp
qed

text \<open>
  C11 (liveness). Starting the reconciliation runtime succeeds and configures every stored peer with a
  usable spec, provided that the stored documents can be decoded, the event bus accepts the
  subscription, the device accepts the peers and their status can be written; the peers the
  controller had for other UIDs stay. No event is handled meanwhile.
\<close>

theorem startup_configures_all_peers:
  assumes "backend_ok be view" "Backend (rt_store env) = Some be" "stored_ok (json (rt_store env)) (view b)"
    and "rt_controller env = Some (controller_ops cenv)" "bus_Subscribe (rt_bus env) ''**'' u = (Inr subID, u')"
    and "\<forall>p. typed (json (rt_store env)) WireGuardPeer_kind (view b) (uid_of p) = Some p \<longrightarrow> accepted (UpsertPeer cenv) (rt_UpdateStatus env) p"
  shows "\<exists>rt s' b'. initializeReconciliationRuntime env (s, b) u = (Inr rt, (s', b'), u') \<and> subscriptionIDs rt = [subID] \<and>
    (\<forall>uid p. typed (json (rt_store env)) WireGuardPeer_kind (view b) uid = Some p \<and> intent_ok p \<longrightarrow> configured s' uid = Some (intent p)) \<and>
    (\<forall>uid. typed (json (rt_store env)) WireGuardPeer_kind (view b) uid = None \<longrightarrow> configured s' uid = configured s uid)"
proof -
  let ?je = "json (rt_store env)"
  let ?r = "NewWireGuardPeerReconciler ?je (rt_UpdateStatus env) (rt_controller env)"
  obtain ps where l: "Client_List ?je (rt_keys env) \<lparr>sc_backend = be\<rparr> ''WireGuardPeer'' b = Inr (map RWireGuardPeer ps)"
    and d: "distinct (map uid_of ps)" and ps: "\<forall>p. p \<in> set ps \<longleftrightarrow> typed ?je WireGuardPeer_kind (view b) (uid_of p) = Some p"
    by (rule Client_List_peers [OF assms(1,3), of "rt_keys env"])
  have r: "controller ?r = Some (controller_ops cenv)" "UpdateStatus ?r = rt_UpdateStatus env"
    using assms(4) by (simp_all add: NewWireGuardPeerReconciler_def)
  have "\<forall>p\<in>set ps. accepted (UpsertPeer cenv) (UpdateStatus ?r) p" using assms(6) ps r(2) by simp
  from wg_ctl.reconcile_all_total [OF r(1) this] obtain s' b' where
    a: "reconcile_all ?r (map RWireGuardPeer ps) (s, b) = (None, (s', b'))" and p: "configured s' = configure ps (configured s)" by blast
  have "uid_of q = uid" if "typed ?je WireGuardPeer_kind (view b) uid = Some q" for uid q
    using assms(3) that by (auto simp: typed_def stored_ok_def WireGuardPeer_kind_def split: option.splits sum.splits) force
  then have "(\<forall>uid q. typed ?je WireGuardPeer_kind (view b) uid = Some q \<and> intent_ok q \<longrightarrow> configured s' uid = Some (intent q))"
    using configure_member [OF _ _ d] ps unfolding p by metis
  moreover have "\<forall>uid. typed ?je WireGuardPeer_kind (view b) uid = None \<longrightarrow> configured s' uid = configured s uid"
    using configure_other [of ps _ "configured s"] ps unfolding p by (metis option.distinct(1))
  moreover have "\<exists>rt. initializeReconciliationRuntime env (s, b) u = (Inr rt, (s', b'), u') \<and> subscriptionIDs rt = [subID]"
    using a l assms(2,5) by (simp add: initializeReconciliationRuntime_def initialize_def NewStorageClient_def ensureBackend_def
      registerEventHooks_def reconcileExistingResources_def Let_def)
  ultimately show ?thesis by blast
qed

text \<open>An instance: one stored peer, its status written by \<open>Client_Update\<close>, and the controller of the examples.\<close>

definition upd0 :: "WireGuardPeer \<Rightarrow> mem \<Rightarrow> goerror option \<times> mem" where
  "upd0 p b = (if plain_meta (Meta p) then Client_Update json0 (\<lambda>_. []) \<lparr>sc_backend = mem_backend\<rparr> (RWireGuardPeer p) b
     else (Some (ENew ''unsupported metadata''), b))"

definition rt0 :: "(string list cstate, mem, unit) rt_env" where
  "rt0 = \<lparr>rt_store = store0, rt_keys = (\<lambda>_. []), rt_UpdateStatus = upd0, rt_controller = Some (controller_ops env1),
     rt_bus = \<lparr>bus_Subscribe = (\<lambda>_ u. (Inr ''sub-1'', u)), bus_Unsubscribe = (\<lambda>_ u. (None, u)), bus_Close = (\<lambda>u. (None, u))\<rparr>,
     rt_stack = ''''\<rparr>"

definition node1_peer :: WireGuardPeer where
  "node1_peer = peer0\<lparr>Spec := \<lparr>wp_Description = '''', wp_PublicKey = ''a2V5'', wp_AllowedIP = ''10.0.0.2/32''\<rparr>\<rparr>"

definition node1_mem :: mem where
  "node1_mem = snd (upd0 node1_peer [])"

abbreviation client0 :: "mem StorageClient" where
  "client0 \<equiv> \<lparr>sc_backend = mem_backend\<rparr>"

lemma upd0_ok:
  assumes "plain_meta (Meta p)"
  obtains d where "upd0 p b = (None, (''WireGuardPeer'', md_UID (Meta p), d) # b)" "Unmarshal json0 WireGuardPeer_kind d = Inr p"
proof -
  obtain d where "Marshal json0 WireGuardPeer_kind p = Inr d" "Unmarshal json0 WireGuardPeer_kind d = Inr p"
    using wp_kind.Unmarshal_Marshal [OF _ storable0 [OF assms]] by blast
  with assms that show ?thesis
    by (simp add: upd0_def save_as_def mem_backend_def WireGuardPeer_kind_def)
qed

lemma stored_peer0: "stored_peer rt0 client0 b u = typed json0 WireGuardPeer_kind (mem_view b) u"
  using backend_okD(1) [OF mem_backend_ok, of "''WireGuardPeer''" u b]
  by (auto simp: stored_peer_def Client_Get_def typed_def rt0_def store0_def decode_kind_def tag_def WireGuardPeer_kind_def split: option.splits sum.splits)

lemma stored_upd0:
  assumes "upd0 p b = (e, b')"
  shows "stored_peer rt0 client0 b' = (if plain_meta (Meta p) then (stored_peer rt0 client0 b)(md_UID (Meta p) \<mapsto> p) else stored_peer rt0 client0 b)"
proof (cases "plain_meta (Meta p)")
  case True
  with assms obtain d where "b' = (''WireGuardPeer'', md_UID (Meta p), d) # b" "Unmarshal json0 WireGuardPeer_kind d = Inr p"
    using upd0_ok [OF True, of b] by (metis prod.inject)
  with True show ?thesis
    by (auto simp: stored_peer0 typed_def mem_view_Cons WireGuardPeer_kind_def fun_eq_iff split: option.splits)
next
  case False
  with assms show ?thesis by (simp add: upd0_def)
qed

lemma status_writes0: "status_writes rt0 client0 upd0"
  unfolding status_writes_def by (auto simp: intents_def split: if_splits dest!: stored_upd0)

lemma node1_stored: "stored_peer rt0 client0 node1_mem = [''p'' \<mapsto> node1_peer]"
proof -
  have "plain_meta (Meta node1_peer)" "md_UID (Meta node1_peer) = ''p''" by (simp_all add: node1_peer_def peer0_def plain_meta_def)
  with stored_upd0 [of node1_peer "[]" "fst (upd0 node1_peer [])" node1_mem] show ?thesis
    by (simp add: node1_mem_def stored_peer0 [of "[]"] typed_def mem_view_def fun_eq_iff)
qed

lemma stored_ok_node1: "stored_ok json0 (mem_view node1_mem)"
proof -
  have p: "plain_meta (Meta node1_peer)" "uid_of node1_peer = ''p''" by (simp_all add: node1_peer_def peer0_def plain_meta_def uid_of_def)
  obtain d where "upd0 node1_peer [] = (None, [(''WireGuardPeer'', uid_of node1_peer, d)])" and d: "Unmarshal json0 WireGuardPeer_kind d = Inr node1_peer"
    unfolding uid_of_def by (rule upd0_ok [OF p(1)])
  then have m: "node1_mem = [(''WireGuardPeer'', uid_of node1_peer, d)]" by (simp add: node1_mem_def)
  show ?thesis using d unfolding stored_ok_def m by (simp add: mem_view_def)
qed

lemma node1_intent: "intent_ok node1_peer" "uid_of node1_peer = ''p''" "intent node1_peer = (''a2V5'', ''10.0.0.2/32'')"
proof -
  show "intent_ok node1_peer" by code_simp
qed (simp_all add: node1_peer_def intent_def uid_of_def peer0_def)

lemma device_takes_key: "fst (UpsertPeer env1 k ''a2V5'' a s) = None"
  by (auto simp: UpsertPeer_def env0_def log_api_def Device_AddPeer_def b64_keys device_ipc_def split: prod.splits option.splits)

lemma accepted0: "accepted (UpsertPeer env1) upd0 node1_peer"
proof -
  have "fst (upd0 (node1_peer\<lparr>Status := st\<rparr>) b) = None" for st b
    by (rule upd0_ok [of "node1_peer\<lparr>Status := st\<rparr>" b]) (auto simp: node1_peer_def peer0_def plain_meta_def)
  then show ?thesis by (simp add: accepted_def node1_intent device_takes_key)
qed

theorem startup_configures_all_peers_witness:
  "\<exists>rt s' b'. initializeReconciliationRuntime rt0 ((ctl0, Map.empty), node1_mem) () = (Inr rt, (s', b'), ()) \<and>
     configured s' ''p'' = Some (''a2V5'', ''10.0.0.2/32'')"
proof -
  have b: "Backend (rt_store rt0) = Some mem_backend" "json (rt_store rt0) = json0" "rt_controller rt0 = Some (controller_ops env1)"
    "rt_UpdateStatus rt0 = upd0" "bus_Subscribe (rt_bus rt0) ''**'' () = (Inr ''sub-1'', ())" by (simp_all add: rt0_def store0_def)
  have t: "typed json0 WireGuardPeer_kind (mem_view node1_mem) = [''p'' \<mapsto> node1_peer]"
    using node1_stored unfolding stored_peer0 [abs_def] .
  have a: "\<forall>p. typed (json (rt_store rt0)) WireGuardPeer_kind (mem_view node1_mem) (uid_of p) = Some p \<longrightarrow> accepted (UpsertPeer env1) (rt_UpdateStatus rt0) p"
    using accepted0 unfolding b(2,4) t by (simp split: if_splits)
  obtain rt s' b' where i: "initializeReconciliationRuntime rt0 ((ctl0, Map.empty), node1_mem) () = (Inr rt, (s', b'), ())"
    and "\<forall>uid p. typed json0 WireGuardPeer_kind (mem_view node1_mem) uid = Some p \<and> intent_ok p \<longrightarrow> configured s' uid = Some (intent p)"
    using startup_configures_all_peers [OF mem_backend_ok b(1) _ b(3) b(5) a, where s = "(ctl0, Map.empty)"] stored_ok_node1 unfolding b(2) by blast
  from this(2) [rule_format, of "''p''" node1_peer] t node1_intent have "configured s' ''p'' = Some (''a2V5'', ''10.0.0.2/32'')" by simp
  with i show ?thesis by blast
qed

text \<open>An instance: the stored peer's event, handled while another worker handles the deletion of an unknown peer.\<close>

definition peer_event :: "string \<Rightarrow> string \<Rightarrow> Event" where
  "peer_event uid action = \<lparr>ev_kind = ''WireGuardPeer'', ev_uid = uid, ev_type = ''io.fabrica.wireguardpeer.'' @ action, ev_action = Some (AStr action)\<rparr>"

lemma peer_event_simps [simp]: "ev_kind (peer_event uid a) = ''WireGuardPeer''" "ev_uid (peer_event uid a) = uid"
  by (simp_all add: peer_event_def)

lemma peer_event_delete: "\<not> is_delete (peer_event uid ''updated'')" "is_delete (peer_event uid ''deleted'')"
proof -
  have "ToLower ''updated'' = ''updated''" "ToLower ''deleted'' = ''deleted''" by code_simp+
  then show "\<not> is_delete (peer_event uid ''updated'')" "is_delete (peer_event uid ''deleted'')"
    by (simp_all add: is_delete_def eventAction_def peer_event_def)
qed

abbreviation reconciler0 :: "(string list cstate, mem) WireGuardPeerReconciler" where
  "reconciler0 \<equiv> NewWireGuardPeerReconciler json0 upd0 (Some (controller_ops env1))"

definition rt_start0 :: "(string list cstate, mem) rt_state" where
  "rt_start0 = \<lparr>rs_ctl = (ctl0, Map.empty), rs_store = node1_mem, rs_workers = (\<lambda>_. Handled None)\<rparr>"

lemma reconciler0_facts: "controller reconciler0 = Some (controller_ops env1)" "UpdateStatus reconciler0 = upd0"
  by (simp_all add: NewWireGuardPeerReconciler_def)

lemma status_writes1: "status_writes rt0 client0 (UpdateStatus reconciler0)"
  using status_writes0 by (simp add: reconciler0_facts)

lemma rt_start0_facts: "workers_free rt_start0" "own_uids rt0 client0 (rs_store rt_start0)"
  using node1_intent by (simp_all add: rt_start0_def workers_free_def own_uids_def intents_def node1_stored uid_of_def)

lemma node1_event: "\<exists>s' b'. handleResourceEvent rt0 client0 reconciler0 (peer_event ''p'' ''updated'') ((ctl0, Map.empty), node1_mem) = (None, (s', b'))"
proof -
  obtain s' b' where "Reconcile reconciler0 (PeerPointer node1_peer) ((ctl0, Map.empty), node1_mem) = (None, (s', b'))"
    by (rule wg_ctl.Reconcile_total [OF reconciler0_facts(1), of node1_peer "(ctl0, Map.empty)" node1_mem]) (simp_all add: reconciler0_facts accepted0)
  moreover have "Client_Get (json (rt_store rt0)) (rt_keys rt0) client0 ''WireGuardPeer'' ''p'' node1_mem = Inr (RWireGuardPeer node1_peer)"
    by (rule stored_peerD) (simp add: node1_stored)
  ultimately show ?thesis using peer_event_delete(1) [of "''p''"] by (simp add: handleResourceEvent_def is_delete_def)
qed

theorem peer_events_converge_witness:
  "\<exists>st. rt_run rt0 client0 reconciler0 rt_start0 ([Deliver 0 (peer_event ''p'' ''updated''), Advance 0, Advance 0, Advance 0] @
       [Deliver 1 (peer_event ''q'' ''deleted''), Advance 1, Advance 1, Advance 1]) st \<and>
     configured (rs_ctl st) ''p'' = Some (''a2V5'', ''10.0.0.2/32'')"
proof -
  let ?e = "peer_event ''p'' ''updated''"
  let ?d = "peer_event ''q'' ''deleted''"
  obtain s' b' where h: "handleResourceEvent rt0 client0 reconciler0 ?e ((ctl0, Map.empty), node1_mem) = (None, (s', b'))" using node1_event by blast
  let ?st = "\<lparr>rs_ctl = s', rs_store = b', rs_workers = (rs_workers rt_start0)(0 := Handled None)\<rparr>"
  have r1: "rt_run rt0 client0 reconciler0 rt_start0 [Deliver 0 ?e, Advance 0, Advance 0, Advance 0] ?st"
    using handling_alone [of 0 rt_start0 None rt0 client0 reconciler0 ?e None s' b'] h by (simp add: rt_start0_def)
  obtain e2 s2 b2 where "handleResourceEvent rt0 client0 reconciler0 ?d (s', b') = (e2, (s2, b2))" by (metis prod.collapse)
  from handling_alone [of 1 ?st None rt0 client0 reconciler0 ?d e2 s2 b2] this
  obtain st where r2: "rt_run rt0 client0 reconciler0 ?st [Deliver 1 ?d, Advance 1, Advance 1, Advance 1] st" by (auto simp: rt_start0_def)
  have "wanted rt0 client0 node1_mem ''p'' = Some (''a2V5'', ''10.0.0.2/32'')"
    using node1_intent by (simp add: wanted_def intents_def node1_stored intent_def)
  moreover have nd: "is_delete ?e \<longleftrightarrow> stored_peer rt0 client0 (rs_store rt_start0) ''p'' = None" "\<forall>p. stored_peer rt0 client0 (rs_store rt_start0) ''p'' = Some p \<longrightarrow> intent_ok p"
    using node1_intent(1) by (simp_all add: peer_event_delete rt_start0_def node1_stored)
  have "configured (rs_ctl st) ''p'' = wanted rt0 client0 (rs_store st) ''p'' \<and> wanted rt0 client0 (rs_store st) ''p'' = wanted rt0 client0 (rs_store rt_start0) ''p''"
    by (rule peer_events_converge [OF reconciler0_facts(1) status_writes1 rt_start0_facts rt_run.stop _ _ _ _ _ _ _ _ nd _ r2,
          of "[]" 0 "[Advance 0, Advance 0, Advance 0]"])
      (use r1 peer_event_delete in \<open>auto simp: rt_start0_def\<close>)
  ultimately show ?thesis using rt_run_append [OF r1 r2] by (auto simp: rt_start0_def)
qed

text \<open>The API gives the peer another address while a worker holds the old copy.\<close>

definition node1_moved :: WireGuardPeer where
  "node1_moved = node1_peer\<lparr>Spec := (Spec node1_peer)\<lparr>wp_AllowedIP := ''10.0.0.3/32''\<rparr>\<rparr>"

theorem stale_handling_undoes_update_witness:
  "\<exists>st. rt_run rt0 client0 reconciler0 rt_start0 ([Deliver 0 (peer_event ''p'' ''updated''), Advance 0, Write (\<lambda>b. snd (upd0 node1_moved b))] @
       [Deliver 1 (peer_event ''p'' ''updated''), Advance 1, Advance 1, Advance 1] @ [Advance 0, Advance 0]) st \<and>
     configured (rs_ctl st) ''p'' = Some (''a2V5'', ''10.0.0.2/32'') \<and> wanted rt0 client0 (rs_store st) ''p'' = Some (''a2V5'', ''10.0.0.2/32'') \<and>
     wanted rt0 client0 (snd (upd0 node1_moved node1_mem)) ''p'' = Some (''a2V5'', ''10.0.0.3/32'')"
proof -
  have p: "plain_meta (Meta node1_moved)" "md_UID (Meta node1_moved) = ''p''" "md_UID (Meta node1_peer) = ''p''" "plain_meta (Meta node1_peer)"
    by (simp_all add: node1_moved_def node1_peer_def peer0_def plain_meta_def)
  have i: "intent_ok node1_moved" "intent node1_moved = (''a2V5'', ''10.0.0.3/32'')"
  proof -
    show "intent_ok node1_moved" by code_simp
  qed (simp add: node1_moved_def node1_peer_def intent_def)
  have "fst (upd0 (node1_moved\<lparr>Status := st\<rparr>) b) = None" for st b
    by (rule upd0_ok [of "node1_moved\<lparr>Status := st\<rparr>" b]) (simp_all add: p(1))
  then have a: "accepted (UpsertPeer env1) (UpdateStatus reconciler0) node1_moved" by (simp add: accepted_def i device_takes_key reconciler0_facts)
  have a1: "accepted (UpsertPeer env1) (UpdateStatus reconciler0) node1_peer" using accepted0 by (simp add: reconciler0_facts)
  have s: "stored_peer rt0 client0 (rs_store rt_start0) ''p'' = Some node1_peer" by (simp add: rt_start0_def node1_stored)
  have m: "stored_peer rt0 client0 (snd (upd0 node1_moved (rs_store rt_start0))) ''p'' = Some node1_moved"
    using stored_upd0 [OF prod.collapse [symmetric], of node1_moved "rs_store rt_start0"] p by simp
  have w: "intents rt0 client0 (snd (UpdateStatus reconciler0 (node1_peer\<lparr>Status := st\<rparr>) b)) ''p'' = Some (''p'', Spec node1_peer)" for st b
    using stored_upd0 [OF prod.collapse [symmetric], of "node1_peer\<lparr>Status := st\<rparr>" b] p by (simp add: intents_def reconciler0_facts)
  from stale_handling_undoes_update [where f = "\<lambda>b. snd (upd0 node1_moved b)" and ev = "peer_event ''p'' ''updated''" and ev' = "peer_event ''p'' ''updated''", OF reconciler0_facts(1) rt_start0_facts(1) _ s m p(3,2) node1_intent(1) i(1) a1 a _ _ peer_event_delete(1) _ _ peer_event_delete(1)]
    w i(2) node1_intent(3) show ?thesis by (auto simp: rt_start0_def)
qed

end
