(* ===== verification/API_Handlers.thy ===== *)
theory API_Handlers
  imports Storage
begin

text \<open>
  The REST handlers of \<open>cmd/server/*_handlers_generated.go\<close>, \<open>models_generated.go\<close> and
  \<open>routes_generated.go\<close>. The four handler files are copies of one template, so the handlers are
  definitions over \<open>kind_info\<close> and the functions of the files are their instances. A handler takes
  the request and the state, the storage and everything else the world keeps (clock, UID generator,
  event bus), and returns the response and the new state. The fabrica packages for validation,
  patches, UIDs and events are fields of \<open>api_env\<close>.
\<close>

section \<open>Requests and responses\<close>

record 'sp resource_request =
  rq_Metadata :: Metadata
  rq_Spec :: 'sp
  rq_Labels :: strmap
  rq_Annotations :: strmap

definition AsSpec :: "'sp resource_request \<Rightarrow> 'sp" where
  "AsSpec r = rq_Spec r"

definition zero_request :: "('sp, 'st) kind_info \<Rightarrow> 'sp resource_request" where
  "zero_request K = \<lparr>rq_Metadata = zero_meta, rq_Spec = k_zero_spec K, rq_Labels = Map.empty, rq_Annotations = Map.empty\<rparr>"

fun dec_request :: "json_env \<Rightarrow> ('sp, 'st) kind_info \<Rightarrow> json \<Rightarrow> 'sp resource_request result" where
  "dec_request je K JNull = Inr (zero_request K)"
| "dec_request je K (JObj fs) =
     rbind (field (je_dec_meta je) ''metadata'' fs zero_meta) (\<lambda>m.
     rbind (field (k_dec_spec K) ''spec'' fs (k_zero_spec K)) (\<lambda>sp.
     rbind (field into_map ''labels'' fs Map.empty) (\<lambda>l.
     rbind (field into_map ''annotations'' fs Map.empty) (\<lambda>a.
     Inr \<lparr>rq_Metadata = m, rq_Spec = sp, rq_Labels = l, rq_Annotations = a\<rparr>))))"
| "dec_request je K _ = Inl type_error"

record api_request =
  hr_uid :: string               \<comment> \<open>the URL parameter\<close>
  hr_body :: "string result"     \<comment> \<open>what reading the body gives\<close>
  hr_ctype :: string
  hr_version :: string           \<comment> \<open>\<open>ServeVersion\<close> of the version context\<close>

datatype ('sp, 'st) api_body =
    RespList "('sp, 'st) resource list"
  | RespOne "('sp, 'st) resource"
  | DeleteResponse string string
  | ErrorResponse string nat
  | Panicked string                             \<comment> \<open>the handler panicked\<close>

record ('sp, 'st) api_response =
  rs_status :: nat
  rs_body :: "('sp, 'st) api_body"

definition respondJSON :: "nat \<Rightarrow> ('sp, 'st) api_body \<Rightarrow> ('sp, 'st) api_response" where
  "respondJSON status data = \<lparr>rs_status = status, rs_body = data\<rparr>"

text \<open>\<open>respondError\<close> with \<open>fmt.Errorf\<close>; a panic of the storage layer ends the handler.\<close>

definition respondError :: "nat \<Rightarrow> goerror \<Rightarrow> ('sp, 'st) api_response" where
  "respondError status e =
     (case e of
        EWrap p (EPanic t) q \<Rightarrow> \<lparr>rs_status = 500, rs_body = Panicked t\<rparr>
      | _ \<Rightarrow> \<lparr>rs_status = status, rs_body = ErrorResponse (err_text e) status\<rparr>)"

datatype api_event =
    Created string string string                \<comment> \<open>kind, UID, name\<close>
  | Updated string string string string         \<comment> \<open>and the update type\<close>
  | Patched string string string string
  | DeletedEv string string string

record ('sp, 'st, 'b, 'e) api_env =
  ae_store :: "'b store_env"
  ae_ValidateResource :: "'sp resource_request \<Rightarrow> goerror option"
  ae_ValidateWithContext :: "('sp, 'st) resource \<Rightarrow> 'e \<Rightarrow> goerror option \<times> ('sp, 'st) resource"   \<comment> \<open>reads the clock\<close>
  ae_GenerateUID :: "string \<Rightarrow> 'e \<Rightarrow> string result \<times> 'e"
  ae_now :: "'e \<Rightarrow> gotime"
  ae_publish :: "api_event \<Rightarrow> 'e \<Rightarrow> goerror option \<times> 'e"
  ae_DetectPatchType :: "string \<Rightarrow> string"
  ae_ApplyPatch :: "string \<Rightarrow> string \<Rightarrow> string \<Rightarrow> bool \<Rightarrow> string result"   \<comment> \<open>document, patch, type, \<open>AllowRemoveFields\<close>\<close>

type_synonym ('sp, 'st, 'b, 'e) api_handler = "api_request \<Rightarrow> 'b \<times> 'e \<Rightarrow> ('sp, 'st) api_response \<times> 'b \<times> 'e"

section \<open>Handlers\<close>

definition decode_body :: "('sp, 'st, 'b, 'e) api_env \<Rightarrow> (json \<Rightarrow> 'r result) \<Rightarrow> api_request \<Rightarrow> 'r result" where
  "decode_body env dec req = rbind (rbind (hr_body req) (je_first (json (ae_store env)))) dec"

text \<open>The loops over labels and annotations, which create the map when it is nil.\<close>

definition add_all :: "strmap option \<Rightarrow> strmap \<Rightarrow> strmap option" where
  "add_all m new = Some ((case m of None \<Rightarrow> Map.empty | Some x \<Rightarrow> x) ++ new)"

definition relabel :: "'sp resource_request \<Rightarrow> Metadata \<Rightarrow> Metadata" where
  "relabel rq m = m\<lparr>md_Labels := add_all (md_Labels m) (rq_Labels rq), md_Annotations := add_all (md_Annotations m) (rq_Annotations rq)\<rparr>"

text \<open>The end of every handler that writes: validate, save, publish (a failure is only logged), respond.\<close>

definition commit :: "('sp, 'st, 'b, 'e) api_env \<Rightarrow> ('sp, 'st) kind_info \<Rightarrow> string \<Rightarrow> nat \<Rightarrow> (('sp, 'st) resource \<Rightarrow> api_event) \<Rightarrow>
    ('sp, 'st) resource \<Rightarrow> 'b \<times> 'e \<Rightarrow> ('sp, 'st) api_response \<times> 'b \<times> 'e" where
  "commit env K msg status ev r s =
     (case ae_ValidateWithContext env r (snd s) of
        (Some e, _) \<Rightarrow> (respondError 400 (EWrap ''validation failed: '' e ''''), s)
      | (None, r1) \<Rightarrow>
          (case Save_res (ae_store env) K r1 (fst s) of
             (Some e, b) \<Rightarrow> (respondError 500 (EWrap msg e ''''), (b, snd s))
           | (None, b) \<Rightarrow> (respondJSON status (RespOne r1), (b, snd (ae_publish env (ev r1) (snd s))))))"

text \<open>The start of every handler for one resource: the UID must be given and the resource must load.\<close>

definition with_resource :: "('sp, 'st, 'b, 'e) api_env \<Rightarrow> ('sp, 'st) kind_info \<Rightarrow>
    (('sp, 'st) resource \<Rightarrow> ('sp, 'st, 'b, 'e) api_handler) \<Rightarrow> ('sp, 'st, 'b, 'e) api_handler" where
  "with_resource env K h req s =
     (if hr_uid req = '''' then (respondError 400 (ENew (k_name K @ '' UID is required'')), s)
      else (case Load_res (ae_store env) K (hr_uid req) (fst s) of
              Inl e \<Rightarrow> (respondError 404 (EWrap (k_name K @ '' not found: '') e ''''), s)
            | Inr r \<Rightarrow> h r req s))"

definition get_all :: "('sp, 'st, 'b, 'e) api_env \<Rightarrow> ('sp, 'st) kind_info \<Rightarrow> ('sp, 'st, 'b, 'e) api_handler" where
  "get_all env K req s =
     (case LoadAll_res (ae_store env) K (fst s) of
        Inl e \<Rightarrow> (respondError 500 (EWrap (''failed to load '' @ k_plural K @ '': '') e ''''), s)
      | Inr rs \<Rightarrow> (respondJSON 200 (RespList rs), s))"

definition get_one :: "('sp, 'st, 'b, 'e) api_env \<Rightarrow> ('sp, 'st) kind_info \<Rightarrow> ('sp, 'st, 'b, 'e) api_handler" where
  "get_one env K = with_resource env K (\<lambda>r req s. (respondJSON 200 (RespOne r), s))"

text \<open>The resource \<open>Create\<close> builds; the zero status is what the struct literal leaves.\<close>

definition new_resource :: "('sp, 'st) kind_info \<Rightarrow> string \<Rightarrow> string \<Rightarrow> gotime \<Rightarrow> 'sp resource_request \<Rightarrow> ('sp, 'st) resource" where
  "new_resource K version uid now rq =
     \<lparr>APIVersion = version, Kind = k_name K,
      Meta = relabel rq ((rq_Metadata rq)\<lparr>md_UID := uid, md_CreatedAt := now, md_UpdatedAt := now\<rparr>),
      Spec = AsSpec rq, Status = k_zero_status K\<rparr>"

definition create :: "('sp, 'st, 'b, 'e) api_env \<Rightarrow> ('sp, 'st) kind_info \<Rightarrow> ('sp, 'st, 'b, 'e) api_handler" where
  "create env K req s =
     (case decode_body env (dec_request (json (ae_store env)) K) req of
        Inl e \<Rightarrow> (respondError 400 (EWrap ''invalid request body: '' e ''''), s)
      | Inr rq \<Rightarrow>
          (case ae_ValidateResource env rq of
             Some e \<Rightarrow> (respondError 400 (EWrap ''validation failed: '' e ''''), s)
           | None \<Rightarrow>
               (case ae_GenerateUID env (k_name K) (snd s) of
                  (Inl e, w) \<Rightarrow> (respondError 500 (EWrap ''failed to generate UID: '' e ''''), (fst s, w))
                | (Inr uid, w) \<Rightarrow>
                    commit env K (''failed to save '' @ k_name K @ '': '') 201 (\<lambda>r. Created (k_name K) (md_UID (Meta r)) (md_Name (Meta r)))
                      (new_resource K (hr_version req) uid (ae_now env w) rq) (fst s, w))))"

text \<open>The resource after \<open>Update\<close> has put the request into it.\<close>

definition with_request :: "'sp resource_request \<Rightarrow> gotime \<Rightarrow> ('sp, 'st) resource \<Rightarrow> ('sp, 'st) resource" where
  "with_request rq now r =
     (let m = (if md_Name (rq_Metadata rq) \<noteq> '''' then (Meta r)\<lparr>md_Name := md_Name (rq_Metadata rq)\<rparr> else Meta r) in
      r\<lparr>Meta := (relabel rq m)\<lparr>md_UpdatedAt := now\<rparr>, Spec := AsSpec rq\<rparr>)"

definition update :: "('sp, 'st, 'b, 'e) api_env \<Rightarrow> ('sp, 'st) kind_info \<Rightarrow> ('sp, 'st, 'b, 'e) api_handler" where
  "update env K = with_resource env K (\<lambda>r req s.
     case decode_body env (dec_request (json (ae_store env)) K) req of
       Inl e \<Rightarrow> (respondError 400 (EWrap ''invalid request body: '' e ''''), s)
     | Inr rq \<Rightarrow>
         commit env K (''failed to save '' @ k_name K @ '': '') 200 (\<lambda>r. Updated (k_name K) (md_UID (Meta r)) (md_Name (Meta r)) '''')
           (with_request rq (ae_now env (snd s)) r) s)"

text \<open>Reading the patch document and applying it to the document of the spec or of the status.\<close>

definition patched :: "('sp, 'st, 'b, 'e) api_env \<Rightarrow> string \<Rightarrow> bool \<Rightarrow> ('x \<Rightarrow> json \<Rightarrow> 'x result) \<Rightarrow> ('x \<Rightarrow> json) \<Rightarrow> 'x \<Rightarrow> api_request \<Rightarrow>
    (nat \<times> goerror) + 'x" where
  "patched env what allowRemove dec enc x req =
     (case hr_body req of
        Inl e \<Rightarrow> Inl (400, EWrap ''failed to read patch data: '' e '''')
      | Inr patchData \<Rightarrow>
          (case ae_ApplyPatch env (je_print (json (ae_store env)) (enc x)) patchData (ae_DetectPatchType env (hr_ctype req)) allowRemove of
             Inl e \<Rightarrow> Inl (422, EWrap (''failed to apply patch to '' @ what @ '': '') e '''')
           | Inr new \<Rightarrow>
               (case rbind (je_parse (json (ae_store env)) new) (dec x) of
                  Inl e \<Rightarrow> Inl (500, EWrap (''failed to unmarshal patched '' @ what @ '': '') e '''')
                | Inr y \<Rightarrow> Inr y)))"

definition patch :: "('sp, 'st, 'b, 'e) api_env \<Rightarrow> ('sp, 'st) kind_info \<Rightarrow> ('sp, 'st, 'b, 'e) api_handler" where
  "patch env K = with_resource env K (\<lambda>r req s.
     case patched env ''spec'' True (k_dec_spec K) (k_enc_spec K) (Spec r) req of
       Inl (status, e) \<Rightarrow> (respondError status e, s)
     | Inr sp \<Rightarrow>
         commit env K (''failed to save patched '' @ k_name K @ '': '') 200
           (\<lambda>r. Patched (k_name K) (md_UID (Meta r)) (md_Name (Meta r)) '''')
           (r\<lparr>Spec := sp, Meta := (Meta r)\<lparr>md_UpdatedAt := ae_now env (snd s)\<rparr>\<rparr>) s)"

definition update_status :: "('sp, 'st, 'b, 'e) api_env \<Rightarrow> ('sp, 'st) kind_info \<Rightarrow> ('sp, 'st, 'b, 'e) api_handler" where
  "update_status env K = with_resource env K (\<lambda>r req s.
     case decode_body env (k_dec_status K (k_zero_status K)) req of
       Inl e \<Rightarrow> (respondError 400 (EWrap ''invalid status body: '' e ''''), s)
     | Inr st \<Rightarrow>
         commit env K (''failed to save '' @ k_name K @ '' status: '') 200
           (\<lambda>r. Updated (k_name K) (md_UID (Meta r)) (md_Name (Meta r)) ''status'')
           (r\<lparr>Status := st, Meta := (Meta r)\<lparr>md_UpdatedAt := ae_now env (snd s)\<rparr>\<rparr>) s)"

definition patch_status :: "('sp, 'st, 'b, 'e) api_env \<Rightarrow> ('sp, 'st) kind_info \<Rightarrow> ('sp, 'st, 'b, 'e) api_handler" where
  "patch_status env K = with_resource env K (\<lambda>r req s.
     case patched env ''status'' False (k_dec_status K) (k_enc_status K) (Status r) req of
       Inl (status, e) \<Rightarrow> (respondError status e, s)
     | Inr st \<Rightarrow>
         commit env K (''failed to save patched '' @ k_name K @ '' status: '') 200
           (\<lambda>r. Patched (k_name K) (md_UID (Meta r)) (md_Name (Meta r)) ''status'')
           (r\<lparr>Status := st, Meta := (Meta r)\<lparr>md_UpdatedAt := ae_now env (snd s)\<rparr>\<rparr>) s)"

definition delete :: "('sp, 'st, 'b, 'e) api_env \<Rightarrow> ('sp, 'st) kind_info \<Rightarrow> ('sp, 'st, 'b, 'e) api_handler" where
  "delete env K = with_resource env K (\<lambda>r req s.
     case Delete_res (ae_store env) K (hr_uid req) (fst s) of
       (Some e, b) \<Rightarrow> (respondError 500 (EWrap (''failed to delete '' @ k_name K @ '': '') e ''''), (b, snd s))
     | (None, b) \<Rightarrow>
         (respondJSON 200 (DeleteResponse (k_name K @ '' deleted successfully'') (hr_uid req)),
          (b, snd (ae_publish env (DeletedEv (k_name K) (md_UID (Meta r)) (md_Name (Meta r))) (snd s)))))"

section \<open>The functions of the four files\<close>

text \<open>ClusterDefaults.\<close>

definition GetClusterDefaultss :: "(ClusterDefaultsSpec, PhaseStatus, 'b, 'e) api_env \<Rightarrow> (ClusterDefaultsSpec, PhaseStatus, 'b, 'e) api_handler" where
  "GetClusterDefaultss env = get_all env ClusterDefaults_kind"

definition GetClusterDefaults :: "(ClusterDefaultsSpec, PhaseStatus, 'b, 'e) api_env \<Rightarrow> (ClusterDefaultsSpec, PhaseStatus, 'b, 'e) api_handler" where
  "GetClusterDefaults env = get_one env ClusterDefaults_kind"

definition CreateClusterDefaults :: "(ClusterDefaultsSpec, PhaseStatus, 'b, 'e) api_env \<Rightarrow> (ClusterDefaultsSpec, PhaseStatus, 'b, 'e) api_handler" where
  "CreateClusterDefaults env = create env ClusterDefaults_kind"

definition UpdateClusterDefaults_handler :: "(ClusterDefaultsSpec, PhaseStatus, 'b, 'e) api_env \<Rightarrow> (ClusterDefaultsSpec, PhaseStatus, 'b, 'e) api_handler" where
  "UpdateClusterDefaults_handler env = update env ClusterDefaults_kind"

definition PatchClusterDefaults :: "(ClusterDefaultsSpec, PhaseStatus, 'b, 'e) api_env \<Rightarrow> (ClusterDefaultsSpec, PhaseStatus, 'b, 'e) api_handler" where
  "PatchClusterDefaults env = patch env ClusterDefaults_kind"

definition UpdateClusterDefaultsStatus :: "(ClusterDefaultsSpec, PhaseStatus, 'b, 'e) api_env \<Rightarrow> (ClusterDefaultsSpec, PhaseStatus, 'b, 'e) api_handler" where
  "UpdateClusterDefaultsStatus env = update_status env ClusterDefaults_kind"

definition PatchClusterDefaultsStatus :: "(ClusterDefaultsSpec, PhaseStatus, 'b, 'e) api_env \<Rightarrow> (ClusterDefaultsSpec, PhaseStatus, 'b, 'e) api_handler" where
  "PatchClusterDefaultsStatus env = patch_status env ClusterDefaults_kind"

definition DeleteClusterDefaults_handler :: "(ClusterDefaultsSpec, PhaseStatus, 'b, 'e) api_env \<Rightarrow> (ClusterDefaultsSpec, PhaseStatus, 'b, 'e) api_handler" where
  "DeleteClusterDefaults_handler env = delete env ClusterDefaults_kind"

text \<open>Group.\<close>

definition GetGroups :: "(GroupSpec, GroupStatus, 'b, 'e) api_env \<Rightarrow> (strmap \<Rightarrow> string list) \<Rightarrow> (GroupSpec, GroupStatus, 'b, 'e) api_handler" where
  "GetGroups env keys = get_all env (Group_kind keys)"

definition GetGroup :: "(GroupSpec, GroupStatus, 'b, 'e) api_env \<Rightarrow> (strmap \<Rightarrow> string list) \<Rightarrow> (GroupSpec, GroupStatus, 'b, 'e) api_handler" where
  "GetGroup env keys = get_one env (Group_kind keys)"

definition CreateGroup :: "(GroupSpec, GroupStatus, 'b, 'e) api_env \<Rightarrow> (strmap \<Rightarrow> string list) \<Rightarrow> (GroupSpec, GroupStatus, 'b, 'e) api_handler" where
  "CreateGroup env keys = create env (Group_kind keys)"

definition UpdateGroup_handler :: "(GroupSpec, GroupStatus, 'b, 'e) api_env \<Rightarrow> (strmap \<Rightarrow> string list) \<Rightarrow> (GroupSpec, GroupStatus, 'b, 'e) api_handler" where
  "UpdateGroup_handler env keys = update env (Group_kind keys)"

definition PatchGroup :: "(GroupSpec, GroupStatus, 'b, 'e) api_env \<Rightarrow> (strmap \<Rightarrow> string list) \<Rightarrow> (GroupSpec, GroupStatus, 'b, 'e) api_handler" where
  "PatchGroup env keys = patch env (Group_kind keys)"

definition UpdateGroupStatus :: "(GroupSpec, GroupStatus, 'b, 'e) api_env \<Rightarrow> (strmap \<Rightarrow> string list) \<Rightarrow> (GroupSpec, GroupStatus, 'b, 'e) api_handler" where
  "UpdateGroupStatus env keys = update_status env (Group_kind keys)"

definition PatchGroupStatus :: "(GroupSpec, GroupStatus, 'b, 'e) api_env \<Rightarrow> (strmap \<Rightarrow> string list) \<Rightarrow> (GroupSpec, GroupStatus, 'b, 'e) api_handler" where
  "PatchGroupStatus env keys = patch_status env (Group_kind keys)"

definition DeleteGroup_handler :: "(GroupSpec, GroupStatus, 'b, 'e) api_env \<Rightarrow> (strmap \<Rightarrow> string list) \<Rightarrow> (GroupSpec, GroupStatus, 'b, 'e) api_handler" where
  "DeleteGroup_handler env keys = delete env (Group_kind keys)"

text \<open>InstanceInfo.\<close>

definition GetInstanceInfos :: "(InstanceInfoSpec, PhaseStatus, 'b, 'e) api_env \<Rightarrow> (InstanceInfoSpec, PhaseStatus, 'b, 'e) api_handler" where
  "GetInstanceInfos env = get_all env InstanceInfo_kind"

definition GetInstanceInfo :: "(InstanceInfoSpec, PhaseStatus, 'b, 'e) api_env \<Rightarrow> (InstanceInfoSpec, PhaseStatus, 'b, 'e) api_handler" where
  "GetInstanceInfo env = get_one env InstanceInfo_kind"

definition CreateInstanceInfo :: "(InstanceInfoSpec, PhaseStatus, 'b, 'e) api_env \<Rightarrow> (InstanceInfoSpec, PhaseStatus, 'b, 'e) api_handler" where
  "CreateInstanceInfo env = create env InstanceInfo_kind"

definition UpdateInstanceInfo_handler :: "(InstanceInfoSpec, PhaseStatus, 'b, 'e) api_env \<Rightarrow> (InstanceInfoSpec, PhaseStatus, 'b, 'e) api_handler" where
  "UpdateInstanceInfo_handler env = update env InstanceInfo_kind"

definition PatchInstanceInfo :: "(InstanceInfoSpec, PhaseStatus, 'b, 'e) api_env \<Rightarrow> (InstanceInfoSpec, PhaseStatus, 'b, 'e) api_handler" where
  "PatchInstanceInfo env = patch env InstanceInfo_kind"

definition UpdateInstanceInfoStatus :: "(InstanceInfoSpec, PhaseStatus, 'b, 'e) api_env \<Rightarrow> (InstanceInfoSpec, PhaseStatus, 'b, 'e) api_handler" where
  "UpdateInstanceInfoStatus env = update_status env InstanceInfo_kind"

definition PatchInstanceInfoStatus :: "(InstanceInfoSpec, PhaseStatus, 'b, 'e) api_env \<Rightarrow> (InstanceInfoSpec, PhaseStatus, 'b, 'e) api_handler" where
  "PatchInstanceInfoStatus env = patch_status env InstanceInfo_kind"

definition DeleteInstanceInfo_handler :: "(InstanceInfoSpec, PhaseStatus, 'b, 'e) api_env \<Rightarrow> (InstanceInfoSpec, PhaseStatus, 'b, 'e) api_handler" where
  "DeleteInstanceInfo_handler env = delete env InstanceInfo_kind"

text \<open>WireGuardPeer.\<close>

definition GetWireGuardPeers :: "(WireGuardPeerSpec, WireGuardPeerStatus, 'b, 'e) api_env \<Rightarrow> (WireGuardPeerSpec, WireGuardPeerStatus, 'b, 'e) api_handler" where
  "GetWireGuardPeers env = get_all env WireGuardPeer_kind"

definition GetWireGuardPeer :: "(WireGuardPeerSpec, WireGuardPeerStatus, 'b, 'e) api_env \<Rightarrow> (WireGuardPeerSpec, WireGuardPeerStatus, 'b, 'e) api_handler" where
  "GetWireGuardPeer env = get_one env WireGuardPeer_kind"

definition CreateWireGuardPeer :: "(WireGuardPeerSpec, WireGuardPeerStatus, 'b, 'e) api_env \<Rightarrow> (WireGuardPeerSpec, WireGuardPeerStatus, 'b, 'e) api_handler" where
  "CreateWireGuardPeer env = create env WireGuardPeer_kind"

definition UpdateWireGuardPeer_handler :: "(WireGuardPeerSpec, WireGuardPeerStatus, 'b, 'e) api_env \<Rightarrow> (WireGuardPeerSpec, WireGuardPeerStatus, 'b, 'e) api_handler" where
  "UpdateWireGuardPeer_handler env = update env WireGuardPeer_kind"

definition PatchWireGuardPeer :: "(WireGuardPeerSpec, WireGuardPeerStatus, 'b, 'e) api_env \<Rightarrow> (WireGuardPeerSpec, WireGuardPeerStatus, 'b, 'e) api_handler" where
  "PatchWireGuardPeer env = patch env WireGuardPeer_kind"

definition UpdateWireGuardPeerStatus :: "(WireGuardPeerSpec, WireGuardPeerStatus, 'b, 'e) api_env \<Rightarrow> (WireGuardPeerSpec, WireGuardPeerStatus, 'b, 'e) api_handler" where
  "UpdateWireGuardPeerStatus env = update_status env WireGuardPeer_kind"

definition PatchWireGuardPeerStatus :: "(WireGuardPeerSpec, WireGuardPeerStatus, 'b, 'e) api_env \<Rightarrow> (WireGuardPeerSpec, WireGuardPeerStatus, 'b, 'e) api_handler" where
  "PatchWireGuardPeerStatus env = patch_status env WireGuardPeer_kind"

definition DeleteWireGuardPeer_handler :: "(WireGuardPeerSpec, WireGuardPeerStatus, 'b, 'e) api_env \<Rightarrow> (WireGuardPeerSpec, WireGuardPeerStatus, 'b, 'e) api_handler" where
  "DeleteWireGuardPeer_handler env = delete env WireGuardPeer_kind"

section \<open>Routes\<close>

datatype http_method = GET | POST | PUT | PATCH | DELETE

text \<open>The routes of one kind: the path below its prefix, as segments.\<close>

fun resource_routes :: "('sp, 'st, 'b, 'e) api_env \<Rightarrow> ('sp, 'st) kind_info \<Rightarrow> http_method \<Rightarrow> string list \<Rightarrow> (('sp, 'st, 'b, 'e) api_handler) option" where
  "resource_routes env K m [] = (case m of GET \<Rightarrow> Some (get_all env K) | POST \<Rightarrow> Some (create env K) | _ \<Rightarrow> None)"
| "resource_routes env K m [uid] =
     (case m of
        GET \<Rightarrow> Some (\<lambda>req. get_one env K (req\<lparr>hr_uid := uid\<rparr>))
      | PUT \<Rightarrow> Some (\<lambda>req. update env K (req\<lparr>hr_uid := uid\<rparr>))
      | PATCH \<Rightarrow> Some (\<lambda>req. patch env K (req\<lparr>hr_uid := uid\<rparr>))
      | DELETE \<Rightarrow> Some (\<lambda>req. delete env K (req\<lparr>hr_uid := uid\<rparr>))
      | POST \<Rightarrow> None)"
| "resource_routes env K m [uid, sub] =
     (if sub \<noteq> ''status'' then None
      else (case m of
        PUT \<Rightarrow> Some (\<lambda>req. update_status env K (req\<lparr>hr_uid := uid\<rparr>))
      | PATCH \<Rightarrow> Some (\<lambda>req. patch_status env K (req\<lparr>hr_uid := uid\<rparr>))
      | _ \<Rightarrow> None))"
| "resource_routes env K m _ = None"

text \<open>The groups of \<open>RegisterGeneratedRoutes\<close>, with the prefix of each kind.\<close>

definition ClusterDefaults_routes :: "(ClusterDefaultsSpec, PhaseStatus, 'b, 'e) api_env \<Rightarrow> http_method \<Rightarrow> string list \<Rightarrow>
    ((ClusterDefaultsSpec, PhaseStatus, 'b, 'e) api_handler) option" where
  "ClusterDefaults_routes env m path =
     (case path of p # rest \<Rightarrow> if p = ''clusterdefaultss'' then resource_routes env ClusterDefaults_kind m rest else None | [] \<Rightarrow> None)"

definition Group_routes :: "(GroupSpec, GroupStatus, 'b, 'e) api_env \<Rightarrow> (strmap \<Rightarrow> string list) \<Rightarrow> http_method \<Rightarrow> string list \<Rightarrow>
    ((GroupSpec, GroupStatus, 'b, 'e) api_handler) option" where
  "Group_routes env keys m path =
     (case path of p # rest \<Rightarrow> if p = ''groups'' then resource_routes env (Group_kind keys) m rest else None | [] \<Rightarrow> None)"

definition InstanceInfo_routes :: "(InstanceInfoSpec, PhaseStatus, 'b, 'e) api_env \<Rightarrow> http_method \<Rightarrow> string list \<Rightarrow>
    ((InstanceInfoSpec, PhaseStatus, 'b, 'e) api_handler) option" where
  "InstanceInfo_routes env m path =
     (case path of p # rest \<Rightarrow> if p = ''instanceinfos'' then resource_routes env InstanceInfo_kind m rest else None | [] \<Rightarrow> None)"

definition WireGuardPeer_routes :: "(WireGuardPeerSpec, WireGuardPeerStatus, 'b, 'e) api_env \<Rightarrow> http_method \<Rightarrow> string list \<Rightarrow>
    ((WireGuardPeerSpec, WireGuardPeerStatus, 'b, 'e) api_handler) option" where
  "WireGuardPeer_routes env m path =
     (case path of p # rest \<Rightarrow> if p = ''wireguardpeers'' then resource_routes env WireGuardPeer_kind m rest else None | [] \<Rightarrow> None)"

section \<open>Outcomes of a request\<close>

lemma respondError_status [simp]: "rs_status (respondError st e) = st \<or> rs_status (respondError st e) = 500"
  by (auto simp: respondError_def split: goerror.splits)

lemma respondError_ge [simp]: "400 \<le> st \<Longrightarrow> 400 \<le> rs_status (respondError st e)"
  by (auto simp: respondError_def split: goerror.splits)

lemma respondError_not_ok [simp]: "400 \<le> st \<Longrightarrow> \<not> rs_status (respondError st e) < 300"
  by (auto simp: respondError_def split: goerror.splits)

lemma respondError_500 [simp]: "rs_status (respondError 500 e) = 500"
  using respondError_status [of 500 e] by blast

lemma respondJSON_simps [simp]: "rs_status (respondJSON st d) = st" "rs_body (respondJSON st d) = d"
  by (simp_all add: respondJSON_def)

text \<open>
  What a request may do to the storage: nothing; write a resource that passed validation; or delete
  one. The response is a success only after the write or deletion succeeded.
\<close>

inductive outcome :: "bool \<Rightarrow> ('sp, 'st, 'b, 'e) api_env \<Rightarrow> ('sp, 'st) kind_info \<Rightarrow> 'b \<Rightarrow> ('sp, 'st) api_response \<Rightarrow> 'b \<Rightarrow> bool" for reading env K b where
  nothing: "reading \<or> 400 \<le> rs_status resp \<Longrightarrow> outcome reading env K b resp b"
| written: "ae_ValidateWithContext env r w = (None, r1) \<Longrightarrow> Save_res (ae_store env) K r1 b = (None, b') \<Longrightarrow>
    rs_status resp < 300 \<Longrightarrow> rs_body resp = RespOne r1 \<Longrightarrow> outcome reading env K b resp b'"
| deleted: "Delete_res (ae_store env) K uid b = (None, b') \<Longrightarrow> rs_status resp < 300 \<Longrightarrow> rs_body resp = DeleteResponse msg uid \<Longrightarrow> outcome reading env K b resp b'"
| write_failed: "ae_ValidateWithContext env r w = (None, r1) \<Longrightarrow> Save_res (ae_store env) K r1 b = (Some e, b') \<Longrightarrow>
    rs_status resp = 500 \<Longrightarrow> outcome reading env K b resp b'"
| delete_failed: "Delete_res (ae_store env) K uid b = (Some e, b') \<Longrightarrow> rs_status resp = 500 \<Longrightarrow> outcome reading env K b resp b'"

abbreviation outcome_of :: "bool \<Rightarrow> ('sp, 'st, 'b, 'e) api_env \<Rightarrow> ('sp, 'st) kind_info \<Rightarrow> 'b \<Rightarrow> ('sp, 'st) api_response \<times> 'b \<times> 'e \<Rightarrow> bool" where
  "outcome_of reading env K b out \<equiv> outcome reading env K b (fst out) (fst (snd out))"

lemma patched_status: "patched env what rm dec enc x req = Inl (status, e) \<Longrightarrow> 400 \<le> status"
  by (auto simp: patched_def split: sum.splits)

lemma outcome_commit: "status < 300 \<Longrightarrow> outcome_of reading env K (fst s) (commit env K msg status ev r s)"
  unfolding commit_def
  by (auto split: prod.splits option.splits
      intro: outcome.nothing outcome.written outcome.write_failed)

lemma outcome_with_resource:
  assumes "\<And>r. outcome_of reading env K (fst s) (h r req s)"
  shows "outcome_of reading env K (fst s) (with_resource env K h req s)"
  using assms unfolding with_resource_def by (auto intro: outcome.nothing split: sum.splits)

lemma outcome_create: "outcome_of False env K (fst s) (create env K req s)"
proof -
  have "outcome_of False env K (fst s) (commit env K msg 201 ev r (fst s, w))" for msg ev r w
    using outcome_commit [of 201 False env K "(fst s, w)"] by simp
  then show ?thesis unfolding create_def by (auto intro: outcome.nothing split: sum.splits option.splits prod.splits)
qed

lemma outcome_update: "outcome_of False env K (fst s) (update env K req s)"
  unfolding update_def by (rule outcome_with_resource) (auto simp: Let_def intro: outcome.nothing outcome_commit split: sum.splits)

lemma outcome_patch: "outcome_of False env K (fst s) (patch env K req s)"
  unfolding patch_def by (rule outcome_with_resource) (auto intro: outcome.nothing outcome_commit dest!: patched_status split: sum.splits)

lemma outcome_update_status: "outcome_of False env K (fst s) (update_status env K req s)"
  unfolding update_status_def by (rule outcome_with_resource) (auto intro: outcome.nothing outcome_commit split: sum.splits)

lemma outcome_patch_status: "outcome_of False env K (fst s) (patch_status env K req s)"
  unfolding patch_status_def by (rule outcome_with_resource) (auto intro: outcome.nothing outcome_commit dest!: patched_status split: sum.splits)

lemma outcome_delete: "outcome_of False env K (fst s) (delete env K req s)"
  unfolding delete_def
  by (rule outcome_with_resource) (auto intro: outcome.nothing outcome.deleted outcome.delete_failed split: prod.splits option.splits)

lemma outcome_get_all: "outcome_of True env K (fst s) (get_all env K req s)"
  unfolding get_all_def by (auto intro: outcome.nothing split: sum.splits)

lemma outcome_get_one: "outcome_of True env K (fst s) (get_one env K req s)"
  unfolding get_one_def by (rule outcome_with_resource) (simp add: outcome.nothing)

lemmas outcomes = outcome_get_all outcome_get_one outcome_create outcome_update outcome_patch outcome_delete outcome_update_status outcome_patch_status

lemma outcome_routes:
  assumes "resource_routes env K m path = Some h"
  shows "outcome_of (m = GET) env K (fst s) (h req s)"
  using assms outcomes [of env K s]
  by (cases "(env, K, m, path)" rule: resource_routes.cases) (auto split: http_method.splits if_splits)

text \<open>A sequence of requests to one kind; between two of them the rest of the world, the clock among it, goes on.\<close>

inductive api_step :: "('sp, 'st, 'b, 'e) api_env \<Rightarrow> ('sp, 'st) kind_info \<Rightarrow> 'b \<times> 'e \<Rightarrow> 'b \<times> 'e \<Rightarrow> bool" for env K where
  request: "resource_routes env K m path = Some h \<Longrightarrow> api_step env K s (snd (h req s))"
| elapse: "api_step env K (b, w) (b, w')"

text \<open>A backend whose failed writes and deletions leave the contents as they were.\<close>

definition fails_clean :: "'b StorageBackend \<Rightarrow> ('b \<Rightarrow> contents) \<Rightarrow> bool" where
  "fails_clean be view \<longleftrightarrow>
     (\<forall>k u d b e b'. sb_Save be k u d b = (Some e, b') \<longrightarrow> view b' = view b) \<and>
     (\<forall>k u b e b'. sb_Delete be k u b = (Some e, b') \<longrightarrow> view b' = view b)"

lemma Save_res_failed:
  assumes "fails_clean be view" "Backend env = Some be" "Save_res env K r b = (Some e, b')"
  shows "view b' = view b"
  using assms unfolding fails_clean_def
  by (auto simp: Save_res_def ensureBackend_def write_res_def split: sum.splits prod.splits option.splits)

lemma Delete_res_failed:
  assumes "fails_clean be view" "Backend env = Some be" "Delete_res env K u b = (Some e, b')"
  shows "view b' = view b"
  using assms unfolding fails_clean_def
  by (auto simp: Delete_res_def ensureBackend_def split: prod.splits option.splits)

text \<open>A saved resource is the document that the JSON package prints for it.\<close>

lemma Save_res_document:
  assumes "backend_ok be view" "Backend env = Some be" "Save_res env K r b = (None, b')"
  obtains d where "Marshal (json env) K r = Inr d" "view b' = (view b)(k_name K := (view b (k_name K))(md_UID (Meta r) \<mapsto> d))"
proof -
  obtain d where d: "Marshal (json env) K r = Inr d" "sb_Save be (k_name K) (md_UID (Meta r)) d b = (None, b')"
    using assms(2,3) by (auto simp: Save_res_def ensureBackend_def write_res_def split: sum.splits prod.splits option.splits)
  from backend_okD(3) [OF assms(1) d(2)] d(1) show thesis by (intro that)
qed

text \<open>What validation guarantees of every resource it lets through holds of every stored document.\<close>

definition admits :: "('sp, 'st, 'b, 'e) api_env \<Rightarrow> (('sp, 'st) resource \<Rightarrow> bool) \<Rightarrow> bool" where
  "admits env V \<longleftrightarrow> (\<forall>r w r1. ae_ValidateWithContext env r w = (None, r1) \<longrightarrow> V r1)"

definition documents_of :: "json_env \<Rightarrow> ('sp, 'st) kind_info \<Rightarrow> (('sp, 'st) resource \<Rightarrow> bool) \<Rightarrow> contents \<Rightarrow> bool" where
  "documents_of je K V c \<longleftrightarrow> (\<forall>u d. c (k_name K) u = Some d \<longrightarrow> (\<exists>r. Marshal je K r = Inr d \<and> md_UID (Meta r) = u \<and> V r))"

lemma documents_outcome:
  assumes "backend_ok be view" "fails_clean be view" "Backend (ae_store env) = Some be" "admits env V"
    and "outcome reading env K b resp b'" "documents_of (json (ae_store env)) K V (view b)"
  shows "documents_of (json (ae_store env)) K V (view b')"
  using assms(5)
proof (cases rule: outcome.cases)
  case (written r w r1)
  from assms(4) written(1) have "V r1" by (simp add: admits_def)
  moreover obtain d where "Marshal (json (ae_store env)) K r1 = Inr d" "view b' = (view b)(k_name K := (view b (k_name K))(md_UID (Meta r1) \<mapsto> d))"
    by (rule Save_res_document [OF assms(1,3) written(2)])
  ultimately show ?thesis using assms(6) by (auto simp: documents_of_def)
next
  case (deleted uid msg)
  from Delete_res_ok [OF assms(1,3) deleted(1)] assms(6) show ?thesis by (auto simp: documents_of_def)
next
  case (write_failed r w r1 e)
  with Save_res_failed [OF assms(2,3) write_failed(2)] assms(6) show ?thesis by simp
next
  case (delete_failed uid e)
  with Delete_res_failed [OF assms(2,3) delete_failed(1)] assms(6) show ?thesis by simp
qed (use assms(6) in simp)

lemma documents_run:
  assumes "backend_ok be view" "fails_clean be view" "Backend (ae_store env) = Some be" "admits env V"
    and "(api_step env K)\<^sup>*\<^sup>* s s'" "documents_of (json (ae_store env)) K V (view (fst s))"
  shows "documents_of (json (ae_store env)) K V (view (fst s'))"
  using assms(5,6)
proof (induction rule: rtranclp_induct)
  case (step y z)
  note d = step.IH [OF step.prems]
  from step(2) show ?case
  proof (cases rule: api_step.cases)
    case (request m path h req)
    from documents_outcome [OF assms(1-4) outcome_routes [OF request(2), of y req] d] request(1) show ?thesis by simp
  qed (use d in simp)
qed

context resource_kind
begin

text \<open>Reading back what was written.\<close>

lemma read_back:
  assumes "backend_ok be view" "Backend (ae_store env) = Some be" "Save_res (ae_store env) K r b = (None, b')"
    and "wf_spec (Spec r)" "storable (json (ae_store env)) K r" "md_UID (Meta r) \<noteq> ''''" "hr_uid req = md_UID (Meta r)"
  shows "get_one env K req (b', w) = (respondJSON 200 (RespOne r), (b', w))"
proof -
  have "typed (json (ae_store env)) K (view b') (md_UID (Meta r)) = Some r"
    using Save_res_ok(2) [OF assms(1,2,4,5,3)] by simp
  then have "Load_res (ae_store env) K (md_UID (Meta r)) b' = Inr r"
    using Load_res_found [OF assms(1,2)] by blast
  with assms(6,7) show ?thesis by (simp add: get_one_def with_resource_def)
qed

end

section \<open>Frame of the handlers\<close>

text \<open>A validation that may adjust the status but neither the spec nor the metadata.\<close>

definition keeps_spec :: "('sp, 'st, 'b, 'e) api_env \<Rightarrow> bool" where
  "keeps_spec env \<longleftrightarrow> (\<forall>r w e r1. ae_ValidateWithContext env r w = (e, r1) \<longrightarrow> Spec r1 = Spec r \<and> Meta r1 = Meta r \<and> APIVersion r1 = APIVersion r \<and> Kind r1 = Kind r)"

lemma commit_success:
  assumes "commit env K msg status ev r s = (resp, s')" "rs_status resp < 300"
  obtains r1 where "ae_ValidateWithContext env r (snd s) = (None, r1)" "Save_res (ae_store env) K r1 (fst s) = (None, fst s')" "rs_body resp = RespOne r1"
  using assms by (auto simp: commit_def split: prod.splits option.splits)

lemma with_resource_success:
  assumes "with_resource env K h req s = (resp, s')" "rs_status resp < 300"
  obtains r where "Load_res (ae_store env) K (hr_uid req) (fst s) = Inr r" "h r req s = (resp, s')" "hr_uid req \<noteq> ''''"
  using assms by (auto simp: with_resource_def split: if_splits sum.splits)

lemma write_success:
  assumes "resource_routes env K m path = Some h" "h req s = (resp, s')" "rs_status resp < 300" "m \<noteq> GET" "rs_body resp = RespOne r1"
  obtains r w where "ae_ValidateWithContext env r w = (None, r1)" "Save_res (ae_store env) K r1 (fst s) = (None, fst s')"
proof -
  from outcome_routes [OF assms(1), of s req] assms have "outcome False env K (fst s) resp (fst s')" by simp
  then show thesis using assms(3,5) that by (cases rule: outcome.cases) auto
qed

section \<open>Properties\<close>

text \<open>
  C27 (safety). A request that is refused with a client error, because of a missing or unknown UID, a body
  that does not parse, a patch that does not apply or a failed validation, leaves the storage as it
  was; this holds for every route of every kind.
\<close>

theorem refused_requests_change_nothing:
  assumes "resource_routes env K m path = Some h" and "h req s = (resp, s')"
    and "400 \<le> rs_status resp" and "rs_status resp < 500"
  shows "fst s' = fst s"
proof -
  from outcome_routes [OF assms(1), of s req] assms(2) have "outcome (m = GET) env K (fst s) resp (fst s')" by simp
  then show ?thesis using assms(3,4) by (cases rule: outcome.cases) simp_all
qed

text \<open>A kind's environment over the backend in memory, with a counter for the clock and the UIDs.\<close>

definition peer_env0 :: "(WireGuardPeerSpec, WireGuardPeerStatus, mem, nat) api_env" where
  "peer_env0 = \<lparr>ae_store = store0, ae_ValidateResource = (\<lambda>_. None),
     ae_ValidateWithContext = (\<lambda>r w. (if plain_meta (Meta r) then WireGuardPeer_Validate r else Some (ENew ''bad metadata''), r)),
     ae_GenerateUID = (\<lambda>k w. (Inr (''u'' @ nat_str w), Suc w)), ae_now = int, ae_publish = (\<lambda>_ w. (None, w)),
     ae_DetectPatchType = (\<lambda>_. ''merge''), ae_ApplyPatch = (\<lambda>old new t rm. Inr new)\<rparr>"

definition no_body :: api_request where
  "no_body = \<lparr>hr_uid = '''', hr_body = Inl (ENew ''EOF''), hr_ctype = '''', hr_version = ''v1''\<rparr>"

theorem refused_requests_change_nothing_witness:
  "rs_status (fst (CreateWireGuardPeer peer_env0 no_body ([], 0))) = 400 \<and> fst (snd (CreateWireGuardPeer peer_env0 no_body ([], 0))) = []"
proof -
  have h: "resource_routes peer_env0 WireGuardPeer_kind POST [] = Some (CreateWireGuardPeer peer_env0)" by (simp add: CreateWireGuardPeer_def)
  have st: "rs_status (fst (CreateWireGuardPeer peer_env0 no_body ([], 0))) = 400"
    by (simp add: CreateWireGuardPeer_def create_def decode_body_def no_body_def respondError_def)
  with refused_requests_change_nothing [OF h prod.collapse [symmetric], of no_body "([], 0)"] show ?thesis by simp
qed

text \<open>
  What a successful write answers with is what a later GET of its UID returns, and the
  only entry of the storage that changed is that one. This needs the backend's contract and that the
  JSON package reads back the document of the resource.
\<close>

theorem writes_are_read_back:
  assumes "resource_kind K ok" and "backend_ok be view" and "Backend (ae_store env) = Some be"
    and "resource_routes env K m path = Some h" and "m \<noteq> GET"
    and "h req s = (resp, s')" and "rs_status resp < 300" and "rs_body resp = RespOne r"
    and "ok (Spec r)" and "storable (json (ae_store env)) K r" and "md_UID (Meta r) \<noteq> ''''" and "hr_uid req' = md_UID (Meta r)"
  shows "get_one env K req' s' = (respondJSON 200 (RespOne r), s') \<and>
    typed (json (ae_store env)) K (view (fst s')) = (typed (json (ae_store env)) K (view (fst s)))(md_UID (Meta r) \<mapsto> r)"
proof -
  have s: "Save_res (ae_store env) K r (fst s) = (None, fst s')" by (rule write_success [OF assms(4,6,7,5,8)])
  from resource_kind.read_back [OF assms(1-3) s assms(9-12), of "snd s'"] resource_kind.Save_res_ok(2) [OF assms(1-3,9,10) s]
  show ?thesis by simp
qed

text \<open>A request that creates a peer.\<close>

definition peer_doc :: json where
  "peer_doc = JObj [(''metadata'', JArr [JStr ''n'', JStr '''', JObj [], JObj [], JNum ''0'', JNum ''0'']), (''spec'', enc_wp (Spec peer0))]"

definition peer_req :: api_request where
  "peer_req = \<lparr>hr_uid = '''', hr_body = Inr (je_print json0 peer_doc), hr_ctype = '''', hr_version = ''v1''\<rparr>"

lemma dec_peer_req: "decode_body peer_env0 (dec_request json0 WireGuardPeer_kind) peer_req =
    Inr \<lparr>rq_Metadata = \<lparr>md_Name = ''n'', md_UID = '''', md_Labels = Some Map.empty, md_Annotations = Some Map.empty, md_CreatedAt = 0, md_UpdatedAt = 0\<rparr>,
      rq_Spec = Spec peer0, rq_Labels = Map.empty, rq_Annotations = Map.empty\<rparr>"
proof -
  have names: "ToLower ''labels'' = ''labels''" "ToLower ''annotations'' = ''annotations''" "ToLower ''spec'' = ''spec''" "ToLower ''metadata'' = ''metadata''"
    by code_simp+
  have "nat_of_digits ''0'' = 0" by code_simp
  then show ?thesis
    by (simp add: decode_body_def peer_env0_def store0_def peer_req_def json0_def dec_labels_def peer_doc_def field_def EqualFold_def names
        WireGuardPeer_kind_def enc_wp_into)
qed

definition made_peer :: WireGuardPeer where
  "made_peer = new_resource WireGuardPeer_kind ''v1'' ''u0'' 1
     \<lparr>rq_Metadata = \<lparr>md_Name = ''n'', md_UID = '''', md_Labels = Some Map.empty, md_Annotations = Some Map.empty, md_CreatedAt = 0, md_UpdatedAt = 0\<rparr>,
      rq_Spec = Spec peer0, rq_Labels = Map.empty, rq_Annotations = Map.empty\<rparr>"

lemma made_peer_plain: "plain_meta (Meta made_peer)" "md_UID (Meta made_peer) = ''u0''" "Spec made_peer = Spec peer0"
  by (simp_all add: made_peer_def new_resource_def relabel_def add_all_def plain_meta_def AsSpec_def)

lemma peer_validate_spec: "Spec r = Spec r' \<Longrightarrow> WireGuardPeer_Validate r = WireGuardPeer_Validate r'"
  unfolding WireGuardPeer_Validate_def by (simp only:)

lemma made_peer_valid: "WireGuardPeer_Validate made_peer = None"
proof -
  have "ParseCIDR ''10.0.0.2/32'' \<noteq> None" by code_simp
  then show ?thesis by (auto simp: WireGuardPeer_Validate_def made_peer_plain peer0_def)
qed

lemma create_peer0:
  "\<exists>b'. CreateWireGuardPeer peer_env0 peer_req ([], 0) = (respondJSON 201 (RespOne made_peer), (b', 1)) \<and>
     Save_res store0 WireGuardPeer_kind made_peer [] = (None, b')"
proof -
  obtain d where d: "Marshal json0 WireGuardPeer_kind made_peer = Inr d"
    using wp_kind.Unmarshal_Marshal [OF _ storable0 [OF made_peer_plain(1)]] by blast
  then have s: "Save_res store0 WireGuardPeer_kind made_peer [] = (None, [(''WireGuardPeer'', ''u0'', d)])"
    by (simp add: Save_res_def ensureBackend_def write_res_def store0_def mem_backend_def made_peer_plain WireGuardPeer_kind_def)
  have u: "nat_str 0 = ''0''" by code_simp
  have "commit peer_env0 WireGuardPeer_kind msg 201 ev made_peer ([], 1) = (respondJSON 201 (RespOne made_peer), ([(''WireGuardPeer'', ''u0'', d)], 1))" for msg ev
    using s by (simp add: commit_def peer_env0_def made_peer_plain made_peer_valid)
  then have "CreateWireGuardPeer peer_env0 peer_req ([], 0) = (respondJSON 201 (RespOne made_peer), ([(''WireGuardPeer'', ''u0'', d)], 1))"
    using dec_peer_req
    by (simp add: CreateWireGuardPeer_def create_def made_peer_def [symmetric] u) (simp add: peer_env0_def store0_def peer_req_def u made_peer_def [symmetric])
  with s show ?thesis by blast
qed

theorem writes_are_read_back_witness:
  "\<exists>s'. CreateWireGuardPeer peer_env0 peer_req ([], 0) = (respondJSON 201 (RespOne made_peer), s') \<and>
     GetWireGuardPeer peer_env0 (no_body\<lparr>hr_uid := ''u0''\<rparr>) s' = (respondJSON 200 (RespOne made_peer), s')"
proof -
  obtain b' where c: "CreateWireGuardPeer peer_env0 peer_req ([], 0) = (respondJSON 201 (RespOne made_peer), (b', 1))" using create_peer0 by blast
  have h: "resource_routes peer_env0 WireGuardPeer_kind POST [] = Some (CreateWireGuardPeer peer_env0)" by (simp add: CreateWireGuardPeer_def)
  have b: "Backend (ae_store peer_env0) = Some mem_backend" "json (ae_store peer_env0) = json0" by (simp_all add: peer_env0_def store0_def)
  have "storable (json (ae_store peer_env0)) WireGuardPeer_kind made_peer" unfolding b by (rule storable0 [OF made_peer_plain(1)])
  from writes_are_read_back [OF wp_kind.resource_kind_axioms mem_backend_ok b(1) h _ c _ _ _ this, of "no_body\<lparr>hr_uid := ''u0''\<rparr>"] c
  show ?thesis by (simp add: GetWireGuardPeer_def made_peer_plain)
qed

text \<open>The two ways a resource is rewritten: what is stored, which is what the response shows.\<close>

definition stored_and_shown :: "('sp, 'st, 'b, 'e) api_env \<Rightarrow> ('sp, 'st) kind_info \<Rightarrow> 'b \<Rightarrow> ('sp, 'st) api_response \<Rightarrow> 'b \<Rightarrow> ('sp, 'st) resource \<Rightarrow> bool" where
  "stored_and_shown env K b resp b' r1 \<longleftrightarrow> Save_res (ae_store env) K r1 b = (None, b') \<and> rs_body resp = RespOne r1"

definition spec_written :: "('sp, 'st, 'b, 'e) api_env \<Rightarrow> ('sp, 'st) kind_info \<Rightarrow> ('sp, 'st) resource \<Rightarrow> 'b \<times> 'e \<Rightarrow> ('sp, 'st) api_response \<Rightarrow> 'b \<Rightarrow> bool" where
  "spec_written env K r s resp b' \<longleftrightarrow>
     (\<exists>r0 r1. stored_and_shown env K (fst s) resp b' r1 \<and> Status r0 = Status r \<and> ae_ValidateWithContext env r0 (snd s) = (None, r1) \<and>
        Spec r1 = Spec r0 \<and> md_UID (Meta r1) = md_UID (Meta r) \<and> md_CreatedAt (Meta r1) = md_CreatedAt (Meta r) \<and>
        APIVersion r1 = APIVersion r \<and> Kind r1 = Kind r)"

definition status_written :: "('sp, 'st, 'b, 'e) api_env \<Rightarrow> ('sp, 'st) kind_info \<Rightarrow> ('sp, 'st) resource \<Rightarrow> 'b \<times> 'e \<Rightarrow> ('sp, 'st) api_response \<Rightarrow> 'b \<Rightarrow> bool" where
  "status_written env K r s resp b' \<longleftrightarrow>
     (\<exists>r1. stored_and_shown env K (fst s) resp b' r1 \<and> Spec r1 = Spec r \<and> Meta r1 = (Meta r)\<lparr>md_UpdatedAt := ae_now env (snd s)\<rparr> \<and>
        APIVersion r1 = APIVersion r \<and> Kind r1 = Kind r)"

lemma spec_writtenI:
  assumes "keeps_spec env" "commit env K msg status ev r0 s = (resp, s')" "rs_status resp < 300" "Status r0 = Status r"
    "md_UID (Meta r0) = md_UID (Meta r)" "md_CreatedAt (Meta r0) = md_CreatedAt (Meta r)" "APIVersion r0 = APIVersion r" "Kind r0 = Kind r"
  shows "spec_written env K r s resp (fst s')"
proof -
  obtain r1 where r1: "ae_ValidateWithContext env r0 (snd s) = (None, r1)" "Save_res (ae_store env) K r1 (fst s) = (None, fst s')" "rs_body resp = RespOne r1"
    using commit_success [OF assms(2,3)] .
  moreover from assms(1) r1(1) have "Spec r1 = Spec r0 \<and> Meta r1 = Meta r0 \<and> APIVersion r1 = APIVersion r0 \<and> Kind r1 = Kind r0" by (simp add: keeps_spec_def)
  ultimately show ?thesis unfolding spec_written_def stored_and_shown_def using assms(4-8) by (intro exI [of _ r0] exI [of _ r1]) simp
qed

lemma status_writtenI:
  assumes "keeps_spec env" "commit env K msg status ev r0 s = (resp, s')" "rs_status resp < 300" "Spec r0 = Spec r"
    "Meta r0 = (Meta r)\<lparr>md_UpdatedAt := ae_now env (snd s)\<rparr>" "APIVersion r0 = APIVersion r" "Kind r0 = Kind r"
  shows "status_written env K r s resp (fst s')"
proof -
  obtain r1 where r1: "ae_ValidateWithContext env r0 (snd s) = (None, r1)" "Save_res (ae_store env) K r1 (fst s) = (None, fst s')" "rs_body resp = RespOne r1"
    using commit_success [OF assms(2,3)] .
  moreover from assms(1) r1(1) have "Spec r1 = Spec r0 \<and> Meta r1 = Meta r0 \<and> APIVersion r1 = APIVersion r0 \<and> Kind r1 = Kind r0" by (simp add: keeps_spec_def)
  ultimately show ?thesis unfolding status_written_def stored_and_shown_def using assms(4-7) by (intro exI [of _ r1]) simp
qed

text \<open>
  C28 (functional). The spec and the status are written through different routes. What a successful PUT or
  PATCH of the spec stores, and answers with, has the UID, the creation time, the API version and the kind of the
  resource before, and validation was given its old status; what a successful PUT or PATCH of the status stores, and
  answers with, has the old spec, API version and kind, and of the metadata only the time of the update is new. It is assumed that validation
  changes neither spec nor metadata, API version or kind, as none of the four \<open>Validate\<close> methods does.
\<close>

theorem spec_and_status_are_separate:
  assumes "keeps_spec env" and "Load_res (ae_store env) K (hr_uid req) (fst s) = Inr r" and "rs_status resp < 300" and "h req s = (resp, s')"
  shows "(h = update env K \<or> h = patch env K \<longrightarrow> spec_written env K r s resp (fst s')) \<and>
    (h = update_status env K \<or> h = patch_status env K \<longrightarrow> status_written env K r s resp (fst s'))"
proof -
  have w: "g r req s = (resp, s')" if "h = with_resource env K g" for g
  proof -
    from assms(4) that have "with_resource env K g req s = (resp, s')" by simp
    from with_resource_success [OF this assms(3)] show ?thesis using assms(2) by (metis sum.inject(2))
  qed
  have "spec_written env K r s resp (fst s')" if "h = update env K"
    using w [OF that [unfolded update_def]] assms(3)
    by (auto simp: with_request_def Let_def relabel_def split: sum.splits if_splits intro: spec_writtenI [OF assms(1)])
  moreover have "spec_written env K r s resp (fst s')" if "h = patch env K"
    using w [OF that [unfolded patch_def]] assms(3)
    by (auto dest!: patched_status split: sum.splits intro: spec_writtenI [OF assms(1)])
  moreover have "status_written env K r s resp (fst s')" if "h = update_status env K"
    using w [OF that [unfolded update_status_def]] assms(3) by (auto split: sum.splits intro: status_writtenI [OF assms(1)])
  moreover have "status_written env K r s resp (fst s')" if "h = patch_status env K"
    using w [OF that [unfolded patch_status_def]] assms(3)
    by (auto dest!: patched_status split: sum.splits intro: status_writtenI [OF assms(1)])
  ultimately show ?thesis by blast
qed

text \<open>A status update of the peer that was created.\<close>

definition status_req :: api_request where
  "status_req = \<lparr>hr_uid = ''u0'', hr_body = Inr (je_print json0 (JObj [(''phase'', JStr ''Ready'')])), hr_ctype = '''', hr_version = ''v1''\<rparr>"

theorem spec_and_status_are_separate_witness:
  "\<exists>s' r1. rs_body (fst (UpdateWireGuardPeerStatus peer_env0 status_req s')) = RespOne r1 \<and> Spec r1 = Spec peer0"
proof -
  obtain b' where s: "Save_res store0 WireGuardPeer_kind made_peer [] = (None, b')" using create_peer0 by blast
  have b: "Backend (ae_store peer_env0) = Some mem_backend" "json (ae_store peer_env0) = json0" "ae_store peer_env0 = store0" by (simp_all add: peer_env0_def store0_def)
  have st: "storable (json (ae_store peer_env0)) WireGuardPeer_kind made_peer" unfolding b(2) by (rule storable0 [OF made_peer_plain(1)])
  have "typed json0 WireGuardPeer_kind (mem_view b') ''u0'' = Some made_peer"
    using wp_kind.Save_res_ok(2) [OF mem_backend_ok b(1) TrueI st, of "[]" b'] s b by (simp add: made_peer_plain)
  then have l: "Load_res (ae_store peer_env0) WireGuardPeer_kind (hr_uid status_req) (fst (b', 1)) = Inr made_peer"
    using Load_res_found [OF mem_backend_ok b(1), of WireGuardPeer_kind "''u0''" b' made_peer] b by (simp add: status_req_def)
  have names: "ToLower ''phase'' = ''phase''" "ToLower ''message'' = ''message''" "ToLower ''ready'' = ''ready''" "ToLower ''version'' = ''version''" by code_simp+
  have k: "keeps_spec peer_env0" by (auto simp: keeps_spec_def peer_env0_def)
  have d: "decode_body peer_env0 (k_dec_status WireGuardPeer_kind (k_zero_status WireGuardPeer_kind)) status_req = Inr (zero_ws\<lparr>ws_Phase := ''Ready''\<rparr>)"
    by (simp add: decode_body_def status_req_def b(3) store0_def json0_def WireGuardPeer_kind_def zero_ws_def field_def EqualFold_def names)
  let ?r = "made_peer\<lparr>Status := zero_ws\<lparr>ws_Phase := ''Ready''\<rparr>, Meta := (Meta made_peer)\<lparr>md_UpdatedAt := 1\<rparr>\<rparr>"
  have p: "plain_meta (Meta ?r)" using made_peer_plain(1) by (simp add: plain_meta_def)
  have v: "WireGuardPeer_Validate ?r = None" using made_peer_valid peer_validate_spec [of ?r made_peer] by simp
  obtain d0 where m: "Marshal json0 WireGuardPeer_kind ?r = Inr d0" using wp_kind.Unmarshal_Marshal [OF _ storable0 [OF p]] by blast
  have "rs_status (fst (UpdateWireGuardPeerStatus peer_env0 status_req (b', 1))) < 300"
    using l d m p v unfolding UpdateWireGuardPeerStatus_def update_status_def with_resource_def commit_def
    by (simp add: status_req_def peer_env0_def Save_res_def ensureBackend_def write_res_def store0_def mem_backend_def)
  from spec_and_status_are_separate [OF k l this, where h = "UpdateWireGuardPeerStatus peer_env0" and s' = "snd (UpdateWireGuardPeerStatus peer_env0 status_req (b', 1))"]
  show ?thesis unfolding UpdateWireGuardPeerStatus_def status_written_def stored_and_shown_def by (auto simp: made_peer_plain)
qed

section \<open>Patches that remove members\<close>

lemma into_entries_keeps: "into_entries m ms = Inr m' \<Longrightarrow> k \<notin> fst ` set ms \<Longrightarrow> m' k = m k"
proof (induction ms arbitrary: m)
  case (Cons e ms)
  obtain k0 j where e: "e = (k0, j)" by (cases e)
  from Cons.prems e obtain v where "into_entries (m(k0 \<mapsto> v)) ms = Inr m'" by (cases "into_str '''' j") auto
  with Cons e show ?case by fastforce
qed simp

lemma field_absent: "field_values n fs = [] \<Longrightarrow> field dec n fs x = Inr x"
  by (simp add: field_def)

text \<open>A text that the document does not have, or has as null.\<close>

lemma field_kept: "field_values n fs \<in> {[], [JNull]} \<Longrightarrow> field into_str n fs x = Inr x"
  by (auto simp: field_def)

lemma field_once: "field_values n fs = [j] \<Longrightarrow> field dec n fs x = dec x j"
  by (simp add: field_def)

lemma dec_gspec_keeps:
  assumes "dec_gspec sp (JObj fs) = Inr sp'"
  shows "field_values ''description'' fs \<in> {[], [JNull]} \<Longrightarrow> g_Description sp' = g_Description sp"
    and "field_values ''template'' fs \<in> {[], [JNull]} \<Longrightarrow> g_Template sp' = g_Template sp"
    and "field_values ''osVersion'' fs \<in> {[], [JNull]} \<Longrightarrow> g_OSVersion sp' = g_OSVersion sp"
    and "field_values ''metaData'' fs = [] \<Longrightarrow> g_MetaData sp' = g_MetaData sp"
    and "field_values ''metaData'' fs = [JObj ms] \<Longrightarrow> k \<notin> fst ` set ms \<Longrightarrow> g_MetaData sp' k = g_MetaData sp k"
    and "field_values ''metaData'' fs = [JNull] \<Longrightarrow> g_MetaData sp' = Map.empty"
proof -
  from assms obtain d t m v where f: "field into_str ''description'' fs (g_Description sp) = Inr d" "field into_str ''template'' fs (g_Template sp) = Inr t"
    "field into_map ''metaData'' fs (g_MetaData sp) = Inr m" "field into_str ''osVersion'' fs (g_OSVersion sp) = Inr v"
    and sp': "sp' = \<lparr>g_Description = d, g_Template = t, g_MetaData = m, g_OSVersion = v\<rparr>"
    by (auto simp: rbind_def split: sum.splits)
  show "field_values ''description'' fs \<in> {[], [JNull]} \<Longrightarrow> g_Description sp' = g_Description sp" using f(1) sp' field_kept by fastforce
  show "field_values ''template'' fs \<in> {[], [JNull]} \<Longrightarrow> g_Template sp' = g_Template sp" using f(2) sp' field_kept by fastforce
  show "field_values ''osVersion'' fs \<in> {[], [JNull]} \<Longrightarrow> g_OSVersion sp' = g_OSVersion sp" using f(4) sp' field_kept by fastforce
  show "field_values ''metaData'' fs = [] \<Longrightarrow> g_MetaData sp' = g_MetaData sp" using f(3) sp' by (simp add: field_absent)
  show "field_values ''metaData'' fs = [JObj ms] \<Longrightarrow> k \<notin> fst ` set ms \<Longrightarrow> g_MetaData sp' k = g_MetaData sp k"
    using f(3) sp' into_entries_keeps by (simp add: field_once)
  show "field_values ''metaData'' fs = [JNull] \<Longrightarrow> g_MetaData sp' = Map.empty" using f(3) sp' by (simp add: field_once)
qed

text \<open>
  C38 (error). A member that a patch removes from the spec of a group comes back, although removals are allowed in
  the call that applies the patch: the patched document is decoded over the old spec. A successful PATCH stores, and answers with, the old
  description, template and OS version wherever the patched document lacks them or has null, and the old value of every metadata key that is missing from
  it, be the whole \<open>metaData\<close> missing or the key in it. A document whose \<open>metaData\<close> is null empties
  all of it. It is assumed that the patched document is an object (with \<open>metaData\<close> in it at most once, for what is said of metadata) and that
  validation leaves the spec as it is, as \<open>Group.Validate\<close> does.
\<close>

theorem patch_keeps_absent_members:
  assumes "keeps_spec env" and "Load_res (ae_store env) (Group_kind keys) (hr_uid req) (fst s) = Inr r" and "hr_body req = Inr patchData"
    and "ae_ApplyPatch env (je_print (json (ae_store env)) (enc_gspec keys (Spec r))) patchData (ae_DetectPatchType env (hr_ctype req)) True = Inr new"
    and "je_parse (json (ae_store env)) new = Inr (JObj fs)"
    and "PatchGroup env keys req s = (resp, s')" and "rs_status resp < 300"
  shows "\<exists>r1. stored_and_shown env (Group_kind keys) (fst s) resp (fst s') r1 \<and>
    (field_values ''description'' fs \<in> {[], [JNull]} \<longrightarrow> g_Description (Spec r1) = g_Description (Spec r)) \<and>
    (field_values ''template'' fs \<in> {[], [JNull]} \<longrightarrow> g_Template (Spec r1) = g_Template (Spec r)) \<and>
    (field_values ''osVersion'' fs \<in> {[], [JNull]} \<longrightarrow> g_OSVersion (Spec r1) = g_OSVersion (Spec r)) \<and>
    (field_values ''metaData'' fs = [] \<longrightarrow> g_MetaData (Spec r1) = g_MetaData (Spec r)) \<and>
    (\<forall>ms k. field_values ''metaData'' fs = [JObj ms] \<and> k \<notin> fst ` set ms \<longrightarrow> g_MetaData (Spec r1) k = g_MetaData (Spec r) k) \<and>
    (field_values ''metaData'' fs = [JNull] \<longrightarrow> g_MetaData (Spec r1) = Map.empty)"
proof -
  from with_resource_success [OF assms(6) [unfolded PatchGroup_def patch_def] assms(7)] assms(2)
  have h: "(case patched env ''spec'' True dec_gspec (enc_gspec keys) (Spec r) req of
       Inl (status, e) \<Rightarrow> (respondError status e, s)
     | Inr sp \<Rightarrow> commit env (Group_kind keys) (''failed to save patched '' @ k_name (Group_kind keys) @ '': '') 200
         (\<lambda>r. Patched (k_name (Group_kind keys)) (md_UID (Meta r)) (md_Name (Meta r)) '''')
         (r\<lparr>Spec := sp, Meta := (Meta r)\<lparr>md_UpdatedAt := ae_now env (snd s)\<rparr>\<rparr>) s) = (resp, s')"
    by (auto simp: Group_kind_def)
  obtain sp where sp: "patched env ''spec'' True dec_gspec (enc_gspec keys) (Spec r) req = Inr sp"
    using h assms(7) by (cases "patched env ''spec'' True dec_gspec (enc_gspec keys) (Spec r) req") (auto dest!: patched_status)
  then have d: "dec_gspec (Spec r) (JObj fs) = Inr sp" using assms(3-5) by (simp add: patched_def split: sum.splits)
  let ?r = "r\<lparr>Spec := sp, Meta := (Meta r)\<lparr>md_UpdatedAt := ae_now env (snd s)\<rparr>\<rparr>"
  obtain r1 where r1: "ae_ValidateWithContext env ?r (snd s) = (None, r1)" "Save_res (ae_store env) (Group_kind keys) r1 (fst s) = (None, fst s')" "rs_body resp = RespOne r1"
    using commit_success [OF h [unfolded sp sum.case] assms(7)] .
  from assms(1) r1(1) have "Spec r1 = sp" unfolding keeps_spec_def by fastforce
  with r1(2,3) dec_gspec_keeps [OF d] show ?thesis unfolding stored_and_shown_def by (intro exI [of _ r1] conjI allI impI) (auto simp only:)
qed

text \<open>
  Groups with one template and no metadata over the backend in memory; a patch replaces the document. The world is a counter, and the
  clock that validation reads shows it.
\<close>

definition tenv_at :: "nat \<Rightarrow> template_env" where
  "tenv_at w = tenv0\<lparr>te_now := nat_str w\<rparr>"

lemma tenv_at_simps [simp]: "te_order (tenv_at w) = te_order tenv0" "te_render (tenv_at w) = te_render tenv0" "te_yaml (tenv_at w) = te_yaml tenv0"
  by (simp_all add: tenv_at_def)

lemma acceptable_tenv_at [simp]: "acceptable (tenv_at w) sp = acceptable tenv0 sp"
  by (simp add: acceptable_def)

definition group_env0 :: "(GroupSpec, GroupStatus, mem, nat) api_env" where
  "group_env0 = \<lparr>ae_store = store0, ae_ValidateResource = (\<lambda>_. None),
     ae_ValidateWithContext = (\<lambda>r w. if plain_meta (Meta r) \<and> g_Template (Spec r) = tmpl0 \<and> g_MetaData (Spec r) = Map.empty then Group_Validate (tenv_at w) r
       else (Some (ENew ''refused''), r)),
     ae_GenerateUID = (\<lambda>k w. (Inr (''u'' @ nat_str w), Suc w)), ae_now = int, ae_publish = (\<lambda>_ w. (None, w)),
     ae_DetectPatchType = (\<lambda>_. ''merge''), ae_ApplyPatch = (\<lambda>old new t rm. Inr new)\<rparr>"

definition group1 :: Group where
  "group1 = group0\<lparr>Meta := \<lparr>md_Name = ''g'', md_UID = ''u'', md_Labels = Some Map.empty, md_Annotations = Some Map.empty, md_CreatedAt = 0, md_UpdatedAt = 0\<rparr>,
     Spec := \<lparr>g_Description = ''old'', g_Template = tmpl0, g_MetaData = Map.empty, g_OSVersion = ''''\<rparr>\<rparr>"

abbreviation no_keys :: "strmap \<Rightarrow> string list" where
  "no_keys \<equiv> \<lambda>_. []"

lemma Group_Validate_keeps: "Group_Validate env r = (e, r') \<Longrightarrow> Spec r' = Spec r \<and> Meta r' = Meta r \<and> APIVersion r' = APIVersion r \<and> Kind r' = Kind r"
proof -
  have t: "Spec (trackTemplateVersion env v m r1) = Spec r1 \<and> Meta (trackTemplateVersion env v m r1) = Meta r1 \<and>
      APIVersion (trackTemplateVersion env v m r1) = APIVersion r1 \<and> Kind (trackTemplateVersion env v m r1) = Kind r1" for v m r1
    by (simp add: trackTemplateVersion_def Let_def split: option.splits)
  assume "Group_Validate env r = (e, r')"
  then show ?thesis
    by (auto simp: Group_Validate_def Let_def reject_group_def t split: if_splits sum.splits option.splits)
qed

lemma keeps_group_env0: "keeps_spec group_env0"
  using Group_Validate_keeps by (auto simp: keeps_spec_def group_env0_def split: if_splits)

lemma admitted_group0:
  assumes "ae_ValidateWithContext group_env0 r w = (None, r1)"
  shows "Group_Validate (tenv_at w) r = (None, r1)" "plain_meta (Meta r1)" "g_MetaData (Spec r1) = Map.empty" "g_Template (Spec r) = tmpl0"
  using assms Group_Validate_keeps by (auto simp: group_env0_def split: if_splits)

lemma validate_tmpl0:
  assumes "g_Template (Spec r) = tmpl0" "g_MetaData (Spec r) = Map.empty"
  shows "\<exists>r1. Group_Validate (tenv_at w) r = (None, r1) \<and> gs_Valid (Status r1)"
proof -
  have o: "set (te_order (tenv_at w) (template_vars (g_Template (Spec r)))) = template_vars (g_Template (Spec r))"
    by (simp add: assms) (simp add: tenv0_def vars_tmpl0)
  have "acceptable (tenv_at w) (Spec r)" using acceptable_group0 assms by (simp add: acceptable_def group0_def)
  with o show ?thesis
  proof (cases rule: Group_Validate_cases)
    case (accept r1)
    with trackTemplateVersion_history(6) [OF refl, of "tenv_at w" True "''''" r1] show ?thesis by simp
  qed simp
qed

lemma save_group: "plain_meta (Meta r) \<Longrightarrow> \<exists>d. Save_res store0 (Group_kind no_keys) r b = (None, (''Group'', md_UID (Meta r), d) # b)"
proof -
  assume "plain_meta (Meta r)"
  then obtain d where "Marshal json0 (Group_kind no_keys) r = Inr d"
    using storable0 [of r "Group_kind no_keys"] by (auto simp: storable_def Marshal_def)
  then show ?thesis by (simp add: Save_res_def ensureBackend_def write_res_def store0_def mem_backend_def Group_kind_def)
qed

theorem patch_keeps_absent_members_witness:
  "\<exists>s r1. rs_body (fst (PatchGroup group_env0 no_keys \<lparr>hr_uid = ''u'', hr_body = Inr (je_print json0 (JObj [])), hr_ctype = '''', hr_version = ''''\<rparr> s)) = RespOne r1 \<and>
     g_Description (Spec r1) = ''old''"
proof -
  let ?req = "\<lparr>hr_uid = ''u'', hr_body = Inr (je_print json0 (JObj [])), hr_ctype = '''', hr_version = ''''\<rparr>"
  have p: "plain_meta (Meta group1)" "md_UID (Meta group1) = ''u''" by (simp_all add: group1_def plain_meta_def)
  obtain d where s: "Save_res store0 (Group_kind no_keys) group1 [] = (None, [(''Group'', ''u'', d)])" using save_group [OF p(1), of "[]"] p(2) by auto
  let ?s = "([(''Group'', ''u'', d)], 3 :: nat)"
  have b: "Backend (ae_store group_env0) = Some mem_backend" "json (ae_store group_env0) = json0" "ae_store group_env0 = store0" by (simp_all add: group_env0_def store0_def)
  have "typed json0 (Group_kind no_keys) (mem_view (fst ?s)) ''u'' = Some group1"
    using group_kind.Save_res_ok(2) [OF mem_backend_ok b(1), of group1 no_keys "[]" "fst ?s"] s b storable0 [OF p(1)] p
    by (simp add: group1_def range_order_def)
  then have l: "Load_res (ae_store group_env0) (Group_kind no_keys) (hr_uid ?req) (fst ?s) = Inr group1"
    using Load_res_found [OF mem_backend_ok b(1), of "Group_kind no_keys" "''u''" "fst ?s" group1] b by simp
  let ?r = "group1\<lparr>Meta := (Meta group1)\<lparr>md_UpdatedAt := 3\<rparr>\<rparr>"
  have g: "g_Template (Spec ?r) = tmpl0" "g_MetaData (Spec ?r) = Map.empty" "plain_meta (Meta ?r)" by (simp_all add: group1_def plain_meta_def)
  obtain r1 where v: "Group_Validate (tenv_at 3) ?r = (None, r1)" using validate_tmpl0 [OF g(1,2)] by blast
  with Group_Validate_keeps [OF v] g obtain b' where sv: "Save_res store0 (Group_kind no_keys) r1 (fst ?s) = (None, b')" using save_group [of r1 "fst ?s"] by auto
  have pt: "patched group_env0 ''spec'' True dec_gspec (enc_gspec no_keys) (Spec group1) ?req = Inr (Spec group1)"
    by (simp add: patched_def group_env0_def store0_def json0_def field_def)
  have "commit group_env0 (Group_kind no_keys) msg 200 ev ?r ?s = (respondJSON 200 (RespOne r1), (b', 3))" for msg ev
    using v g sv by (simp add: commit_def group_env0_def)
  then have "rs_status (fst (PatchGroup group_env0 no_keys ?req ?s)) < 300"
    using l pt by (simp add: PatchGroup_def patch_def with_resource_def Group_kind_def [of no_keys] group_env0_def [THEN arg_cong, of ae_now])
  from patch_keeps_absent_members [OF keeps_group_env0 l, where new = "je_print json0 (JObj [])" and fs = "[]" and patchData = "je_print json0 (JObj [])"
      and resp = "fst (PatchGroup group_env0 no_keys ?req ?s)" and s' = "snd (PatchGroup group_env0 no_keys ?req ?s)"] this
  show ?thesis by (intro exI [of _ ?s]) (auto simp: stored_and_shown_def b group_env0_def store0_def json0_def group1_def)
qed

section \<open>What is stored was validated\<close>

text \<open>
  C21 (invariant). Starting from a storage without groups, after any sequence of requests to the group routes
  (the status routes among them) with time passing in between, every stored document is the JSON form of a group that is stored under its own UID,
  whose template and metadata the validation accepted, at the time it ran, and whose status says so; and if the JSON
  package carries that group unchanged (its texts are valid UTF-8), reading returns it. It is assumed that \<open>ValidateWithContext\<close> runs
  \<open>Group.Validate\<close>, with the clock and the map order of the moment, and that the backend keeps its contract, failed writes included.
\<close>

theorem stored_groups_are_valid:
  assumes "backend_ok be view" and "fails_clean be view" and "Backend (ae_store env) = Some be"
    and "\<And>r w r1. ae_ValidateWithContext env r w = (None, r1) \<Longrightarrow> Group_Validate (tenv w) r = (None, r1) \<and>
      set (te_order (tenv w) (template_vars (g_Template (Spec r)))) = template_vars (g_Template (Spec r))"
    and "view (fst s) ''Group'' = Map.empty" and "(api_step env (Group_kind keys))\<^sup>*\<^sup>* s s'"
    and "view (fst s') ''Group'' u = Some d"
  shows "\<exists>g w. Marshal (json (ae_store env)) (Group_kind keys) g = Inr d \<and> md_UID (Meta g) = u \<and>
    acceptable (tenv w) (Spec g) \<and> gs_Valid (Status g) \<and> gs_ErrorMessage (Status g) = '''' \<and>
    (range_order (g_MetaData (Spec g)) (keys (g_MetaData (Spec g))) \<and> storable (json (ae_store env)) (Group_kind keys) g \<longrightarrow>
       typed (json (ae_store env)) (Group_kind keys) (view (fst s')) u = Some g)"
proof -
  let ?V = "\<lambda>g. (\<exists>w. acceptable (tenv w) (Spec g)) \<and> gs_Valid (Status g) \<and> gs_ErrorMessage (Status g) = ''''"
  have n: "k_name (Group_kind keys) = ''Group''" by (simp add: Group_kind_def)
  have "?V r1" if v: "ae_ValidateWithContext env r w = (None, r1)" for r w r1
  proof -
    from assms(4) [OF v] have o: "set (te_order (tenv w) (template_vars (g_Template (Spec r)))) = template_vars (g_Template (Spec r))"
      and gv: "Group_Validate (tenv w) r = (None, r1)" by simp_all
    from o show ?thesis
    proof (cases rule: Group_Validate_cases)
      case (accept r0)
      then have "trackTemplateVersion (tenv w) True '''' r0 = r1" using gv by simp
      from trackTemplateVersion_history [OF this] accept show ?thesis by (simp add: exI [of _ w])
    next
      case (reject r0 msg)
      with gv reject_group_spec(1) [of "tenv w" msg r0 None r1] show ?thesis by simp
    qed
  qed
  then have a: "admits env ?V" by (simp add: admits_def)
  have "documents_of (json (ae_store env)) (Group_kind keys) ?V (view (fst s))" by (simp add: documents_of_def n assms(5))
  from documents_run [OF assms(1-3) a assms(6) this, unfolded documents_of_def n, rule_format, OF assms(7)]
  obtain g where g: "Marshal (json (ae_store env)) (Group_kind keys) g = Inr d" "md_UID (Meta g) = u" "?V g" by blast
  have "typed (json (ae_store env)) (Group_kind keys) (view (fst s')) u = Some g"
    if "range_order (g_MetaData (Spec g)) (keys (g_MetaData (Spec g)))" "storable (json (ae_store env)) (Group_kind keys) g"
    using group_kind.Unmarshal_Marshal [OF that] g(1) assms(7) by (auto simp: typed_def n)
  with g show ?thesis by blast
qed

lemma mem_fails_clean: "fails_clean mem_backend mem_view"
  by (auto simp: fails_clean_def mem_backend_def split: if_splits)

text \<open>A request that creates a group.\<close>

definition group_req :: api_request where
  "group_req = \<lparr>hr_uid = '''', hr_body = Inr (je_print json0 (JObj
     [(''metadata'', JArr [JStr ''g'', JStr '''', JObj [], JObj [], JNum ''0'', JNum ''0'']), (''spec'', JObj [(''template'', JStr tmpl0)])])), hr_ctype = '''', hr_version = ''v1''\<rparr>"

definition made_group :: Group where
  "made_group = new_resource (Group_kind no_keys) ''v1'' ''u0'' 1
     \<lparr>rq_Metadata = \<lparr>md_Name = ''g'', md_UID = '''', md_Labels = Some Map.empty, md_Annotations = Some Map.empty, md_CreatedAt = 0, md_UpdatedAt = 0\<rparr>,
      rq_Spec = zero_gspec\<lparr>g_Template := tmpl0\<rparr>, rq_Labels = Map.empty, rq_Annotations = Map.empty\<rparr>"

lemma dec_group_req: "decode_body group_env0 (dec_request json0 (Group_kind no_keys)) group_req =
    Inr \<lparr>rq_Metadata = \<lparr>md_Name = ''g'', md_UID = '''', md_Labels = Some Map.empty, md_Annotations = Some Map.empty, md_CreatedAt = 0, md_UpdatedAt = 0\<rparr>,
      rq_Spec = zero_gspec\<lparr>g_Template := tmpl0\<rparr>, rq_Labels = Map.empty, rq_Annotations = Map.empty\<rparr>"
proof -
  have names: "ToLower ''labels'' = ''labels''" "ToLower ''annotations'' = ''annotations''" by code_simp+
  have "nat_of_digits ''0'' = 0" by code_simp
  then show ?thesis
    by (simp add: decode_body_def group_env0_def store0_def group_req_def json0_def dec_labels_def json_simps names Group_kind_def zero_gspec_def)
qed

theorem stored_groups_are_valid_witness:
  "\<exists>g d. mem_view (fst (snd (CreateGroup group_env0 no_keys group_req ([], 0)))) ''Group'' ''u0'' = Some d \<and>
     Marshal json0 (Group_kind no_keys) g = Inr d \<and> gs_Valid (Status g)"
proof -
  have p: "plain_meta (Meta made_group)" "md_UID (Meta made_group) = ''u0''" "Spec made_group = zero_gspec\<lparr>g_Template := tmpl0\<rparr>"
    by (simp_all add: made_group_def new_resource_def relabel_def add_all_def plain_meta_def AsSpec_def)
  then have t: "g_Template (Spec made_group) = tmpl0" "g_MetaData (Spec made_group) = Map.empty" by (simp_all add: zero_gspec_def)
  obtain r1 where v: "Group_Validate (tenv_at 1) made_group = (None, r1)" using validate_tmpl0 [OF t] by blast
  note k = Group_Validate_keeps [OF v]
  have p1: "plain_meta (Meta r1)" "md_UID (Meta r1) = ''u0''" using k p by simp_all
  obtain d where sv: "Save_res store0 (Group_kind no_keys) r1 [] = (None, [(''Group'', ''u0'', d)])" using save_group [OF p1(1), of "[]"] p1(2) by auto
  have u: "nat_str 0 = ''0''" by code_simp
  have "commit group_env0 (Group_kind no_keys) msg 201 ev made_group ([], 1) = (respondJSON 201 (RespOne r1), ([(''Group'', ''u0'', d)], 1))" for msg ev
    using v p t sv by (simp add: commit_def group_env0_def)
  then have "CreateGroup group_env0 no_keys group_req ([], 0) = (respondJSON 201 (RespOne r1), ([(''Group'', ''u0'', d)], 1))"
    using dec_group_req
    by (simp add: CreateGroup_def create_def) (simp add: group_env0_def store0_def group_req_def u made_group_def [symmetric])
  then have c: "snd (CreateGroup group_env0 no_keys group_req ([], 0)) = ([(''Group'', ''u0'', d)], 1)" by simp
  have b: "Backend (ae_store group_env0) = Some mem_backend" "json (ae_store group_env0) = json0" "ae_store group_env0 = store0" by (simp_all add: group_env0_def store0_def)
  have h: "resource_routes group_env0 (Group_kind no_keys) POST [] = Some (CreateGroup group_env0 no_keys)" by (simp add: CreateGroup_def)
  have run: "(api_step group_env0 (Group_kind no_keys))\<^sup>*\<^sup>* ([], 0) ([(''Group'', ''u0'', d)], 1)"
    using api_step.request [OF h, of "([], 0)" group_req] unfolding c by blast
  have st: "typed json0 (Group_kind no_keys) (mem_view [(''Group'', ''u0'', d)]) ''u0'' = Some r1"
    using group_kind.Save_res_ok(2) [OF mem_backend_ok b(1), of r1 no_keys "[]" "[(''Group'', ''u0'', d)]"] sv b storable0 [OF p1(1)] p1(2) k t
    by (simp add: range_order_def)
  have adm: "Group_Validate (tenv_at w) r = (None, r1) \<and> set (te_order (tenv_at w) (template_vars (g_Template (Spec r)))) = template_vars (g_Template (Spec r))"
    if "ae_ValidateWithContext group_env0 r w = (None, r1)" for r w r1
    using admitted_group0 [OF that] by simp (simp add: tenv0_def vars_tmpl0)
  have e: "mem_view (fst ([], 0)) ''Group'' = Map.empty" by (simp add: mem_view_def fun_eq_iff)
  have m: "mem_view (fst ([(''Group'', ''u0'', d)], 1)) ''Group'' ''u0'' = Some d" by (simp add: mem_view_def)
  from stored_groups_are_valid [where tenv = tenv_at, OF mem_backend_ok mem_fails_clean b(1) adm e run m] m show ?thesis unfolding c b(2) by auto
qed

end
