(* ===== verification/Go_HTTP.thy ===== *)
theory Go_HTTP
  imports Go_Net Go_JSON
begin

text \<open>
  What the handlers use of \<open>net/http\<close>: the header, the remote address, the URL parameters and the body
  of a request, and a response made of a status, a content type and a body. A handler that panics has
  no response. Writing the body to the connection is left out, also the error it may give.
\<close>

record http_request =
  hq_header :: "string \<Rightarrow> string"         \<comment> \<open>\<open>Header.Get\<close>: empty for a header that is not there\<close>
  hq_RemoteAddr :: string
  hq_param :: "string \<Rightarrow> string"          \<comment> \<open>\<open>chi.URLParam\<close>\<close>
  hq_body :: "string result"

datatype http_response =
    TextResponse nat string string          \<comment> \<open>status, content type, body\<close>
  | JSONResponse nat json
  | HandlerPanic string

definition http_Error :: "string \<Rightarrow> nat \<Rightarrow> http_response" where
  "http_Error msg code = TextResponse code ''text/plain; charset=utf-8'' (msg @ nl)"

text \<open>\<open>http.Error\<close> with the text of an error, unless the error stands for a panic.\<close>

definition reply_error :: "string \<Rightarrow> goerror \<Rightarrow> nat \<Rightarrow> http_response" where
  "reply_error pre e code = (case e of EPanic t \<Rightarrow> HandlerPanic t | _ \<Rightarrow> http_Error (pre @ err_text e) code)"

fun status_of :: "http_response \<Rightarrow> nat" where
  "status_of (TextResponse s t b) = s"
| "status_of (JSONResponse s j) = s"
| "status_of (HandlerPanic t) = 500"

lemma status_http_Error [simp]: "status_of (http_Error msg code) = code"
  by (simp add: http_Error_def)

lemma status_reply_error [simp]: "status_of (reply_error p e 500) = 500"
  by (simp add: reply_error_def split: goerror.splits)

text \<open>\<open>strings.Trim\<close> with a cutset of one character.\<close>

definition Trim_char :: "char \<Rightarrow> string \<Rightarrow> string" where
  "Trim_char c s = rev (dropWhile (\<lambda>x. x = c) (rev (dropWhile (\<lambda>x. x = c) s)))"

end
