(* ===== verification/WG_Routes.thy ===== *)
theory WG_Routes
  imports WG_Reconciler API_Handlers SMD_Client Go_HTTP
begin

text \<open>
  \<open>cmd/server/wireguard_routes.go\<close> and \<open>wireguard_middleware.go\<close>: the endpoint at which a node asks for a
  WireGuard address (\<open>/wg-init\<close>), the one at which it gives the address up (\<open>/phone-home\<close>), and the
  middleware that admits requests from the WireGuard network only. The handlers work on the
  controller's allocator, the storage, the SMD client and the event bus; a controller that is nil is
  None. \<open>NextAvailable\<close> may not return, so \<open>wg_init\<close> has an option result.
\<close>

section \<open>Environment and state\<close>

record ('b, 'c, 'e) route_env =
  re_store :: "'b store_env"
  re_smd :: "'c SMDClient option"
  re_now :: "'e \<Rightarrow> gotime"
  re_publish :: "api_event \<Rightarrow> 'e \<Rightarrow> goerror option \<times> 'e"
  re_sha256 :: "string \<Rightarrow> byte list"

record ('w, 'b, 'c, 'e) route_state =
  st_ctl :: "'w Controller option"
  st_store :: 'b
  st_smd :: 'c
  st_world :: 'e

section \<open>Helpers\<close>

text \<open>The loop over the parts of the \<open>Forwarded\<close> header.\<close>

fun forwarded_for :: "string list \<Rightarrow> string option" where
  "forwarded_for [] = None"
| "forwarded_for (p # ps) =
     (let q = TrimSpace p in
      if HasPrefix q ''for='' then Some (Trim_char (CHR ''\"'') (Split (CHR ''='') q ! 1)) else forwarded_for ps)"

definition getClientIPFromRequest :: "http_request \<Rightarrow> string" where
  "getClientIPFromRequest r =
     (let xff = hq_header r ''X-Forwarded-For''; fwd = hq_header r ''Forwarded'' in
      if xff \<noteq> '''' then xff
      else (case (if fwd \<noteq> '''' then forwarded_for (Split (CHR '';'') fwd) else None) of
              Some h \<Rightarrow> h
            | None \<Rightarrow> (case SplitHostPort (hq_RemoteAddr r) of Some h \<Rightarrow> h | None \<Rightarrow> '''')))"

definition normalizeWireGuardPublicKey :: "string \<Rightarrow> string result" where
  "normalizeWireGuardPublicKey pubKey =
     (let trimmed = TrimSpace pubKey in
      if trimmed = '''' then Inl (ENew ''public_key is required'')
      else (case b64_decode trimmed of
              None \<Rightarrow> Inl (ENew ''public_key must be valid base64'')
            | Some decoded \<Rightarrow>
                if length decoded \<noteq> 32 then Inl (ENew ''public_key must decode to 32 bytes'')
                else Inr (b64_encode decoded)))"

definition wireGuardPeerUIDFromPublicKey :: "(string \<Rightarrow> byte list) \<Rightarrow> string \<Rightarrow> string result" where
  "wireGuardPeerUIDFromPublicKey sha256 pubKey =
     (case normalizeWireGuardPublicKey pubKey of
        Inl e \<Rightarrow> Inl e
      | Inr normalized \<Rightarrow> Inr (''wireguardpeer-'' @ hex_encode (take 8 (sha256 normalized))))"

text \<open>The allocator of a controller is never nil.\<close>

definition allocateWireGuardPeerCIDR :: "'w Controller option \<Rightarrow> ((string \<times> string) result \<times> 'w Controller option) option" where
  "allocateWireGuardPeerCIDR wgc =
     (case wgc of
        None \<Rightarrow> Some (Inl (ENew ''wireguard allocator unavailable''), wgc)
      | Some c \<Rightarrow>
          (case NextAvailable (IPAllocator c) of
             None \<Rightarrow> None
           | Some (Inl e, a) \<Rightarrow> Some (Inl e, Some (c\<lparr>IPAllocator := a\<rparr>))
           | Some (Inr allocated, a) \<Rightarrow> Some (Inr (IP_String allocated @ ''/32'', IP_String allocated), Some (c\<lparr>IPAllocator := a\<rparr>))))"

definition releaseAllocatedIP :: "'w Controller option \<Rightarrow> string \<Rightarrow> 'w Controller option" where
  "releaseAllocatedIP wgc vpnIP =
     (case wgc of
        None \<Rightarrow> None
      | Some c \<Rightarrow>
          (case ParseIP vpnIP of
             None \<Rightarrow> Some c
           | Some ip \<Rightarrow> Some (c\<lparr>IPAllocator := snd (Release ip (IPAllocator c))\<rparr>)))"

definition vpnIPFromAllowedCIDR :: "string \<Rightarrow> string result" where
  "vpnIPFromAllowedCIDR allowedCIDR =
     (case ParseCIDR allowedCIDR of
        None \<Rightarrow> Inl (EWrap (''invalid allowed_ip '' @ go_quote allowedCIDR @ '': '') (cidr_error allowedCIDR) '''')
      | Some (ip, _) \<Rightarrow> Inr (IP_String ip))"

definition resolveRequesterIdentity :: "'c SMDClient option \<Rightarrow> string \<Rightarrow> 'c \<Rightarrow> string \<times> 'c" where
  "resolveRequesterIdentity smd clientIP c =
     (if smd = None then (clientIP, c)
      else (case ResolveComponentID smd clientIP c of
              (Inr i, c') \<Rightarrow> (if i \<noteq> '''' then i else clientIP, c')
            | (Inl e, c') \<Rightarrow> (clientIP, c')))"

text \<open>\<open>net.ParseIP\<close> of the peer's address, where nil is equal to no address of 4 or 16 bytes.\<close>

fun find_vpn_peer :: "ip \<Rightarrow> WireGuardPeer list \<Rightarrow> string option" where
  "find_vpn_peer target [] = None"
| "find_vpn_peer target (p # ps) =
     (case vpnIPFromAllowedCIDR (wp_AllowedIP (Spec p)) of
        Inl e \<Rightarrow> find_vpn_peer target ps
      | Inr peerIP \<Rightarrow> if IP_Equal target (ip_or_nil peerIP) then Some (md_UID (Meta p)) else find_vpn_peer target ps)"

definition findWireGuardPeerUIDByVPNIP :: "'b store_env \<Rightarrow> string \<Rightarrow> 'b \<Rightarrow> string option result" where
  "findWireGuardPeerUIDByVPNIP env vpnIP b =
     (case LoadAllWireGuardPeers env b of
        Inl e \<Rightarrow> Inl e
      | Inr resources \<Rightarrow>
          (case ParseIP vpnIP of
             None \<Rightarrow> Inl (ENew (''invalid vpn IP '' @ go_quote vpnIP))
           | Some parsedTarget \<Rightarrow> Inr (find_vpn_peer parsedTarget resources)))"

text \<open>
  One of the two ways through SMD: the WireGuard address of a component and the peer that has it.
  None when it leads nowhere and the search goes on.
\<close>

definition peer_of_component :: "'b store_env \<Rightarrow> 'c SMDClient \<Rightarrow> string \<Rightarrow> 'b \<Rightarrow> 'c \<Rightarrow> string result option \<times> 'c" where
  "peer_of_component env smd cid b c =
     (case smd_WGIPfromID smd cid c of
        (r, c') \<Rightarrow>
          (case found_id r of
             None \<Rightarrow> (None, c')
           | Some wgIP \<Rightarrow>
               (case findWireGuardPeerUIDByVPNIP env wgIP b of
                  Inl e \<Rightarrow> (Some (Inl e), c')
                | Inr None \<Rightarrow> (None, c')
                | Inr (Some uid) \<Rightarrow> (Some (Inr uid), c'))))"

definition resolvePhoneHomePeerUID :: "'b store_env \<Rightarrow> 'c SMDClient option \<Rightarrow> string \<Rightarrow> string \<Rightarrow> 'b \<Rightarrow> 'c \<Rightarrow> string result \<times> 'c" where
  "resolvePhoneHomePeerUID env smd routeID clientIP b c =
     (case (if routeID = '''' then None
            else (case LoadWireGuardPeer env routeID b of
                    Inr _ \<Rightarrow> Some (Inr routeID)
                  | Inl e \<Rightarrow> if is_not_found e then None else Some (Inl e))) of
        Some r \<Rightarrow> (r, c)
      | None \<Rightarrow>
          let fallback = (if routeID \<noteq> '''' then Inr routeID else Inl (ENew ''unable to resolve WireGuard peer UID'')) in
          (case smd of
             None \<Rightarrow> (fallback, c)
           | Some B \<Rightarrow>
               (case (if routeID \<noteq> '''' then peer_of_component env B routeID b c else (None, c)) of
                  (Some r, c1) \<Rightarrow> (r, c1)
                | (None, c1) \<Rightarrow>
                    (case ResolveComponentID smd clientIP c1 of
                       (cid, c2) \<Rightarrow>
                         (case found_id cid of
                            None \<Rightarrow> (fallback, c2)
                          | Some componentID \<Rightarrow>
                              (case peer_of_component env B componentID b c2 of
                                 (Some r, c3) \<Rightarrow> (r, c3)
                               | (None, c3) \<Rightarrow> (fallback, c3)))))))"

section \<open>The endpoints\<close>

fun dec_wgInitRequest :: "json \<Rightarrow> string result" where
  "dec_wgInitRequest JNull = Inr ''''"
| "dec_wgInitRequest (JObj fs) = field into_str ''public_key'' fs ''''"
| "dec_wgInitRequest _ = Inl type_error"

definition wgInitResponse :: "string \<Rightarrow> string \<Rightarrow> string \<Rightarrow> string \<Rightarrow> string \<Rightarrow> json" where
  "wgInitResponse peerUID vpnIP serverKey serverIP port =
     JObj [(''message'', JStr ''WireGuard peer allocation accepted''), (''peer-uid'', JStr peerUID), (''client-vpn-ip'', JStr vpnIP),
           (''server-public-key'', JStr serverKey), (''server-ip'', JStr serverIP), (''server-port'', JStr port)]"

definition writeWGInitResponse :: "'w Controller \<Rightarrow> string \<Rightarrow> string \<Rightarrow> http_response" where
  "writeWGInitResponse c peerUID vpnIP =
     JSONResponse 202 (wgInitResponse peerUID vpnIP (PublicKey_of c) (ServerIPString c) (int_str (ListenPort c)))"

text \<open>The resource built for a new peer.\<close>

definition wg_init_peer :: "gotime \<Rightarrow> string \<Rightarrow> string \<Rightarrow> string \<Rightarrow> string \<Rightarrow> WireGuardPeer" where
  "wg_init_peer now requesterID peerUID key allowedCIDR =
     \<lparr>APIVersion = ''v1'', Kind = ''WireGuardPeer'',
      Meta = \<lparr>md_Name = requesterID, md_UID = peerUID, md_Labels = None, md_Annotations = None, md_CreatedAt = now, md_UpdatedAt = now\<rparr>,
      Spec = \<lparr>wp_Description = ''WireGuard peer for '' @ requesterID, wp_PublicKey = key, wp_AllowedIP = allowedCIDR\<rparr>,
      Status = zero_ws\<rparr>"

text \<open>The part of the handler behind the search for an existing peer.\<close>

definition wg_init_new :: "('b, 'c, 'e) route_env \<Rightarrow> http_request \<Rightarrow> string \<Rightarrow> string \<Rightarrow> 'w Controller \<Rightarrow> ('w, 'b, 'c, 'e) route_state \<Rightarrow>
    (http_response \<times> ('w, 'b, 'c, 'e) route_state) option" where
  "wg_init_new env req peerUID key wgc st =
     (let clientIP = getClientIPFromRequest req;
          (requesterID, smd1) = resolveRequesterIdentity (re_smd env) clientIP (st_smd st);
          st1 = st\<lparr>st_smd := smd1\<rparr> in
      case allocateWireGuardPeerCIDR (st_ctl st) of
        None \<Rightarrow> None
      | Some (Inl e, ctl) \<Rightarrow> Some (reply_error ''failed to allocate WireGuard IP: '' e 500, st1\<lparr>st_ctl := ctl\<rparr>)
      | Some (Inr (allowedCIDR, vpnIP), ctl) \<Rightarrow>
          (let peer = wg_init_peer (re_now env (st_world st)) requesterID peerUID key allowedCIDR in
           case WireGuardPeer_Validate peer of
             Some e \<Rightarrow> Some (http_Error (''failed to validate WireGuard peer intent: '' @ err_text e) 400,
                             st1\<lparr>st_ctl := releaseAllocatedIP ctl vpnIP\<rparr>)
           | None \<Rightarrow>
               (case SaveWireGuardPeer (re_store env) peer (st_store st) of
                  (Some e, b) \<Rightarrow> Some (reply_error ''failed to save WireGuard peer intent: '' e 500,
                                       st1\<lparr>st_ctl := releaseAllocatedIP ctl vpnIP, st_store := b\<rparr>)
                | (None, b) \<Rightarrow>
                    (let smd2 = (case re_smd env of
                                   Some B \<Rightarrow> if requesterID \<noteq> '''' \<and> requesterID \<noteq> clientIP then snd (smd_AddWGIP B requesterID vpnIP smd1) else smd1
                                 | None \<Rightarrow> smd1);
                         w = snd (re_publish env (Created ''WireGuardPeer'' (md_UID (Meta peer)) (md_Name (Meta peer))) (st_world st)) in
                     Some (writeWGInitResponse wgc peerUID vpnIP,
                           st\<lparr>st_ctl := ctl, st_store := b, st_smd := smd2, st_world := w\<rparr>)))))"

definition wg_init :: "('b, 'c, 'e) route_env \<Rightarrow> http_request \<Rightarrow> ('w, 'b, 'c, 'e) route_state \<Rightarrow>
    (http_response \<times> ('w, 'b, 'c, 'e) route_state) option" where
  "wg_init env req st =
     (case st_ctl st of
        None \<Rightarrow> Some (http_Error ''wireguard disabled'' 503, st)
      | Some wgc \<Rightarrow>
          (case rbind (rbind (hq_body req) (je_first (json (re_store env)))) dec_wgInitRequest of
             Inl e \<Rightarrow> Some (http_Error ''invalid request'' 400, st)
           | Inr pubKey \<Rightarrow>
               (case normalizeWireGuardPublicKey pubKey of
                  Inl e \<Rightarrow> Some (http_Error (err_text e) 400, st)
                | Inr key \<Rightarrow>
                    (case wireGuardPeerUIDFromPublicKey (re_sha256 env) key of
                       Inl e \<Rightarrow> Some (http_Error (err_text e) 400, st)
                     | Inr peerUID \<Rightarrow>
                         (case LoadWireGuardPeer (re_store env) peerUID (st_store st) of
                            Inr existing \<Rightarrow>
                              (case vpnIPFromAllowedCIDR (wp_AllowedIP (Spec existing)) of
                                 Inl e \<Rightarrow> Some (http_Error (err_text e) 500, st)
                               | Inr vpnIP \<Rightarrow> Some (writeWGInitResponse wgc peerUID vpnIP, st))
                          | Inl e \<Rightarrow>
                              if is_not_found e then wg_init_new env req peerUID key wgc st
                              else Some (reply_error ''failed to check existing peer: '' e 500, st))))))"

text \<open>A panic inside \<open>resolvePhoneHomePeerUID\<close> is not an error the handler could ignore.\<close>

definition phone_home :: "('b, 'c, 'e) route_env \<Rightarrow> http_request \<Rightarrow> ('w, 'b, 'c, 'e) route_state \<Rightarrow> http_response \<times> ('w, 'b, 'c, 'e) route_state" where
  "phone_home env req st =
     (if st_ctl st = None then (http_Error ''wireguard disabled'' 503, st)
      else
        let targetID = hq_param req ''id''; clientIP = getClientIPFromRequest req;
            (r, smd1) = resolvePhoneHomePeerUID (re_store env) (re_smd env) targetID clientIP (st_store st) (st_smd st);
            st1 = st\<lparr>st_smd := smd1\<rparr> in
        case r of
          Inl (EPanic t) \<Rightarrow> (HandlerPanic t, st1)
        | _ \<Rightarrow>
            (let peerUID = (case r of Inr uid \<Rightarrow> uid | Inl e \<Rightarrow> targetID) in
             if peerUID = '''' then (TextResponse 200 '''' '''', st1)
             else
               let existing = LoadWireGuardPeer (re_store env) peerUID (st_store st) in
               if (case existing of Inl e \<Rightarrow> \<not> is_not_found e | Inr _ \<Rightarrow> False)
               then (reply_error ''failed to load WireGuard peer intent: '' (projl existing) 500, st1)
               else (case DeleteWireGuardPeer (re_store env) peerUID (st_store st) of
                       (de, b) \<Rightarrow>
                         if (case de of Some e \<Rightarrow> \<not> is_not_found e | None \<Rightarrow> False)
                         then (reply_error ''failed to delete WireGuard peer intent: '' (the de) 500, st1\<lparr>st_store := b\<rparr>)
                         else (TextResponse 200 '''' '''',
                               (case existing of
                                  Inr peer \<Rightarrow> st1\<lparr>st_store := b,
                                    st_world := snd (re_publish env (DeletedEv ''WireGuardPeer'' (md_UID (Meta peer)) (md_Name (Meta peer))) (st_world st))\<rparr>
                                | Inl _ \<Rightarrow> st1\<lparr>st_store := b\<rparr>)))))"

text \<open>The middleware, with the handler it protects and the writing of a response as parameters.\<close>

definition wireGuardOnlyMiddleware :: "(http_response \<Rightarrow> 'r) \<Rightarrow> 'w Controller option \<Rightarrow> (http_request \<Rightarrow> 'r) \<Rightarrow> http_request \<Rightarrow> 'r" where
  "wireGuardOnlyMiddleware reply wgc serve_next r =
     (case wgc of
        None \<Rightarrow> serve_next r
      | Some c \<Rightarrow>
          (let from = (case SplitHostPort (hq_RemoteAddr r) of Some h \<Rightarrow> h | None \<Rightarrow> hq_RemoteAddr r) in
           case ParseIP from of
             None \<Rightarrow> reply (http_Error ''wireguard-only access required'' 403)
           | Some ip \<Rightarrow> if Contains (Network c) ip then serve_next r
                        else reply (http_Error ''wireguard-only access required'' 403)))"

section \<open>Keys and identifiers\<close>

definition space_end :: "char \<Rightarrow> bool" where
  "space_end c \<longleftrightarrow> c \<in> set (map hd space_seqs) \<or> c \<in> set (map last space_seqs)"

lemma b64_ascii: "c \<in> set (b64_encode bs) \<Longrightarrow> \<not> space_end c"
proof -
  have t: "list_all (\<lambda>n. \<not> space_end (b64_char n)) [0..<64]" by code_simp
  then have "\<not> space_end (b64_char n)" if "n < 64" for n
    using that by (simp add: list_all_iff)
  moreover have "\<not> space_end (CHR ''='')" by code_simp
  ultimately show "c \<in> set (b64_encode bs) \<Longrightarrow> \<not> space_end c"
    by (induction bs rule: b64_encode.induct) (auto simp: sextets)
qed

lemma space_endI: "w \<in> set space_seqs \<Longrightarrow> space_end (hd w)" "w \<in> set space_seqs \<Longrightarrow> space_end (last w)"
  unfolding space_end_def by auto

text \<open>An encoded key has no white space at its ends.\<close>

lemma TrimSpace_b64 [simp]: "TrimSpace (b64_encode bs) = b64_encode bs"
proof -
  have "trim_prefixes space_seqs (b64_encode bs) = b64_encode bs"
  proof (rule trim_prefixes_fix)
    fix w assume w: "w \<in> set space_seqs" "w \<noteq> []"
    show "\<not> prefix w (b64_encode bs)"
    proof
      assume "prefix w (b64_encode bs)"
      with w(2) have "hd w \<in> set (b64_encode bs)" by (cases w) (auto simp: prefix_def)
      with b64_ascii space_endI(1) [OF w(1)] show False by blast
    qed
  qed
  moreover have "trim_prefixes (map rev space_seqs) (rev (b64_encode bs)) = rev (b64_encode bs)"
  proof (rule trim_prefixes_fix)
    fix w assume w: "w \<in> set (map rev space_seqs)" "w \<noteq> []"
    then obtain v where v: "v \<in> set space_seqs" "w = rev v" by auto
    show "\<not> prefix w (rev (b64_encode bs))"
    proof
      assume "prefix w (rev (b64_encode bs))"
      with w(2) have "hd w \<in> set (b64_encode bs)" using set_mono_prefix hd_in_set by fastforce
      then have "last v \<in> set (b64_encode bs)" using v(2) by (simp add: hd_rev)
      with b64_ascii space_endI(2) [OF v(1)] show False by blast
    qed
  qed
  ultimately show ?thesis by (simp add: TrimSpace_def)
qed

lemma b64_encode_empty [simp]: "b64_encode bs = [] \<longleftrightarrow> bs = []"
  by (cases bs rule: b64_encode.cases) auto

text \<open>The normal form of a key: the encoding of 32 bytes, which normalisation leaves alone.\<close>

lemma normalize_result:
  assumes "normalizeWireGuardPublicKey k = Inr n"
  obtains bs where "length bs = 32" "n = b64_encode bs"
  using assms by (auto simp: normalizeWireGuardPublicKey_def Let_def split: if_splits option.splits)

lemma normalize_encoded: "length bs = 32 \<Longrightarrow> normalizeWireGuardPublicKey (b64_encode bs) = Inr (b64_encode bs)"
  by (auto simp: normalizeWireGuardPublicKey_def)

lemma normalize_idem: "normalizeWireGuardPublicKey k = Inr n \<Longrightarrow> normalizeWireGuardPublicKey n = Inr n"
  by (erule normalize_result) (simp add: normalize_encoded)

definition peer_uid :: "(string \<Rightarrow> byte list) \<Rightarrow> string \<Rightarrow> string" where
  "peer_uid sha256 n = ''wireguardpeer-'' @ hex_encode (take 8 (sha256 n))"

lemma uid_of_normalized: "normalizeWireGuardPublicKey k = Inr n \<Longrightarrow> wireGuardPeerUIDFromPublicKey sha256 n = Inr (peer_uid sha256 n)"
  by (simp add: wireGuardPeerUIDFromPublicKey_def normalize_idem peer_uid_def)

definition hex_digits :: string where
  "hex_digits = ''0123456789abcdef''"

lemma hex_char_digit: "n < 16 \<Longrightarrow> hex_char n \<in> set hex_digits"
proof -
  have "list_all (\<lambda>n. hex_char n \<in> set hex_digits) [0..<16]" by code_simp
  then show "n < 16 \<Longrightarrow> hex_char n \<in> set hex_digits" by (simp add: list_all_iff)
qed

lemma hex_encode_shape: "length (hex_encode bs) = 2 * length bs" "set (hex_encode bs) \<subseteq> set hex_digits"
proof -
  show "length (hex_encode bs) = 2 * length bs" by (induction bs) (simp_all add: hex_encode_def hex_byte_def)
  have "set (hex_byte b) \<subseteq> set hex_digits" for b
  proof -
    have "unat b div 16 < 16" using byte_lt_256 [of b] by linarith
    then show ?thesis by (simp add: hex_byte_def hex_char_digit)
  qed
  then show "set (hex_encode bs) \<subseteq> set hex_digits" unfolding hex_encode_def by fastforce
qed

text \<open>The normalised key a request asks for.\<close>

definition request_key :: "('b, 'c, 'e) route_env \<Rightarrow> http_request \<Rightarrow> string result" where
  "request_key env req = rbind (rbind (rbind (hq_body req) (je_first (json (re_store env)))) dec_wgInitRequest) normalizeWireGuardPublicKey"

section \<open>The branches of wg-init\<close>

lemma wg_init_cases:
  assumes "wg_init env req st = Some (resp, st')"
  obtains (refused) "status_of resp \<noteq> 202" "st' = st"
  | (known) c key p vpn where "st_ctl st = Some c" "request_key env req = Inr key"
      "LoadWireGuardPeer (re_store env) (peer_uid (re_sha256 env) key) (st_store st) = Inr p" "vpnIPFromAllowedCIDR (wp_AllowedIP (Spec p)) = Inr vpn"
      "resp = writeWGInitResponse c (peer_uid (re_sha256 env) key) vpn" "st' = st"
  | (fresh) c key e where "st_ctl st = Some c" "request_key env req = Inr key"
      "LoadWireGuardPeer (re_store env) (peer_uid (re_sha256 env) key) (st_store st) = Inl e" "is_not_found e"
      "wg_init_new env req (peer_uid (re_sha256 env) key) key c st = Some (resp, st')"
proof (cases "st_ctl st")
  case None
  with assms refused show ?thesis by (auto simp: wg_init_def)
next
  case c: (Some c)
  show ?thesis
  proof (cases "request_key env req")
    case (Inl e)
    with assms c refused show ?thesis by (auto simp: wg_init_def request_key_def rbind_def split: sum.splits)
  next
    case k: (Inr key)
    then obtain pk where d: "rbind (rbind (hq_body req) (je_first (json (re_store env)))) dec_wgInitRequest = Inr pk"
      and n: "normalizeWireGuardPublicKey pk = Inr key" by (auto simp: request_key_def rbind_def split: sum.splits)
    note u = uid_of_normalized [OF n, of "re_sha256 env"]
    show ?thesis
    proof (cases "LoadWireGuardPeer (re_store env) (peer_uid (re_sha256 env) key) (st_store st)")
      case (Inl e)
      with assms c k d n u refused fresh show ?thesis by (auto simp: wg_init_def split: if_splits)
    next
      case (Inr p)
      note l = this
      show ?thesis
      proof (cases "vpnIPFromAllowedCIDR (wp_AllowedIP (Spec p))")
        case (Inl e)
        with assms c d n u l have "resp = http_Error (err_text e) 500" "st' = st" by (simp_all add: wg_init_def)
        then show ?thesis by (intro refused) simp_all
      next
        case (Inr vpn)
        with assms c d n u l have "resp = writeWGInitResponse c (peer_uid (re_sha256 env) key) vpn" "st' = st" by (simp_all add: wg_init_def)
        with c k l Inr known show ?thesis by blast
      qed
    qed
  qed
qed

lemma wg_init_known:
  assumes "st_ctl st = Some c" "request_key env req = Inr key"
    and "LoadWireGuardPeer (re_store env) (peer_uid (re_sha256 env) key) (st_store st) = Inr p" "vpnIPFromAllowedCIDR (wp_AllowedIP (Spec p)) = Inr vpn"
  shows "wg_init env req st = Some (writeWGInitResponse c (peer_uid (re_sha256 env) key) vpn, st)"
proof -
  obtain pk where "rbind (rbind (hq_body req) (je_first (json (re_store env)))) dec_wgInitRequest = Inr pk"
    and n: "normalizeWireGuardPublicKey pk = Inr key" using assms(2) by (auto simp: request_key_def rbind_def split: sum.splits)
  with assms uid_of_normalized [OF n, of "re_sha256 env"] show ?thesis by (simp add: wg_init_def)
qed

text \<open>The name under which a request's peer is stored, and the peer that the request stores if its key is new.\<close>

definition requester :: "('b, 'c, 'e) route_env \<Rightarrow> http_request \<Rightarrow> ('w, 'b, 'c, 'e) route_state \<Rightarrow> string" where
  "requester env req st = fst (resolveRequesterIdentity (re_smd env) (getClientIPFromRequest req) (st_smd st))"

definition peer_to_store :: "('b, 'c, 'e) route_env \<Rightarrow> http_request \<Rightarrow> 'w Controller \<Rightarrow> ('w, 'b, 'c, 'e) route_state \<Rightarrow> WireGuardPeer option" where
  "peer_to_store env req c st =
     (case (request_key env req, NextAvailable (IPAllocator c)) of
        (Inr key, Some (Inr i, _)) \<Rightarrow>
          Some (wg_init_peer (re_now env (st_world st)) (requester env req st) (peer_uid (re_sha256 env) key) key (IP_String i @ ''/32''))
      | _ \<Rightarrow> None)"

lemma wg_init_new_cases:
  assumes "wg_init_new env req uid key c st = Some (resp, st')" "st_ctl st = Some c"
  obtains (full) e a where "NextAvailable (IPAllocator c) = Some (Inl e, a)" "status_of resp \<noteq> 202"
      "st_ctl st' = Some (c\<lparr>IPAllocator := a\<rparr>)" "st_store st' = st_store st" "st_world st' = st_world st"
  | (undone) i a where "NextAvailable (IPAllocator c) = Some (Inr i, a)" "status_of resp \<noteq> 202"
      "st_ctl st' = releaseAllocatedIP (Some (c\<lparr>IPAllocator := a\<rparr>)) (IP_String i)" "st_world st' = st_world st"
  | (accepted) i a name where "NextAvailable (IPAllocator c) = Some (Inr i, a)"
      "WireGuardPeer_Validate (wg_init_peer (re_now env (st_world st)) name uid key (IP_String i @ ''/32'')) = None"
      "SaveWireGuardPeer (re_store env) (wg_init_peer (re_now env (st_world st)) name uid key (IP_String i @ ''/32'')) (st_store st) = (None, st_store st')"
      "st_ctl st' = Some (c\<lparr>IPAllocator := a\<rparr>)" "resp = writeWGInitResponse c uid (IP_String i)" "name = requester env req st"
proof -
  obtain r a where na: "NextAvailable (IPAllocator c) = Some (r, a)"
    using assms by (cases "NextAvailable (IPAllocator c)") (auto simp: wg_init_new_def allocateWireGuardPeerCIDR_def Let_def split: prod.splits)
  obtain name smd1 where id: "resolveRequesterIdentity (re_smd env) (getClientIPFromRequest req) (st_smd st) = (name, smd1)" by fastforce
  show ?thesis
  proof (cases r)
    case (Inl e)
    with assms na id show ?thesis by (intro full [of e a]) (auto simp: wg_init_new_def allocateWireGuardPeerCIDR_def)
  next
    case r: (Inr i)
    let ?p = "wg_init_peer (re_now env (st_world st)) name uid key (IP_String i @ ''/32'')"
    show ?thesis
    proof (cases "WireGuardPeer_Validate ?p")
      case (Some e)
      with assms na id r show ?thesis by (intro undone [of i a]) (auto simp: wg_init_new_def allocateWireGuardPeerCIDR_def)
    next
      case v: None
      obtain se b where s: "SaveWireGuardPeer (re_store env) ?p (st_store st) = (se, b)" by fastforce
      show ?thesis
      proof (cases se)
        case (Some e)
        with assms na id r v s show ?thesis by (intro undone [of i a]) (auto simp: wg_init_new_def allocateWireGuardPeerCIDR_def)
      next
        case None
        with assms na id r v s show ?thesis by (intro accepted [of i a name]) (auto simp: wg_init_new_def allocateWireGuardPeerCIDR_def requester_def Let_def)
      qed
    qed
  qed
qed


lemma vpn_of_cidr: "length i = 4 \<Longrightarrow> vpnIPFromAllowedCIDR (ipv4_str i @ ''/32'') = Inr (ipv4_str i)"
proof -
  assume "length i = 4"
  moreover have "nat_str 32 = ''32''" by code_simp
  ultimately show ?thesis using ParseCIDR_v4 [of i 32] by (simp add: vpnIPFromAllowedCIDR_def)
qed

section \<open>Properties\<close>

lemma LoadWireGuardPeer_found:
  assumes "backend_ok be view" "Backend env = Some be"
  shows "LoadWireGuardPeer env u b = Inr p \<longleftrightarrow> typed (json env) WireGuardPeer_kind (view b) u = Some p"
  using Load_res_found [OF assms] by (simp add: LoadWireGuardPeer_def)

text \<open>The peer \<open>wg_init\<close> saved is the one that is loaded afterwards.\<close>

lemma saved_peer_is_loaded:
  assumes "backend_ok be view" "Backend env = Some be" "storable (json env) WireGuardPeer_kind p"
    and "SaveWireGuardPeer env p b = (None, b')"
  shows "LoadWireGuardPeer env (md_UID (Meta p)) b' = Inr p"
  using wp_kind.Save_res_ok(2) [OF assms(1,2) _ assms(3)] assms(4)
  by (simp add: LoadWireGuardPeer_found [OF assms(1,2)] SaveWireGuardPeer_def)

text \<open>
  C13 (equivalence). Asking again is answered from the storage: after \<open>/wg-init\<close> accepted a key, any
  request with an equivalent key (the same 32 bytes, whatever the white space, line breaks or padding
  bits of its text) gets the same answer, and nothing changes: no second address is taken, nothing is
  written and no event is published. It is assumed that the storage backend keeps its contract and that the
  JSON package reads back the one peer the first request stores (its name, from SMD, must be valid UTF-8).
\<close>

theorem wg_init_idempotent:
  assumes "backend_ok be view" "Backend (re_store env) = Some be"
    and "\<forall>p. peer_to_store env req c st = Some p \<longrightarrow> storable (json (re_store env)) WireGuardPeer_kind p"
    and "st_ctl st = Some c" "wf_v4 n (IPAllocator c)"
    and "wg_init env req st = Some (resp, st')" "status_of resp = 202"
    and "request_key env req' = request_key env req"
  shows "wg_init env req' st' = Some (resp, st')"
  using assms(6)
proof (cases rule: wg_init_cases)
  case (known c' key p vpn)
  with wg_init_known [of st' c' env req' key p vpn] assms(8) show ?thesis by simp
next
  case (fresh c' key e)
  with assms(4) have c: "c' = c" by simp
  note new = fresh(5) [unfolded c]
  from new assms(4) show ?thesis
  proof (cases rule: wg_init_new_cases)
    case (accepted i a name)
    let ?uid = "peer_uid (re_sha256 env) key"
    have v4: "length i = 4" by (rule NextAvailable_v4 [OF assms(5) accepted(1)])
    have "LoadWireGuardPeer (re_store env) ?uid (st_store st') = Inr (wg_init_peer (re_now env (st_world st)) name ?uid key (IP_String i @ ''/32''))"
      using saved_peer_is_loaded [OF assms(1,2) _ accepted(3)] assms(3) accepted(1,6) fresh(2) by (simp add: peer_to_store_def wg_init_peer_def)
    moreover have "vpnIPFromAllowedCIDR (IP_String i @ ''/32'') = Inr (IP_String i)" using v4 by (simp add: vpn_of_cidr)
    ultimately have "wg_init env req' st' = Some (writeWGInitResponse (c\<lparr>IPAllocator := a\<rparr>) ?uid (IP_String i), st')"
      using wg_init_known [OF accepted(4)] fresh(2) assms(8) by (simp add: wg_init_peer_def)
    then show ?thesis using accepted(5)
      by (simp add: writeWGInitResponse_def PublicKey_of_def ServerIPString_def ListenPort_def)
  qed (use assms(7) in simp_all)
qed (use assms(7) in simp)


text \<open>The reconciler takes the peer of a normalised key.\<close>

lemma wg_init_peer_intent:
  assumes "length i = 4" "length bs = 32"
  shows "intent_ok (wg_init_peer now name uid (b64_encode bs) (ipv4_str i @ ''/32''))"
proof -
  have "ParseCIDR (ipv4_str i @ ''/32'') \<noteq> None" using vpn_of_cidr [OF assms(1)] by (auto simp: vpnIPFromAllowedCIDR_def split: option.splits)
  then show ?thesis using assms(2) by (auto simp: intent_ok_def wg_init_peer_def)
qed

text \<open>
  What \<open>/wg-init\<close> stores for a new key is well formed: the UID is \<open>wireguardpeer-\<close> with 16
  hexadecimal digits, the key is the canonical text of 32 bytes, the allowed address is one IPv4 address
  of the network with the prefix 32, the resource passes its validation, and the reconciler takes it. It is assumed that
  the storage backend keeps its contract, that a digest has at least eight bytes, and that the JSON package reads back
  the one peer that is stored (its name, from SMD, must be valid UTF-8).
\<close>

theorem wg_init_stores_well_formed_peer:
  assumes "backend_ok be view" "Backend (re_store env) = Some be"
    and "\<forall>p. peer_to_store env req c st = Some p \<longrightarrow> storable (json (re_store env)) WireGuardPeer_kind p"
    and "\<forall>s. 8 \<le> length (re_sha256 env s)"
    and "st_ctl st = Some c" "wf_v4 n (IPAllocator c)" "request_key env req = Inr key"
    and "LoadWireGuardPeer (re_store env) (peer_uid (re_sha256 env) key) (st_store st) = Inl e"
    and "wg_init env req st = Some (resp, st')" "status_of resp = 202"
  shows "\<exists>p i bs h. LoadWireGuardPeer (re_store env) (''wireguardpeer-'' @ h) (st_store st') = Inr p \<and> md_UID (Meta p) = ''wireguardpeer-'' @ h \<and>
    length h = 16 \<and> set h \<subseteq> set hex_digits \<and> length bs = 32 \<and> wp_PublicKey (Spec p) = b64_encode bs \<and>
    wp_AllowedIP (Spec p) = ipv4_str i @ ''/32'' \<and> length i = 4 \<and> Contains (network (IPAllocator c)) i \<and>
    WireGuardPeer_Validate p = None \<and> intent_ok p"
  using assms(9)
proof (cases rule: wg_init_cases)
  case (fresh c0 key0 e0)
  with assms(5,7) have new: "wg_init_new env req (peer_uid (re_sha256 env) key) key c st = Some (resp, st')" by simp
  obtain pk where "normalizeWireGuardPublicKey pk = Inr key" using assms(7) by (auto simp: request_key_def rbind_def split: sum.splits)
  then obtain bs where bs: "length bs = 32" "key = b64_encode bs" by (rule normalize_result)
  from new assms(5) show ?thesis
  proof (cases rule: wg_init_new_cases)
    case (accepted i a name)
    let ?h = "hex_encode (take 8 (re_sha256 env key))"
    let ?p = "wg_init_peer (re_now env (st_world st)) name (peer_uid (re_sha256 env) key) key (IP_String i @ ''/32'')"
    have v4: "length i = 4" by (rule NextAvailable_v4 [OF assms(6) accepted(1)])
    have l: "LoadWireGuardPeer (re_store env) (''wireguardpeer-'' @ ?h) (st_store st') = Inr ?p"
      using saved_peer_is_loaded [OF assms(1,2) _ accepted(3)] assms(3,7) accepted(1,6) by (simp add: peer_to_store_def wg_init_peer_def peer_uid_def)
    have h: "length ?h = 16" "set ?h \<subseteq> set hex_digits" using assms(4) by (simp_all add: hex_encode_shape)
    have "intent_ok ?p" using wg_init_peer_intent [OF v4 bs(1)] bs(2) v4 by simp
    moreover have "Contains (network (IPAllocator c)) i" using NextAvailable_result [OF accepted(1)] by auto
    ultimately have "LoadWireGuardPeer (re_store env) (''wireguardpeer-'' @ ?h) (st_store st') = Inr ?p \<and> md_UID (Meta ?p) = ''wireguardpeer-'' @ ?h \<and>
      length ?h = 16 \<and> set ?h \<subseteq> set hex_digits \<and> length bs = 32 \<and> wp_PublicKey (Spec ?p) = b64_encode bs \<and>
      wp_AllowedIP (Spec ?p) = ipv4_str i @ ''/32'' \<and> length i = 4 \<and> Contains (network (IPAllocator c)) i \<and>
      WireGuardPeer_Validate ?p = None \<and> intent_ok ?p"
      using l h bs v4 accepted(2) by (simp add: wg_init_peer_def peer_uid_def)
    then show ?thesis by blast
  qed (use assms(10) in simp_all)
qed (use assms in simp_all)

text \<open>An instance: no SMD, a clock that stands still, a constant digest and a counter of published events.\<close>

definition route0 :: "(mem, unit, nat) route_env" where
  "route0 = \<lparr>re_store = store0, re_smd = None, re_now = (\<lambda>_. 5), re_publish = (\<lambda>_ n. (None, n + 1)), re_sha256 = (\<lambda>_. replicate 32 171)\<rparr>"

definition rst0 :: "(string list, mem, unit, nat) route_state" where
  "rst0 = \<lparr>st_ctl = Some ctl0, st_store = [], st_smd = (), st_world = 0\<rparr>"

definition key0 :: string where
  "key0 = b64_encode (replicate 32 0)"

definition wg_req :: "string \<Rightarrow> http_request" where
  "wg_req k = \<lparr>hq_header = (\<lambda>_. ''''), hq_RemoteAddr = ''10.1.0.9:5000'', hq_param = (\<lambda>_. ''''),
     hq_body = Inr (nat_str (to_nat (JObj [(''public_key'', JStr k)])))\<rparr>"

lemma request_key0: "request_key route0 (wg_req k) = normalizeWireGuardPublicKey k"
proof -
  have "field into_str ''public_key'' [(''public_key'', JStr k)] '''' = Inr k"
    by (simp add: field_def field_values_def EqualFold_def)
  then show ?thesis by (simp add: request_key_def wg_req_def route0_def store0_def json0_def)
qed

lemma normalize_key0: "normalizeWireGuardPublicKey key0 = Inr key0" "normalizeWireGuardPublicKey ('' '' @ key0 @ nl) = Inr key0"
  unfolding key0_def by (rule normalize_encoded, simp) code_simp

lemma storable_wg_init0: "0 \<le> now \<Longrightarrow> storable json0 WireGuardPeer_kind (wg_init_peer now name uid key cidr)"
  by (rule storable0) (simp add: wg_init_peer_def plain_meta_def)

lemma wg_init0:
  obtains st' where "wg_init route0 (wg_req key0) rst0 = Some (writeWGInitResponse ctl0 (peer_uid (re_sha256 route0) key0) ''10.0.0.2'', st')"
proof -
  let ?uid = "peer_uid (re_sha256 route0) key0"
  let ?p = "wg_init_peer 5 ''10.1.0.9'' ?uid key0 ''10.0.0.2/32''"
  have ip: "getClientIPFromRequest (wg_req key0) = ''10.1.0.9''" unfolding getClientIPFromRequest_def wg_req_def by code_simp
  obtain d where "Marshal json0 WireGuardPeer_kind ?p = Inr d"
    using wp_kind.Unmarshal_Marshal [OF _ storable_wg_init0, of 5 "''10.1.0.9''" ?uid key0 "''10.0.0.2/32''"] by auto
  then have s: "SaveWireGuardPeer store0 ?p [] = (None, [(''WireGuardPeer'', ?uid, d)])"
    by (simp add: SaveWireGuardPeer_def Save_res_def ensureBackend_def write_res_def store0_def mem_backend_def WireGuardPeer_kind_def wg_init_peer_def)
  have v: "WireGuardPeer_Validate ?p = None"
    using vpn_of_cidr [of "[10, 0, 0, 2]"] by (auto simp: WireGuardPeer_Validate_def wg_init_peer_def key0_def vpnIPFromAllowedCIDR_def dec_strings split: option.splits)
  have "LoadWireGuardPeer store0 ?uid [] = Inl (EWrap (''failed to load WireGuardPeer '' @ ?uid @ '': '') (ENotFound ''not found'') '''')"
    by (simp add: LoadWireGuardPeer_def Load_res_def ensureBackend_def store0_def mem_backend_def mem_view_def WireGuardPeer_kind_def)
  moreover have "re_sha256 route0 = (\<lambda>_. replicate 32 171)" by (simp add: route0_def)
  moreover obtain pk where "rbind (rbind (hq_body (wg_req key0)) (je_first json0)) dec_wgInitRequest = Inr pk" "normalizeWireGuardPublicKey pk = Inr key0"
    using request_key0 [of key0] normalize_key0(1) by (auto simp: request_key_def route0_def store0_def rbind_def split: sum.splits)
  ultimately show thesis
    using that ip s v uid_of_normalized [OF normalize_key0(1), of "re_sha256 route0"]
    by (auto simp: wg_init_def wg_init_new_def rst0_def route0_def store0_def resolveRequesterIdentity_def allocateWireGuardPeerCIDR_def
        ctl0_def NextAvailable_pool30 dec_strings Let_def)
qed

lemma route0_facts: "Backend (re_store route0) = Some mem_backend" "re_store route0 = store0" "json store0 = json0" "st_ctl rst0 = Some ctl0"
  "wf_v4 30 (IPAllocator ctl0)" "re_now route0 w = 5"
  by (simp_all add: route0_def store0_def rst0_def ctl0_def wf_pool30)

lemma stored_peer_storable0: "\<forall>p. peer_to_store route0 (wg_req key0) ctl0 rst0 = Some p \<longrightarrow> storable (json (re_store route0)) WireGuardPeer_kind p"
  using storable_wg_init0 by (auto simp: peer_to_store_def route0_facts split: sum.splits option.splits)

theorem wg_init_idempotent_witness:
  "\<exists>resp st'. wg_init route0 (wg_req key0) rst0 = Some (resp, st') \<and> status_of resp = 202 \<and> wg_init route0 (wg_req ('' '' @ key0 @ nl)) st' = Some (resp, st')"
proof -
  obtain st' where w: "wg_init route0 (wg_req key0) rst0 = Some (writeWGInitResponse ctl0 (peer_uid (re_sha256 route0) key0) ''10.0.0.2'', st')"
    by (rule wg_init0)
  have a: "status_of (writeWGInitResponse ctl0 (peer_uid (re_sha256 route0) key0) ''10.0.0.2'') = 202" by (simp add: writeWGInitResponse_def)
  have k: "request_key route0 (wg_req ('' '' @ key0 @ nl)) = request_key route0 (wg_req key0)"
    unfolding request_key0 normalize_key0 ..
  have s: "\<forall>p. peer_to_store route0 (wg_req key0) ctl0 rst0 = Some p \<longrightarrow> storable (json (re_store route0)) WireGuardPeer_kind p"
    by (rule stored_peer_storable0)
  from wg_init_idempotent [OF mem_backend_ok route0_facts(1) s route0_facts(4,5) w a k] w a show ?thesis by blast
qed


theorem wg_init_stores_well_formed_peer_witness:
  "\<exists>resp st' h p. wg_init route0 (wg_req key0) rst0 = Some (resp, st') \<and>
     LoadWireGuardPeer store0 (''wireguardpeer-'' @ h) (st_store st') = Inr p \<and> intent_ok p"
proof -
  obtain st' where w: "wg_init route0 (wg_req key0) rst0 = Some (writeWGInitResponse ctl0 (peer_uid (re_sha256 route0) key0) ''10.0.0.2'', st')"
    by (rule wg_init0)
  have a: "status_of (writeWGInitResponse ctl0 (peer_uid (re_sha256 route0) key0) ''10.0.0.2'') = 202" by (simp add: writeWGInitResponse_def)
  have s: "\<forall>p. peer_to_store route0 (wg_req key0) ctl0 rst0 = Some p \<longrightarrow> storable (json (re_store route0)) WireGuardPeer_kind p"
    by (rule stored_peer_storable0)
  have h: "\<forall>s. 8 \<le> length (re_sha256 route0 s)" by (simp add: route0_def)
  have k: "request_key route0 (wg_req key0) = Inr key0" by (simp add: request_key0 normalize_key0)
  have l: "LoadWireGuardPeer (re_store route0) (peer_uid (re_sha256 route0) key0) (st_store rst0) =
    Inl (EWrap (''failed to load WireGuardPeer '' @ peer_uid (re_sha256 route0) key0 @ '': '') (ENotFound ''not found'') '''')"
    by (simp add: route0_facts rst0_def LoadWireGuardPeer_def Load_res_def ensureBackend_def store0_def mem_backend_def mem_view_def WireGuardPeer_kind_def)
  from wg_init_stores_well_formed_peer [OF mem_backend_ok route0_facts(1) s h route0_facts(4,5) k l w a] w show ?thesis
    unfolding route0_facts(2) by blast
qed

end
