(* ===== verification/Cloud_Init.thy ===== *)
theory Cloud_Init
  imports Storage SMD_Client Go_HTTP
begin

text \<open>
  The endpoints a booting node reads: \<open>pkg/handlers/metadata.go\<close> and \<open>cmd/server/cloudinit_routes.go\<close>.
  A handler finds the node by the address of the request, asks SMD for its data and the storage for the
  cluster defaults, the instance and the groups, and answers with a text. The queries may change the
  state of the SMD client (its caches); the storage is only read. pongo2 and yaml.v3 are fields of
  \<open>ci_env\<close>; a nil pointer is None and using it is a panic. Log messages are left out.
\<close>

section \<open>Data\<close>

record CI_ClusterDefaults =
  cc_BaseURL :: string
  cc_CloudProvider :: string
  cc_Region :: string
  cc_AvailabilityZone :: string
  cc_ClusterName :: string
  cc_ShortName :: string
  cc_NidLength :: int
  cc_PublicKeys :: "string list"

record CI_InstanceInfo =
  ci_InstanceID :: string
  ci_LocalHostname :: string
  ci_Hostname :: string
  ci_CloudInitBaseURL :: string
  ci_PublicKeys :: "string list"

record VendorData =
  vd_Version :: string
  vd_CloudInitBaseURL :: string
  vd_ClusterName :: string
  vd_Nid :: int
  vd_Role :: string
  vd_MAC :: string
  vd_Interfaces :: "dict list"
  vd_Groups :: "string \<rightharpoonup> dict"

record InstanceData =
  id_CloudName :: string
  id_AvailabilityZone :: string
  id_InstanceID :: string
  id_InstanceType :: string
  id_LocalHostname :: string
  id_Region :: string
  id_Hostname :: string
  id_LocalIPv4 :: string
  id_CloudProvider :: string
  id_PublicKeys :: "string list"
  id_VendorData :: VendorData

record MetaData =
  mt_InstanceID :: string
  mt_LocalHostname :: string
  mt_Hostname :: string
  mt_ClusterName :: string
  mt_InstanceData :: InstanceData

definition zero_defaults :: CI_ClusterDefaults where
  "zero_defaults = \<lparr>cc_BaseURL = '''', cc_CloudProvider = '''', cc_Region = '''', cc_AvailabilityZone = '''', cc_ClusterName = '''',
     cc_ShortName = '''', cc_NidLength = 0, cc_PublicKeys = []\<rparr>"

definition zero_instance :: CI_InstanceInfo where
  "zero_instance = \<lparr>ci_InstanceID = '''', ci_LocalHostname = '''', ci_Hostname = '''', ci_CloudInitBaseURL = '''', ci_PublicKeys = []\<rparr>"

text \<open>The interface the handlers read the storage through.\<close>

record 'b Store =
  sr_GetClusterDefaults :: "'b \<Rightarrow> CI_ClusterDefaults option result"
  sr_GetInstanceInfo :: "string \<Rightarrow> 'b \<Rightarrow> CI_InstanceInfo option result"
  sr_GetGroupData :: "string \<Rightarrow> 'b \<Rightarrow> Group option result"

record ci_env =
  ce_yaml_meta :: "MetaData \<Rightarrow> string result"
  ce_yaml_read :: "string \<Rightarrow> dict result"
  ce_yaml_dict :: "dict \<Rightarrow> string result"
  ce_tmpl :: template_env

section \<open>The storage adapter\<close>

definition latestClusterDefaults :: "ClusterDefaults list \<Rightarrow> ClusterDefaults" where
  "latestClusterDefaults rs =
     foldl (\<lambda>latest r. if md_UpdatedAt (Meta r) > md_UpdatedAt (Meta latest) then r else latest) (hd rs) (tl rs)"

text \<open>The loop of the other two: the entries that do not match are skipped.\<close>

definition latest_matching :: "(('sp, 'st) resource \<Rightarrow> bool) \<Rightarrow> ('sp, 'st) resource list \<Rightarrow> ('sp, 'st) resource option" where
  "latest_matching match rs =
     foldl (\<lambda>latest r.
        if \<not> match r then latest
        else (case latest of
                None \<Rightarrow> Some r
              | Some l \<Rightarrow> if md_UpdatedAt (Meta r) > md_UpdatedAt (Meta l) then Some r else latest)) None rs"

definition latestInstanceInfoByName :: "InstanceInfo list \<Rightarrow> string \<Rightarrow> InstanceInfo option" where
  "latestInstanceInfoByName rs i = latest_matching (\<lambda>r. \<not> (md_Name (Meta r) \<noteq> i \<and> ii_InstanceID (Spec r) \<noteq> i)) rs"

definition latestGroupByName :: "Group list \<Rightarrow> string \<Rightarrow> Group option" where
  "latestGroupByName rs name = latest_matching (\<lambda>r. md_Name (Meta r) = name) rs"

definition Adapter_GetClusterDefaults :: "'b store_env \<Rightarrow> 'b \<Rightarrow> CI_ClusterDefaults option result" where
  "Adapter_GetClusterDefaults env b =
     (case LoadAllClusterDefaultss env b of
        Inl e \<Rightarrow> Inl e
      | Inr rs \<Rightarrow>
          if rs = [] then Inr None
          else let cd = Spec (latestClusterDefaults rs) in
            Inr (Some \<lparr>cc_BaseURL = cd_BaseURL cd, cc_CloudProvider = cd_CloudProvider cd, cc_Region = cd_Region cd,
                   cc_AvailabilityZone = cd_AvailabilityZone cd, cc_ClusterName = cd_ClusterName cd, cc_ShortName = cd_ShortName cd,
                   cc_NidLength = cd_NidLength cd, cc_PublicKeys = cd_PublicKeys cd\<rparr>))"

definition Adapter_GetInstanceInfo :: "'b store_env \<Rightarrow> string \<Rightarrow> 'b \<Rightarrow> CI_InstanceInfo option result" where
  "Adapter_GetInstanceInfo env i b =
     (case LoadAllInstanceInfos env b of
        Inl e \<Rightarrow> Inl e
      | Inr rs \<Rightarrow>
          (case latestInstanceInfoByName rs i of
             None \<Rightarrow> Inl (ENew (''no instance info for '' @ i))
           | Some ii \<Rightarrow>
               Inr (Some \<lparr>ci_InstanceID = ii_InstanceID (Spec ii), ci_LocalHostname = ii_LocalHostname (Spec ii),
                      ci_Hostname = ii_Hostname (Spec ii), ci_CloudInitBaseURL = ii_CloudInitBaseURL (Spec ii),
                      ci_PublicKeys = ii_PublicKeys (Spec ii)\<rparr>)))"

definition Adapter_GetGroupData :: "'b store_env \<Rightarrow> (strmap \<Rightarrow> string list) \<Rightarrow> string \<Rightarrow> 'b \<Rightarrow> Group option result" where
  "Adapter_GetGroupData env keys name b =
     (case LoadAllGroups env keys b of
        Inl e \<Rightarrow> Inl e
      | Inr rs \<Rightarrow>
          (case latestGroupByName rs name of
             None \<Rightarrow> Inl (ENew (''no data for group '' @ name))
           | Some g \<Rightarrow> Inr (Some g)))"

definition NewStorageAdapter :: "'b store_env \<Rightarrow> (strmap \<Rightarrow> string list) \<Rightarrow> 'b Store" where
  "NewStorageAdapter env keys =
     \<lparr>sr_GetClusterDefaults = Adapter_GetClusterDefaults env, sr_GetInstanceInfo = Adapter_GetInstanceInfo env,
      sr_GetGroupData = Adapter_GetGroupData env keys\<rparr>"

section \<open>Hostnames and interfaces\<close>

text \<open>
  \<open>fmt\<close> with the verb \<open>%0*d\<close>: zeros on the left up to the width, the sign counted; a negative width means
  blanks on the right, and a width of more than a million is not used.
\<close>

definition fmt_padded :: "int \<Rightarrow> int \<Rightarrow> string" where
  "fmt_padded w n =
     (if w > 1000000 \<or> w < - 1000000 then ''%!(BADWIDTH)'' @ int_str n
      else if w < 0 then int_str n @ replicate (nat (- w) - length (int_str n)) (CHR '' '')
      else if n < 0 then CHR ''-'' # replicate (nat w - 1 - length (nat_str (nat (- n)))) (CHR ''0'') @ nat_str (nat (- n))
      else replicate (nat w - length (nat_str (nat n))) (CHR ''0'') @ nat_str (nat n))"

definition generateHostname :: "string \<Rightarrow> string \<Rightarrow> int \<Rightarrow> Component \<Rightarrow> string" where
  "generateHostname clusterName shortName nidLength node =
     (let sname = (if shortName = '''' then (if length clusterName \<ge> 2 then take 2 clusterName else clusterName) else shortName);
          nlen = (if nidLength = 0 then 4 else nidLength) in
      sname @ fmt_padded nlen (comp_NID node))"

text \<open>The map from MAC addresses keeps the last interface.\<close>

definition iface_by_mac :: "EthernetInterface list \<Rightarrow> string \<rightharpoonup> EthernetInterface" where
  "iface_by_mac ifaces = assign_all (map (\<lambda>f. (if_MACAddress f, f)) ifaces) Map.empty"

definition interface_data :: "(string \<rightharpoonup> EthernetInterface) \<Rightarrow> nat \<Rightarrow> EthernetNIC \<Rightarrow> dict" where
  "interface_data ifaceMap idx nic =
     (let base = [''name'' \<mapsto> AStr (''eth'' @ nat_str idx), ''mac'' \<mapsto> AStr (nic_MACAddress nic), ''description'' \<mapsto> AStr (nic_Description nic),
                  ''enabled'' \<mapsto> ABool (nic_InterfaceEnabled nic), ''redfishid'' \<mapsto> AStr (nic_RedfishID nic)] in
      case ifaceMap (nic_MACAddress nic) of
        None \<Rightarrow> base
      | Some iface \<Rightarrow>
          (case if_IPAddresses iface of
             [] \<Rightarrow> base
           | m # ms \<Rightarrow>
               (let d = base(''ip'' \<mapsto> AStr (map_IPAddress m), ''network'' \<mapsto> AStr (map_Network m)) in
                if ms = [] then d
                else d(''ip_addresses'' \<mapsto>
                  AStrMaps (map (\<lambda>x. [''ip'' \<mapsto> map_IPAddress x, ''network'' \<mapsto> map_Network x]) (m # ms))))))"

definition buildInterfacesArray :: "EthernetNIC list \<Rightarrow> EthernetInterface list \<Rightarrow> dict list" where
  "buildInterfacesArray nics ifaces =
     map (\<lambda>(idx, nic). interface_data (iface_by_mac ifaces) idx nic) (enumerate 0 nics)"

section \<open>Metadata\<close>

text \<open>An error that stands for a panic ends the computation; other errors are values the code looks at.\<close>

definition unpanic :: "'a result \<Rightarrow> 'a result result" where
  "unpanic r = (case r of Inl (EPanic t) \<Rightarrow> Inl (EPanic t) | _ \<Rightarrow> Inr r)"

definition nil_deref :: goerror where
  "nil_deref = EPanic ''runtime error: invalid memory address or nil pointer dereference''"

text \<open>\<open>err != nil || x == nil\<close>, where the zero value is used instead.\<close>

definition or_zero :: "'a \<Rightarrow> 'a option result \<Rightarrow> 'a" where
  "or_zero z r = (case r of Inr (Some x) \<Rightarrow> x | _ \<Rightarrow> z)"

definition or_else :: "string \<Rightarrow> string \<Rightarrow> string" where
  "or_else s d = (if s \<noteq> '''' then s else d)"

definition group_meta :: "Group option result \<Rightarrow> dict" where
  "group_meta r =
     (case r of
        Inr (Some g) \<Rightarrow> MergeMetadata [''description'' \<mapsto> AStr (g_Description (Spec g))] (g_MetaData (Spec g))
      | _ \<Rightarrow> Map.empty)"

fun vendor_groups :: "'b Store \<Rightarrow> 'b \<Rightarrow> string list \<Rightarrow> (string \<rightharpoonup> dict) \<Rightarrow> (string \<rightharpoonup> dict) result" where
  "vendor_groups store b [] m = Inr m"
| "vendor_groups store b (name # names) m =
     rbind (unpanic (sr_GetGroupData store name b)) (\<lambda>r. vendor_groups store b names (m(name \<mapsto> group_meta r)))"

text \<open>A lookup whose error is ignored: the zero value is left.\<close>

definition or_empty_list :: "'a list result \<Rightarrow> 'a list" where
  "or_empty_list r = (case r of Inr xs \<Rightarrow> xs | Inl _ \<Rightarrow> [])"

definition or_empty_str :: "string result \<Rightarrow> string" where
  "or_empty_str r = (case r of Inr s \<Rightarrow> s | Inl _ \<Rightarrow> '''')"

definition generateMetaData :: "'c SMDClient \<Rightarrow> Component \<Rightarrow> string list \<Rightarrow> string \<Rightarrow> string \<Rightarrow> 'b Store \<Rightarrow> 'b \<Rightarrow> 'c \<Rightarrow> MetaData result \<times> 'c" where
  "generateMetaData smd node gs bootIP bootMAC store b c =
     (let (nics, c1) = smd_EthernetNICInfo smd (comp_ID node) c;
          (ifaces, c2) = smd_EthernetInterfaces smd (comp_ID node) c1 in
      case rbind (unpanic (sr_GetClusterDefaults store b)) (\<lambda>rd.
           rbind (unpanic (sr_GetInstanceInfo store (comp_ID node) b)) (\<lambda>ri.
           rbind (vendor_groups store b gs Map.empty) (\<lambda>vg. Inr (or_zero zero_defaults rd, or_zero zero_instance ri, vg)))) of
        Inl p \<Rightarrow> (Inl p, c)
      | Inr (cd, ii, vg) \<Rightarrow>
          (let host_name = generateHostname (cc_ClusterName cd) (cc_ShortName cd) (cc_NidLength cd) node;
               iid = or_else (ci_InstanceID ii) (comp_ID node);
               lhost = or_else (ci_LocalHostname ii) host_name;
               hname = or_else (ci_Hostname ii) host_name in
           (Inr \<lparr>mt_InstanceID = iid, mt_LocalHostname = lhost, mt_Hostname = hname, mt_ClusterName = cc_ClusterName cd,
              mt_InstanceData =
                \<lparr>id_CloudName = ''OpenCHAMI'', id_AvailabilityZone = cc_AvailabilityZone cd, id_InstanceID = iid, id_InstanceType = '''',
                 id_LocalHostname = lhost, id_Region = cc_Region cd, id_Hostname = hname, id_LocalIPv4 = bootIP,
                 id_CloudProvider = cc_CloudProvider cd, id_PublicKeys = cc_PublicKeys cd @ ci_PublicKeys ii,
                 id_VendorData =
                   \<lparr>vd_Version = ''1.0'', vd_CloudInitBaseURL = or_else (ci_CloudInitBaseURL ii) (cc_BaseURL cd),
                    vd_ClusterName = cc_ClusterName cd, vd_Nid = comp_NID node, vd_Role = comp_Role node, vd_MAC = bootMAC,
                    vd_Interfaces = (if or_empty_list nics \<noteq> [] \<and> or_empty_list ifaces \<noteq> []
                                     then buildInterfacesArray (or_empty_list nics) (or_empty_list ifaces) else []),
                    vd_Groups = vg\<rparr>\<rparr>\<rparr>, c2)))"

definition buildTemplateContext :: "ci_env \<Rightarrow> MetaData \<Rightarrow> dict" where
  "buildTemplateContext env metadata =
     (let v1 = mt_InstanceData metadata; vd = id_VendorData v1;
          vendorData = [''version'' \<mapsto> AStr (vd_Version vd), ''cloud_init_base_url'' \<mapsto> AStr (vd_CloudInitBaseURL vd),
             ''cluster_name'' \<mapsto> AStr (vd_ClusterName vd), ''nid'' \<mapsto> AInt64 (vd_Nid vd), ''role'' \<mapsto> AStr (vd_Role vd),
             ''mac'' \<mapsto> AStr (vd_MAC vd), ''interfaces'' \<mapsto> AMaps (vd_Interfaces vd), ''groups'' \<mapsto> AGroups (vd_Groups vd)];
          ctx = [''instance_id'' \<mapsto> AStr (mt_InstanceID metadata), ''local_hostname'' \<mapsto> AStr (mt_LocalHostname metadata),
             ''hostname'' \<mapsto> AStr (mt_Hostname metadata), ''cluster_name'' \<mapsto> AStr (mt_ClusterName metadata),
             ''cloud_name'' \<mapsto> AStr (id_CloudName v1), ''availability_zone'' \<mapsto> AStr (id_AvailabilityZone v1),
             ''instance_type'' \<mapsto> AStr (id_InstanceType v1), ''region'' \<mapsto> AStr (id_Region v1), ''local_ipv4'' \<mapsto> AStr (id_LocalIPv4 v1),
             ''cloud_provider'' \<mapsto> AStr (id_CloudProvider v1), ''public_keys'' \<mapsto> AStrs (id_PublicKeys v1),
             ''vendor_data'' \<mapsto> AMap vendorData, ''base_url'' \<mapsto> AStr (vd_CloudInitBaseURL vd), ''nid'' \<mapsto> AInt64 (vd_Nid vd),
             ''role'' \<mapsto> AStr (vd_Role vd), ''mac'' \<mapsto> AStr (vd_MAC vd), ''ip'' \<mapsto> AStr (id_LocalIPv4 v1), ''interfaces'' \<mapsto> AMaps (vd_Interfaces vd)] in
      case rbind (ce_yaml_meta env metadata) (ce_yaml_read env) of
        Inl e \<Rightarrow> ctx
      | Inr metaMap \<Rightarrow> ctx(''meta_data'' \<mapsto> AMap metaMap))"

section \<open>Handlers\<close>

definition getActualRequestIP :: "http_request \<Rightarrow> string" where
  "getActualRequestIP r =
     (let xff = hq_header r ''X-Forwarded-For'' in
      if xff \<noteq> '''' then TrimSpace (hd (Split (CHR '','') xff))
      else (case SplitHostPort (hq_RemoteAddr r) of None \<Rightarrow> hq_RemoteAddr r | Some ip \<Rightarrow> ip))"

definition resolveRequestComponentID :: "'c SMDClient option \<Rightarrow> ('c, string) query" where
  "resolveRequestComponentID smd ip = ResolveComponentID smd ip"

text \<open>The start of four of the handlers: the node behind the request, or 404. Without a client there is no node.\<close>

definition with_node :: "'c SMDClient option \<Rightarrow> http_request \<Rightarrow> ('c SMDClient \<Rightarrow> string \<Rightarrow> 'c \<Rightarrow> http_response \<times> 'c) \<Rightarrow> 'c \<Rightarrow> http_response \<times> 'c" where
  "with_node smd r f c =
     (case resolveRequestComponentID smd (getActualRequestIP r) c of
        (Inl e, c1) \<Rightarrow> (http_Error ''node not found'' 404, c1)
      | (Inr cid, c1) \<Rightarrow> (case smd of None \<Rightarrow> (http_Error ''node not found'' 404, c1) | Some B \<Rightarrow> f B cid c1))"

text \<open>The status line is already out when the encoding fails, so the message comes with the status 200.\<close>

definition yaml_response :: "string \<Rightarrow> string \<Rightarrow> string result \<Rightarrow> http_response" where
  "yaml_response ctype msg r = (case r of Inr y \<Rightarrow> TextResponse 200 ctype y | Inl e \<Rightarrow> TextResponse 200 ctype (msg @ nl))"

definition MetaDataHandler :: "ci_env \<Rightarrow> 'c SMDClient option \<Rightarrow> 'b Store \<Rightarrow> http_request \<Rightarrow> 'b \<Rightarrow> 'c \<Rightarrow> http_response \<times> 'c" where
  "MetaDataHandler env smd store r b = with_node smd r (\<lambda>B cid c1.
     case smd_ComponentInformation B cid c1 of
       (Inl e, c2) \<Rightarrow> (http_Error ''component information not available'' 500, c2)
     | (Inr node, c2) \<Rightarrow>
         (let (rg, c3) = smd_GroupMembership B cid c2;
              (rip, c4) = smd_IPfromID B cid c3;
              (rmac, c5) = smd_MACfromID B cid c4 in
          case generateMetaData B node (or_empty_list rg) (or_empty_str rip) (or_empty_str rmac) store b c5 of
            (Inl p, c6) \<Rightarrow> (reply_error '''' p 500, c6)
          | (Inr metadata, c6) \<Rightarrow> (yaml_response ''application/x-yaml'' ''failed to encode metadata'' (ce_yaml_meta env metadata), c6)))"

definition config_item :: "dict \<Rightarrow> dict" where
  "config_item iface =
     (let item = [''type'' \<mapsto> AStr ''physical''] ++
                 (\<lambda>k. if k = ''name'' then iface ''name'' else if k = ''mac_address'' then iface ''mac''
                      else if k = ''description'' then iface ''description'' else None) in
      case iface ''ip'' of
        Some (AStr ip) \<Rightarrow> item(''subnets'' \<mapsto> AMaps [[''type'' \<mapsto> AStr ''static'', ''address'' \<mapsto> AStr (ip @ ''/24'')]])
      | _ \<Rightarrow> item)"

definition NetworkConfigHandler :: "ci_env \<Rightarrow> 'c SMDClient option \<Rightarrow> http_request \<Rightarrow> 'c \<Rightarrow> http_response \<times> 'c" where
  "NetworkConfigHandler env smd r = with_node smd r (\<lambda>B cid c1.
     let (rn, c2) = smd_EthernetNICInfo B cid c1;
         (rf, c3) = smd_EthernetInterfaces B cid c2;
         nics = or_empty_list rn; ifaces = or_empty_list rf in
     if nics = [] \<or> ifaces = [] then (TextResponse 200 ''text/cloud-config'' (''version: 1'' @ nl @ ''config: []'' @ nl), c3)
     else
       let configItems = map config_item (buildInterfacesArray nics ifaces) in
       (yaml_response ''text/cloud-config'' ''failed to encode network config''
          (ce_yaml_dict env [''version'' \<mapsto> AInt 1, ''config'' \<mapsto> AMaps configItems]), c3))"

definition UserDataHandler :: "http_request \<Rightarrow> http_response" where
  "UserDataHandler r = TextResponse 200 ''text/cloud-config'' (''#cloud-config'' @ nl)"

text \<open>The include list: the groups that have data with a template; a group that is nil without an error is a panic.\<close>

fun include_list :: "'b Store \<Rightarrow> 'b \<Rightarrow> string \<Rightarrow> string list \<Rightarrow> string result" where
  "include_list store b baseURL [] = Inr ''''"
| "include_list store b baseURL (name # names) =
     rbind (unpanic (sr_GetGroupData store name b)) (\<lambda>rg.
       case rg of
         Inl e \<Rightarrow> include_list store b baseURL names
       | Inr None \<Rightarrow> Inl nil_deref
       | Inr (Some g) \<Rightarrow>
           if g_Template (Spec g) = '''' then include_list store b baseURL names
           else rbind (include_list store b baseURL names) (\<lambda>rest. Inr (baseURL @ ''/'' @ name @ ''.yaml'' @ nl @ rest)))"

definition vendor_base_url :: "'b Store \<Rightarrow> string \<Rightarrow> 'b \<Rightarrow> string result" where
  "vendor_base_url store cid b =
     rbind (unpanic (sr_GetClusterDefaults store b)) (\<lambda>rd.
     rbind (case rd of Inl e \<Rightarrow> Inr '''' | Inr None \<Rightarrow> Inl nil_deref | Inr (Some cd) \<Rightarrow> Inr (cc_BaseURL cd)) (\<lambda>baseURL.
     rbind (unpanic (sr_GetInstanceInfo store cid b)) (\<lambda>ri.
       case ri of
         Inl e \<Rightarrow> Inr baseURL
       | Inr None \<Rightarrow> Inl nil_deref
       | Inr (Some ii) \<Rightarrow> Inr (or_else (ci_CloudInitBaseURL ii) baseURL))))"

definition VendorDataHandler :: "'c SMDClient option \<Rightarrow> 'b Store \<Rightarrow> http_request \<Rightarrow> 'b \<Rightarrow> 'c \<Rightarrow> http_response \<times> 'c" where
  "VendorDataHandler smd store r b = with_node smd r (\<lambda>B cid c1.
     let (rg, c2) = smd_GroupMembership B cid c1 in
     case rbind (vendor_base_url store cid b) (\<lambda>baseURL. include_list store b baseURL (or_empty_list rg)) of
       Inl p \<Rightarrow> (reply_error '''' p 500, c2)
     | Inr items \<Rightarrow> (TextResponse 200 ''text/plain'' (''#include'' @ nl @ items), c2))"

text \<open>The group's own data over the context, rendered.\<close>

definition render_group :: "ci_env \<Rightarrow> Group \<Rightarrow> MetaData \<Rightarrow> http_response" where
  "render_group env g metadata =
     (case RenderTemplate (ce_tmpl env) (g_Template (Spec g)) (MergeMetadata (buildTemplateContext env metadata) (g_MetaData (Spec g))) of
        Inl e \<Rightarrow> http_Error ''template rendering failed'' 500
      | Inr rendered \<Rightarrow> TextResponse 200 ''text/cloud-config'' rendered)"

definition GroupUserDataHandler :: "ci_env \<Rightarrow> 'c SMDClient option \<Rightarrow> 'b Store \<Rightarrow> http_request \<Rightarrow> 'b \<Rightarrow> 'c \<Rightarrow> http_response \<times> 'c" where
  "GroupUserDataHandler env smd store r b = with_node smd r (\<lambda>B cid c1.
     let groupName = hq_param r ''group'' in
     case smd_GroupMembership B cid c1 of
       (Inl e, c2) \<Rightarrow> (http_Error ''failed to verify group membership'' 500, c2)
     | (Inr gs, c2) \<Rightarrow>
         if groupName \<notin> set gs then (http_Error (''node '' @ cid @ '' is not a member of group '' @ groupName) 404, c2)
         else (case sr_GetGroupData store groupName b of
             Inl (EPanic t) \<Rightarrow> (HandlerPanic t, c2)
           | Inl e \<Rightarrow> (TextResponse 200 ''text/cloud-config'' (''#cloud-config'' @ nl), c2)
           | Inr groupData \<Rightarrow>
               (case smd_ComponentInformation B cid c2 of
                  (Inl e, c3) \<Rightarrow> (http_Error ''component information not available'' 500, c3)
                | (Inr node, c3) \<Rightarrow>
                    (let (rip, c4) = smd_IPfromID B cid c3;
                         (rmac, c5) = smd_MACfromID B cid c4 in
                     case generateMetaData B node gs (or_empty_str rip) (or_empty_str rmac) store b c5 of
                       (Inl p, c6) \<Rightarrow> (reply_error '''' p 500, c6)
                     | (Inr metadata, c6) \<Rightarrow>
                         (case groupData of
                            None \<Rightarrow> (reply_error '''' nil_deref 500, c6)
                          | Some g \<Rightarrow> (render_group env g metadata, c6))))))"

text \<open>The routes, by the path below the root; \<open>group\<close> is the parameter of the last one.\<close>

definition RegisterCloudInitRoutes :: "ci_env \<Rightarrow> 'c SMDClient option \<Rightarrow> 'b Store \<Rightarrow> string \<Rightarrow> (http_request \<Rightarrow> 'b \<Rightarrow> 'c \<Rightarrow> http_response \<times> 'c) option" where
  "RegisterCloudInitRoutes env smd store path =
     (if path = ''/meta-data'' then Some (MetaDataHandler env smd store)
      else if path = ''/user-data'' then Some (\<lambda>r b c. (UserDataHandler r, c))
      else if path = ''/vendor-data'' then Some (VendorDataHandler smd store)
      else if path = ''/network-config'' then Some (\<lambda>r b c. NetworkConfigHandler env smd r c)
      else if path = ''/{group}.yaml'' then Some (GroupUserDataHandler env smd store)
      else None)"

section \<open>The latest of the matching resources\<close>

definition updated :: "('sp, 'st) resource \<Rightarrow> gotime" where
  "updated r = md_UpdatedAt (Meta r)"

text \<open>The first of those with the greatest time.\<close>

definition is_latest :: "(('sp, 'st) resource \<Rightarrow> bool) \<Rightarrow> ('sp, 'st) resource list \<Rightarrow> ('sp, 'st) resource \<Rightarrow> bool" where
  "is_latest match rs g \<longleftrightarrow> (\<exists>xs ys. rs = xs @ g # ys \<and> match g \<and>
     (\<forall>r\<in>set xs. match r \<longrightarrow> updated r < updated g) \<and> (\<forall>r\<in>set ys. match r \<longrightarrow> updated r \<le> updated g))"

lemma latest_matching_snoc:
  "latest_matching match (rs @ [r]) =
     (if \<not> match r then latest_matching match rs
      else case latest_matching match rs of None \<Rightarrow> Some r | Some l \<Rightarrow> if updated r > updated l then Some r else Some l)"
  by (auto simp: latest_matching_def updated_def split: option.splits)

lemma is_latest_ge: "is_latest match rs g \<Longrightarrow> r \<in> set rs \<Longrightarrow> match r \<Longrightarrow> updated r \<le> updated g"
  by (force simp: is_latest_def)

lemma latest_matching_spec:
  "case latest_matching match rs of None \<Rightarrow> \<forall>r\<in>set rs. \<not> match r | Some g \<Rightarrow> is_latest match rs g"
proof (induction rs rule: rev_induct)
  case Nil
  then show ?case by (simp add: latest_matching_def)
next
  case (snoc r rs)
  show ?case
  proof (cases "latest_matching match rs")
    case None
    with snoc have n: "\<forall>x\<in>set rs. \<not> match x" by simp
    show ?thesis
    proof (cases "match r")
      case True
      with n have "is_latest match (rs @ [r]) r" unfolding is_latest_def by (intro exI [of _ rs] exI [of _ "[]"]) simp
      with True None show ?thesis by (simp add: latest_matching_snoc)
    next
      case False
      with None n show ?thesis by (simp add: latest_matching_snoc)
    qed
  next
    case (Some g)
    with snoc have g: "is_latest match rs g" by simp
    show ?thesis
    proof (cases "match r \<and> updated g < updated r")
      case True
      then have "\<forall>x\<in>set rs. match x \<longrightarrow> updated x < updated r" using is_latest_ge [OF g] by fastforce
      then have "is_latest match (rs @ [r]) r" using True unfolding is_latest_def by (intro exI [of _ rs] exI [of _ "[]"]) simp
      with True Some show ?thesis by (simp add: latest_matching_snoc)
    next
      case False
      obtain xs ys where "rs = xs @ g # ys" "match g" "\<forall>x\<in>set xs. match x \<longrightarrow> updated x < updated g" "\<forall>x\<in>set ys. match x \<longrightarrow> updated x \<le> updated g"
        using g by (auto simp: is_latest_def)
      with False have "is_latest match (rs @ [r]) g" unfolding is_latest_def by (intro exI [of _ xs] exI [of _ "ys @ [r]"]) auto
      with False Some show ?thesis by (auto simp: latest_matching_snoc)
    qed
  qed
qed

lemma latest_matching_Some: "latest_matching match rs = Some g \<Longrightarrow> is_latest match rs g"
  using latest_matching_spec [where match = match and rs = rs] by simp

lemma latest_matching_None: "latest_matching match rs = None \<longleftrightarrow> (\<forall>r\<in>set rs. \<not> match r)"
  using latest_matching_spec [where match = match and rs = rs] by (auto simp: is_latest_def split: option.splits)

text \<open>\<open>latestClusterDefaults\<close> is the same selection with every resource matching.\<close>

lemma latestClusterDefaults_eq: "rs \<noteq> [] \<Longrightarrow> latest_matching (\<lambda>_. True) rs = Some (latestClusterDefaults rs)"
proof (induction rs rule: rev_induct)
  case (snoc r rs)
  show ?case
  proof (cases "rs = []")
    case True
    then show ?thesis by (simp add: latest_matching_def latestClusterDefaults_def)
  next
    case False
    then have "latestClusterDefaults (rs @ [r]) = (if updated r > updated (latestClusterDefaults rs) then r else latestClusterDefaults rs)"
      by (simp add: latestClusterDefaults_def updated_def)
    with snoc False show ?thesis by (simp add: latest_matching_snoc)
  qed
qed simp

section \<open>Hostnames\<close>

lemma nat_of_digits_zeros: "nat_of_digits (replicate k (CHR ''0'') @ s) = nat_of_digits s"
  by (induction k) (simp_all add: nat_of_digits_def digit_val_def)

lemma fmt_padded_nonneg:
  assumes "0 \<le> w" "w \<le> 1000000" "0 \<le> n"
  shows "fmt_padded w n = replicate (nat w - length (nat_str (nat n))) (CHR ''0'') @ nat_str (nat n)"
  using assms by (simp add: fmt_padded_def)

lemma fmt_padded_inj:
  assumes "0 \<le> w" "w \<le> 1000000" "0 \<le> m" "0 \<le> n"
  shows "fmt_padded w m = fmt_padded w n \<longleftrightarrow> m = n"
proof
  assume "fmt_padded w m = fmt_padded w n"
  then have "nat_of_digits (fmt_padded w m) = nat_of_digits (fmt_padded w n)" by simp
  then have "nat m = nat n" using assms by (simp add: fmt_padded_nonneg nat_of_digits_zeros)
  with assms show "m = n" by simp
qed simp

section \<open>Properties\<close>

text \<open>The node behind a request and its groups, as SMD has them when the request comes in.\<close>

definition is_member :: "'c SMDClient option \<Rightarrow> http_request \<Rightarrow> 'c \<Rightarrow> string \<Rightarrow> bool" where
  "is_member smd r c g \<longleftrightarrow> (\<exists>B cid c1 gs. smd = Some B \<and> ResolveComponentID smd (getActualRequestIP r) c = (Inr cid, c1) \<and>
     fst (smd_GroupMembership B cid c1) = Inr gs \<and> g \<in> set gs)"

text \<open>
  C15 (safety). Group data goes to members only: a request for a group gets a cloud-config only when
  the node behind its address is a member of the group; every other request gets an error that does
  not depend on what is stored.
\<close>

theorem group_data_only_for_members:
  assumes "\<not> is_member smd r c (hq_param r ''group'')"
  shows "status_of (fst (GroupUserDataHandler env smd store r b c)) \<in> {404, 500} \<and>
    GroupUserDataHandler env' smd store' r b' c = GroupUserDataHandler env smd store r b c"
proof (cases "ResolveComponentID smd (getActualRequestIP r) c")
  case (Pair res c1)
  show ?thesis
  proof (cases res)
    case (Inl e)
    with Pair show ?thesis by (simp add: GroupUserDataHandler_def with_node_def resolveRequestComponentID_def)
  next
    case (Inr cid)
    show ?thesis
    proof (cases smd)
      case None
      with Pair show ?thesis by (simp add: ResolveComponentID_def GroupUserDataHandler_def with_node_def resolveRequestComponentID_def split: sum.splits)
    next
      case (Some B)
      obtain rg c2 where g: "smd_GroupMembership B cid c1 = (rg, c2)" by fastforce
      show ?thesis
      proof (cases rg)
        case (Inl e)
        with Pair Inr Some g show ?thesis by (simp add: GroupUserDataHandler_def with_node_def resolveRequestComponentID_def)
      next
        case gs: (Inr gs)
        with assms Pair Inr Some g have "hq_param r ''group'' \<notin> set gs" by (auto simp: is_member_def)
        with Pair Inr Some g gs show ?thesis by (simp add: GroupUserDataHandler_def with_node_def resolveRequestComponentID_def)
      qed
    qed
  qed
qed

text \<open>
  C36 (bounds). A generated hostname is the cluster's prefix followed by the node number in at least the
  configured number of digits (4 when none is configured), and it identifies the node: in one cluster
  two nodes have the same hostname only if they have the same number. Numbers are not negative and at
  most a million digits can be asked for.
\<close>

theorem hostnames_identify_nodes:
  assumes "0 \<le> nidLength" "nidLength \<le> 1000000" "0 \<le> comp_NID x" "0 \<le> comp_NID y"
  shows "(generateHostname cl sh nidLength x = generateHostname cl sh nidLength y \<longleftrightarrow> comp_NID x = comp_NID y) \<and>
    (\<exists>digits. generateHostname cl sh nidLength x = (if sh = '''' then take 2 cl else sh) @ digits \<and> list_all is_digit digits \<and>
       nat_of_digits digits = nat (comp_NID x) \<and>
       length digits = max (if nidLength = 0 then 4 else nat nidLength) (length (nat_str (nat (comp_NID x)))))"
proof
  let ?w = "if nidLength = 0 then 4 else nidLength"
  have w: "0 \<le> ?w" "?w \<le> 1000000" using assms by simp_all
  have h: "generateHostname cl sh nidLength z = (if sh = '''' then take 2 cl else sh) @ fmt_padded ?w (comp_NID z)" for z
    by (simp add: generateHostname_def Let_def)
  show "generateHostname cl sh nidLength x = generateHostname cl sh nidLength y \<longleftrightarrow> comp_NID x = comp_NID y"
    using fmt_padded_inj [OF w assms(3,4)] by (simp add: h)
  let ?d = "fmt_padded ?w (comp_NID x)"
  have d: "?d = replicate (nat ?w - length (nat_str (nat (comp_NID x)))) (CHR ''0'') @ nat_str (nat (comp_NID x))"
    by (rule fmt_padded_nonneg [OF w assms(3)])
  have "list_all is_digit ?d" unfolding d using nat_str_all_digits by (auto simp: list_all_iff is_digit_def)
  moreover have "nat_of_digits ?d = nat (comp_NID x)" unfolding d by (simp add: nat_of_digits_zeros)
  moreover have "length ?d = max (if nidLength = 0 then 4 else nat nidLength) (length (nat_str (nat (comp_NID x))))" unfolding d by auto
  ultimately show "\<exists>digits. generateHostname cl sh nidLength x = (if sh = '''' then take 2 cl else sh) @ digits \<and> list_all is_digit digits \<and>
       nat_of_digits digits = nat (comp_NID x) \<and>
       length digits = max (if nidLength = 0 then 4 else nat nidLength) (length (nat_str (nat (comp_NID x))))"
    using h by blast
qed

theorem hostnames_identify_nodes_witness:
  "generateHostname ''demo'' '''' 0 \<lparr>comp_ID = ''x0'', comp_NID = 1, comp_Role = '''', comp_MAC = '''', comp_IP = ''''\<rparr> \<noteq>
   generateHostname ''demo'' '''' 0 \<lparr>comp_ID = ''x1'', comp_NID = 2, comp_Role = '''', comp_MAC = '''', comp_IP = ''''\<rparr>"
  using hostnames_identify_nodes [of 0 "\<lparr>comp_ID = ''x0'', comp_NID = 1, comp_Role = '''', comp_MAC = '''', comp_IP = ''''\<rparr>"
     "\<lparr>comp_ID = ''x1'', comp_NID = 2, comp_Role = '''', comp_MAC = '''', comp_IP = ''''\<rparr>" "''demo''" "''''"] by simp

text \<open>
  C16 (functional). What the handlers read through the storage adapter is the latest: of the stored
  resources with the name (for an instance, the name or the instance ID) the one that was updated
  last, the first of them when several share that time, and an error when there is none; of the
  cluster defaults the one updated last, and nil when there is none.
\<close>

theorem adapter_reads_latest:
  assumes "LoadAllGroups env keys b = Inr gs" "LoadAllInstanceInfos env b = Inr is" "LoadAllClusterDefaultss env b = Inr cds"
  shows "(case Adapter_GetGroupData env keys name b of
       Inr g \<Rightarrow> \<exists>x. g = Some x \<and> is_latest (\<lambda>r. md_Name (Meta r) = name) gs x
     | Inl e \<Rightarrow> \<forall>r\<in>set gs. md_Name (Meta r) \<noteq> name) \<and>
    (case Adapter_GetInstanceInfo env i b of
       Inr ii \<Rightarrow> \<exists>x. is_latest (\<lambda>r. md_Name (Meta r) = i \<or> ii_InstanceID (Spec r) = i) is x \<and> map_option ci_InstanceID ii = Some (ii_InstanceID (Spec x)) \<and>
         map_option ci_Hostname ii = Some (ii_Hostname (Spec x)) \<and> map_option ci_CloudInitBaseURL ii = Some (ii_CloudInitBaseURL (Spec x))
     | Inl e \<Rightarrow> \<forall>r\<in>set is. md_Name (Meta r) \<noteq> i \<and> ii_InstanceID (Spec r) \<noteq> i) \<and>
    (case Adapter_GetClusterDefaults env b of
       Inr (Some cd) \<Rightarrow> \<exists>x. is_latest (\<lambda>_. True) cds x \<and> cc_BaseURL cd = cd_BaseURL (Spec x) \<and> cc_ClusterName cd = cd_ClusterName (Spec x) \<and> cc_PublicKeys cd = cd_PublicKeys (Spec x)
     | Inr None \<Rightarrow> cds = []
     | Inl e \<Rightarrow> False)"
proof (intro conjI)
  show "case Adapter_GetGroupData env keys name b of
       Inr g \<Rightarrow> \<exists>x. g = Some x \<and> is_latest (\<lambda>r. md_Name (Meta r) = name) gs x
     | Inl e \<Rightarrow> \<forall>r\<in>set gs. md_Name (Meta r) \<noteq> name"
    using assms(1) latest_matching_None [of "\<lambda>r. md_Name (Meta r) = name" gs]
    by (cases "latestGroupByName gs name") (auto simp: Adapter_GetGroupData_def latestGroupByName_def dest: latest_matching_Some)
next
  let ?m = "\<lambda>r. md_Name (Meta r) = i \<or> ii_InstanceID (Spec r) = i"
  have m: "latestInstanceInfoByName is i = latest_matching ?m is" by (simp add: latestInstanceInfoByName_def)
  show "case Adapter_GetInstanceInfo env i b of
       Inr ii \<Rightarrow> \<exists>x. is_latest ?m is x \<and> map_option ci_InstanceID ii = Some (ii_InstanceID (Spec x)) \<and>
         map_option ci_Hostname ii = Some (ii_Hostname (Spec x)) \<and> map_option ci_CloudInitBaseURL ii = Some (ii_CloudInitBaseURL (Spec x))
     | Inl e \<Rightarrow> \<forall>r\<in>set is. md_Name (Meta r) \<noteq> i \<and> ii_InstanceID (Spec r) \<noteq> i"
  proof (cases "latest_matching ?m is")
    case None
    with assms(2) m latest_matching_None [of ?m "is"] show ?thesis by (auto simp: Adapter_GetInstanceInfo_def)
  next
    case (Some x)
    with assms(2) m latest_matching_Some [OF Some] show ?thesis by (auto simp: Adapter_GetInstanceInfo_def)
  qed
next
  show "case Adapter_GetClusterDefaults env b of
       Inr (Some cd) \<Rightarrow> \<exists>x. is_latest (\<lambda>_. True) cds x \<and> cc_BaseURL cd = cd_BaseURL (Spec x) \<and> cc_ClusterName cd = cd_ClusterName (Spec x) \<and> cc_PublicKeys cd = cd_PublicKeys (Spec x)
     | Inr None \<Rightarrow> cds = []
     | Inl e \<Rightarrow> False"
    using assms(3) latest_matching_Some [OF latestClusterDefaults_eq [of cds]]
    by (cases "cds = []") (auto simp: Adapter_GetClusterDefaults_def Let_def)
qed

text \<open>Once the storage is initialised, the adapter returns errors and never panics.\<close>

lemma unpanic_ok: "(\<And>t. r \<noteq> Inl (EPanic t)) \<Longrightarrow> unpanic r = Inr r"
  by (auto simp: unpanic_def split: sum.splits goerror.splits)

lemma unmarshal_all_no_panic: "unmarshal_all je K raw \<noteq> Inl (EPanic t)"
  by (induction raw) (auto simp: rbind_def split: sum.splits)

lemma LoadAll_no_panic: "Backend env \<noteq> None \<Longrightarrow> LoadAll_res env K b \<noteq> Inl (EPanic t)"
  by (auto simp: LoadAll_res_def ensureBackend_def unmarshal_all_no_panic split: sum.splits)

lemma adapter_no_panic:
  assumes "Backend env \<noteq> None"
  shows "unpanic (sr_GetClusterDefaults (NewStorageAdapter env keys) b) = Inr (Adapter_GetClusterDefaults env b)"
    and "unpanic (sr_GetInstanceInfo (NewStorageAdapter env keys) i b) = Inr (Adapter_GetInstanceInfo env i b)"
    and "unpanic (sr_GetGroupData (NewStorageAdapter env keys) name b) = Inr (Adapter_GetGroupData env keys name b)"
  unfolding NewStorageAdapter_def Store.simps
  using LoadAll_no_panic [OF assms]
  by (intro unpanic_ok; auto simp: Adapter_GetClusterDefaults_def Adapter_GetInstanceInfo_def Adapter_GetGroupData_def Let_def
      LoadAllClusterDefaultss_def LoadAllInstanceInfos_def LoadAllGroups_def split: sum.splits option.splits if_splits)+

text \<open>
  What the handlers need of the interface \<open>Store\<close> to answer every request: errors, but no panics. The
  adapter provides it once \<open>storage.Init\<close> has set a backend.
\<close>

locale calm_store =
  fixes store :: "'b Store"
  assumes defaults_calm: "unpanic (sr_GetClusterDefaults store b) = Inr (sr_GetClusterDefaults store b)"
    and instance_calm: "unpanic (sr_GetInstanceInfo store i b) = Inr (sr_GetInstanceInfo store i b)"
    and group_calm: "unpanic (sr_GetGroupData store name b) = Inr (sr_GetGroupData store name b)"
begin

lemma vendor_groups_total: "\<exists>m'. vendor_groups store b gs m = Inr m'"
  by (induction gs arbitrary: m) (simp_all add: group_calm)

lemma generateMetaData_total:
  obtains metadata c' where "generateMetaData smd node gs ip mac store b c = (Inr metadata, c')"
proof -
  obtain m where "vendor_groups store b gs Map.empty = Inr m" using vendor_groups_total by blast
  then have "\<exists>metadata c'. generateMetaData smd node gs ip mac store b c = (Inr metadata, c')"
    by (auto simp: generateMetaData_def Let_def defaults_calm instance_calm split: prod.splits)
  then show thesis using that by blast
qed

lemma MetaDataHandler_no_panic: "fst (MetaDataHandler cenv smd store r b c) \<noteq> HandlerPanic t"
proof -
  have g: "fst (generateMetaData B node gs ip mac store b c) \<noteq> Inl p" for B node gs ip mac p and c :: 'c
    using generateMetaData_total [of B node gs ip mac b c] by (metis fst_conv sum.distinct(1))
  show ?thesis
    by (auto simp: MetaDataHandler_def with_node_def http_Error_def yaml_response_def split: prod.splits sum.splits option.splits)
       (metis fst_conv g)
qed

end

interpretation adapter: calm_store "NewStorageAdapter (Init be env) keys" for be env keys
proof -
  have b: "Backend (Init be env) \<noteq> None" by (simp add: Init_def)
  show "calm_store (NewStorageAdapter (Init be env) keys)"
    by unfold_locales (simp_all only: adapter_no_panic [OF b], simp_all add: NewStorageAdapter_def)
qed

lemma Init_same: "Backend env = Some be \<Longrightarrow> Init be env = env"
  by (simp add: Init_def)

text \<open>
  C37 (error, a flaw). While no ClusterDefaults resource is stored, \<open>/vendor-data\<close> panics for every node
  that SMD knows: the adapter returns nil without an error, and the handler reads its base URL. The
  same request to \<open>/meta-data\<close> is answered.
\<close>

theorem vendor_data_panics_without_defaults:
  assumes "LoadAllClusterDefaultss env b = Inr []" "Backend env \<noteq> None"
    and "ResolveComponentID (Some B) (getActualRequestIP r) c = (Inr cid, c1)"
  shows "fst (VendorDataHandler (Some B) (NewStorageAdapter env keys) r b c) =
      HandlerPanic ''runtime error: invalid memory address or nil pointer dereference'' \<and>
    fst (MetaDataHandler cenv (Some B) (NewStorageAdapter env keys) r b c) \<noteq> HandlerPanic t"
proof -
  obtain be where "Backend env = Some be" using assms(2) by blast
  then have no_panic: "fst (MetaDataHandler cenv (Some B) (NewStorageAdapter env keys) r b c) \<noteq> HandlerPanic t"
    using adapter.MetaDataHandler_no_panic [of cenv "Some B" be env keys r b c t] by (simp add: Init_same)
  have "vendor_base_url (NewStorageAdapter env keys) cid b = Inl nil_deref"
    using assms(1) by (simp add: vendor_base_url_def adapter_no_panic [OF assms(2)] Adapter_GetClusterDefaults_def)
  then show ?thesis
    using assms(3) no_panic
    by (simp add: VendorDataHandler_def with_node_def resolveRequestComponentID_def reply_error_def nil_deref_def split: prod.splits)
qed





section \<open>An instance\<close>

text \<open>One cluster, one group with a template, and the two nodes of the in-memory SMD client.\<close>

definition ci0 :: ci_env where
  "ci0 = \<lparr>ce_yaml_meta = (\<lambda>m. Inr (mt_Hostname m)), ce_yaml_read = (\<lambda>_. Inr Map.empty), ce_yaml_dict = (\<lambda>_. Inr ''config''), ce_tmpl = tenv0\<rparr>"

definition plain :: "string \<Rightarrow> Metadata" where
  "plain name = \<lparr>md_Name = name, md_UID = name, md_Labels = None, md_Annotations = None, md_CreatedAt = 1, md_UpdatedAt = 1\<rparr>"

definition demo_cluster :: ClusterDefaults where
  "demo_cluster = \<lparr>APIVersion = ''v1'', Kind = ''ClusterDefaults'', Meta = plain ''demo'',
     Spec = (k_zero_spec ClusterDefaults_kind)\<lparr>cd_BaseURL := ''http://m'', cd_ClusterName := ''demo''\<rparr>, Status = k_zero_status ClusterDefaults_kind\<rparr>"

abbreviation keys0 :: "strmap \<Rightarrow> string list" where
  "keys0 \<equiv> \<lambda>_. []"

definition compute_group :: Group where
  "compute_group = \<lparr>APIVersion = ''v1'', Kind = ''Group'', Meta = plain ''compute'',
     Spec = (k_zero_spec (Group_kind keys0))\<lparr>g_Template := ''t''\<rparr>, Status = k_zero_status (Group_kind keys0)\<rparr>"

definition ci_mem :: mem where
  "ci_mem = [(''ClusterDefaults'', ''demo'', projr (Marshal json0 ClusterDefaults_kind demo_cluster)),
             (''Group'', ''compute'', projr (Marshal json0 (Group_kind keys0) compute_group))]"

definition node_req :: "string \<Rightarrow> http_request" where
  "node_req g = \<lparr>hq_header = (\<lambda>_. ''''), hq_RemoteAddr = ''10.1.0.2:80'', hq_param = (\<lambda>_. g), hq_body = Inr ''''\<rparr>"

lemma marshal_demo: "Unmarshal json0 ClusterDefaults_kind (projr (Marshal json0 ClusterDefaults_kind demo_cluster)) = Inr demo_cluster"
proof -
  have "storable json0 ClusterDefaults_kind demo_cluster" by (rule storable0) (simp add: demo_cluster_def plain_def plain_meta_def)
  moreover have "cd_NidLength (Spec demo_cluster) = 0" by (simp add: demo_cluster_def ClusterDefaults_kind_def zero_cd_def)
  ultimately show ?thesis using cd_kind.Unmarshal_Marshal [of demo_cluster json0] by force
qed

lemma marshal_compute: "Unmarshal json0 (Group_kind keys0) (projr (Marshal json0 (Group_kind keys0) compute_group)) = Inr compute_group"
proof -
  have "storable json0 (Group_kind keys0) compute_group" by (rule storable0) (simp add: compute_group_def plain_def plain_meta_def)
  moreover have "range_order (g_MetaData (Spec compute_group)) (keys0 (g_MetaData (Spec compute_group)))"
    by (simp add: compute_group_def Group_kind_def zero_gspec_def range_order_def)
  ultimately show ?thesis using group_kind.Unmarshal_Marshal [of compute_group keys0 json0] by force
qed

lemma ci_mem_loads: "LoadAllClusterDefaultss store0 ci_mem = Inr [demo_cluster]" "LoadAllInstanceInfos store0 ci_mem = Inr []"
  "LoadAllGroups store0 keys0 ci_mem = Inr [compute_group]" "Backend store0 \<noteq> None"
proof -
  show "LoadAllClusterDefaultss store0 ci_mem = Inr [demo_cluster]"
    using marshal_demo by (simp add: LoadAllClusterDefaultss_def LoadAll_res_def ensureBackend_def store0_def mem_backend_def mem_uids_def mem_view_def ci_mem_def ClusterDefaults_kind_def)
  show "LoadAllInstanceInfos store0 ci_mem = Inr []"
    by (simp add: LoadAllInstanceInfos_def LoadAll_res_def ensureBackend_def store0_def mem_backend_def mem_uids_def ci_mem_def InstanceInfo_kind_def)
  show "LoadAllGroups store0 keys0 ci_mem = Inr [compute_group]"
    using marshal_compute by (simp add: LoadAllGroups_def LoadAll_res_def ensureBackend_def store0_def mem_backend_def mem_uids_def mem_view_def ci_mem_def Group_kind_def)
qed (simp add: store0_def)

lemma node_resolves: "ResolveComponentID (Some (mock_client order_two order_two)) (getActualRequestIP (node_req g)) mock_two = (Inr ''x0'', mock_two)"
proof -
  have "getActualRequestIP (node_req g) = ''10.1.0.2''" unfolding getActualRequestIP_def node_req_def by code_simp
  moreover have "find_by_wgip (order_two (wgip mock_two)) ''10.1.0.2'' (wgip mock_two) = Inr ''x0''"
    by (simp add: find_by_wgip_def order_two_def mock_two_defs entries_def)
  ultimately show ?thesis by (simp add: ResolveComponentID_def mock_defs)
qed

lemma node_groups: "smd_GroupMembership (mock_client order_two order_two) ''x0'' mock_two = (Inr [''compute''], mock_two)"
  by (simp add: mock_defs mock_two_defs)

theorem group_data_only_for_members_witness:
  "status_of (fst (GroupUserDataHandler ci0 (Some (mock_client order_two order_two)) (NewStorageAdapter store0 keys0) (node_req ''admin'') ci_mem mock_two)) \<in> {404, 500}"
proof -
  have "\<not> is_member (Some (mock_client order_two order_two)) (node_req ''admin'') mock_two (hq_param (node_req ''admin'') ''group'')"
    by (auto simp: is_member_def node_resolves node_groups) (simp add: node_req_def)
  from group_data_only_for_members [OF this, of ci0 "NewStorageAdapter store0 keys0" ci_mem ci0 "NewStorageAdapter store0 keys0" ci_mem]
  show ?thesis by (rule conjunct1)
qed

theorem adapter_reads_latest_witness:
  "\<exists>cd. Adapter_GetClusterDefaults store0 ci_mem = Inr cd \<and> Adapter_GetGroupData store0 keys0 ''compute'' ci_mem = Inr (Some compute_group)"
proof -
  have n: "md_Name (Meta compute_group) = ''compute''" by (simp add: compute_group_def plain_def)
  from adapter_reads_latest [OF ci_mem_loads(3,2,1), of "''compute''" "''x0''"] n show ?thesis
    by (auto simp: is_latest_def Cons_eq_append_conv split: sum.splits option.splits)
qed

theorem vendor_data_panics_without_defaults_witness:
  "fst (VendorDataHandler (Some (mock_client order_two order_two)) (NewStorageAdapter store0 keys0) (node_req '''') [] mock_two) =
     HandlerPanic ''runtime error: invalid memory address or nil pointer dereference''"
proof -
  have "LoadAllClusterDefaultss store0 [] = Inr []"
    by (simp add: LoadAllClusterDefaultss_def LoadAll_res_def ensureBackend_def store0_def mem_backend_def mem_uids_def)
  from vendor_data_panics_without_defaults [OF this ci_mem_loads(4) node_resolves] show ?thesis by blast
qed


end
