(* ===== verification/Server.thy ===== *)
theory Server
  imports SMD_Config WG_Routes Cloud_Init
begin

text \<open>
  \<open>cmd/server/server_extensions.go\<close> and the parts of \<open>main.go\<close> that put the server together: the WireGuard
  controller, the order of the middleware, the table of routes and the health check. The router is
  chi: finding the route of a request (\<open>sv_find\<close>), its answer when there is none and its middleware
  \<open>RealIP\<close> are parameters. Handlers share the state of \<open>route_state\<close>; a handler that does not return is
  None.
\<close>

section \<open>Routes\<close>

datatype server_response =
    Plain http_response
  | ClusterDefaults_response "(ClusterDefaultsSpec, PhaseStatus) api_response"
  | Group_response "(GroupSpec, GroupStatus) api_response"
  | InstanceInfo_response "(InstanceInfoSpec, PhaseStatus) api_response"
  | WireGuardPeer_response "(WireGuardPeerSpec, WireGuardPeerStatus) api_response"

type_synonym 's server_handler = "http_request \<Rightarrow> 's \<Rightarrow> (server_response \<times> 's) option"
type_synonym pattern = "http_method \<times> string"
type_synonym 's router = "(pattern \<times> 's server_handler) list"

record ('b, 'c, 'e) server_env =
  sv_RealIP :: "http_request \<Rightarrow> http_request"
  sv_find :: "pattern list \<Rightarrow> http_method \<Rightarrow> string \<Rightarrow> (pattern \<times> (string \<Rightarrow> string)) option"
  sv_NotFound :: http_response
  sv_wireguard_only :: bool
  sv_ServeVersion :: "http_request \<Rightarrow> string"
  sv_routes :: "('b, 'c, 'e) route_env"
  sv_cloudinit :: ci_env
  sv_reporter :: "'c \<Rightarrow> smd_backend dynamicSMDHealthReporter option"
  sv_openapi :: http_response
  sv_docs :: http_response
  sv_keys :: "strmap \<Rightarrow> string list"
  sv_ClusterDefaults :: "(ClusterDefaultsSpec, PhaseStatus, 'b, 'e) api_env"
  sv_Group :: "(GroupSpec, GroupStatus, 'b, 'e) api_env"
  sv_InstanceInfo :: "(InstanceInfoSpec, PhaseStatus, 'b, 'e) api_env"
  sv_WireGuardPeer :: "(WireGuardPeerSpec, WireGuardPeerStatus, 'b, 'e) api_env"

text \<open>An API handler as a handler of the router.\<close>

definition api_handle :: "('b, 'c, 'e) server_env \<Rightarrow> (('sp, 'st) api_response \<Rightarrow> server_response) \<Rightarrow> ('sp, 'st, 'b, 'e) api_handler \<Rightarrow>
    ('w, 'b, 'c, 'e) route_state server_handler" where
  "api_handle env wrap h r st =
     (case h \<lparr>hr_uid = hq_param r ''uid'', hr_body = hq_body r, hr_ctype = hq_header r ''Content-Type'', hr_version = sv_ServeVersion env r\<rparr>
             (st_store st, st_world st) of
        (a, b, e) \<Rightarrow> Some (wrap a, st\<lparr>st_store := b, st_world := e\<rparr>))"

definition kind_routes :: "('b, 'c, 'e) server_env \<Rightarrow> (('sp, 'st) api_response \<Rightarrow> server_response) \<Rightarrow> ('sp, 'st, 'b, 'e) api_env \<Rightarrow>
    ('sp, 'st) kind_info \<Rightarrow> string \<Rightarrow> ('w, 'b, 'c, 'e) route_state router" where
  "kind_routes env wrap ae K p =
     [((GET, p @ ''/''), api_handle env wrap (get_all ae K)),
      ((POST, p @ ''/''), api_handle env wrap (create ae K)),
      ((GET, p @ ''/{uid}/''), api_handle env wrap (get_one ae K)),
      ((PUT, p @ ''/{uid}/''), api_handle env wrap (update ae K)),
      ((PATCH, p @ ''/{uid}/''), api_handle env wrap (patch ae K)),
      ((DELETE, p @ ''/{uid}/''), api_handle env wrap (delete ae K)),
      ((PUT, p @ ''/{uid}/status/''), api_handle env wrap (update_status ae K)),
      ((PATCH, p @ ''/{uid}/status/''), api_handle env wrap (patch_status ae K))]"

definition RegisterGeneratedRoutes :: "('b, 'c, 'e) server_env \<Rightarrow> ('w, 'b, 'c, 'e) route_state router" where
  "RegisterGeneratedRoutes env =
     kind_routes env ClusterDefaults_response (sv_ClusterDefaults env) ClusterDefaults_kind ''/clusterdefaultss'' @
     kind_routes env Group_response (sv_Group env) (Group_kind (sv_keys env)) ''/groups'' @
     kind_routes env InstanceInfo_response (sv_InstanceInfo env) InstanceInfo_kind ''/instanceinfos'' @
     kind_routes env WireGuardPeer_response (sv_WireGuardPeer env) WireGuardPeer_kind ''/wireguardpeers''"

definition registerWireGuardRoutes :: "('b, 'c, 'e) server_env \<Rightarrow> ('w, 'b, 'c, 'e) route_state router" where
  "registerWireGuardRoutes env =
     [((POST, ''/wg-init''), \<lambda>r st. map_option (map_prod Plain id) (wg_init (sv_routes env) r st)),
      ((POST, ''/phone-home/{id}''), \<lambda>r st. Some (map_prod Plain id (phone_home (sv_routes env) r st)))]"

definition cloudinit_route :: "('b, 'c, 'e) server_env \<Rightarrow> string \<Rightarrow> ('w, 'b, 'c, 'e) route_state router" where
  "cloudinit_route env path =
     (case RegisterCloudInitRoutes (sv_cloudinit env) (re_smd (sv_routes env)) (NewStorageAdapter (re_store (sv_routes env)) (sv_keys env)) path of
        None \<Rightarrow> []
      | Some h \<Rightarrow> [((GET, path), \<lambda>r st. case h r (st_store st) (st_smd st) of (a, c) \<Rightarrow> Some (Plain a, st\<lparr>st_smd := c\<rparr>))])"

definition cloudinit_routes :: "('b, 'c, 'e) server_env \<Rightarrow> ('w, 'b, 'c, 'e) route_state router" where
  "cloudinit_routes env =
     concat (map (cloudinit_route env) [''/meta-data'', ''/user-data'', ''/vendor-data'', ''/network-config'', ''/{group}.yaml''])"

section \<open>Health\<close>

text \<open>\<open>currentSMDHealth\<close> after \<open>initSMDRuntime\<close>.\<close>

definition currentSMDHealth :: "smdRuntime result \<Rightarrow> smd_backend dynamicSMDHealthReporter option" where
  "currentSMDHealth r =
     (case r of Inl e \<Rightarrow> None | Inr rt \<Rightarrow> Some \<lparr>hr_service = Some (sr_service rt), hr_tokenManager = sr_manager rt\<rparr>)"

text \<open>The encoder writes the keys of a map in order.\<close>

definition healthHandler :: "'b dynamicSMDHealthReporter option \<Rightarrow> http_response" where
  "healthHandler health =
     (let service = (''service'', JStr ''github.com/OpenCHAMI/metadata-service'');
          (healthy, reason) = (case health of None \<Rightarrow> (True, '''') | Some h \<Rightarrow> Reporter_InitialSyncStatus h) in
      if healthy then JSONResponse 200 (JObj [service, (''status'', JStr ''healthy'')])
      else JSONResponse 503 (JObj ((if reason \<noteq> '''' then [(''reason'', JStr reason)] else []) @ [service, (''status'', JStr ''unhealthy'')])))"

section \<open>The server\<close>

definition setupWireGuardController :: "cfg_env \<Rightarrow> 'w ctl_env \<Rightarrow> (byte list \<Rightarrow> byte list result) \<Rightarrow> byte list result \<Rightarrow> disk \<Rightarrow> 'w Controller option" where
  "setupWireGuardController cfg cenv x25519 rand d =
     (let cidr = viper_string cfg ''wireguard_server'' in
      if cidr = '''' then None
      else (case ParseCIDR cidr of
              None \<Rightarrow> None
            | Some (srv, nw) \<Rightarrow>
                (case NewController cenv x25519 rand ''wg0'' srv nw 51820 (viper_string cfg ''wireguard_state_file'') d of
                   Inl e \<Rightarrow> None
                 | Inr c \<Rightarrow> Some c)))"

definition registerCustomServerIntegrations :: "('b, 'c, 'e) server_env \<Rightarrow> 'w Controller option \<Rightarrow> ('w, 'b, 'c, 'e) route_state router" where
  "registerCustomServerIntegrations env wgController =
     RegisterGeneratedRoutes env @ (if wgController \<noteq> None then registerWireGuardRoutes env else []) @ cloudinit_routes env"

text \<open>
  The routes of \<open>runServer\<close>. The health reporter points into the state of the SMD client; the two
  documents (\<open>/openapi.json\<close>, \<open>/docs\<close>) do not depend on the state.
\<close>

definition server_router :: "('b, 'c, 'e) server_env \<Rightarrow> 'w Controller option \<Rightarrow> ('w, 'b, 'c, 'e) route_state router" where
  "server_router env wgController =
     registerCustomServerIntegrations env wgController @
     [((GET, ''/health''), \<lambda>r st. Some (Plain (healthHandler (sv_reporter env (st_smd st))), st)),
      ((GET, ''/openapi.json''), \<lambda>r st. Some (Plain (sv_openapi env), st)),
      ((GET, ''/docs''), \<lambda>r st. Some (Plain (sv_docs env), st))]"

text \<open>Finding the route and calling its handler with the parameters of the URL.\<close>

definition route_request :: "('b, 'c, 'e) server_env \<Rightarrow> 's router \<Rightarrow> http_method \<Rightarrow> string \<Rightarrow> 's server_handler" where
  "route_request env routes m path r s =
     (case sv_find env (map fst routes) m path of
        None \<Rightarrow> Some (Plain (sv_NotFound env), s)
      | Some (p, params) \<Rightarrow>
          (case map_of routes p of
             None \<Rightarrow> Some (Plain (sv_NotFound env), s)
           | Some h \<Rightarrow> h (r\<lparr>hq_param := params\<rparr>) s))"

text \<open>
  A request as the server handles it: the middleware in the order it is installed, then the router.
  The one that puts the controller into the request's context (\<open>wireGuardControllerMiddleware\<close>), the
  logger, the recoverer and the request identifier do not change what handlers see.
\<close>

definition ServeHTTP :: "('b, 'c, 'e) server_env \<Rightarrow> http_method \<Rightarrow> string \<Rightarrow> ('w, 'b, 'c, 'e) route_state server_handler" where
  "ServeHTTP env m path r st =
     (let wgc = st_ctl st; routes = server_router env wgc; next_handler = (\<lambda>r. route_request env routes m path r st) in
      if wgc \<noteq> None \<and> sv_wireguard_only env
      then wireGuardOnlyMiddleware (\<lambda>resp. Some (Plain resp, st)) wgc next_handler (sv_RealIP env r)
      else next_handler (sv_RealIP env r))"

section \<open>The gate\<close>

definition from_network :: "'w Controller \<Rightarrow> http_request \<Rightarrow> bool" where
  "from_network c r \<longleftrightarrow>
     (case ParseIP (case SplitHostPort (hq_RemoteAddr r) of Some h \<Rightarrow> h | None \<Rightarrow> hq_RemoteAddr r) of
        None \<Rightarrow> False | Some ip \<Rightarrow> Contains (Network c) ip)"

lemma gate_cases:
  "wireGuardOnlyMiddleware reply (Some c) nx r =
     (if from_network c r then nx r else reply (http_Error ''wireguard-only access required'' 403))"
  by (simp add: wireGuardOnlyMiddleware_def from_network_def Let_def split: option.splits)

lemma from_network_bare: "CHR '':'' \<notin> set h \<Longrightarrow> ParseIP h = Some ip \<Longrightarrow> from_network c (r\<lparr>hq_RemoteAddr := h\<rparr>) \<longleftrightarrow> Contains (Network c) ip"
  by (simp add: from_network_def SplitHostPort_def Let_def)

lemma server_router_gate_off [simp]: "server_router (env\<lparr>sv_wireguard_only := b\<rparr>) c = server_router env c"
proof -
  have a: "api_handle (env\<lparr>sv_wireguard_only := b\<rparr>) wrap h = api_handle env wrap h" for wrap h
    by (simp add: api_handle_def fun_eq_iff)
  show ?thesis
    by (simp add: server_router_def registerCustomServerIntegrations_def RegisterGeneratedRoutes_def kind_routes_def
        registerWireGuardRoutes_def cloudinit_routes_def cloudinit_route_def a)
qed

lemma route_request_gate_off [simp]: "route_request (env\<lparr>sv_wireguard_only := b\<rparr>) = route_request env"
  by (simp add: route_request_def fun_eq_iff split: option.splits)

text \<open>The headers of a proxy that \<open>RealIP\<close> reads.\<close>

definition proxied :: "http_request \<Rightarrow> bool" where
  "proxied r \<longleftrightarrow> hq_header r ''True-Client-IP'' \<noteq> '''' \<or> hq_header r ''X-Real-IP'' \<noteq> '''' \<or> hq_header r ''X-Forwarded-For'' \<noteq> ''''"

text \<open>
  C18 (safety). The gate of \<open>--wireguard-only\<close>, for every method and path, also those the code registers as
  outside of it (\<open>/health\<close>) and the one nodes join by (\<open>/wg-init\<close>): a request without proxy headers from an
  address outside the network gets 403 and changes nothing. But the gate judges the address after
  \<open>RealIP\<close> has rewritten it: a request that names an address of the network in \<open>X-Real-IP\<close> is handled
  as if the gate were off, wherever it comes from. Assumed of \<open>RealIP\<close>, as it is documented: without
  the headers it changes nothing, and \<open>X-Real-IP\<close>, when it is an address and there is no
  \<open>True-Client-IP\<close>, becomes the remote address.
\<close>

theorem wireguard_only_trusts_headers:
  assumes plain: "\<forall>r. \<not> proxied r \<longrightarrow> sv_RealIP env r = r"
    and real: "\<forall>r. hq_header r ''True-Client-IP'' = '''' \<longrightarrow> ParseIP (hq_header r ''X-Real-IP'') \<noteq> None \<longrightarrow>
           sv_RealIP env r = r\<lparr>hq_RemoteAddr := hq_header r ''X-Real-IP''\<rparr>"
    and on: "st_ctl st = Some c" "sv_wireguard_only env"
  shows "(\<not> proxied r \<and> \<not> from_network c r \<longrightarrow>
            ServeHTTP env m path r st = Some (Plain (http_Error ''wireguard-only access required'' 403), st)) \<and>
         (hq_header r ''True-Client-IP'' = '''' \<and> hq_header r ''X-Real-IP'' = h \<and> CHR '':'' \<notin> set h \<and>
          ParseIP h = Some ip \<and> Contains (Network c) ip \<longrightarrow>
            ServeHTTP env m path r st = ServeHTTP (env\<lparr>sv_wireguard_only := False\<rparr>) m path r st)"
proof (intro conjI impI)
  assume "\<not> proxied r \<and> \<not> from_network c r"
  with plain on show "ServeHTTP env m path r st = Some (Plain (http_Error ''wireguard-only access required'' 403), st)"
    by (simp add: ServeHTTP_def gate_cases)
next
  assume h: "hq_header r ''True-Client-IP'' = '''' \<and> hq_header r ''X-Real-IP'' = h \<and> CHR '':'' \<notin> set h \<and>
      ParseIP h = Some ip \<and> Contains (Network c) ip"
  then have "sv_RealIP env r = r\<lparr>hq_RemoteAddr := h\<rparr>" using real [rule_format, of r] by simp
  moreover have "from_network c (r\<lparr>hq_RemoteAddr := h\<rparr>)" using h from_network_bare [of h ip c r] by simp
  ultimately show "ServeHTTP env m path r st = ServeHTTP (env\<lparr>sv_wireguard_only := False\<rparr>) m path r st"
    using on by (simp add: ServeHTTP_def gate_cases)
qed

text \<open>
  A server with a gate and a \<open>RealIP\<close> that reads the two headers; its router knows the routes that are
  plain paths. The request comes from 203.0.113.9, with and without the header.
\<close>

definition real_ip0 :: "http_request \<Rightarrow> http_request" where
  "real_ip0 r =
     (let h = (if hq_header r ''True-Client-IP'' \<noteq> '''' then hq_header r ''True-Client-IP'' else hq_header r ''X-Real-IP'') in
      if ParseIP h = None then r else r\<lparr>hq_RemoteAddr := h\<rparr>)"

definition any_env0 :: "('sp, 'st, mem, nat) api_env" where
  "any_env0 = \<lparr>ae_store = store0, ae_ValidateResource = (\<lambda>_. None), ae_ValidateWithContext = (\<lambda>r w. (None, r)),
     ae_GenerateUID = (\<lambda>p n. (Inr p, n)), ae_now = (\<lambda>_. 5), ae_publish = (\<lambda>_ n. (None, n + 1)),
     ae_DetectPatchType = (\<lambda>_. ''merge''), ae_ApplyPatch = (\<lambda>d _ _ _. Inr d)\<rparr>"

definition server0 :: "(mem, unit, nat) server_env" where
  "server0 =
     \<lparr>sv_RealIP = real_ip0, sv_find = (\<lambda>ps m path. if (m, path) \<in> set ps then Some ((m, path), \<lambda>_. '''') else None),
      sv_NotFound = http_Error ''404 page not found'' 404, sv_wireguard_only = True, sv_ServeVersion = (\<lambda>_. ''v1''),
      sv_routes = route0, sv_cloudinit = ci0, sv_reporter = (\<lambda>_. None), sv_openapi = TextResponse 200 '''' '''',
      sv_docs = TextResponse 200 '''' '''', sv_keys = (\<lambda>_. []), sv_ClusterDefaults = any_env0, sv_Group = group_env0,
      sv_InstanceInfo = any_env0, sv_WireGuardPeer = peer_env0\<rparr>"

definition outsider :: "string \<Rightarrow> http_request" where
  "outsider x = \<lparr>hq_header = (\<lambda>k. if k = ''X-Real-IP'' then x else ''''), hq_RemoteAddr = ''203.0.113.9:4000'', hq_param = (\<lambda>_. ''''), hq_body = Inr ''''\<rparr>"

lemma real_ip0_documented:
  "\<not> proxied r \<Longrightarrow> real_ip0 r = r"
  "hq_header r ''True-Client-IP'' = '''' \<Longrightarrow> ParseIP (hq_header r ''X-Real-IP'') \<noteq> None \<Longrightarrow> real_ip0 r = r\<lparr>hq_RemoteAddr := hq_header r ''X-Real-IP''\<rparr>"
proof -
  have "ParseIP '''' = None" by code_simp
  then show "\<not> proxied r \<Longrightarrow> real_ip0 r = r" by (simp add: real_ip0_def proxied_def)
qed (auto simp: real_ip0_def Let_def)

lemma health_route:
  "(GET, ''/health'') \<notin> fst ` set (registerCustomServerIntegrations env c)"
  by (auto simp: registerCustomServerIntegrations_def RegisterGeneratedRoutes_def kind_routes_def registerWireGuardRoutes_def
      cloudinit_routes_def cloudinit_route_def split: option.splits if_splits)

lemma health_found: "map_of (server_router env c) (GET, ''/health'') = Some (\<lambda>r st. Some (Plain (healthHandler (sv_reporter env (st_smd st))), st))"
proof -
  have "map_of (registerCustomServerIntegrations env c) (GET, ''/health'') = None"
    using health_route [of env c] by (simp add: map_of_eq_None_iff)
  then show ?thesis by (simp add: server_router_def map_add_def)
qed

lemma server0_facts: "sv_find server0 ps m path = (if (m, path) \<in> set ps then Some ((m, path), \<lambda>_. '''') else None)" "sv_reporter server0 x = None"
  by (simp_all add: server0_def)

lemma health0: "ServeHTTP (server0\<lparr>sv_wireguard_only := False\<rparr>) GET ''/health'' r rst0 = Some (Plain (healthHandler (None :: smd_backend dynamicSMDHealthReporter option)), rst0)"
proof -
  have "(GET, ''/health'') \<in> set (map fst (server_router server0 (st_ctl rst0)))"
    by (simp add: server_router_def)
  then have "route_request server0 (server_router server0 (st_ctl rst0)) GET ''/health'' r rst0 =
      Some (Plain (healthHandler (None :: smd_backend dynamicSMDHealthReporter option)), rst0)" for r
    unfolding route_request_def server0_facts(1) by (simp only: if_True option.case prod.case health_found server0_facts(2))
  then show ?thesis unfolding ServeHTTP_def Let_def server_router_gate_off route_request_gate_off by simp
qed

lemma outsider_addresses: "ParseIP ''10.0.0.2'' = Some (v4InV6Prefix @ [10, 0, 0, 2])" "Contains (Network ctl0) (v4InV6Prefix @ [10, 0, 0, 2])"
  "\<not> from_network ctl0 (outsider x)"
proof -
  show "ParseIP ''10.0.0.2'' = Some (v4InV6Prefix @ [10, 0, 0, 2])" using ParseIP_v4 [of "[10, 0, 0, 2]"] by (simp add: dec_strings)
  have "Contains \<lparr>net_ip = [10, 0, 0, 0], net_mask = [255, 255, 255, 252]\<rparr> (v4InV6Prefix @ [10, 0, 0, 2]) = True" by code_simp
  then show "Contains (Network ctl0) (v4InV6Prefix @ [10, 0, 0, 2])" by (simp add: ctl0_def)
  have "SplitHostPort ''203.0.113.9:4000'' = Some ''203.0.113.9''" "ParseIP ''203.0.113.9'' = Some (v4InV6Prefix @ [203, 0, 113, 9])"
    "Contains \<lparr>net_ip = [10, 0, 0, 0], net_mask = [255, 255, 255, 252]\<rparr> (v4InV6Prefix @ [203, 0, 113, 9]) = False"
    by code_simp+
  then show "\<not> from_network ctl0 (outsider x)" by (simp add: from_network_def outsider_def ctl0_def)
qed

theorem wireguard_only_trusts_headers_witness:
  "ServeHTTP server0 GET ''/health'' (outsider '''') rst0 = Some (Plain (http_Error ''wireguard-only access required'' 403), rst0) \<and>
   ServeHTTP server0 GET ''/health'' (outsider ''10.0.0.2'') rst0 = Some (Plain (healthHandler (None :: smd_backend dynamicSMDHealthReporter option)), rst0)"
proof -
  have r: "sv_RealIP server0 = real_ip0" "sv_wireguard_only server0" by (simp_all add: server0_def)
  have c: "st_ctl rst0 = Some ctl0" by (simp add: rst0_def)
  have d: "\<forall>r. \<not> proxied r \<longrightarrow> sv_RealIP server0 r = r"
    "\<forall>r. hq_header r ''True-Client-IP'' = '''' \<longrightarrow> ParseIP (hq_header r ''X-Real-IP'') \<noteq> None \<longrightarrow>
       sv_RealIP server0 r = r\<lparr>hq_RemoteAddr := hq_header r ''X-Real-IP''\<rparr>"
    unfolding r(1) using real_ip0_documented by blast+
  have o: "\<not> proxied (outsider '''')" "hq_header (outsider x) ''True-Client-IP'' = ''''" "hq_header (outsider x) ''X-Real-IP'' = x" for x
    by (simp_all add: outsider_def proxied_def)
  have colon: "CHR '':'' \<notin> set ''10.0.0.2''" by simp
  note t = wireguard_only_trusts_headers [OF d c r(2)]
  from conjunct1 [OF t, of "outsider ''''" GET "''/health''"]
  have "ServeHTTP server0 GET ''/health'' (outsider '''') rst0 = Some (Plain (http_Error ''wireguard-only access required'' 403), rst0)"
    using o(1) outsider_addresses(3) by blast
  moreover from conjunct2 [OF t, of "outsider ''10.0.0.2''" "''10.0.0.2''" _ GET "''/health''"]
  have "ServeHTTP server0 GET ''/health'' (outsider ''10.0.0.2'') rst0 = ServeHTTP (server0\<lparr>sv_wireguard_only := False\<rparr>) GET ''/health'' (outsider ''10.0.0.2'') rst0"
    using o(2,3) outsider_addresses(1,2) colon by blast
  ultimately show ?thesis unfolding health0 by blast
qed

section \<open>The HTTP client with its token manager\<close>

text \<open>
  \<open>initLiveSMDClient\<close> gives the client a token manager: the manager's state is part of the network's, and
  asking for a token is \<open>GetToken\<close>.
\<close>

definition managed_env :: "'w tok_env \<Rightarrow> ('w tstate \<times> 'n) http_env \<Rightarrow> ('w tstate \<times> 'n) http_env" where
  "managed_env tenv henv = henv\<lparr>manager_token := \<lambda>(ts, n). case GetToken tenv ts of (r, ts') \<Rightarrow> (r, (ts', n))\<rparr>"

lemma managed_token:
  "fst (manager_token (managed_env tenv henv) x) = fst (GetToken tenv (fst x))"
  "snd (manager_token (managed_env tenv henv) x) = (snd (GetToken tenv (fst x)), snd x)"
  by (simp_all add: managed_env_def split: prod.splits)

lemma managed_get [simp]: "http_get (managed_env tenv henv) = http_get henv"
  by (simp add: managed_env_def)

lemma unhealthy_sends_nothing:
  assumes "unhealthy (fst ts)" and "tokens c = TokenManager" and "(http_step (managed_env tenv henv))\<^sup>*\<^sup>* (c, (ts, n)) (c', x')"
  shows "x' = (ts, n)"
proof -
  have keeps: "raw_keeps (managed_env tenv henv) TokenManager (\<lambda>x. x = (ts, n))"
    unfolding raw_keeps_def
  proof (intro allI impI)
    fix c :: HTTPClient and x path params assume t: "tokens c = TokenManager" and x: "x = (ts, n)"
    obtain e where g: "GetToken tenv ts = (Inl e, ts)"
      using unhealthy_ops(3,6) [of ts tenv] assms(1) by (metis prod.collapse)
    then have "manager_token (managed_env tenv henv) x = (Inl e, x)" using x by (simp add: managed_env_def)
    then have "authorization (managed_env tenv henv) (c, x) = (Inl (EWrap ''failed to get dynamic SMD auth token: '' e ''''), x)"
      using t by (simp add: authorization_def)
    then show "snd (snd (getRaw (managed_env tenv henv) path params (c, x))) = (ts, n)"
      using x by (simp add: getRaw_def Let_def split: option.splits)
  qed
  have "good TokenManager (\<lambda>x. x = (ts, n)) (c, (ts, n))" using assms(2) by (simp add: good_def)
  from good_run [OF keeps assms(3) this] show ?thesis by (simp add: good_def)
qed

text \<open>The token of a request is what the manager's \<open>GetToken\<close> returned right before the request was sent.\<close>

definition sent_with_token :: "'w tok_env \<Rightarrow> string option \<times> 'w tstate \<Rightarrow> bool" where
  "sent_with_token tenv r \<longleftrightarrow>
     (\<exists>before t. GetToken tenv before = (Inr t, snd r) \<and> fst r = Some (''Bearer '' @ t) \<and> \<not> unhealthy (fst before) \<and> t \<noteq> '''' \<and> TrimSpace t = t)"

lemma managed_authorization:
  assumes "tokens c = TokenManager" "authorization (managed_env tenv henv) (c, x) = (r, x1)"
  shows "snd x1 = snd x" "r = Inr a \<Longrightarrow> sent_with_token tenv (a, fst x1)"
proof -
  obtain ts n where x: "x = (ts, n)" by fastforce
  obtain g ts1 where g: "GetToken tenv ts = (g, ts1)" by (rule prod.exhaust)
  have h: "\<not> unhealthy (fst ts)" "t \<noteq> '''' \<and> TrimSpace t = t" if "g = Inr t" for t
    using unhealthy_ops(6) [of ts tenv] GetToken_not_blank [of tenv ts t] g that by auto
  have m: "manager_token (managed_env tenv henv) (ts, n) = (g, (ts1, n))" using g by (simp add: managed_env_def)
  show "snd x1 = snd x" using assms m x by (cases g) (auto simp: authorization_def)
  assume "r = Inr a"
  with assms m x obtain t where "g = Inr t" "a = Some (''Bearer '' @ t)" "x1 = (ts1, n)" by (cases g) (auto simp: authorization_def)
  with h [of t] g show "sent_with_token tenv (a, fst x1)" unfolding sent_with_token_def by (intro exI [of _ ts] exI [of _ t]) simp
qed

lemma managed_run:
  fixes henv :: "('w tstate \<times> 'n) http_env" and seen :: "'n \<Rightarrow> (string option \<times> 'w tstate) list"
  assumes "\<forall>u a x. seen (snd (snd (http_get henv u a x))) = (a, fst x) # seen (snd x)"
    and "tokens c = TokenManager" and "seen n = []" and "(http_step (managed_env tenv henv))\<^sup>*\<^sup>* (c, (ts, n)) (c', (ts', n'))"
  shows "\<forall>r\<in>set (seen n'). sent_with_token tenv r"
proof -
  let ?env = "managed_env tenv henv"
  let ?P = "\<lambda>x. \<forall>r\<in>set (seen (snd x)). sent_with_token tenv r"
  have keeps: "raw_keeps ?env TokenManager ?P"
    unfolding raw_keeps_def
  proof (intro allI impI)
    fix c :: HTTPClient and x :: "'w tstate \<times> 'n" and path params assume t: "tokens c = TokenManager" and p: "?P x"
    show "?P (snd (snd (getRaw ?env path params (c, x))))"
    proof (rule getRaw_network [of ?env path params c x])
      fix e assume "authorization ?env (c, x) = (Inl e, snd (snd (getRaw ?env path params (c, x))))"
      from managed_authorization(1) [OF t this] p show ?thesis by simp
    next
      fix u a x1
      assume a: "authorization ?env (c, x) = (Inr a, x1)" and x2: "snd (snd (getRaw ?env path params (c, x))) = snd (http_get ?env u a x1)"
      have "seen (snd (snd (http_get henv u a x1))) = (a, fst x1) # seen (snd x1)" using assms(1) by blast
      with managed_authorization [OF t a] p show ?thesis unfolding x2 by simp
    qed (use p in simp)
  qed
  have "good TokenManager ?P (c, (ts, n))" using assms(2,3) by (simp add: good_def)
  from good_run [OF keeps assms(4) this] show ?thesis by (simp add: good_def)
qed

text \<open>
  C19 (safety). The SMD client over the real token manager, through any sequence of its operations: every
  request the network saw carried the token that a call of the manager's \<open>GetToken\<close> returned, the call that
  left the manager in the state in which the request was sent, on a manager that was not unhealthy; and that token is not blank and has no blanks around
  it. Once the manager is unhealthy, nothing is sent at all and the manager stays as it is, and
  \<open>/health\<close> answers 503 with the manager's reason. It is assumed that the network records, for each request, its
  header and the state of the manager at that moment.
\<close>

theorem unhealthy_manager_fails_closed:
  fixes henv :: "('w tstate \<times> 'n) http_env" and seen :: "'n \<Rightarrow> (string option \<times> 'w tstate) list"
  assumes "\<forall>u a x. seen (snd (snd (http_get henv u a x))) = (a, fst x) # seen (snd x)"
    and "tokens c = TokenManager" and "seen n = []" and "(http_step (managed_env tenv henv))\<^sup>*\<^sup>* (c, (ts, n)) (c', (ts', n'))"
  shows "(\<forall>r\<in>set (seen n'). \<exists>before t. GetToken tenv before = (Inr t, snd r) \<and> fst r = Some (''Bearer '' @ t) \<and>
            \<not> unhealthy (fst before) \<and> t \<noteq> '''' \<and> TrimSpace t = t) \<and>
         (unhealthy (fst ts) \<longrightarrow>
            ts' = ts \<and> n' = n \<and> status_of (healthHandler (Some (rep\<lparr>hr_tokenManager := Some (fst ts')\<rparr>))) = 503 \<and>
            Reporter_InitialSyncStatus (rep\<lparr>hr_tokenManager := Some (fst ts')\<rparr>) = (False, unhealthyErr (fst ts)))"
proof (intro conjI impI)
  show "\<forall>r\<in>set (seen n'). \<exists>before t. GetToken tenv before = (Inr t, snd r) \<and> fst r = Some (''Bearer '' @ t) \<and>
      \<not> unhealthy (fst before) \<and> t \<noteq> '''' \<and> TrimSpace t = t"
    using managed_run [OF assms] unfolding sent_with_token_def .
next
  assume u: "unhealthy (fst ts)"
  from unhealthy_sends_nothing [OF u assms(2,4)] show same: "ts' = ts" and "n' = n" by simp_all
  show st: "Reporter_InitialSyncStatus (rep\<lparr>hr_tokenManager := Some (fst ts')\<rparr>) = (False, unhealthyErr (fst ts))"
    using u same by (simp add: Reporter_InitialSyncStatus_def HealthStatus_def healthStatus_def)
  show "status_of (healthHandler (Some (rep\<lparr>hr_tokenManager := Some (fst ts')\<rparr>))) = 503"
    using st by (simp add: healthHandler_def)
qed

text \<open>A network that records the headers, and a manager whose last refresh failed.\<close>

definition net_env0 :: "((nat \<times> duration list) tstate \<times> (string option \<times> (nat \<times> duration list) tstate) list) http_env" where
  "net_env0 = \<lparr>hnow = (\<lambda>_. 0), http_newRequest = (\<lambda>_. None),
     http_get = (\<lambda>u a x. (Inr \<lparr>ha_status = 200, ha_body = Inr ''doc'', ha_close = None\<rparr>, (fst x, (a, fst x) # snd x))),
     manager_token = (\<lambda>x. (Inr '''', x)), tokenFn = (\<lambda>_. ''''), json_parse = (\<lambda>_. Inr (JObj [(''id'', JStr ''x0'')]))\<rparr>"

definition mgr_failed :: ServiceTokenManager where
  "mgr_failed = mgr1\<lparr>unhealthy := True, unhealthyErr := ''refused''\<rparr>"

definition mgr_fresh :: ServiceTokenManager where
  "mgr_fresh = mgr1\<lparr>refreshToken := ''ref''\<rparr>"

text \<open>With the other manager, whose refresh succeeds, one request is sent.\<close>

lemma mgr_fresh_sends:
  "\<exists>r. snd (snd (snd (HTTP_ComponentInformation (managed_env (tok_env0 True) net_env0) ''x0'' (hc0, ((mgr_fresh, (0, [])), []))))) = [r]"
proof -
  have "fst (GetToken (tok_env0 True) (mgr_fresh, (0, []))) = Inr ''tok''"
    by (simp add: mgr_fresh_def GetToken_def errIfUnhealthy_def RefreshTokenIfNeeded_def mtlsNeedsRefresh_def withRetries_def numeral_2_eq_2
        refreshMTLS_def ensureMTLSHTTPClient_def mgr1_simps tok_env0_def store_answer_def decodeOAuthTokenResponse_def
        updateMTLSTokens_def trims token_text_def Let_def)
  then obtain ts' where g: "GetToken (tok_env0 True) (mgr_fresh, (0, [])) = (Inr ''tok'', ts')" by (metis prod.collapse)
  have "\<exists>e. getRaw (managed_env (tok_env0 True) net_env0) p q (hc0, ((mgr_fresh, (0, [])), [])) = (Inr e, (hc0, (ts', [(Some (''Bearer '' @ ''tok''), ts')])))" for p q
    using g by (simp add: getRaw_def authorization_def managed_env_def net_env0_def hc0_miss)
  then obtain e where "getRaw (managed_env (tok_env0 True) net_env0) (''/State/Components/'' @ ''x0'') '''' (hc0, ((mgr_fresh, (0, [])), [])) =
      (Inr e, (hc0, (ts', [(Some (''Bearer '' @ ''tok''), ts')])))" by blast
  then show ?thesis
    by (cases ts') (auto simp: HTTP_ComponentInformation_def hc0_miss Let_def split: sum.splits prod.splits list.splits)
qed

theorem unhealthy_manager_fails_closed_witness:
  "(\<exists>r before t. snd (snd (snd (HTTP_ComponentInformation (managed_env (tok_env0 True) net_env0) ''x0'' (hc0, ((mgr_fresh, (0, [])), []))))) = [r] \<and>
     GetToken (tok_env0 True) before = (Inr t, snd r) \<and> fst r = Some (''Bearer '' @ t)) \<and>
   snd (snd (HTTP_ComponentInformation (managed_env (tok_env0 True) net_env0) ''x0'' (hc0, ((mgr_failed, (0, [])), [])))) = ((mgr_failed, (0, [])), []) \<and>
   Reporter_InitialSyncStatus \<lparr>hr_service = (None :: smd_backend SMDIntegrationService option), hr_tokenManager = Some mgr_failed\<rparr> = (False, ''refused'')"
proof -
  let ?ts = "(mgr_failed, (0 :: nat, [] :: duration list))" and ?env = "managed_env (tok_env0 True) net_env0"
  obtain c' ts' n' where s: "snd (HTTP_ComponentInformation ?env ''x0'' (hc0, (?ts, []))) = (c', (ts', n'))" by (metis surj_pair)
  have run: "(http_step ?env)\<^sup>*\<^sup>* (hc0, (?ts, [])) (c', (ts', n'))" unfolding s [symmetric] by (intro r_into_rtranclp http_step.component)
  have rec: "\<forall>u a x. snd (snd (http_get net_env0 u a x)) = (a, fst x) # snd x" by (simp add: net_env0_def)
  note t = unhealthy_manager_fails_closed [where seen = "\<lambda>n. n", OF rec hc0_miss(3) refl run,
      where rep = "\<lparr>hr_service = (None :: smd_backend SMDIntegrationService option), hr_tokenManager = None\<rparr>"]
  have u: "unhealthy (fst ?ts)" "unhealthyErr (fst ?ts) = ''refused''" by (simp_all add: mgr_failed_def)
  let ?tf = "(mgr_fresh, (0 :: nat, [] :: duration list))"
  obtain cf tf nf where f: "snd (HTTP_ComponentInformation ?env ''x0'' (hc0, (?tf, []))) = (cf, (tf, nf))" by (metis surj_pair)
  have runf: "(http_step ?env)\<^sup>*\<^sup>* (hc0, (?tf, [])) (cf, (tf, nf))" unfolding f [symmetric] by (intro r_into_rtranclp http_step.component)
  obtain r where r: "nf = [r]" using mgr_fresh_sends f by auto
  have "\<exists>before t. GetToken (tok_env0 True) before = (Inr t, snd r) \<and> fst r = Some (''Bearer '' @ t)"
    using conjunct1 [OF unhealthy_manager_fails_closed [where seen = "\<lambda>n. n", OF rec hc0_miss(3) refl runf]] r by auto
  with t u r f show ?thesis unfolding s by auto
qed

end
