(* ===== verification/API_Client.thy ===== *)
theory API_Client
  imports API_Handlers
begin

text \<open>
  \<open>pkg/client\<close>: the Go client of the resource API. A client sends a call (method, path, headers, body)
  and reads the answer; sending is \<open>cl_Do\<close> of the environment, over a network state. Decoding an answer is
  decoding its JSON into the zero value of the result. The methods of the four kinds are instances of one
  template. The last sections put the client over the handlers of \<open>API_Handlers\<close>.
\<close>

section \<open>Paths\<close>

text \<open>\<open>path.Clean\<close> and \<open>path.Join\<close>; the elements seen so far are kept in reverse.\<close>

definition clean_step :: "bool \<Rightarrow> string list \<Rightarrow> string \<Rightarrow> string list" where
  "clean_step rooted st e =
     (if e = '''' \<or> e = ''.'' then st
      else if e = ''..'' then
        (case st of [] \<Rightarrow> if rooted then [] else [e] | x # xs \<Rightarrow> if x = ''..'' then e # st else xs)
      else e # st)"

definition path_Clean :: "string \<Rightarrow> string" where
  "path_Clean s =
     (let rooted = (s \<noteq> [] \<and> hd s = CHR ''/'');
          body = join ''/'' (rev (foldl (clean_step rooted) [] (Split (CHR ''/'') s))) in
      if rooted then CHR ''/'' # body else if body = '''' then ''.'' else body)"

definition path_Join :: "string list \<Rightarrow> string" where
  "path_Join elems = (let es = filter (\<lambda>e. e \<noteq> '''') elems in if es = [] then '''' else path_Clean (join ''/'' es))"

text \<open>A URL: scheme and host, and the path. With a host, the path that is sent starts with a slash.\<close>

record url =
  u_site :: string
  u_Path :: string

definition request_path :: "string \<Rightarrow> string" where
  "request_path p = (if p = '''' then ''/'' else if hd p = CHR ''/'' then p else CHR ''/'' # p)"

section \<open>The client\<close>

record Client =
  cl_baseURL :: url
  cl_version :: string
  cl_bearerToken :: string

record api_call =
  ac_method :: http_method
  ac_site :: string
  ac_path :: string
  ac_ctype :: "string option"
  ac_accept :: string
  ac_auth :: "string option"
  ac_body :: "string option"

text \<open>An answer: what reading its body gives, and the error if reading broke off.\<close>

record api_answer =
  an_status :: nat
  an_ContentLength :: int
  an_read :: "string \<times> goerror option"

record 'n client_env =
  cl_json :: json_env
  cl_keys :: "strmap \<Rightarrow> string list"
  cl_Parse :: "string \<Rightarrow> url result"
  cl_NewRequest :: "http_method \<Rightarrow> url \<Rightarrow> goerror option"
  cl_Do :: "api_call \<Rightarrow> 'n \<Rightarrow> api_answer result \<times> 'n"

definition NewClient :: "'n client_env \<Rightarrow> string \<Rightarrow> Client result" where
  "NewClient env base =
     (case cl_Parse env base of
        Inl e \<Rightarrow> Inl (EWrap ''invalid base URL: '' e '''')
      | Inr u \<Rightarrow> Inr \<lparr>cl_baseURL = u, cl_version = '''', cl_bearerToken = ''''\<rparr>)"

definition WithVersion :: "string \<Rightarrow> Client \<Rightarrow> Client" where
  "WithVersion v c = c\<lparr>cl_version := v\<rparr>"

definition WithBearerToken :: "string \<Rightarrow> Client \<Rightarrow> Client" where
  "WithBearerToken t c = c\<lparr>cl_bearerToken := t\<rparr>"

definition NewClientWithBearerToken :: "'n client_env \<Rightarrow> string \<Rightarrow> string \<Rightarrow> Client result" where
  "NewClientWithBearerToken env base t = (case NewClient env base of Inl e \<Rightarrow> Inl e | Inr c \<Rightarrow> Inr (WithBearerToken t c))"

fun dec_ErrorResponse :: "json \<Rightarrow> string result" where
  "dec_ErrorResponse JNull = Inr ''''"
| "dec_ErrorResponse (JObj fs) = field into_str ''error'' fs ''''"
| "dec_ErrorResponse _ = Inl type_error"

text \<open>The error for a status from 400; \<open>what\<close> is \<open>PATCH\<close> and a space in one of the two functions.\<close>

definition api_error :: "json_env \<Rightarrow> string \<Rightarrow> nat \<Rightarrow> string \<Rightarrow> goerror" where
  "api_error je what status body =
     (case rbind (je_parse je body) dec_ErrorResponse of
        Inl e \<Rightarrow> ENew (what @ ''HTTP error '' @ nat_str status @ '': '' @ body)
      | Inr text \<Rightarrow> ENew (what @ ''API error ('' @ nat_str status @ ''): '' @ text))"

definition json_type :: "Client \<Rightarrow> string" where
  "json_type c = (if cl_version c \<noteq> '''' then ''application/json;version='' @ cl_version c else ''application/json'')"

definition bearer :: "Client \<Rightarrow> string option" where
  "bearer c = (if cl_bearerToken c \<noteq> '''' then Some (''Bearer '' @ cl_bearerToken c) else None)"

definition call_url :: "Client \<Rightarrow> string \<Rightarrow> url" where
  "call_url c endpoint = (cl_baseURL c)\<lparr>u_Path := path_Join [u_Path (cl_baseURL c), endpoint]\<rparr>"

text \<open>
  \<open>doRequest\<close>. The block that logs the response reads a body of known length and puts back what it got: an
  error of that reading is logged and forgotten. The body is None for nil, else the outcome of encoding it.
\<close>

definition doRequest :: "'n client_env \<Rightarrow> Client \<Rightarrow> http_method \<Rightarrow> string \<Rightarrow> string result option \<Rightarrow> (json \<Rightarrow> 'r result) \<Rightarrow> 'n \<Rightarrow> 'r result \<times> 'n" where
  "doRequest env c m endpoint body dec n =
     (case body of
        Some (Inl e) \<Rightarrow> (Inl (EWrap ''failed to marshal request body: '' e ''''), n)
      | _ \<Rightarrow>
          let u = call_url c endpoint; data = (case body of Some (Inr d) \<Rightarrow> Some d | _ \<Rightarrow> None) in
          (case cl_NewRequest env m u of
             Some e \<Rightarrow> (Inl (EWrap ''failed to create request: '' e ''''), n)
           | None \<Rightarrow>
               (case cl_Do env \<lparr>ac_method = m, ac_site = u_site u, ac_path = request_path (u_Path u),
                       ac_ctype = (if data = None then None else Some (json_type c)), ac_accept = json_type c,
                       ac_auth = bearer c, ac_body = data\<rparr> n of
                  (Inl e, n1) \<Rightarrow> (Inl (EWrap ''request failed: '' e ''''), n1)
                | (Inr a, n1) \<Rightarrow>
                    let (respBody, broken) = an_read a in
                    (case (if an_ContentLength a > 0 then None else broken) of
                       Some e \<Rightarrow> (Inl (EWrap ''failed to read response body: '' e ''''), n1)
                     | None \<Rightarrow>
                         if an_status a \<ge> 400 then (Inl (api_error (cl_json env) '''' (an_status a) respBody), n1)
                         else (case rbind (je_parse (cl_json env) respBody) dec of
                                 Inl e \<Rightarrow> (Inl (EWrap ''failed to unmarshal response: '' e ''''), n1)
                               | Inr x \<Rightarrow> (Inr x, n1))))))"

definition doPatchRequest :: "'n client_env \<Rightarrow> Client \<Rightarrow> string \<Rightarrow> string \<Rightarrow> string \<Rightarrow> (json \<Rightarrow> 'r result) \<Rightarrow> 'n \<Rightarrow> 'r result \<times> 'n" where
  "doPatchRequest env c endpoint patchData contentType dec n =
     (let u = call_url c endpoint in
      case cl_NewRequest env PATCH u of
        Some e \<Rightarrow> (Inl (EWrap ''failed to create patch request: '' e ''''), n)
      | None \<Rightarrow>
          (case cl_Do env \<lparr>ac_method = PATCH, ac_site = u_site u, ac_path = request_path (u_Path u), ac_ctype = Some contentType,
                  ac_accept = json_type c, ac_auth = bearer c, ac_body = Some patchData\<rparr> n of
             (Inl e, n1) \<Rightarrow> (Inl (EWrap ''patch request failed: '' e ''''), n1)
           | (Inr a, n1) \<Rightarrow>
               (case an_read a of
                  (_, Some e) \<Rightarrow> (Inl (EWrap ''failed to read patch response body: '' e ''''), n1)
                | (respBody, None) \<Rightarrow>
                    if an_status a \<ge> 400 then (Inl (api_error (cl_json env) ''PATCH '' (an_status a) respBody), n1)
                    else (case rbind (je_parse (cl_json env) respBody) dec of
                            Inl e \<Rightarrow> (Inl (EWrap ''failed to unmarshal patch response: '' e ''''), n1)
                          | Inr x \<Rightarrow> (Inr x, n1)))))"

section \<open>The template of the methods\<close>

text \<open>Request bodies and the results they are decoded into.\<close>

definition enc_request :: "'n client_env \<Rightarrow> ('sp, 'st) kind_info \<Rightarrow> 'sp resource_request \<Rightarrow> json result" where
  "enc_request env K rq =
     rbind (je_enc_meta (cl_json env) (rq_Metadata rq)) (\<lambda>m.
       Inr (JObj ([(''metadata'', m), (''spec'', k_enc_spec K (rq_Spec rq))] @
                  omit_map (cl_keys env) ''labels'' (rq_Labels rq) @ omit_map (cl_keys env) ''annotations'' (rq_Annotations rq))))"

definition request_data :: "'n client_env \<Rightarrow> ('sp, 'st) kind_info \<Rightarrow> 'sp resource_request \<Rightarrow> string result" where
  "request_data env K rq = rbind (enc_request env K rq) (\<lambda>j. Inr (je_print (cl_json env) j))"

definition one_resource :: "'n client_env \<Rightarrow> ('sp, 'st) kind_info \<Rightarrow> json \<Rightarrow> ('sp, 'st) resource result" where
  "one_resource env K = dec_resource (cl_json env) K (zero_resource K)"

definition all_resources :: "'n client_env \<Rightarrow> ('sp, 'st) kind_info \<Rightarrow> json \<Rightarrow> ('sp, 'st) resource list result" where
  "all_resources env K = into_slice (dec_resource (cl_json env) K) (zero_resource K) []"

fun dec_DeleteResponse :: "json \<Rightarrow> (string \<times> string) result" where
  "dec_DeleteResponse JNull = Inr ('''', '''')"
| "dec_DeleteResponse (JObj fs) =
     rbind (field into_str ''message'' fs '''') (\<lambda>m. rbind (field into_str ''uid'' fs '''') (\<lambda>u. Inr (m, u)))"
| "dec_DeleteResponse _ = Inl type_error"

text \<open>\<open>HealthResponse\<close> is a map: null leaves it nil.\<close>

fun dec_HealthResponse :: "json \<Rightarrow> (string \<times> json) list result" where
  "dec_HealthResponse JNull = Inr []"
| "dec_HealthResponse (JObj fs) = Inr fs"
| "dec_HealthResponse _ = Inl type_error"

definition GetHealth :: "'n client_env \<Rightarrow> Client \<Rightarrow> 'n \<Rightarrow> (string \<times> json) list result \<times> 'n" where
  "GetHealth env c = doRequest env c GET ''health'' None dec_HealthResponse"

definition list_endpoint :: "('sp, 'st) kind_info \<Rightarrow> string" where
  "list_endpoint K = ''/'' @ k_plural K"

definition item_endpoint :: "('sp, 'st) kind_info \<Rightarrow> string \<Rightarrow> string" where
  "item_endpoint K uid = ''/'' @ k_plural K @ ''/'' @ uid"

definition status_endpoint :: "('sp, 'st) kind_info \<Rightarrow> string \<Rightarrow> string" where
  "status_endpoint K uid = ''/'' @ k_plural K @ ''/'' @ uid @ ''/status''"

definition cl_get_all :: "'n client_env \<Rightarrow> ('sp, 'st) kind_info \<Rightarrow> Client \<Rightarrow> 'n \<Rightarrow> ('sp, 'st) resource list result \<times> 'n" where
  "cl_get_all env K c = doRequest env c GET (list_endpoint K) None (all_resources env K)"

definition cl_get :: "'n client_env \<Rightarrow> ('sp, 'st) kind_info \<Rightarrow> Client \<Rightarrow> string \<Rightarrow> 'n \<Rightarrow> ('sp, 'st) resource result \<times> 'n" where
  "cl_get env K c uid = doRequest env c GET (item_endpoint K uid) None (one_resource env K)"

definition cl_create :: "'n client_env \<Rightarrow> ('sp, 'st) kind_info \<Rightarrow> Client \<Rightarrow> 'sp resource_request \<Rightarrow> 'n \<Rightarrow> ('sp, 'st) resource result \<times> 'n" where
  "cl_create env K c rq = doRequest env c POST (list_endpoint K) (Some (request_data env K rq)) (one_resource env K)"

definition cl_update :: "'n client_env \<Rightarrow> ('sp, 'st) kind_info \<Rightarrow> Client \<Rightarrow> string \<Rightarrow> 'sp resource_request \<Rightarrow> 'n \<Rightarrow> ('sp, 'st) resource result \<times> 'n" where
  "cl_update env K c uid rq = doRequest env c PUT (item_endpoint K uid) (Some (request_data env K rq)) (one_resource env K)"

definition cl_patch :: "'n client_env \<Rightarrow> ('sp, 'st) kind_info \<Rightarrow> Client \<Rightarrow> string \<Rightarrow> string \<Rightarrow> string \<Rightarrow> 'n \<Rightarrow> ('sp, 'st) resource result \<times> 'n" where
  "cl_patch env K c uid patchData contentType = doPatchRequest env c (item_endpoint K uid) patchData contentType (one_resource env K)"

definition cl_update_status :: "'n client_env \<Rightarrow> ('sp, 'st) kind_info \<Rightarrow> Client \<Rightarrow> string \<Rightarrow> 'st \<Rightarrow> 'n \<Rightarrow> ('sp, 'st) resource result \<times> 'n" where
  "cl_update_status env K c uid st =
     doRequest env c PUT (status_endpoint K uid) (Some (Inr (je_print (cl_json env) (k_enc_status K st)))) (one_resource env K)"

definition cl_patch_status_type :: "'n client_env \<Rightarrow> ('sp, 'st) kind_info \<Rightarrow> Client \<Rightarrow> string \<Rightarrow> string \<Rightarrow> string \<Rightarrow> 'n \<Rightarrow> ('sp, 'st) resource result \<times> 'n" where
  "cl_patch_status_type env K c uid patchData contentType = doPatchRequest env c (status_endpoint K uid) patchData contentType (one_resource env K)"

definition cl_patch_status :: "'n client_env \<Rightarrow> ('sp, 'st) kind_info \<Rightarrow> Client \<Rightarrow> string \<Rightarrow> string \<Rightarrow> 'n \<Rightarrow> ('sp, 'st) resource result \<times> 'n" where
  "cl_patch_status env K c uid patchData = cl_patch_status_type env K c uid patchData ''application/merge-patch+json''"

definition cl_delete :: "'n client_env \<Rightarrow> ('sp, 'st) kind_info \<Rightarrow> Client \<Rightarrow> string \<Rightarrow> 'n \<Rightarrow> goerror option \<times> 'n" where
  "cl_delete env K c uid n =
     (case doRequest env c DELETE (item_endpoint K uid) None dec_DeleteResponse n of
        (Inl e, n1) \<Rightarrow> (Some e, n1)
      | (Inr _, n1) \<Rightarrow> (None, n1))"

section \<open>The methods of the four kinds\<close>

definition Client_GetClusterDefaultss :: "'n client_env \<Rightarrow> Client \<Rightarrow> 'n \<Rightarrow> ClusterDefaults list result \<times> 'n" where
  "Client_GetClusterDefaultss env = cl_get_all env ClusterDefaults_kind"

definition Client_GetClusterDefaults :: "'n client_env \<Rightarrow> Client \<Rightarrow> string \<Rightarrow> 'n \<Rightarrow> ClusterDefaults result \<times> 'n" where
  "Client_GetClusterDefaults env = cl_get env ClusterDefaults_kind"

definition Client_CreateClusterDefaults :: "'n client_env \<Rightarrow> Client \<Rightarrow> ClusterDefaultsSpec resource_request \<Rightarrow> 'n \<Rightarrow> ClusterDefaults result \<times> 'n" where
  "Client_CreateClusterDefaults env = cl_create env ClusterDefaults_kind"

definition Client_UpdateClusterDefaults :: "'n client_env \<Rightarrow> Client \<Rightarrow> string \<Rightarrow> ClusterDefaultsSpec resource_request \<Rightarrow> 'n \<Rightarrow> ClusterDefaults result \<times> 'n" where
  "Client_UpdateClusterDefaults env = cl_update env ClusterDefaults_kind"

definition Client_PatchClusterDefaults :: "'n client_env \<Rightarrow> Client \<Rightarrow> string \<Rightarrow> string \<Rightarrow> string \<Rightarrow> 'n \<Rightarrow> ClusterDefaults result \<times> 'n" where
  "Client_PatchClusterDefaults env = cl_patch env ClusterDefaults_kind"

definition Client_UpdateClusterDefaultsStatus :: "'n client_env \<Rightarrow> Client \<Rightarrow> string \<Rightarrow> PhaseStatus \<Rightarrow> 'n \<Rightarrow> ClusterDefaults result \<times> 'n" where
  "Client_UpdateClusterDefaultsStatus env = cl_update_status env ClusterDefaults_kind"

definition Client_PatchClusterDefaultsStatus :: "'n client_env \<Rightarrow> Client \<Rightarrow> string \<Rightarrow> string \<Rightarrow> 'n \<Rightarrow> ClusterDefaults result \<times> 'n" where
  "Client_PatchClusterDefaultsStatus env = cl_patch_status env ClusterDefaults_kind"

definition Client_PatchClusterDefaultsStatusWithType :: "'n client_env \<Rightarrow> Client \<Rightarrow> string \<Rightarrow> string \<Rightarrow> string \<Rightarrow> 'n \<Rightarrow> ClusterDefaults result \<times> 'n" where
  "Client_PatchClusterDefaultsStatusWithType env = cl_patch_status_type env ClusterDefaults_kind"

definition Client_DeleteClusterDefaults :: "'n client_env \<Rightarrow> Client \<Rightarrow> string \<Rightarrow> 'n \<Rightarrow> goerror option \<times> 'n" where
  "Client_DeleteClusterDefaults env = cl_delete env ClusterDefaults_kind"


definition Client_GetGroups :: "'n client_env \<Rightarrow> Client \<Rightarrow> 'n \<Rightarrow> Group list result \<times> 'n" where
  "Client_GetGroups env = cl_get_all env (Group_kind (cl_keys env))"

definition Client_GetGroup :: "'n client_env \<Rightarrow> Client \<Rightarrow> string \<Rightarrow> 'n \<Rightarrow> Group result \<times> 'n" where
  "Client_GetGroup env = cl_get env (Group_kind (cl_keys env))"

definition Client_CreateGroup :: "'n client_env \<Rightarrow> Client \<Rightarrow> GroupSpec resource_request \<Rightarrow> 'n \<Rightarrow> Group result \<times> 'n" where
  "Client_CreateGroup env = cl_create env (Group_kind (cl_keys env))"

definition Client_UpdateGroup :: "'n client_env \<Rightarrow> Client \<Rightarrow> string \<Rightarrow> GroupSpec resource_request \<Rightarrow> 'n \<Rightarrow> Group result \<times> 'n" where
  "Client_UpdateGroup env = cl_update env (Group_kind (cl_keys env))"

definition Client_PatchGroup :: "'n client_env \<Rightarrow> Client \<Rightarrow> string \<Rightarrow> string \<Rightarrow> string \<Rightarrow> 'n \<Rightarrow> Group result \<times> 'n" where
  "Client_PatchGroup env = cl_patch env (Group_kind (cl_keys env))"

definition Client_UpdateGroupStatus :: "'n client_env \<Rightarrow> Client \<Rightarrow> string \<Rightarrow> GroupStatus \<Rightarrow> 'n \<Rightarrow> Group result \<times> 'n" where
  "Client_UpdateGroupStatus env = cl_update_status env (Group_kind (cl_keys env))"

definition Client_PatchGroupStatus :: "'n client_env \<Rightarrow> Client \<Rightarrow> string \<Rightarrow> string \<Rightarrow> 'n \<Rightarrow> Group result \<times> 'n" where
  "Client_PatchGroupStatus env = cl_patch_status env (Group_kind (cl_keys env))"

definition Client_PatchGroupStatusWithType :: "'n client_env \<Rightarrow> Client \<Rightarrow> string \<Rightarrow> string \<Rightarrow> string \<Rightarrow> 'n \<Rightarrow> Group result \<times> 'n" where
  "Client_PatchGroupStatusWithType env = cl_patch_status_type env (Group_kind (cl_keys env))"

definition Client_DeleteGroup :: "'n client_env \<Rightarrow> Client \<Rightarrow> string \<Rightarrow> 'n \<Rightarrow> goerror option \<times> 'n" where
  "Client_DeleteGroup env = cl_delete env (Group_kind (cl_keys env))"


definition Client_GetInstanceInfos :: "'n client_env \<Rightarrow> Client \<Rightarrow> 'n \<Rightarrow> InstanceInfo list result \<times> 'n" where
  "Client_GetInstanceInfos env = cl_get_all env InstanceInfo_kind"

definition Client_GetInstanceInfo :: "'n client_env \<Rightarrow> Client \<Rightarrow> string \<Rightarrow> 'n \<Rightarrow> InstanceInfo result \<times> 'n" where
  "Client_GetInstanceInfo env = cl_get env InstanceInfo_kind"

definition Client_CreateInstanceInfo :: "'n client_env \<Rightarrow> Client \<Rightarrow> InstanceInfoSpec resource_request \<Rightarrow> 'n \<Rightarrow> InstanceInfo result \<times> 'n" where
  "Client_CreateInstanceInfo env = cl_create env InstanceInfo_kind"

definition Client_UpdateInstanceInfo :: "'n client_env \<Rightarrow> Client \<Rightarrow> string \<Rightarrow> InstanceInfoSpec resource_request \<Rightarrow> 'n \<Rightarrow> InstanceInfo result \<times> 'n" where
  "Client_UpdateInstanceInfo env = cl_update env InstanceInfo_kind"

definition Client_PatchInstanceInfo :: "'n client_env \<Rightarrow> Client \<Rightarrow> string \<Rightarrow> string \<Rightarrow> string \<Rightarrow> 'n \<Rightarrow> InstanceInfo result \<times> 'n" where
  "Client_PatchInstanceInfo env = cl_patch env InstanceInfo_kind"

definition Client_UpdateInstanceInfoStatus :: "'n client_env \<Rightarrow> Client \<Rightarrow> string \<Rightarrow> PhaseStatus \<Rightarrow> 'n \<Rightarrow> InstanceInfo result \<times> 'n" where
  "Client_UpdateInstanceInfoStatus env = cl_update_status env InstanceInfo_kind"

definition Client_PatchInstanceInfoStatus :: "'n client_env \<Rightarrow> Client \<Rightarrow> string \<Rightarrow> string \<Rightarrow> 'n \<Rightarrow> InstanceInfo result \<times> 'n" where
  "Client_PatchInstanceInfoStatus env = cl_patch_status env InstanceInfo_kind"

definition Client_PatchInstanceInfoStatusWithType :: "'n client_env \<Rightarrow> Client \<Rightarrow> string \<Rightarrow> string \<Rightarrow> string \<Rightarrow> 'n \<Rightarrow> InstanceInfo result \<times> 'n" where
  "Client_PatchInstanceInfoStatusWithType env = cl_patch_status_type env InstanceInfo_kind"

definition Client_DeleteInstanceInfo :: "'n client_env \<Rightarrow> Client \<Rightarrow> string \<Rightarrow> 'n \<Rightarrow> goerror option \<times> 'n" where
  "Client_DeleteInstanceInfo env = cl_delete env InstanceInfo_kind"


definition Client_GetWireGuardPeers :: "'n client_env \<Rightarrow> Client \<Rightarrow> 'n \<Rightarrow> WireGuardPeer list result \<times> 'n" where
  "Client_GetWireGuardPeers env = cl_get_all env WireGuardPeer_kind"

definition Client_GetWireGuardPeer :: "'n client_env \<Rightarrow> Client \<Rightarrow> string \<Rightarrow> 'n \<Rightarrow> WireGuardPeer result \<times> 'n" where
  "Client_GetWireGuardPeer env = cl_get env WireGuardPeer_kind"

definition Client_CreateWireGuardPeer :: "'n client_env \<Rightarrow> Client \<Rightarrow> WireGuardPeerSpec resource_request \<Rightarrow> 'n \<Rightarrow> WireGuardPeer result \<times> 'n" where
  "Client_CreateWireGuardPeer env = cl_create env WireGuardPeer_kind"

definition Client_UpdateWireGuardPeer :: "'n client_env \<Rightarrow> Client \<Rightarrow> string \<Rightarrow> WireGuardPeerSpec resource_request \<Rightarrow> 'n \<Rightarrow> WireGuardPeer result \<times> 'n" where
  "Client_UpdateWireGuardPeer env = cl_update env WireGuardPeer_kind"

definition Client_PatchWireGuardPeer :: "'n client_env \<Rightarrow> Client \<Rightarrow> string \<Rightarrow> string \<Rightarrow> string \<Rightarrow> 'n \<Rightarrow> WireGuardPeer result \<times> 'n" where
  "Client_PatchWireGuardPeer env = cl_patch env WireGuardPeer_kind"

definition Client_UpdateWireGuardPeerStatus :: "'n client_env \<Rightarrow> Client \<Rightarrow> string \<Rightarrow> WireGuardPeerStatus \<Rightarrow> 'n \<Rightarrow> WireGuardPeer result \<times> 'n" where
  "Client_UpdateWireGuardPeerStatus env = cl_update_status env WireGuardPeer_kind"

definition Client_PatchWireGuardPeerStatus :: "'n client_env \<Rightarrow> Client \<Rightarrow> string \<Rightarrow> string \<Rightarrow> 'n \<Rightarrow> WireGuardPeer result \<times> 'n" where
  "Client_PatchWireGuardPeerStatus env = cl_patch_status env WireGuardPeer_kind"

definition Client_PatchWireGuardPeerStatusWithType :: "'n client_env \<Rightarrow> Client \<Rightarrow> string \<Rightarrow> string \<Rightarrow> string \<Rightarrow> 'n \<Rightarrow> WireGuardPeer result \<times> 'n" where
  "Client_PatchWireGuardPeerStatusWithType env = cl_patch_status_type env WireGuardPeer_kind"

definition Client_DeleteWireGuardPeer :: "'n client_env \<Rightarrow> Client \<Rightarrow> string \<Rightarrow> 'n \<Rightarrow> goerror option \<times> 'n" where
  "Client_DeleteWireGuardPeer env = cl_delete env WireGuardPeer_kind"

section \<open>Log levels\<close>

datatype zerolog_level = WarnLevel | InfoLevel | DebugLevel

definition LogLevel_Set :: "string \<Rightarrow> string result" where
  "LogLevel_Set v = (if v \<in> {''info'', ''warning'', ''debug''} then Inr v else Inl (ENew ''must be one of [info warning debug]''))"

definition DefaultLogger :: zerolog_level where
  "DefaultLogger = WarnLevel"

definition NewLogger :: "string \<Rightarrow> zerolog_level \<times> goerror option" where
  "NewLogger level =
     (if level = ''warning'' then (WarnLevel, None)
      else if level = ''info'' then (InfoLevel, None)
      else if level = ''debug'' then (DebugLevel, None)
      else (DefaultLogger, Some (ENew (''invalid log level: '' @ level))))"

section \<open>The server as the client's network\<close>

text \<open>
  The bytes of a response: the encoder ends a document with a newline. A body that cannot be encoded is
  replaced by a message, with the status that was already sent; a panic has an empty body.
\<close>

fun docs_of :: "json_env \<Rightarrow> ('sp, 'st) kind_info \<Rightarrow> ('sp, 'st) resource list \<Rightarrow> json list result" where
  "docs_of je K [] = Inr []"
| "docs_of je K (r # rs) = rbind (je_enc_meta je (Meta r)) (\<lambda>m. rbind (docs_of je K rs) (\<lambda>js. Inr (document K r m # js)))"

fun body_json :: "json_env \<Rightarrow> ('sp, 'st) kind_info \<Rightarrow> ('sp, 'st) api_body \<Rightarrow> json result" where
  "body_json je K (RespList rs) = rbind (docs_of je K rs) (\<lambda>js. Inr (JArr js))"
| "body_json je K (RespOne r) = rbind (je_enc_meta je (Meta r)) (\<lambda>m. Inr (document K r m))"
| "body_json je K (DeleteResponse m u) = Inr (JObj [(''message'', JStr m), (''uid'', JStr u)])"
| "body_json je K (ErrorResponse t code) = Inr (JObj ([(''error'', JStr t)] @ omit_int ''code'' (int code)))"
| "body_json je K (Panicked t) = Inl (EPanic t)"

definition body_text :: "json_env \<Rightarrow> ('sp, 'st) kind_info \<Rightarrow> ('sp, 'st) api_body \<Rightarrow> string" where
  "body_text je K body =
     (case body_json je K body of
        Inr j \<Rightarrow> je_print je j @ nl
      | Inl (EPanic t) \<Rightarrow> ''''
      | Inl e \<Rightarrow> ''failed to encode response: '' @ err_text e @ nl)"

definition answer_of :: "json_env \<Rightarrow> ('sp, 'st) kind_info \<Rightarrow> ('sp, 'st) api_response \<Rightarrow> api_answer" where
  "answer_of je K resp =
     (let text = body_text je K (rs_body resp) in
      \<lparr>an_status = rs_status resp, an_ContentLength = int (length text), an_read = (text, None)\<rparr>)"

text \<open>
  The part of the server that serves one kind. A path with a route for another method only is answered with 405, one without a route with
  404; chi takes a trailing slash after the prefix for the list.
\<close>

definition has_route :: "('sp, 'st, 'b, 'e) api_env \<Rightarrow> ('sp, 'st) kind_info \<Rightarrow> string list \<Rightarrow> bool" where
  "has_route ae K segs = list_ex (\<lambda>m. resource_routes ae K m segs \<noteq> None) [GET, POST, PUT, PATCH, DELETE]"

definition kind_network :: "('sp, 'st, 'b, 'e) api_env \<Rightarrow> ('sp, 'st) kind_info \<Rightarrow> string \<Rightarrow> api_call \<Rightarrow> 'b \<times> 'e \<Rightarrow> api_answer result \<times> 'b \<times> 'e" where
  "kind_network ae K version call s =
     (let plain = (\<lambda>status text. Inr \<lparr>an_status = status, an_ContentLength = int (length text), an_read = (text, None)\<rparr>) in
      case Split (CHR ''/'') (ac_path call) of
        root # p # segs \<Rightarrow>
          if p \<noteq> k_plural K then (plain 404 (''404 page not found'' @ nl), s)
          else (case resource_routes ae K (ac_method call) (if segs = [''''] then [] else segs) of
                  None \<Rightarrow> (if has_route ae K segs then plain 405 '''' else plain 404 (''404 page not found'' @ nl), s)
                | Some h \<Rightarrow>
                    (case h \<lparr>hr_uid = '''', hr_body = Inr (case ac_body call of None \<Rightarrow> '''' | Some d \<Rightarrow> d),
                             hr_ctype = (case ac_ctype call of None \<Rightarrow> '''' | Some t \<Rightarrow> t), hr_version = version\<rparr> s of
                       (resp, s') \<Rightarrow> (Inr (answer_of (json (ae_store ae)) K resp), s')))
      | _ \<Rightarrow> (plain 404 (''404 page not found'' @ nl), s))"

section \<open>What reaches the server\<close>

text \<open>Elements of a path that cleaning keeps.\<close>

definition good_segment :: "string \<Rightarrow> bool" where
  "good_segment e \<longleftrightarrow> e \<noteq> '''' \<and> e \<noteq> ''.'' \<and> e \<noteq> ''..'' \<and> CHR ''/'' \<notin> set e"

lemma clean_good: "list_all good_segment es \<Longrightarrow> foldl (clean_step rooted) st es = rev es @ st"
  by (induction es arbitrary: st) (auto simp: clean_step_def good_segment_def)

lemma clean_empty [simp]: "clean_step rooted st '''' = st"
  by (simp add: clean_step_def)

lemma join_Cons: "es \<noteq> [] \<Longrightarrow> join ''/'' (e # es) = e @ CHR ''/'' # join ''/'' es"
  by (cases es) (simp_all add: join_def)

lemma join_single [simp]: "join sep [e] = e"
  by (simp add: join_def)

lemma Split_join: "es \<noteq> [] \<Longrightarrow> list_all good_segment es \<Longrightarrow> Split (CHR ''/'') (join ''/'' es) = es"
proof (induction es)
  case (Cons e es)
  then show ?case by (cases "es = []") (auto simp: join_Cons Split_append Split_no_sep good_segment_def)
qed simp

lemma Clean_rooted:
  assumes "es \<noteq> []" "list_all good_segment es"
  shows "path_Clean (CHR ''/'' # join ''/'' es) = CHR ''/'' # join ''/'' es"
    and "path_Clean (''//'' @ CHR ''/'' # join ''/'' es) = CHR ''/'' # join ''/'' es"
  using assms by (simp_all add: path_Clean_def Split_join clean_good)

text \<open>A base URL without a path.\<close>

definition at_root :: "Client \<Rightarrow> bool" where
  "at_root c \<longleftrightarrow> u_Path (cl_baseURL c) = '''' \<or> u_Path (cl_baseURL c) = ''/''"

lemma call_url_root:
  assumes "at_root c" "es \<noteq> []" "list_all good_segment es"
  shows "request_path (u_Path (call_url c (CHR ''/'' # join ''/'' es))) = CHR ''/'' # join ''/'' es"
proof -
  have "u_Path (call_url c (CHR ''/'' # join ''/'' es)) = CHR ''/'' # join ''/'' es"
    using assms(1) Clean_rooted [OF assms(2,3)] join_Cons [of "[CHR ''/'' # join ''/'' es]" "''/''"]
    by (auto simp: at_root_def call_url_def path_Join_def join_def)
  then show ?thesis by (simp add: request_path_def)
qed

lemma endpoints_join:
  "list_endpoint K = CHR ''/'' # join ''/'' [k_plural K]"
  "item_endpoint K uid = CHR ''/'' # join ''/'' [k_plural K, uid]"
  "status_endpoint K uid = CHR ''/'' # join ''/'' [k_plural K, uid, ''status'']"
  by (simp_all add: list_endpoint_def item_endpoint_def status_endpoint_def join_def)

text \<open>The client talks to the server of one kind.\<close>

definition serves :: "('b \<times> 'e) client_env \<Rightarrow> ('sp, 'st, 'b, 'e) api_env \<Rightarrow> ('sp, 'st) kind_info \<Rightarrow> string \<Rightarrow> bool" where
  "serves env ae K version \<longleftrightarrow>
     cl_Do env = kind_network ae K version \<and> cl_json env = json (ae_store ae) \<and> good_segment (k_plural K)"

text \<open>How the client reads a response.\<close>

definition client_reads :: "json_env \<Rightarrow> ('sp, 'st) kind_info \<Rightarrow> (json \<Rightarrow> 'r result) \<Rightarrow> ('sp, 'st) api_response \<Rightarrow> 'r result" where
  "client_reads je K dec resp =
     (let text = body_text je K (rs_body resp) in
      if rs_status resp \<ge> 400 then Inl (api_error je '''' (rs_status resp) text)
      else (case rbind (je_parse je text) dec of
              Inl e \<Rightarrow> Inl (EWrap ''failed to unmarshal response: '' e '''')
            | Inr x \<Rightarrow> Inr x))"

lemma doRequest_built:
  assumes "doRequest env c m endpoint body dec s = (Inr x, s')"
  shows "cl_NewRequest env m (call_url c endpoint) = None"
  using assms by (cases "cl_NewRequest env m (call_url c endpoint)") (auto simp: doRequest_def Let_def split: option.splits sum.splits)

lemma doRequest_served:
  assumes "serves env ae K version" "at_root c" "cl_NewRequest env m (call_url c endpoint) = None"
    and "list_all good_segment segs" "resource_routes ae K m segs = Some h"
    and "endpoint = CHR ''/'' # join ''/'' (k_plural K # segs)" "body = None \<and> d = '''' \<and> t = '''' \<or> body = Some (Inr d) \<and> t = json_type c"
    and "h \<lparr>hr_uid = '''', hr_body = Inr d, hr_ctype = t, hr_version = version\<rparr> s = (resp, s')"
  shows "doRequest env c m endpoint body dec s = (client_reads (json (ae_store ae)) K dec resp, s')"
proof -
  let ?es = "k_plural K # segs"
  have es: "list_all good_segment ?es" "?es \<noteq> []" using assms(1,4) by (auto simp: serves_def)
  have segs: "segs \<noteq> ['''']" using assms(4) by (auto simp: good_segment_def)
  have sp: "Split (CHR ''/'') (CHR ''/'' # join ''/'' ?es) = '''' # k_plural K # segs" using Split_join [OF es(2,1)] by simp
  note p = call_url_root [OF assms(2) es(2,1)]
  show ?thesis using assms(1,3,5,7,8) sp p segs
    by (auto simp: doRequest_def assms(6) serves_def kind_network_def answer_of_def client_reads_def Let_def split: sum.splits)
qed

section \<open>What comes back\<close>

text \<open>The JSON package skips the newline that the encoder writes after a document.\<close>

definition skips_newline :: "json_env \<Rightarrow> bool" where
  "skips_newline je \<longleftrightarrow> (\<forall>j. je_parse je (je_print je j) = Inr j \<longrightarrow> je_parse je (je_print je j @ nl) = Inr j)"

lemma reads_one:
  assumes "resource_kind K ok" "skips_newline (cl_json env)" "ok (Spec r)" "storable (cl_json env) K r" "st < 400"
  shows "client_reads (cl_json env) K (one_resource env K) (respondJSON st (RespOne r)) = Inr r"
proof -
  from assms(4) obtain m where m: "je_enc_meta (cl_json env) (Meta r) = Inr m"
    "je_parse (cl_json env) (je_print (cl_json env) (document K r m)) = Inr (document K r m)" by (auto simp: storable_def)
  from resource_kind.Unmarshal_Marshal [OF assms(1,3,4)] m have "dec_resource (cl_json env) K (zero_resource K) (document K r m) = Inr r"
    by (auto simp: Marshal_def Unmarshal_def)
  with m assms(2,5) show ?thesis by (simp add: client_reads_def body_text_def one_resource_def skips_newline_def)
qed

lemma reads_error: "client_reads je K dec resp = Inr x \<Longrightarrow> rs_status resp < 400"
  by (auto simp: client_reads_def Let_def split: if_splits)

lemma commit_answer:
  assumes "commit ae K msg st ev r s = (resp, s')" "rs_status resp < 400"
  obtains r1 where "ae_ValidateWithContext ae r (snd s) = (None, r1)" "Save_res (ae_store ae) K r1 (fst s) = (None, fst s')" "resp = respondJSON st (RespOne r1)"
  using assms respondError_ge [of 400] respondError_ge [of 500]
  by (auto simp: commit_def not_less [symmetric] split: prod.splits option.splits)

text \<open>Requests the JSON package carries unchanged.\<close>

definition sendable :: "'n client_env \<Rightarrow> ('sp, 'st) kind_info \<Rightarrow> 'sp resource_request \<Rightarrow> bool" where
  "sendable env K rq \<longleftrightarrow>
     range_order (rq_Labels rq) (cl_keys env (rq_Labels rq)) \<and> range_order (rq_Annotations rq) (cl_keys env (rq_Annotations rq)) \<and>
     (case enc_request env K rq of
        Inl e \<Rightarrow> False
      | Inr j \<Rightarrow> je_first (cl_json env) (je_print (cl_json env) j) = Inr j) \<and>
     rbind (je_enc_meta (cl_json env) (rq_Metadata rq)) (je_dec_meta (cl_json env) zero_meta) = Inr (rq_Metadata rq)"

lemma request_members: "ToLower ''labels'' = ''labels''" "ToLower ''annotations'' = ''annotations''"
  by code_simp+

lemma omitted_map: "range_order m ks \<Longrightarrow> ks = [] \<Longrightarrow> m = Map.empty"
  by (auto simp: range_order_def)

text \<open>The request type of the client and the request type of the server have the same members.\<close>

lemma request_arrives:
  assumes "resource_kind K ok" "ok (rq_Spec rq)" "sendable env K rq" "cl_json env = json (ae_store ae)"
  obtains d where "request_data env K rq = Inr d"
    "\<And>u t v. decode_body ae (dec_request (json (ae_store ae)) K) \<lparr>hr_uid = u, hr_body = Inr d, hr_ctype = t, hr_version = v\<rparr> = Inr rq"
proof -
  let ?je = "cl_json env"
  obtain m where m: "je_enc_meta ?je (rq_Metadata rq) = Inr m" "je_dec_meta ?je zero_meta m = Inr (rq_Metadata rq)"
    using assms(3) by (cases "je_enc_meta ?je (rq_Metadata rq)") (auto simp: sendable_def)
  obtain j where j: "enc_request env K rq = Inr j" "je_first ?je (je_print ?je j) = Inr j"
    using assms(3) by (cases "enc_request env K rq") (auto simp: sendable_def)
  have o: "range_order (rq_Labels rq) (cl_keys env (rq_Labels rq))" "range_order (rq_Annotations rq) (cl_keys env (rq_Annotations rq))"
    using assms(3) by (simp_all add: sendable_def)
  have "dec_request ?je K j = Inr rq"
    using m j(1) into_map_enc [OF o(1)] into_map_enc [OF o(2)] omitted_map [OF o(1)] omitted_map [OF o(2)]
      resource_kind.spec_fresh [OF assms(1,2)]
    by (cases rq) (auto simp: enc_request_def json_simps request_members)
  with j that [of "je_print ?je j"] assms(4) show thesis by (simp add: request_data_def decode_body_def)
qed

section \<open>The client as a map\<close>

text \<open>
  A client and the server of one kind, over a backend that keeps its contract and a validation that
  changes neither spec nor metadata; the base URL has no path.
\<close>

definition connected :: "('b \<times> 'e) client_env \<Rightarrow> ('sp, 'st, 'b, 'e) api_env \<Rightarrow> ('sp, 'st) kind_info \<Rightarrow> ('sp \<Rightarrow> bool) \<Rightarrow> string \<Rightarrow>
    'b StorageBackend \<Rightarrow> ('b \<Rightarrow> contents) \<Rightarrow> Client \<Rightarrow> bool" where
  "connected env ae K ok version be view c \<longleftrightarrow>
     resource_kind K ok \<and> serves env ae K version \<and> at_root c \<and> backend_ok be view \<and> Backend (ae_store ae) = Some be \<and>
     skips_newline (cl_json env) \<and> keeps_spec ae"

lemma connectedD:
  assumes "connected env ae K ok version be view c"
  shows "resource_kind K ok" "serves env ae K version" "at_root c" "backend_ok be view" "Backend (ae_store ae) = Some be"
    "skips_newline (cl_json env)" "keeps_spec ae" "cl_json env = json (ae_store ae)"
  using assms unfolding connected_def serves_def by blast+

text \<open>The entry of a UID, where there is one, holds a resource of that UID which the JSON package carries.\<close>

definition readable_entry :: "('sp, 'st, 'b, 'e) api_env \<Rightarrow> ('sp, 'st) kind_info \<Rightarrow> ('sp \<Rightarrow> bool) \<Rightarrow> contents \<Rightarrow> string \<Rightarrow> bool" where
  "readable_entry ae K ok c uid \<longleftrightarrow>
     (\<forall>r. typed (json (ae_store ae)) K c uid = Some r \<longrightarrow> md_UID (Meta r) = uid \<and> ok (Spec r) \<and> storable (json (ae_store ae)) K r)"

text \<open>The resources that a create and an update of a request would store, and that the JSON package carries them.\<close>

definition resource_to_create :: "('sp, 'st, 'b, 'e) api_env \<Rightarrow> ('sp, 'st) kind_info \<Rightarrow> string \<Rightarrow> 'sp resource_request \<Rightarrow> 'e \<Rightarrow> ('sp, 'st) resource option" where
  "resource_to_create ae K version rq w =
     (case ae_GenerateUID ae (k_name K) w of
        (Inl e, w') \<Rightarrow> None
      | (Inr uid, w') \<Rightarrow>
          (case ae_ValidateWithContext ae (new_resource K version uid (ae_now ae w') rq) w' of (Some e, r) \<Rightarrow> None | (None, r) \<Rightarrow> Some r))"

definition resource_to_update :: "('sp, 'st, 'b, 'e) api_env \<Rightarrow> 'sp resource_request \<Rightarrow> ('sp, 'st) resource \<Rightarrow> 'e \<Rightarrow> ('sp, 'st) resource option" where
  "resource_to_update ae rq r0 w =
     (case ae_ValidateWithContext ae (with_request rq (ae_now ae w) r0) w of (Some e, r) \<Rightarrow> None | (None, r) \<Rightarrow> Some r)"

definition carried :: "('sp, 'st, 'b, 'e) api_env \<Rightarrow> ('sp, 'st) kind_info \<Rightarrow> string \<Rightarrow> string \<Rightarrow> 'sp resource_request \<Rightarrow> contents \<Rightarrow> 'e \<Rightarrow> bool" where
  "carried ae K version uid rq c w \<longleftrightarrow>
     (\<forall>r. resource_to_create ae K version rq w = Some r \<longrightarrow> storable (json (ae_store ae)) K r) \<and>
     (\<forall>r0 r. typed (json (ae_store ae)) K c uid = Some r0 \<and> resource_to_update ae rq r0 w = Some r \<longrightarrow> storable (json (ae_store ae)) K r)"

lemma written_answer:
  assumes "connected env ae K ok version be view c" "commit ae K msg st ev r0 s = (resp, s')" "st < 400"
    and "client_reads (json (ae_store ae)) K (one_resource env K) resp = Inr r"
    and "ok (Spec r0)" "\<And>r1. ae_ValidateWithContext ae r0 (snd s) = (None, r1) \<Longrightarrow> storable (json (ae_store ae)) K r1"
  shows "typed (json (ae_store ae)) K (view (fst s')) = (typed (json (ae_store ae)) K (view (fst s)))(md_UID (Meta r) \<mapsto> r) \<and> Spec r = Spec r0 \<and> Meta r = Meta r0"
proof -
  note c = connectedD [OF assms(1)]
  obtain r1 where r1: "ae_ValidateWithContext ae r0 (snd s) = (None, r1)" "Save_res (ae_store ae) K r1 (fst s) = (None, fst s')" "resp = respondJSON st (RespOne r1)"
    using commit_answer [OF assms(2) reads_error [OF assms(4)]] .
  have k: "Spec r1 = Spec r0 \<and> Meta r1 = Meta r0" using c(7) r1(1) by (simp add: keeps_spec_def)
  then have ok: "ok (Spec r1)" "storable (json (ae_store ae)) K r1" using assms(5) assms(6) [OF r1(1)] by simp_all
  have "r = r1" using assms(4) reads_one [OF c(1,6) ok(1) _ assms(3)] ok(2) r1(3) c(8) by simp
  with k show ?thesis using resource_kind.Save_res_ok(2) [OF c(1,4,5) ok r1(2)] by simp
qed

lemma get_answer:
  assumes "connected env ae K ok version be view c" "readable_entry ae K ok (view (fst s)) uid" "good_segment uid"
    and "cl_NewRequest env GET (call_url c (item_endpoint K uid)) = None"
  shows "snd (cl_get env K c uid s) = s" "fst (cl_get env K c uid s) = Inr r \<longleftrightarrow> typed (json (ae_store ae)) K (view (fst s)) uid = Some r"
proof -
  note c = connectedD [OF assms(1)]
  let ?req = "\<lparr>hr_uid = uid, hr_body = Inr '''', hr_ctype = '''', hr_version = version\<rparr>"
  obtain resp s' where h: "get_one ae K ?req s = (resp, s')" by (rule prod.exhaust)
  have g: "cl_get env K c uid s = (client_reads (json (ae_store ae)) K (one_resource env K) resp, s')"
    unfolding cl_get_def
    by (rule doRequest_served [OF c(2,3) assms(4), where segs = "[uid]" and h = "\<lambda>req. get_one ae K (req\<lparr>hr_uid := uid\<rparr>)"]) (use assms(3) h in \<open>simp_all add: endpoints_join\<close>)
  have u: "uid \<noteq> ''''" using assms(3) by (simp add: good_segment_def)
  show "snd (cl_get env K c uid s) = s" using h g by (auto simp: get_one_def with_resource_def split: if_splits sum.splits)
  show "fst (cl_get env K c uid s) = Inr r \<longleftrightarrow> typed (json (ae_store ae)) K (view (fst s)) uid = Some r"
  proof (cases "Load_res (ae_store ae) K uid (fst s)")
    case (Inl e)
    then have "400 \<le> rs_status resp" using h u by (auto simp: get_one_def with_resource_def)
    then have "fst (cl_get env K c uid s) \<noteq> Inr r" using g reads_error [of "json (ae_store ae)" K "one_resource env K" resp r] by auto
    then show ?thesis using Inl Load_res_found [OF c(4,5), of K uid "fst s"] by force
  next
    case (Inr r1)
    then have t: "typed (json (ae_store ae)) K (view (fst s)) uid = Some r1" using Load_res_found [OF c(4,5)] by blast
    with assms(2) have ok: "ok (Spec r1)" "storable (cl_json env) K r1" by (simp_all add: readable_entry_def c(8))
    have "resp = respondJSON 200 (RespOne r1)" using h u Inr by (simp add: get_one_def with_resource_def)
    with g reads_one [OF c(1,6) ok, of 200] t c(8) show ?thesis by simp
  qed
qed

lemma create_answer:
  assumes "connected env ae K ok version be view c" "ok (rq_Spec rq)" "sendable env K rq" "carried ae K version uid0 rq (view (fst s)) (snd s)"
    and "cl_create env K c rq s = (Inr r, s')"
  shows "typed (json (ae_store ae)) K (view (fst s')) = (typed (json (ae_store ae)) K (view (fst s)))(md_UID (Meta r) \<mapsto> r) \<and>
    Spec r = rq_Spec rq \<and> md_Name (Meta r) = md_Name (rq_Metadata rq)"
proof -
  note c = connectedD [OF assms(1)]
  obtain d where d: "request_data env K rq = Inr d"
    "\<And>u t v. decode_body ae (dec_request (json (ae_store ae)) K) \<lparr>hr_uid = u, hr_body = Inr d, hr_ctype = t, hr_version = v\<rparr> = Inr rq"
    using request_arrives [OF c(1) assms(2,3) c(8)] by blast
  let ?req = "\<lparr>hr_uid = '''', hr_body = Inr d, hr_ctype = json_type c, hr_version = version\<rparr>"
  obtain resp s1 where h: "create ae K ?req s = (resp, s1)" by (rule prod.exhaust)
  have "cl_create env K c rq s = (client_reads (json (ae_store ae)) K (one_resource env K) resp, s1)"
    unfolding cl_create_def
    by (rule doRequest_served [OF c(2,3) doRequest_built [OF assms(5) [unfolded cl_create_def]], where segs = "[]" and h = "create ae K"])
      (use h d(1) in \<open>simp_all add: endpoints_join\<close>)
  with assms(5) have r: "client_reads (json (ae_store ae)) K (one_resource env K) resp = Inr r" "s1 = s'" by simp_all
  obtain uid w msg ev where k: "commit ae K msg 201 ev (new_resource K version uid (ae_now ae w) rq) (fst s, w) = (resp, s')"
    "ae_GenerateUID ae (k_name K) (snd s) = (Inr uid, w)"
    using h d(2) [of "''''"] reads_error [OF r(1)] r(2) respondError_ge [of 400] respondError_ge [of 500]
    by (auto simp: create_def not_less [symmetric] split: option.splits sum.splits prod.splits)
  have st: "storable (json (ae_store ae)) K r1" if "ae_ValidateWithContext ae (new_resource K version uid (ae_now ae w) rq) (snd (fst s, w)) = (None, r1)" for r1
    using assms(4) that k(2) by (simp add: carried_def resource_to_create_def)
  have "ok (Spec (new_resource K version uid (ae_now ae w) rq))" using assms(2) by (simp add: new_resource_def AsSpec_def)
  from written_answer [OF assms(1) k(1) _ r(1) this st] show ?thesis by (simp add: new_resource_def AsSpec_def relabel_def)
qed

lemma update_answer:
  assumes "connected env ae K ok version be view c" "readable_entry ae K ok (view (fst s)) uid" "good_segment uid"
    and "ok (rq_Spec rq)" "sendable env K rq" "carried ae K version uid rq (view (fst s)) (snd s)" "cl_update env K c uid rq s = (Inr r, s')"
  shows "typed (json (ae_store ae)) K (view (fst s)) uid \<noteq> None \<and>
    typed (json (ae_store ae)) K (view (fst s')) = (typed (json (ae_store ae)) K (view (fst s)))(uid \<mapsto> r) \<and> Spec r = rq_Spec rq"
proof -
  note c = connectedD [OF assms(1)]
  obtain d where d: "request_data env K rq = Inr d"
    "\<And>u t v. decode_body ae (dec_request (json (ae_store ae)) K) \<lparr>hr_uid = u, hr_body = Inr d, hr_ctype = t, hr_version = v\<rparr> = Inr rq"
    using request_arrives [OF c(1) assms(4,5) c(8)] by blast
  let ?req = "\<lparr>hr_uid = uid, hr_body = Inr d, hr_ctype = json_type c, hr_version = version\<rparr>"
  obtain resp s1 where h: "update ae K ?req s = (resp, s1)" by (rule prod.exhaust)
  have "cl_update env K c uid rq s = (client_reads (json (ae_store ae)) K (one_resource env K) resp, s1)"
    unfolding cl_update_def
    by (rule doRequest_served [OF c(2,3) doRequest_built [OF assms(7) [unfolded cl_update_def]], where segs = "[uid]" and h = "\<lambda>req. update ae K (req\<lparr>hr_uid := uid\<rparr>)"])
      (use assms(3) h d(1) in \<open>simp_all add: endpoints_join\<close>)
  with assms(7) have r: "client_reads (json (ae_store ae)) K (one_resource env K) resp = Inr r" "s1 = s'" by simp_all
  obtain r0 where r0: "Load_res (ae_store ae) K uid (fst s) = Inr r0"
    using h reads_error [OF r(1)] respondError_ge [of 400] respondError_ge [of 404]
    by (auto simp: update_def with_resource_def not_less [symmetric] split: if_splits sum.splits)
  then have t: "typed (json (ae_store ae)) K (view (fst s)) uid = Some r0" using Load_res_found [OF c(4,5)] by blast
  let ?r2 = "with_request rq (ae_now ae (snd s)) r0"
  have k: "md_UID (Meta ?r2) = md_UID (Meta r0)" "Spec ?r2 = rq_Spec rq" by (simp_all add: with_request_def Let_def AsSpec_def relabel_def)
  obtain msg ev where m: "commit ae K msg 200 ev ?r2 s = (resp, s')"
    using h r0 d(2) [of uid] r(2) assms(3) by (auto simp: update_def with_resource_def good_segment_def split: if_splits)
  have st: "storable (json (ae_store ae)) K r1" if "ae_ValidateWithContext ae ?r2 (snd s) = (None, r1)" for r1
    using assms(6) that t by (simp add: carried_def resource_to_update_def)
  from written_answer [OF assms(1) m _ r(1) _ st] k t assms(2,4) show ?thesis by (simp add: readable_entry_def)
qed

lemma delete_answer:
  assumes "connected env ae K ok version be view c" "good_segment uid" "cl_delete env K c uid s = (None, s')"
  shows "typed (json (ae_store ae)) K (view (fst s')) = (typed (json (ae_store ae)) K (view (fst s)))(uid := None)"
proof -
  note c = connectedD [OF assms(1)]
  let ?req = "\<lparr>hr_uid = uid, hr_body = Inr '''', hr_ctype = '''', hr_version = version\<rparr>"
  obtain resp s1 where h: "delete ae K ?req s = (resp, s1)" by (rule prod.exhaust)
  obtain x0 where "doRequest env c DELETE (item_endpoint K uid) None dec_DeleteResponse s = (Inr x0, s')"
    using assms(3) by (auto simp: cl_delete_def split: sum.splits prod.splits)
  note b = doRequest_built [OF this]
  have "doRequest env c DELETE (item_endpoint K uid) None dec_DeleteResponse s = (client_reads (json (ae_store ae)) K dec_DeleteResponse resp, s1)"
    by (rule doRequest_served [OF c(2,3) b, where segs = "[uid]" and h = "\<lambda>req. delete ae K (req\<lparr>hr_uid := uid\<rparr>)"]) (use assms(2) h in \<open>simp_all add: endpoints_join\<close>)
  with assms(3) obtain x where r: "client_reads (json (ae_store ae)) K dec_DeleteResponse resp = Inr x" "s1 = s'"
    by (auto simp: cl_delete_def split: sum.splits)
  have "Delete_res (ae_store ae) K uid (fst s) = (None, fst s')"
    using h r(2) reads_error [OF r(1)] respondError_ge [of 400] respondError_ge [of 404] respondError_ge [of 500]
    by (auto simp: delete_def with_resource_def not_less [symmetric] split: if_splits sum.splits prod.splits option.splits)
  from Delete_res_ok [OF c(4,5) this] show ?thesis using typed_delete by metis
qed

section \<open>Properties\<close>

text \<open>
  C22 (refinement). Through the client, the resources of a kind are a map from UIDs to resources, end to end:
  client, wire, handler, storage. \<open>Get\<close> answers with the entry and changes nothing; a \<open>Create\<close> that
  succeeds adds the resource it returns under its new UID, with the spec and the name of the request; an
  \<open>Update\<close> that succeeds replaces the entry it names, and that entry existed; a \<open>Delete\<close> that succeeds
  removes the entry it names. It is assumed that the UID is one path element and the base URL has no path; that \<open>http.NewRequest\<close> takes the
  URL of the \<open>Get\<close>; that the backend keeps its contract and validation changes neither spec nor metadata; that the specs are values of the kind's Go type (numbers in range); that a decoder
  skips the newline an encoder writes; and that the JSON package carries the request, the resource it would
  store, and the one stored under the UID (their texts are valid UTF-8, times are before the year 10000), the last under its own UID.
\<close>

theorem client_implements_map:
  assumes "connected env ae K ok version be view c" and "readable_entry ae K ok (view (fst s)) uid" and "good_segment uid"
    and "ok (rq_Spec rq)" and "sendable env K rq" and "carried ae K version uid rq (view (fst s)) (snd s)"
    and "cl_NewRequest env GET (call_url c (item_endpoint K uid)) = None"
  shows "(fst (cl_get env K c uid s) = Inr r \<longleftrightarrow> typed (json (ae_store ae)) K (view (fst s)) uid = Some r) \<and> snd (cl_get env K c uid s) = s \<and>
    (cl_create env K c rq s = (Inr r, s') \<longrightarrow>
       typed (json (ae_store ae)) K (view (fst s')) = (typed (json (ae_store ae)) K (view (fst s)))(md_UID (Meta r) \<mapsto> r) \<and>
       Spec r = rq_Spec rq \<and> md_Name (Meta r) = md_Name (rq_Metadata rq)) \<and>
    (cl_update env K c uid rq s = (Inr r, s') \<longrightarrow>
       typed (json (ae_store ae)) K (view (fst s)) uid \<noteq> None \<and>
       typed (json (ae_store ae)) K (view (fst s')) = (typed (json (ae_store ae)) K (view (fst s)))(uid \<mapsto> r) \<and> Spec r = rq_Spec rq) \<and>
    (cl_delete env K c uid s = (None, s') \<longrightarrow>
       typed (json (ae_store ae)) K (view (fst s')) = (typed (json (ae_store ae)) K (view (fst s)))(uid := None))"
  using get_answer [OF assms(1-3,7)] create_answer [OF assms(1,4,5,6)] update_answer [OF assms(1-6)] delete_answer [OF assms(1,3)] by blast

text \<open>A JSON package that skips what is not a digit, and a client of the peers over it.\<close>

definition json1 :: json_env where
  "json1 = json0\<lparr>je_parse := \<lambda>s. Inr (from_nat (nat_of_digits (filter is_digit s))), je_first := \<lambda>s. Inr (from_nat (nat_of_digits (filter is_digit s)))\<rparr>"

definition peer_env1 :: "(WireGuardPeerSpec, WireGuardPeerStatus, mem, nat) api_env" where
  "peer_env1 = peer_env0\<lparr>ae_store := store0\<lparr>json := json1\<rparr>\<rparr>"

definition cenv1 :: "(mem \<times> nat) client_env" where
  "cenv1 = \<lparr>cl_json = json1, cl_keys = no_keys, cl_Parse = (\<lambda>s. Inr \<lparr>u_site = s, u_Path = ''''\<rparr>), cl_NewRequest = (\<lambda>_ _. None),
     cl_Do = kind_network peer_env1 WireGuardPeer_kind ''v1''\<rparr>"

definition client1 :: Client where
  "client1 = \<lparr>cl_baseURL = \<lparr>u_site = ''http://h'', u_Path = ''''\<rparr>, cl_version = '''', cl_bearerToken = ''''\<rparr>"

definition peer_request1 :: "WireGuardPeerSpec resource_request" where
  "peer_request1 = \<lparr>rq_Metadata = \<lparr>md_Name = ''n'', md_UID = '''', md_Labels = None, md_Annotations = None, md_CreatedAt = 0, md_UpdatedAt = 0\<rparr>,
     rq_Spec = Spec peer0, rq_Labels = Map.empty, rq_Annotations = Map.empty\<rparr>"

lemma digits_of_nat: "filter is_digit (nat_str n) = nat_str n"
  by (simp add: filter_id_conv nat_str_digits)

lemma json1_text: "je_parse json1 (je_print json1 j @ nl) = Inr j" "je_parse json1 (je_print json1 j) = Inr j" "je_first json1 (je_print json1 j) = Inr j"
proof -
  have "filter is_digit nl = ''''" by code_simp
  then show "je_parse json1 (je_print json1 j @ nl) = Inr j" "je_parse json1 (je_print json1 j) = Inr j" "je_first json1 (je_print json1 j) = Inr j"
    by (simp_all add: json1_def json0_def digits_of_nat)
qed

lemma storable1: "plain_meta (Meta r) \<Longrightarrow> storable json1 K r"
proof -
  assume "plain_meta (Meta r)"
  from storable0 [OF this, of K] have "\<exists>m. je_enc_meta json1 (Meta r) = Inr m \<and> je_dec_meta json1 zero_meta m = Inr (Meta r)"
    by (auto simp: storable_def json1_def)
  then show ?thesis by (auto simp: storable_def json1_text)
qed

lemma connected1: "connected cenv1 peer_env1 WireGuardPeer_kind (\<lambda>_. True) ''v1'' mem_backend mem_view client1"
proof -
  have g: "good_segment (k_plural WireGuardPeer_kind)" by code_simp
  have k: "keeps_spec peer_env1" by (simp add: keeps_spec_def peer_env1_def peer_env0_def)
  have "skips_newline (cl_json cenv1)" by (simp add: skips_newline_def json1_text cenv1_def)
  with g k wp_kind.resource_kind_axioms mem_backend_ok show ?thesis
    by (simp add: connected_def serves_def cenv1_def at_root_def client1_def peer_env1_def store0_def)
qed

lemma sendable1: "sendable cenv1 WireGuardPeer_kind peer_request1"
proof -
  have "nat_of_digits ''0'' = 0" "nat_str 0 = ''0''" by code_simp+
  then show ?thesis
    by (simp add: sendable_def cenv1_def enc_request_def json1_text peer_request1_def range_order_def)
       (simp add: json1_def json0_def enc_labels_def dec_labels_def digits_of_nat)
qed

lemma create1: "\<exists>r s'. cl_create cenv1 WireGuardPeer_kind client1 peer_request1 ([], 0) = (Inr r, s')"
proof -
  note c = connectedD [OF connected1]
  obtain d where d: "request_data cenv1 WireGuardPeer_kind peer_request1 = Inr d"
    "\<And>u t v. decode_body peer_env1 (dec_request (json (ae_store peer_env1)) WireGuardPeer_kind)
       \<lparr>hr_uid = u, hr_body = Inr d, hr_ctype = t, hr_version = v\<rparr> = Inr peer_request1"
    using request_arrives [OF c(1) TrueI sendable1 c(8)] by blast
  let ?r = "new_resource WireGuardPeer_kind ''v1'' (''u'' @ nat_str 0) 1 peer_request1"
  have p: "plain_meta (Meta ?r)" "Spec ?r = Spec made_peer"
    by (simp_all add: new_resource_def relabel_def add_all_def plain_meta_def AsSpec_def peer_request1_def made_peer_plain)
  have v: "WireGuardPeer_Validate ?r = None" using made_peer_valid peer_validate_spec [OF p(2)] by simp
  obtain t where t: "Marshal json1 WireGuardPeer_kind ?r = Inr t" using wp_kind.Unmarshal_Marshal [OF TrueI storable1 [OF p(1)]] by blast
  obtain b where b: "Save_res (store0\<lparr>json := json1\<rparr>) WireGuardPeer_kind ?r [] = (None, b)"
    using t by (auto simp: Save_res_def ensureBackend_def write_res_def store0_def mem_backend_def)
  have m: "create peer_env1 WireGuardPeer_kind \<lparr>hr_uid = '''', hr_body = Inr d, hr_ctype = json_type client1, hr_version = ''v1''\<rparr> ([], 0) =
      (respondJSON 201 (RespOne ?r), (b, 1))"
    using d(2) [of "''''"] v p(1) b by (simp add: create_def peer_env1_def peer_env0_def commit_def)
  have "cl_create cenv1 WireGuardPeer_kind client1 peer_request1 ([], 0) =
      (client_reads (json (ae_store peer_env1)) WireGuardPeer_kind (one_resource cenv1 WireGuardPeer_kind) (respondJSON 201 (RespOne ?r)), (b, 1))"
    unfolding cl_create_def
    by (rule doRequest_served [OF c(2,3), where segs = "[]" and h = "create peer_env1 WireGuardPeer_kind"]) (use m d(1) in \<open>simp_all add: endpoints_join cenv1_def\<close>)
  with reads_one [OF c(1,6) TrueI _, of ?r 201] storable1 [OF p(1)] c(8) show ?thesis by (simp add: cenv1_def)
qed

theorem client_implements_map_witness:
  "\<exists>r s'. Client_CreateWireGuardPeer cenv1 client1 peer_request1 ([], 0) = (Inr r, s') \<and> Spec r = Spec peer0 \<and>
     typed json1 WireGuardPeer_kind (mem_view (fst s')) (md_UID (Meta r)) = Some r"
proof -
  obtain r s' where c: "cl_create cenv1 WireGuardPeer_kind client1 peer_request1 ([], 0) = (Inr r, s')" using create1 by blast
  have e: "readable_entry peer_env1 WireGuardPeer_kind (\<lambda>_. True) (mem_view (fst ([], 0 :: nat))) ''u0''"
    by (simp add: readable_entry_def typed_def mem_view_def)
  have "storable (json (ae_store peer_env1)) WireGuardPeer_kind r1" if "ae_ValidateWithContext peer_env1 r w = (None, r1)" for r w r1
    using that storable1 by (auto simp: peer_env1_def peer_env0_def split: if_splits)
  then have k: "carried peer_env1 WireGuardPeer_kind ''v1'' ''u0'' peer_request1 (mem_view (fst ([], 0 :: nat))) (snd ([] :: mem, 0))"
    by (auto simp: carried_def resource_to_create_def resource_to_update_def split: prod.splits sum.splits option.splits)
  have g: "good_segment ''u0''" by code_simp
  have n: "cl_NewRequest cenv1 GET (call_url client1 (item_endpoint WireGuardPeer_kind ''u0'')) = None" by (simp add: cenv1_def)
  from client_implements_map [OF connected1 e g TrueI sendable1 k n, of r s'] c
  show ?thesis by (auto simp: Client_CreateWireGuardPeer_def peer_request1_def peer_env1_def)
qed

text \<open>Paths are cleaned after the UID was put in.\<close>

lemma Split_app: "Split c (p @ c # s) = Split c p @ Split c s"
proof (induction p)
  case (Cons x p)
  then show ?case by (cases "Split c p") auto
qed simp

lemma path_Join_one: "e \<noteq> '''' \<Longrightarrow> path_Join [b, e] = path_Clean (if b = '''' then e else b @ CHR ''/'' # e)"
  by (simp add: path_Join_def join_Cons)

lemma path_Clean_skip:
  assumes "good_segment e"
  shows "path_Clean ((if b = '''' then '''' else b @ ''/'') @ CHR ''/'' # e @ ''/../'' @ rest) =
    path_Clean ((if b = '''' then '''' else b @ ''/'') @ CHR ''/'' # rest)"
proof -
  have e: "clean_step rooted (clean_step rooted st e) ''..'' = st" for rooted st
    using assms by (simp add: clean_step_def good_segment_def)
  have n: "CHR ''/'' \<notin> set e" "CHR ''/'' \<notin> set ''..''" using assms by (simp_all add: good_segment_def)
  have s: "Split (CHR ''/'') (e @ ''/../'' @ rest) = e # ''..'' # Split (CHR ''/'') rest"
    using Split_append [OF n(1), of "''../'' @ rest"] Split_append [OF n(2), of rest] by simp
  show ?thesis
  proof (cases "b = ''''")
    case True
    then show ?thesis using s e by (simp add: path_Clean_def)
  next
    case False
    then have "b @ CHR ''/'' # CHR ''/'' # e @ ''/../'' @ rest \<noteq> ''''" by simp
    then show ?thesis using s e False by (simp add: path_Clean_def Split_app hd_append)
  qed
qed

text \<open>
  C39 (safety). UIDs are not escaped: the client puts them into the path as they are and then cleans the path. So
  deleting the group \<open>../wireguardpeers/x\<close> is deleting the peer \<open>x\<close>, whatever the base URL, and
  asking for the group with the empty UID asks for the list of groups.
\<close>

theorem uid_can_leave_its_kind:
  "Client_DeleteGroup env c (''../wireguardpeers/'' @ uid) n = Client_DeleteWireGuardPeer env c uid n \<and>
   u_Path (call_url c (item_endpoint (Group_kind keys) '''')) = u_Path (call_url c (list_endpoint (Group_kind keys)))"
proof
  let ?b = "u_Path (cl_baseURL c)"
  have p: "k_plural (Group_kind ks) = ''groups''" "k_plural WireGuardPeer_kind = ''wireguardpeers''" for ks
    by (simp_all add: Group_kind_def WireGuardPeer_kind_def)
  have g: "good_segment ''groups''" by code_simp
  have "call_url c (item_endpoint (Group_kind (cl_keys env)) (''../wireguardpeers/'' @ uid)) = call_url c (item_endpoint WireGuardPeer_kind uid)"
    using path_Clean_skip [OF g, of ?b "''wireguardpeers/'' @ uid"]
    by (simp add: call_url_def path_Join_one item_endpoint_def p split: if_splits)
  then show "Client_DeleteGroup env c (''../wireguardpeers/'' @ uid) n = Client_DeleteWireGuardPeer env c uid n"
    by (simp add: Client_DeleteGroup_def Client_DeleteWireGuardPeer_def cl_delete_def doRequest_def Let_def)
  have s: "Split (CHR ''/'') (''/groups/'') = ['''', ''groups'', '''']" "Split (CHR ''/'') ''/groups'' = ['''', ''groups'']" by code_simp+
  have "path_Clean (?b @ CHR ''/'' # ''/groups/'') = path_Clean (?b @ CHR ''/'' # ''/groups'')" "path_Clean ''/groups/'' = path_Clean ''/groups''"
    unfolding path_Clean_def Split_app s by (simp_all add: hd_append)
  then show "u_Path (call_url c (item_endpoint (Group_kind keys) '''')) = u_Path (call_url c (list_endpoint (Group_kind keys)))"
    by (simp add: call_url_def path_Join_one item_endpoint_def list_endpoint_def p)
qed

end
