(* ===== verification/OpenAPI.thy ===== *)
theory OpenAPI
  imports Server
begin

text \<open>
  \<open>cmd/server/openapi_generated.go\<close> and \<open>openapi_extensions.go\<close>: the OpenAPI document the server publishes.
  Of the package \<open>openapi3\<close>, the collections a new document and a new operation start with and the schemas
  generated from Go types are fields of \<open>openapi_env\<close>; its structs are records, with the members the code
  fills, and its maps are lists of entries in the order of the assignments. The last section compares
  the document with the routes and the handlers.
\<close>

section \<open>Documents\<close>

datatype schema =
    SRef string
  | SGenerated string                                       \<comment> \<open>from a Go type\<close>
  | SString
  | SArray schema
  | SObject "(string \<times> schema) list" "string list"   \<comment> \<open>properties, required ones\<close>

record media_type =
  mt_Schema :: schema
  mt_Example :: "json option"

record response =
  rp_Description :: string
  rp_Content :: "(string \<times> media_type) list"

record request_body =
  rb_Required :: bool
  rb_Content :: "(string \<times> media_type) list"

record operation =
  op_OperationID :: string
  op_Summary :: string
  op_Description :: string
  op_Tags :: "string list"
  op_RequestBody :: "request_body option"
  op_Responses :: "(string \<times> response) list"

record parameter =
  pa_Name :: string
  pa_Description :: string
  pa_Required :: bool
  pa_Schema :: schema

record path_item =
  pi_Get :: "operation option"
  pi_Post :: "operation option"
  pi_Put :: "operation option"
  pi_Patch :: "operation option"
  pi_Delete :: "operation option"
  pi_Parameters :: "parameter list"

type_synonym schemas = "(string \<times> schema) list"

record openapi_T =
  ot_OpenAPI :: string
  ot_Title :: string
  ot_Description :: string
  ot_Version :: string
  ot_Contact :: "string \<times> string"
  ot_Servers :: "(string \<times> string) list"
  ot_Paths :: "(string \<times> path_item) list"
  ot_Schemas :: schemas

record openapi_env =
  oe_NewPaths :: "(string \<times> path_item) list"
  oe_NewResponses :: "(string \<times> response) list"
  oe_NewSchema :: "string \<Rightarrow> schemas \<Rightarrow> schema \<times> schemas"   \<comment> \<open>it may register the schemas of the types inside\<close>
  oe_MarshalJSON :: "openapi_T \<Rightarrow> string result"

text \<open>Assigning to an entry of a map.\<close>

fun assign :: "string \<Rightarrow> 'a \<Rightarrow> (string \<times> 'a) list \<Rightarrow> (string \<times> 'a) list" where
  "assign k v [] = [(k, v)]"
| "assign k v ((k', v') # es) = (if k = k' then (k, v) # es else (k', v') # assign k v es)"

definition schema_ref :: "string \<Rightarrow> schema" where
  "schema_ref name = SRef (''#/components/schemas/'' @ name)"

definition json_content :: "schema \<Rightarrow> (string \<times> media_type) list" where
  "json_content sch = [(''application/json'', \<lparr>mt_Schema = sch, mt_Example = None\<rparr>)]"

definition json_response :: "string \<Rightarrow> schema \<Rightarrow> response" where
  "json_response text sch = \<lparr>rp_Description = text, rp_Content = json_content sch\<rparr>"

definition json_body :: "schema \<Rightarrow> request_body" where
  "json_body sch = \<lparr>rb_Required = True, rb_Content = json_content sch\<rparr>"

definition patchRequestBody :: request_body where
  "patchRequestBody =
     (let patchSchema = \<lparr>mt_Schema = SObject [] [], mt_Example = None\<rparr> in
      \<lparr>rb_Required = True, rb_Content =
         [(''application/merge-patch+json'', patchSchema), (''application/json-patch+json'', patchSchema),
          (''application/shorthand-patch'', patchSchema), (''application/json'', patchSchema)]\<rparr>)"

definition errorResponse :: response where
  "errorResponse = json_response ''Error response'' (schema_ref ''ErrorResponse'')"

fun assign_errors :: "string list \<Rightarrow> (string \<times> response) list \<Rightarrow> (string \<times> response) list" where
  "assign_errors [] rs = rs"
| "assign_errors (c # cs) rs = assign_errors cs (assign c errorResponse rs)"

section \<open>The operations of a kind\<close>

text \<open>The four functions of the kinds are copies of one template; \<open>name\<close> is the kind.\<close>

definition listOp :: "openapi_env \<Rightarrow> string \<Rightarrow> operation" where
  "listOp oe name =
     \<lparr>op_OperationID = ''list'' @ name @ ''s'', op_Summary = ''List all '' @ name @ '' resources'',
      op_Description = ''Returns a list of all '' @ name @ '' resources in the inventory'', op_Tags = [name], op_RequestBody = None,
      op_Responses = assign_errors [''500''] (assign ''200'' (json_response ''Successful response'' (SArray (schema_ref name))) (oe_NewResponses oe))\<rparr>"

definition createOp :: "openapi_env \<Rightarrow> string \<Rightarrow> operation" where
  "createOp oe name =
     \<lparr>op_OperationID = ''create'' @ name, op_Summary = ''Create a new '' @ name @ '' resource'',
      op_Description = ''Creates a new '' @ name @ '' resource with the provided specification'', op_Tags = [name],
      op_RequestBody = Some (json_body (schema_ref (''Create'' @ name @ ''Request''))),
      op_Responses = assign_errors [''400'', ''500''] (assign ''201'' (json_response ''Resource created successfully'' (schema_ref name)) (oe_NewResponses oe))\<rparr>"

definition getOp :: "openapi_env \<Rightarrow> string \<Rightarrow> operation" where
  "getOp oe name =
     \<lparr>op_OperationID = ''get'' @ name, op_Summary = ''Get a specific '' @ name @ '' resource'',
      op_Description = ''Returns details of a specific '' @ name @ '' resource by UID'', op_Tags = [name], op_RequestBody = None,
      op_Responses = assign_errors [''404'', ''500''] (assign ''200'' (json_response ''Successful response'' (schema_ref name)) (oe_NewResponses oe))\<rparr>"

definition updateOp :: "openapi_env \<Rightarrow> string \<Rightarrow> operation" where
  "updateOp oe name =
     \<lparr>op_OperationID = ''update'' @ name, op_Summary = ''Update a '' @ name @ '' resource'',
      op_Description = ''Updates an existing '' @ name @ '' resource with new values'', op_Tags = [name],
      op_RequestBody = Some (json_body (schema_ref (''Update'' @ name @ ''Request''))),
      op_Responses = assign_errors [''400'', ''404'', ''500'']
        (assign ''200'' (json_response ''Resource updated successfully'' (schema_ref name)) (oe_NewResponses oe))\<rparr>"

definition patchOp :: "openapi_env \<Rightarrow> string \<Rightarrow> operation" where
  "patchOp oe name =
     \<lparr>op_OperationID = ''patch'' @ name, op_Summary = ''Patch a '' @ name @ '' resource'',
      op_Description = ''Partially updates an existing '' @ name @ '' resource using patch semantics'', op_Tags = [name],
      op_RequestBody = Some patchRequestBody,
      op_Responses = assign_errors [''400'', ''404'', ''422'', ''500'']
        (assign ''200'' (json_response ''Resource patched successfully'' (schema_ref name)) (oe_NewResponses oe))\<rparr>"

definition updateStatusOp :: "openapi_env \<Rightarrow> string \<Rightarrow> operation" where
  "updateStatusOp oe name =
     \<lparr>op_OperationID = ''update'' @ name @ ''Status'', op_Summary = ''Update '' @ name @ '' status'',
      op_Description = ''Updates only the status subresource for an existing '' @ name, op_Tags = [name],
      op_RequestBody = Some (json_body (schema_ref (name @ ''Status''))),
      op_Responses = assign_errors [''400'', ''404'', ''500'']
        (assign ''200'' (json_response ''Status updated successfully'' (schema_ref name)) (oe_NewResponses oe))\<rparr>"

definition patchStatusOp :: "openapi_env \<Rightarrow> string \<Rightarrow> operation" where
  "patchStatusOp oe name =
     \<lparr>op_OperationID = ''patch'' @ name @ ''Status'', op_Summary = ''Patch '' @ name @ '' status'',
      op_Description = ''Partially updates only the status subresource for an existing '' @ name, op_Tags = [name],
      op_RequestBody = Some patchRequestBody,
      op_Responses = assign_errors [''400'', ''404'', ''422'', ''500'']
        (assign ''200'' (json_response ''Status patched successfully'' (schema_ref name)) (oe_NewResponses oe))\<rparr>"

definition deleteOp :: "openapi_env \<Rightarrow> string \<Rightarrow> operation" where
  "deleteOp oe name =
     \<lparr>op_OperationID = ''delete'' @ name, op_Summary = ''Delete a '' @ name @ '' resource'',
      op_Description = ''Removes a '' @ name @ '' resource from the inventory'', op_Tags = [name], op_RequestBody = None,
      op_Responses = assign_errors [''400'', ''404'', ''500'']
        (assign ''200'' (json_response ''Resource deleted successfully'' (schema_ref ''DeleteResponse'')) (oe_NewResponses oe))\<rparr>"

definition no_item :: path_item where
  "no_item = \<lparr>pi_Get = None, pi_Post = None, pi_Put = None, pi_Patch = None, pi_Delete = None, pi_Parameters = []\<rparr>"

definition uidParam :: "string \<Rightarrow> parameter" where
  "uidParam name = \<lparr>pa_Name = ''uid'', pa_Description = ''Unique identifier of the '' @ name @ '' resource'', pa_Required = True, pa_Schema = SString\<rparr>"

definition collectionPath :: "openapi_env \<Rightarrow> string \<Rightarrow> path_item" where
  "collectionPath oe name = no_item\<lparr>pi_Get := Some (listOp oe name), pi_Post := Some (createOp oe name)\<rparr>"

definition itemPath :: "openapi_env \<Rightarrow> string \<Rightarrow> path_item" where
  "itemPath oe name =
     no_item\<lparr>pi_Get := Some (getOp oe name), pi_Put := Some (updateOp oe name), pi_Patch := Some (patchOp oe name),
             pi_Delete := Some (deleteOp oe name), pi_Parameters := [uidParam name]\<rparr>"

definition statusPath :: "openapi_env \<Rightarrow> string \<Rightarrow> path_item" where
  "statusPath oe name = no_item\<lparr>pi_Put := Some (updateStatusOp oe name), pi_Patch := Some (patchStatusOp oe name), pi_Parameters := [uidParam name]\<rparr>"

text \<open>The schemas: a Go type's schema is generated into the components, then entered under its name.\<close>

definition add_type :: "openapi_env \<Rightarrow> string \<Rightarrow> string \<Rightarrow> schemas \<Rightarrow> schemas" where
  "add_type oe gotype name schs = (case oe_NewSchema oe gotype schs of (sch, schs') \<Rightarrow> assign name sch schs')"

definition kind_schemas :: "openapi_env \<Rightarrow> string \<Rightarrow> schemas \<Rightarrow> schemas" where
  "kind_schemas oe name schs =
     (let s1 = add_type oe (''v1.'' @ name) name schs;
          s2 = add_type oe (''Create'' @ name @ ''Request'') (''Create'' @ name @ ''Request'') s1;
          s3 = add_type oe (''Update'' @ name @ ''Request'') (''Update'' @ name @ ''Request'') s2;
          s4 = add_type oe (''v1.'' @ name @ ''Status'') (name @ ''Status'') s3;
          s5 = (if map_of s4 ''ErrorResponse'' = None then assign ''ErrorResponse'' (SObject [(''error'', SString)] [''error'']) s4 else s4) in
      if map_of s5 ''DeleteResponse'' = None then add_type oe ''DeleteResponse'' ''DeleteResponse'' s5 else s5)"

definition register_paths :: "openapi_env \<Rightarrow> string \<Rightarrow> string \<Rightarrow> openapi_T \<Rightarrow> openapi_T" where
  "register_paths oe name plural spec =
     spec\<lparr>ot_Schemas := kind_schemas oe name (ot_Schemas spec),
          ot_Paths := assign (''/'' @ plural @ ''/{uid}/status'') (statusPath oe name)
            (assign (''/'' @ plural @ ''/{uid}'') (itemPath oe name)
            (assign (''/'' @ plural) (collectionPath oe name) (ot_Paths spec)))\<rparr>"

definition registerClusterDefaultsPaths :: "openapi_env \<Rightarrow> openapi_T \<Rightarrow> openapi_T" where
  "registerClusterDefaultsPaths oe = register_paths oe ''ClusterDefaults'' ''clusterdefaultss''"

definition registerGroupPaths :: "openapi_env \<Rightarrow> openapi_T \<Rightarrow> openapi_T" where
  "registerGroupPaths oe = register_paths oe ''Group'' ''groups''"

definition registerInstanceInfoPaths :: "openapi_env \<Rightarrow> openapi_T \<Rightarrow> openapi_T" where
  "registerInstanceInfoPaths oe = register_paths oe ''InstanceInfo'' ''instanceinfos''"

definition registerWireGuardPeerPaths :: "openapi_env \<Rightarrow> openapi_T \<Rightarrow> openapi_T" where
  "registerWireGuardPeerPaths oe = register_paths oe ''WireGuardPeer'' ''wireguardpeers''"

text \<open>The hook for routes that are not generated; it registers none.\<close>

definition registerCustomOpenAPIPaths :: "openapi_T \<Rightarrow> openapi_T" where
  "registerCustomOpenAPIPaths spec = spec"

section \<open>The document\<close>

definition healthOp :: "openapi_env \<Rightarrow> operation" where
  "healthOp oe =
     (let example = JObj [(''status'', JStr ''ok''), (''service'', JStr ''metadata_service''), (''version'', JStr ''1.0.0''), (''time'', JStr ''2026-01-01T00:00:00Z'')];
          sch = SObject [(''status'', SString), (''service'', SString), (''version'', SString), (''time'', SString)] [''status''] in
      \<lparr>op_OperationID = ''health'', op_Summary = ''Service health'', op_Description = ''Returns service health information'', op_Tags = [''Service''],
       op_RequestBody = None,
       op_Responses = assign ''200''
         \<lparr>rp_Description = ''Healthy'', rp_Content = [(''application/json'', \<lparr>mt_Schema = sch, mt_Example = Some example\<rparr>)]\<rparr> (oe_NewResponses oe)\<rparr>)"

definition openAPIJsonOp :: "openapi_env \<Rightarrow> operation" where
  "openAPIJsonOp oe =
     (let example = JObj [(''openapi'', JStr ''3.0.0''), (''info'', JObj [(''title'', JStr ''metadata_service API''), (''version'', JStr ''1.0.0'')])] in
      \<lparr>op_OperationID = ''getOpenAPISpec'', op_Summary = ''Get OpenAPI specification'',
       op_Description = ''Returns the complete OpenAPI 3.0 specification for this API'', op_Tags = [''Service''], op_RequestBody = None,
       op_Responses = assign ''200''
         \<lparr>rp_Description = ''OpenAPI specification'', rp_Content = [(''application/json'', \<lparr>mt_Schema = SObject [] [], mt_Example = Some example\<rparr>)]\<rparr>
         (oe_NewResponses oe)\<rparr>)"

definition docsOp :: "openapi_env \<Rightarrow> operation" where
  "docsOp oe =
     \<lparr>op_OperationID = ''getSwaggerUI'', op_Summary = ''API documentation UI'',
      op_Description = ''Returns an interactive Swagger UI for exploring the API'', op_Tags = [''Service''], op_RequestBody = None,
      op_Responses = assign ''200''
        \<lparr>rp_Description = ''Swagger UI HTML page'', rp_Content = [(''text/html'', \<lparr>mt_Schema = SString, mt_Example = None\<rparr>)]\<rparr> (oe_NewResponses oe)\<rparr>"

definition new_document :: "openapi_env \<Rightarrow> openapi_T" where
  "new_document oe =
     \<lparr>ot_OpenAPI = ''3.0.0'', ot_Title = ''metadata_service API'',
      ot_Description = ''Fabrica-generated REST API with Kubernetes-style resource management'', ot_Version = ''1.0.0'',
      ot_Contact = (''Fabrica Project'', ''https://github.com/openchami/fabrica''),
      ot_Servers = [(''http://localhost:8080'', ''Development server'')], ot_Paths = oe_NewPaths oe, ot_Schemas = []\<rparr>"

definition set_get :: "string \<Rightarrow> operation \<Rightarrow> openapi_T \<Rightarrow> openapi_T" where
  "set_get path op spec = spec\<lparr>ot_Paths := assign path (no_item\<lparr>pi_Get := Some op\<rparr>) (ot_Paths spec)\<rparr>"

definition GenerateOpenAPISpec :: "openapi_env \<Rightarrow> openapi_T" where
  "GenerateOpenAPISpec oe =
     registerCustomOpenAPIPaths
       (set_get ''/docs'' (docsOp oe) (set_get ''/openapi.json'' (openAPIJsonOp oe) (set_get ''/health'' (healthOp oe)
         (registerWireGuardPeerPaths oe (registerInstanceInfoPaths oe (registerGroupPaths oe (registerClusterDefaultsPaths oe (new_document oe))))))))"

text \<open>The encoder's error, if any, is answered as text.\<close>

definition ServeOpenAPISpec :: "openapi_env \<Rightarrow> http_response" where
  "ServeOpenAPISpec oe =
     (case oe_MarshalJSON oe (GenerateOpenAPISpec oe) of
        Inl e \<Rightarrow> http_Error (err_text e) 500
      | Inr d \<Rightarrow> TextResponse 200 ''application/json'' (d @ nl))"

text \<open>The page of the Swagger UI, which loads the document from the server.\<close>

definition ServeSwaggerUI :: http_response where
  \<open>ServeSwaggerUI = TextResponse 200 ''text/html'' (join nl
     [''<!DOCTYPE html>'',
      ''<html lang="en">'',
      ''<head>'',
      ''    <meta charset="UTF-8">'',
      ''    <title>metadata_service API Documentation</title>'',
      ''    <link rel="stylesheet" type="text/css" href="https://unpkg.com/swagger-ui-dist@5.9.0/swagger-ui.css">'',
      ''    <style>'',
      ''        html { box-sizing: border-box; overflow: -moz-scrollbars-vertical; overflow-y: scroll; }'',
      ''        *, *:before, *:after { box-sizing: inherit; }'',
      ''        body { margin:0; padding:0; }'',
      ''    </style>'',
      ''</head>'',
      ''<body>'',
      ''    <div id="swagger-ui"></div>'',
      ''    <script src="https://unpkg.com/swagger-ui-dist@5.9.0/swagger-ui-bundle.js"></script>'',
      ''    <script src="https://unpkg.com/swagger-ui-dist@5.9.0/swagger-ui-standalone-preset.js"></script>'',
      ''    <script>'',
      ''        window.onload = function() {'',
      ''            window.ui = SwaggerUIBundle({'',
      ''                url: "/openapi.json",'',
      ''                dom_id: '#swagger-ui','',
      ''                deepLinking: true,'',
      ''                presets: ['',
      ''                    SwaggerUIBundle.presets.apis,'',
      ''                    SwaggerUIStandalonePreset'',
      ''                ],'',
      ''                plugins: ['',
      ''                    SwaggerUIBundle.plugins.DownloadUrl'',
      ''                ],'',
      ''                layout: "StandaloneLayout"'',
      ''            });'',
      ''        };'',
      ''    </script>'',
      ''</body>'',
      ''</html>''])\<close>

section \<open>The document and the routes\<close>

lemma map_of_assign [simp]: "map_of (assign k v es) = (map_of es)(k \<mapsto> v)"
  by (induction k v es rule: assign.induct) (auto simp: fun_eq_iff)

lemma keys_assign [simp]: "fst ` set (assign k v es) = insert k (fst ` set es)"
  by (induction k v es rule: assign.induct) auto

lemma keys_assign_errors [simp]: "fst ` set (assign_errors cs rs) = set cs \<union> fst ` set rs"
  by (induction cs arbitrary: rs) auto

fun item_op :: "path_item \<Rightarrow> http_method \<Rightarrow> operation option" where
  "item_op pi GET = pi_Get pi"
| "item_op pi POST = pi_Post pi"
| "item_op pi PUT = pi_Put pi"
| "item_op pi PATCH = pi_Patch pi"
| "item_op pi DELETE = pi_Delete pi"

definition documented_op :: "openapi_T \<Rightarrow> http_method \<Rightarrow> string \<Rightarrow> operation option" where
  "documented_op spec m path = (case map_of (ot_Paths spec) path of None \<Rightarrow> None | Some pi \<Rightarrow> item_op pi m)"

abbreviation api_kinds :: "(string \<times> string) list" where
  "api_kinds \<equiv> [(''ClusterDefaults'', ''clusterdefaultss''), (''Group'', ''groups''), (''InstanceInfo'', ''instanceinfos''), (''WireGuardPeer'', ''wireguardpeers'')]"

text \<open>The entries of the document.\<close>

definition kind_paths :: "openapi_env \<Rightarrow> string \<times> string \<Rightarrow> (string \<times> path_item) list" where
  "kind_paths oe k =
     (case k of (name, plural) \<Rightarrow>
        [(''/'' @ plural, collectionPath oe name), (''/'' @ plural @ ''/{uid}'', itemPath oe name), (''/'' @ plural @ ''/{uid}/status'', statusPath oe name)])"

definition service_paths :: "openapi_env \<Rightarrow> (string \<times> path_item) list" where
  "service_paths oe =
     [(''/health'', no_item\<lparr>pi_Get := Some (healthOp oe)\<rparr>), (''/openapi.json'', no_item\<lparr>pi_Get := Some (openAPIJsonOp oe)\<rparr>),
      (''/docs'', no_item\<lparr>pi_Get := Some (docsOp oe)\<rparr>)]"

lemmas register_defs = GenerateOpenAPISpec_def registerCustomOpenAPIPaths_def set_get_def registerClusterDefaultsPaths_def registerGroupPaths_def
  registerInstanceInfoPaths_def registerWireGuardPeerPaths_def register_paths_def new_document_def

lemma document_paths:
  assumes "oe_NewPaths oe = []"
  shows "ot_Paths (GenerateOpenAPISpec oe) = concat (map (kind_paths oe) api_kinds) @ service_paths oe"
  using assms by (simp add: register_defs kind_paths_def service_paths_def)

lemma document_paths_distinct: "distinct (map fst (concat (map (kind_paths oe) api_kinds) @ service_paths oe))"
  by (simp add: kind_paths_def service_paths_def)

lemma documented_kind:
  assumes "oe_NewPaths oe = []" "k \<in> set api_kinds" "(path, item) \<in> set (kind_paths oe k)"
  shows "documented_op (GenerateOpenAPISpec oe) m path = item_op item m"
proof -
  have "map_of (ot_Paths (GenerateOpenAPISpec oe)) path = Some item"
    unfolding document_paths [OF assms(1)]
    by (rule map_of_is_SomeI [OF document_paths_distinct]) (use assms(2,3) in auto)
  then show ?thesis by (simp add: documented_op_def)
qed

text \<open>The path of a route as the document writes it.\<close>

fun route_template :: "string \<Rightarrow> string list \<Rightarrow> string" where
  "route_template plural [] = ''/'' @ plural"
| "route_template plural [u] = ''/'' @ plural @ ''/{uid}''"
| "route_template plural (u # sub # rest) = ''/'' @ plural @ ''/{uid}/status''"

text \<open>The statuses a handler answers with.\<close>

lemma respondError_in: "st \<in> S \<Longrightarrow> 500 \<in> S \<Longrightarrow> rs_status (respondError st e) \<in> S"
  using respondError_status [of st e] by metis

lemma commit_in: "st \<in> S \<Longrightarrow> 400 \<in> S \<Longrightarrow> 500 \<in> S \<Longrightarrow> rs_status (fst (commit ae K msg st ev r s)) \<in> S"
  by (simp add: commit_def respondError_in split: option.splits prod.splits)

lemma with_resource_in:
  assumes "hr_uid req \<noteq> ''''" "404 \<in> S" "500 \<in> S" "\<And>r. rs_status (fst (h r req s)) \<in> S"
  shows "rs_status (fst (with_resource ae K h req s)) \<in> S"
  using assms by (simp add: with_resource_def respondError_in split: sum.splits)

lemma patched_in: "patched ae what rm dec enc x req = Inl (status, e) \<Longrightarrow> {400, 422, 500} \<subseteq> S \<Longrightarrow> rs_status (respondError status e) \<in> S"
  by (rule respondError_in) (auto simp: patched_def split: sum.splits)

lemma collection_statuses:
  "{200, 500} \<subseteq> S \<Longrightarrow> rs_status (fst (get_all ae K req s)) \<in> S"
  "{201, 400, 500} \<subseteq> S \<Longrightarrow> rs_status (fst (create ae K req s)) \<in> S"
  by (auto simp: get_all_def create_def intro!: respondError_in commit_in split: sum.splits option.splits prod.splits)

lemma item_statuses:
  assumes "hr_uid req \<noteq> ''''"
  shows "{200, 404, 500} \<subseteq> S \<Longrightarrow> rs_status (fst (get_one ae K req s)) \<in> S"
    and "{200, 400, 404, 500} \<subseteq> S \<Longrightarrow> rs_status (fst (update ae K req s)) \<in> S"
    and "{200, 400, 404, 500} \<subseteq> S \<Longrightarrow> rs_status (fst (update_status ae K req s)) \<in> S"
    and "{200, 404, 500} \<subseteq> S \<Longrightarrow> rs_status (fst (delete ae K req s)) \<in> S"
  unfolding get_one_def update_def update_status_def delete_def
  by (auto simp: Let_def intro!: respondError_in commit_in with_resource_in [OF assms] split: sum.splits option.splits prod.splits)

lemma patch_statuses:
  assumes "hr_uid req \<noteq> ''''" "{200, 400, 404, 422, 500} \<subseteq> S"
  shows "rs_status (fst (patch ae K req s)) \<in> S" "rs_status (fst (patch_status ae K req s)) \<in> S"
proof -
  have S: "{400, 422, 500} \<subseteq> S" "200 \<in> S" "400 \<in> S" "404 \<in> S" "500 \<in> S" using assms(2) by auto
  show "rs_status (fst (patch ae K req s)) \<in> S" "rs_status (fst (patch_status ae K req s)) \<in> S"
    unfolding patch_def patch_status_def
    by (auto intro!: with_resource_in [OF assms(1)] commit_in patched_in [OF _ S(1)] S split: sum.splits)
qed

text \<open>The statuses an operation documents.\<close>

definition documents :: "operation \<Rightarrow> nat set" where
  "documents op = {st. nat_str st \<in> fst ` set (op_Responses op)}"

lemma op_documents:
  "{200, 500} \<subseteq> documents (listOp oe n)" "{201, 400, 500} \<subseteq> documents (createOp oe n)"
  "{200, 404, 500} \<subseteq> documents (getOp oe n)" "{200, 400, 404, 500} \<subseteq> documents (updateOp oe n)"
  "{200, 400, 404, 422, 500} \<subseteq> documents (patchOp oe n)" "{200, 400, 404, 500} \<subseteq> documents (updateStatusOp oe n)"
  "{200, 400, 404, 422, 500} \<subseteq> documents (patchStatusOp oe n)" "{200, 404, 500} \<subseteq> documents (deleteOp oe n)"
proof -
  have "nat_str 200 = ''200''" "nat_str 201 = ''201''" "nat_str 400 = ''400''" "nat_str 404 = ''404''" "nat_str 422 = ''422''" "nat_str 500 = ''500''"
    by code_simp+
  note d = this documents_def
  show "{200, 500} \<subseteq> documents (listOp oe n)" "{201, 400, 500} \<subseteq> documents (createOp oe n)"
    "{200, 404, 500} \<subseteq> documents (getOp oe n)" "{200, 400, 404, 500} \<subseteq> documents (updateOp oe n)"
    "{200, 400, 404, 422, 500} \<subseteq> documents (patchOp oe n)" "{200, 400, 404, 500} \<subseteq> documents (updateStatusOp oe n)"
    "{200, 400, 404, 422, 500} \<subseteq> documents (patchStatusOp oe n)" "{200, 404, 500} \<subseteq> documents (deleteOp oe n)"
    by (simp_all add: d listOp_def createOp_def getOp_def updateOp_def patchOp_def updateStatusOp_def patchStatusOp_def deleteOp_def del: assign_errors.simps)
qed

lemma item_ops:
  "item_op (collectionPath oe n) m = (case m of GET \<Rightarrow> Some (listOp oe n) | POST \<Rightarrow> Some (createOp oe n) | _ \<Rightarrow> None)"
  "item_op (itemPath oe n) m = (case m of GET \<Rightarrow> Some (getOp oe n) | PUT \<Rightarrow> Some (updateOp oe n) | PATCH \<Rightarrow> Some (patchOp oe n)
     | DELETE \<Rightarrow> Some (deleteOp oe n) | POST \<Rightarrow> None)"
  "item_op (statusPath oe n) m = (case m of PUT \<Rightarrow> Some (updateStatusOp oe n) | PATCH \<Rightarrow> Some (patchStatusOp oe n) | _ \<Rightarrow> None)"
  by (cases m; simp add: collectionPath_def itemPath_def statusPath_def no_item_def)+

text \<open>
  C23 (refinement). The handlers keep the published contract. For every kind, each route has an operation
  in the document, under its method and path; and every status the route's handler can answer with, for any
  request and any state of the storage, is one that the operation documents. (The empty UID, which no path
  of a route has, is left out: it is answered with 400, also where 400 is not documented.)
\<close>

theorem answers_are_documented:
  assumes "oe_NewPaths oe = []" and "(k_name K, k_plural K) \<in> set api_kinds"
    and "resource_routes ae K m segs = Some h" and "'''' \<notin> set segs"
  shows "\<exists>op. documented_op (GenerateOpenAPISpec oe) m (route_template (k_plural K) segs) = Some op \<and> rs_status (fst (h req s)) \<in> documents op"
proof -
  have d: "documented_op (GenerateOpenAPISpec oe) m (route_template (k_plural K) []) = item_op (collectionPath oe (k_name K)) m"
    "documented_op (GenerateOpenAPISpec oe) m (route_template (k_plural K) [u]) = item_op (itemPath oe (k_name K)) m"
    "documented_op (GenerateOpenAPISpec oe) m (route_template (k_plural K) [u, sub]) = item_op (statusPath oe (k_name K)) m" for m u sub
    by (rule documented_kind [OF assms(1,2)]; simp add: kind_paths_def)+
  show ?thesis
  proof (cases "(ae, K, m, segs)" rule: resource_routes.cases)
    case (1 ae' K' m')
    have "segs = []" using 1 by simp
    with assms(3) d(1) [of m, unfolded item_ops] show ?thesis
      using collection_statuses(1) [OF op_documents(1), where s = s] collection_statuses(2) [OF op_documents(2), where s = s]
      by (cases m) (auto simp del: route_template.simps)
  next
    case (2 ae' K' m' uid)
    then have s: "segs = [uid]" by simp
    have u: "hr_uid (req\<lparr>hr_uid := uid\<rparr>) \<noteq> ''''" using assms(4) s by auto
    note st = item_statuses(1) [OF u op_documents(3), where s = s] item_statuses(2) [OF u op_documents(4), where s = s] patch_statuses(1) [OF u op_documents(5), where s = s]
      item_statuses(4) [OF u op_documents(8), where s = s]
    from assms(3) d(2) [of m uid, unfolded item_ops] s show ?thesis using st by (cases m) (auto simp del: route_template.simps)
  next
    case (3 ae' K' m' uid sub)
    then have s: "segs = [uid, sub]" by simp
    have u: "hr_uid (req\<lparr>hr_uid := uid\<rparr>) \<noteq> ''''" using assms(4) s by auto
    note st = item_statuses(3) [OF u op_documents(6), where s = s] patch_statuses(2) [OF u op_documents(7), where s = s]
    from assms(3) d(3) [of m uid sub, unfolded item_ops] s show ?thesis using st by (cases m) (auto simp del: route_template.simps split: if_splits)
  qed (use assms(3) in simp)
qed

text \<open>An OpenAPI package whose operations start with a default response.\<close>

definition openapi0 :: openapi_env where
  "openapi0 = \<lparr>oe_NewPaths = [], oe_NewResponses = [(''default'', \<lparr>rp_Description = '''', rp_Content = []\<rparr>)],
     oe_NewSchema = (\<lambda>t schs. (SGenerated t, schs)), oe_MarshalJSON = (\<lambda>_. Inr ''{}'')\<rparr>"

theorem answers_are_documented_witness:
  "\<exists>op. documented_op (GenerateOpenAPISpec openapi0) DELETE ''/wireguardpeers/{uid}'' = Some op \<and>
     rs_status (fst (DeleteWireGuardPeer_handler peer_env0 (no_body\<lparr>hr_uid := ''u''\<rparr>) ([], 0))) \<in> documents op"
proof -
  have k: "(k_name WireGuardPeer_kind, k_plural WireGuardPeer_kind) \<in> set api_kinds" by (simp add: WireGuardPeer_kind_def)
  have p: "oe_NewPaths openapi0 = []" by (simp add: openapi0_def)
  have h: "resource_routes peer_env0 WireGuardPeer_kind DELETE [''u''] = Some (\<lambda>req. delete peer_env0 WireGuardPeer_kind (req\<lparr>hr_uid := ''u''\<rparr>))" by simp
  from answers_are_documented [OF p k h, of no_body "([], 0)"] show ?thesis
    by (simp add: DeleteWireGuardPeer_handler_def WireGuardPeer_kind_def [THEN arg_cong, of k_plural])
qed

lemma documented_entries:
  assumes "oe_NewPaths oe = []"
  shows "documented_op (GenerateOpenAPISpec oe) m path \<noteq> None \<longleftrightarrow>
    (\<exists>item. (path, item) \<in> set (concat (map (kind_paths oe) api_kinds) @ service_paths oe) \<and> item_op item m \<noteq> None)"
proof
  assume "documented_op (GenerateOpenAPISpec oe) m path \<noteq> None"
  then show "\<exists>item. (path, item) \<in> set (concat (map (kind_paths oe) api_kinds) @ service_paths oe) \<and> item_op item m \<noteq> None"
    unfolding documented_op_def document_paths [OF assms] by (force split: option.splits dest: map_of_SomeD)
next
  assume "\<exists>item. (path, item) \<in> set (concat (map (kind_paths oe) api_kinds) @ service_paths oe) \<and> item_op item m \<noteq> None"
  then obtain item where i: "(path, item) \<in> set (concat (map (kind_paths oe) api_kinds) @ service_paths oe)" "item_op item m \<noteq> None" by blast
  from map_of_is_SomeI [OF document_paths_distinct i(1)] i(2) show "documented_op (GenerateOpenAPISpec oe) m path \<noteq> None"
    by (simp add: documented_op_def document_paths [OF assms])
qed

text \<open>A route of the router as the document writes it: without the slash at the end.\<close>

definition as_documented :: "'s router \<Rightarrow> (http_method \<times> string) set" where
  "as_documented routes = (\<lambda>(p, h). (fst p, butlast (snd p))) ` set routes"

lemma ex_three: "(\<exists>x. (p, x) \<in> set [(a, A), (b, B), (c, C)] \<and> P x) \<longleftrightarrow> p = a \<and> P A \<or> p = b \<and> P B \<or> p = c \<and> P C"
  by auto

lemma item_methods:
  "item_op (collectionPath oe n) m \<noteq> None \<longleftrightarrow> m = GET \<or> m = POST"
  "item_op (itemPath oe n) m \<noteq> None \<longleftrightarrow> m = GET \<or> m = PUT \<or> m = PATCH \<or> m = DELETE"
  "item_op (statusPath oe n) m \<noteq> None \<longleftrightarrow> m = PUT \<or> m = PATCH"
  "item_op (no_item\<lparr>pi_Get := Some op\<rparr>) m \<noteq> None \<longleftrightarrow> m = GET"
  by (cases m; simp add: collectionPath_def itemPath_def statusPath_def no_item_def)+

lemma kind_as_documented:
  "(m, path) \<in> as_documented (kind_routes env wrap ae K (''/'' @ plural)) \<longleftrightarrow> (\<exists>item. (path, item) \<in> set (kind_paths oe (name, plural)) \<and> item_op item m \<noteq> None)"
proof -
  define l i s where p: "l = ''/'' @ plural" "i = ''/'' @ plural @ ''/{uid}''" "s = ''/'' @ plural @ ''/{uid}/status''"
  have "map (\<lambda>(p, h). (fst p, butlast (snd p))) (kind_routes env wrap ae K (''/'' @ plural)) =
      [(GET, l), (POST, l), (GET, i), (PUT, i), (PATCH, i), (DELETE, i), (PUT, s), (PATCH, s)]"
    by (simp add: kind_routes_def butlast_append p)
  then have r: "as_documented (kind_routes env wrap ae K (''/'' @ plural)) =
      set [(GET, l), (POST, l), (GET, i), (PUT, i), (PATCH, i), (DELETE, i), (PUT, s), (PATCH, s)]"
    unfolding as_documented_def set_map [symmetric] by (rule arg_cong)
  have q: "(m, path) \<in> set [(GET, l), (POST, l), (GET, i), (PUT, i), (PATCH, i), (DELETE, i), (PUT, s), (PATCH, s)] \<longleftrightarrow>
      path = l \<and> (m = GET \<or> m = POST) \<or> path = i \<and> (m = GET \<or> m = PUT \<or> m = PATCH \<or> m = DELETE) \<or> path = s \<and> (m = PUT \<or> m = PATCH)" for l i s :: string
    by (cases m) auto
  have k: "kind_paths oe (name, plural) = [(l, collectionPath oe name), (i, itemPath oe name), (s, statusPath oe name)]"
    by (simp add: kind_paths_def p)
  show ?thesis unfolding r k ex_three item_methods q ..
qed

lemma service_documented:
  "(\<exists>item. (path, item) \<in> set (service_paths oe) \<and> item_op item m \<noteq> None) \<longleftrightarrow> m = GET \<and> path \<in> {''/health'', ''/openapi.json'', ''/docs''}"
  unfolding service_paths_def ex_three item_methods by (cases "m = GET") simp_all

text \<open>
  C29 (equivalence). The document and the router agree. An operation is documented if and only if it is a route of the
  generated API (which has a slash at the end of its patterns) or one of \<open>/health\<close>, \<open>/openapi.json\<close> and
  \<open>/docs\<close>; so the routes for nodes, \<open>/wg-init\<close>, \<open>/phone-home\<close> and those of cloud-init, are not documented.
\<close>

theorem document_lists_the_routes:
  assumes "oe_NewPaths oe = []"
  shows "{(m, path). documented_op (GenerateOpenAPISpec oe) m path \<noteq> None} =
    as_documented (RegisterGeneratedRoutes env) \<union> {GET} \<times> {''/health'', ''/openapi.json'', ''/docs''}"
proof -
  have app: "as_documented (r1 @ r2) = as_documented r1 \<union> as_documented r2" for r1 r2 :: "'s router"
    by (simp add: as_documented_def image_Un)
  have k: "(m, path) \<in> as_documented (RegisterGeneratedRoutes env) \<longleftrightarrow>
      (\<exists>item. (path, item) \<in> set (concat (map (kind_paths oe) api_kinds)) \<and> item_op item m \<noteq> None)" for m path
    unfolding RegisterGeneratedRoutes_def app Un_iff
      kind_as_documented [where plural = "''clusterdefaultss''" and oe = oe and name = "''ClusterDefaults''", simplified]
      kind_as_documented [where plural = "''groups''" and oe = oe and name = "''Group''", simplified]
      kind_as_documented [where plural = "''instanceinfos''" and oe = oe and name = "''InstanceInfo''", simplified]
      kind_as_documented [where plural = "''wireguardpeers''" and oe = oe and name = "''WireGuardPeer''", simplified]
    by auto
  have "documented_op (GenerateOpenAPISpec oe) m path \<noteq> None \<longleftrightarrow>
      (m, path) \<in> as_documented (RegisterGeneratedRoutes env) \<or> m = GET \<and> path \<in> {''/health'', ''/openapi.json'', ''/docs''}" for m path
    unfolding documented_entries [OF assms] set_append Un_iff k service_documented [symmetric, where oe = oe] by blast
  then show ?thesis by blast
qed

theorem document_lists_the_routes_witness:
  "documented_op (GenerateOpenAPISpec openapi0) POST ''/groups'' \<noteq> None \<and> documented_op (GenerateOpenAPISpec openapi0) POST ''/wg-init'' = None"
proof -
  have p: "oe_NewPaths openapi0 = []" by (simp add: openapi0_def)
  let ?routes = "RegisterGeneratedRoutes server0 :: (unit, mem, unit, nat) route_state router"
  have t: "{(m, path). documented_op (GenerateOpenAPISpec openapi0) m path \<noteq> None} =
      as_documented ?routes \<union> {GET} \<times> {''/health'', ''/openapi.json'', ''/docs''}" by (rule document_lists_the_routes [OF p])
  have r: "(POST, ''/groups'') \<in> as_documented ?routes" "(POST, ''/wg-init'') \<notin> as_documented ?routes"
    by (simp_all add: as_documented_def RegisterGeneratedRoutes_def kind_routes_def)
  have "(POST, ''/groups'') \<in> {(m, path). documented_op (GenerateOpenAPISpec openapi0) m path \<noteq> None}" unfolding t using r(1) by blast
  moreover have "(POST, ''/wg-init'') \<notin> {(m, path). documented_op (GenerateOpenAPISpec openapi0) m path \<noteq> None}" unfolding t using r(2) by simp
  ultimately show ?thesis by blast
qed

end
