(* ===== verification/Middleware.thy ===== *)
theory Middleware
  imports WG_Routes
begin

text \<open>
  \<open>internal/middleware\<close>: entity tags and conditional requests, version negotiation, validation and the event
  bus. A handler writes to a response writer and may change a state: it maps the pair of both. The hash
  and the JSON package are parameters, the event bus of the events package is a record of its operations.
\<close>

section \<open>Writers\<close>

record http_writer =
  hw_header :: "string \<rightharpoonup> string"
  hw_status :: "nat option"               \<comment> \<open>None: nothing was written, which counts as 200\<close>
  hw_body :: "json option"

record url_request = http_request +
  hq_Method :: http_method
  hq_Path :: string

type_synonym 's wrapped = "url_request \<Rightarrow> http_writer \<times> 's \<Rightarrow> http_writer \<times> 's"

definition Header_Set :: "string \<Rightarrow> string \<Rightarrow> http_writer \<Rightarrow> http_writer" where
  "Header_Set k v w = w\<lparr>hw_header := (hw_header w)(k \<mapsto> v)\<rparr>"

text \<open>The first status that is written counts.\<close>

definition WriteHeader :: "nat \<Rightarrow> http_writer \<Rightarrow> http_writer" where
  "WriteHeader code w = (if hw_status w = None then w\<lparr>hw_status := Some code\<rparr> else w)"

definition write_json :: "nat \<Rightarrow> json \<Rightarrow> http_writer \<Rightarrow> http_writer" where
  "write_json code j w = (WriteHeader code (Header_Set ''Content-Type'' ''application/json'' w))\<lparr>hw_body := Some j\<rparr>"

section \<open>Entity tags\<close>

definition ETagAlgorithm :: string where
  "ETagAlgorithm = ''sha256''"

definition ConditionalMiddleware :: "'s wrapped \<Rightarrow> 's wrapped" where
  "ConditionalMiddleware next_handler r x = next_handler r (Header_Set ''Cache-Control'' ''private, must-revalidate'' (fst x), snd x)"

definition etag_of :: "string \<Rightarrow> string" where
  "etag_of hash = ''W/'' @ [CHR 0x22] @ take 16 hash @ [CHR 0x22]"

definition GenerateETag :: "(string \<Rightarrow> byte list) \<Rightarrow> (string \<Rightarrow> byte list) \<Rightarrow> ('d \<Rightarrow> string result) \<Rightarrow> 'd \<Rightarrow> string result" where
  "GenerateETag sha256 md5 marshal data =
     (case marshal data of
        Inl e \<Rightarrow> Inl (EWrap ''failed to marshal data: '' e '''')
      | Inr jsonData \<Rightarrow>
          if ETagAlgorithm = ''sha256'' then Inr (etag_of (hex_encode (sha256 jsonData)))
          else if ETagAlgorithm = ''md5'' then Inr (etag_of (hex_encode (md5 jsonData)))
          else Inl (ENew (''unknown ETag algorithm: '' @ ETagAlgorithm)))"

text \<open>The loops over the tags of a header.\<close>

definition lists_tag :: "string \<Rightarrow> string \<Rightarrow> bool" where
  "lists_tag hdr currentETag = list_ex (\<lambda>tag. TrimSpace tag = ''*'' \<or> TrimSpace tag = currentETag) (Split (CHR '','') hdr)"

definition CheckIfMatch :: "url_request \<Rightarrow> string \<Rightarrow> http_writer \<Rightarrow> bool \<times> http_writer" where
  "CheckIfMatch r currentETag w =
     (let ifMatch = hq_header r ''If-Match'' in
      if ifMatch = '''' then (True, w)
      else if lists_tag ifMatch currentETag then (True, w)
      else (False, write_json 412 (JObj
             [(''current_etag'', JStr currentETag), (''error'', JStr ''Precondition failed''),
              (''message'', JStr ''Resource has been modified. Please fetch the latest version and retry.''), (''provided_etag'', JStr ifMatch)]) w))"

definition CheckIfNoneMatch :: "url_request \<Rightarrow> string \<Rightarrow> http_writer \<Rightarrow> bool \<times> http_writer" where
  "CheckIfNoneMatch r currentETag w =
     (let ifNoneMatch = hq_header r ''If-None-Match'' in
      if ifNoneMatch = '''' then (True, w)
      else if lists_tag ifNoneMatch currentETag then (False, WriteHeader 304 w)
      else (True, w))"

definition SetETag :: "string \<Rightarrow> http_writer \<Rightarrow> http_writer" where
  "SetETag etag w = Header_Set ''ETag'' etag w"

definition SetCacheControl :: "string \<Rightarrow> http_writer \<Rightarrow> http_writer" where
  "SetCacheControl directive w = Header_Set ''Cache-Control'' directive w"

section \<open>Versions\<close>

definition VersionStrategy :: string where
  "VersionStrategy = ''header''"

definition SupportedVersions :: "int list" where
  "SupportedVersions = [1]"

definition DefaultVersion :: int where
  "DefaultVersion = 1"

text \<open>
  The match of \<open>application/vnd\.[^.]+\.v(\d+)\+json\<close> at the start of a text: the name reaches to the next
  dot and the digits to the next character that is none, so there is at most one; the result is the group.
\<close>

definition vnd_match :: "string \<Rightarrow> string option" where
  "vnd_match s =
     (if \<not> prefix ''application/vnd.'' s then None
      else let rest = drop (length ''application/vnd.'') s; name = takeWhile (\<lambda>c. c \<noteq> CHR ''.'') rest; tail = drop (length name) rest in
        if name = '''' \<or> \<not> prefix ''.v'' tail then None
        else let ds = takeWhile is_digit (drop 2 tail) in
          if ds = '''' \<or> \<not> prefix ''+json'' (drop (length ds) (drop 2 tail)) then None else Some ds)"

text \<open>\<open>FindStringSubmatch\<close>: the leftmost match.\<close>

fun vnd_find :: "string \<Rightarrow> string option" where
  "vnd_find [] = vnd_match []"
| "vnd_find (c # s) = (case vnd_match (c # s) of Some ds \<Rightarrow> Some ds | None \<Rightarrow> vnd_find s)"

definition extractVersionFromHeader :: "url_request \<Rightarrow> int result" where
  "extractVersionFromHeader r =
     (let accept = hq_header r ''Accept'' in
      if accept = '''' then Inr 0
      else (case vnd_find accept of
              None \<Rightarrow> if Contains_str accept ''application/json'' then Inr 0 else Inl (ENew (''invalid Accept header format: '' @ accept))
            | Some ds \<Rightarrow> (case parse_int64 ds of None \<Rightarrow> Inl (ENew (''invalid version number: '' @ ds)) | Some i \<Rightarrow> Inr i)))"

text \<open>The match of \<open>^(?:/api)?/v(\d+)/\<close>.\<close>

definition url_match :: "string \<Rightarrow> string option" where
  "url_match path =
     (let rest = (if prefix ''/api/v'' path then drop 4 path else path); ds = takeWhile is_digit (drop 2 rest) in
      if \<not> prefix ''/v'' rest \<or> ds = '''' \<or> \<not> prefix ''/'' (drop (length ds) (drop 2 rest)) then None else Some ds)"

definition extractVersionFromURL :: "url_request \<Rightarrow> int result" where
  "extractVersionFromURL r =
     (case url_match (hq_Path r) of
        None \<Rightarrow> Inr 0
      | Some ds \<Rightarrow> (case parse_int64 ds of None \<Rightarrow> Inl (ENew (''invalid version number in URL: '' @ ds)) | Some i \<Rightarrow> Inr i))"

definition isVersionSupported :: "int \<Rightarrow> bool" where
  "isVersionSupported version = list_ex (\<lambda>v. v = version) SupportedVersions"

definition requested_version :: "url_request \<Rightarrow> int result" where
  "requested_version r =
     (if VersionStrategy = ''header'' then extractVersionFromHeader r
      else if VersionStrategy = ''url'' then extractVersionFromURL r
      else if VersionStrategy = ''both'' then
        (case extractVersionFromHeader r of Inl e \<Rightarrow> extractVersionFromURL r | Inr v \<Rightarrow> if v = 0 then extractVersionFromURL r else Inr v)
      else Inr DefaultVersion)"

definition VersioningMiddleware :: "'s wrapped \<Rightarrow> 's wrapped" where
  "VersioningMiddleware next_handler r x =
     (let versions = JArr (map (\<lambda>v. JNum (int_str v)) SupportedVersions) in
      case requested_version r of
        Inl e \<Rightarrow> (write_json 400 (JObj [(''error'', JStr ''Invalid API version''), (''message'', JStr (err_text e)), (''supported_versions'', versions)]) (fst x), snd x)
      | Inr v \<Rightarrow>
          let version = (if v = 0 then DefaultVersion else v) in
          if \<not> isVersionSupported version
          then (write_json 406 (JObj [(''error'', JStr ''Unsupported API version''), (''requested_version'', JNum (int_str version)),
                  (''supported_versions'', versions)]) (fst x), snd x)
          else next_handler r (Header_Set ''X-API-Version'' (int_str version) (fst x), snd x))"

text \<open>The version context that the versioning package attached to the request, if any.\<close>

definition GetVersionFromContext :: "string option \<Rightarrow> string" where
  "GetVersionFromContext versionCtx = (case versionCtx of Some serveVersion \<Rightarrow> serveVersion | None \<Rightarrow> ''v1'')"

definition VersionDeprecatedWarning :: "int \<Rightarrow> string \<Rightarrow> http_writer \<Rightarrow> http_writer" where
  "VersionDeprecatedWarning version sunsetDate w =
     (let w1 = Header_Set ''X-API-Deprecation'' (''Version '' @ int_str version @ '' is deprecated'') w;
          w2 = (if sunsetDate \<noteq> '''' then Header_Set ''Sunset'' sunsetDate w1 else w1) in
      Header_Set ''Link'' (''</docs/migration>; rel='' @ [CHR 0x22] @ ''deprecation'' @ [CHR 0x22]) w2)"

section \<open>Validation\<close>

definition ValidationMode :: string where
  "ValidationMode = ''strict''"

definition ValidationMiddleware :: "'s wrapped \<Rightarrow> 's wrapped" where
  "ValidationMiddleware next_handler r x =
     (if ValidationMode = ''disabled'' then next_handler r x
      else if hq_Method r \<noteq> POST \<and> hq_Method r \<noteq> PUT \<and> hq_Method r \<noteq> PATCH then next_handler r x
      else next_handler r x)"

definition ValidateAndRespond :: "('r \<Rightarrow> goerror option) \<Rightarrow> 'r \<Rightarrow> http_writer \<Rightarrow> bool \<times> http_writer" where
  "ValidateAndRespond ValidateResource resource w =
     (case ValidateResource resource of
        None \<Rightarrow> (True, w)
      | Some e \<Rightarrow>
          if ValidationMode = ''strict'' then (False, write_json 400 (JObj [(''details'', JStr (err_text e)), (''error'', JStr ''Validation failed'')]) w)
          else (True, w))"

record ValidationError =
  ve_Field :: string
  ve_Message :: string

definition FormatValidationErrors :: "goerror \<Rightarrow> ValidationError list" where
  "FormatValidationErrors e = [\<lparr>ve_Field = ''unknown'', ve_Message = err_text e\<rparr>]"

section \<open>The event bus\<close>

text \<open>A bus is a value of the events package; publishing and closing change it.\<close>

record ('u, 'd, 'ev, 'h) events_pkg =
  ev_NewInMemoryEventBus :: "nat \<Rightarrow> nat \<Rightarrow> 'u"
  ev_NewEvent :: "string \<Rightarrow> string \<Rightarrow> 'd \<Rightarrow> 'ev result"
  ev_Publish :: "'ev \<Rightarrow> 'u \<Rightarrow> goerror option \<times> 'u"
  ev_Subscribe :: "string \<Rightarrow> 'h \<Rightarrow> 'u \<Rightarrow> goerror option \<times> 'u"
  ev_Close :: "'u \<Rightarrow> goerror option \<times> 'u"

text \<open>The global bus of this package, and whether the events package has been given the same bus (\<open>SetGlobalEventBus\<close>).\<close>

record 'u bus_state =
  GlobalEventBus :: "'u option"
  events_shares :: bool

definition EventBusType :: string where
  "EventBusType = ''memory''"

definition EventsEnabled :: bool where
  "EventsEnabled = True"

definition initMemoryBus :: "('u, 'd, 'ev, 'h) events_pkg \<Rightarrow> 'u bus_state \<Rightarrow> 'u result \<times> 'u bus_state" where
  "initMemoryBus pkg b = (let bus = ev_NewInMemoryEventBus pkg 100 5 in (Inr bus, b\<lparr>events_shares := True\<rparr>))"

definition InitializeEventBus :: "('u, 'd, 'ev, 'h) events_pkg \<Rightarrow> 'u bus_state \<Rightarrow> goerror option \<times> 'u bus_state" where
  "InitializeEventBus pkg b =
     (if \<not> EventsEnabled then (None, b)
      else if EventBusType = ''memory'' then
        (case initMemoryBus pkg b of
           (Inl e, b1) \<Rightarrow> (Some (EWrap (''failed to initialize '' @ EventBusType @ '' event bus: '') e ''''), b1\<lparr>GlobalEventBus := None\<rparr>)
         | (Inr bus, b1) \<Rightarrow> (None, b1\<lparr>GlobalEventBus := Some bus\<rparr>))
      else (Some (ENew (''unsupported event bus type '' @ EventBusType @ '': only memory is implemented'')), b))"

text \<open>Running an operation of the global bus.\<close>

definition on_bus :: "goerror option \<times> 'u \<Rightarrow> 'u bus_state \<Rightarrow> goerror option \<times> 'u bus_state" where
  "on_bus out b = (fst out, b\<lparr>GlobalEventBus := Some (snd out)\<rparr>)"

definition PublishEvent :: "('u, 'd, 'ev, 'h) events_pkg \<Rightarrow> string \<Rightarrow> string \<Rightarrow> 'd \<Rightarrow> 'u bus_state \<Rightarrow> goerror option \<times> 'u bus_state" where
  "PublishEvent pkg eventType source data b =
     (case (EventsEnabled, GlobalEventBus b) of
        (True, Some bus) \<Rightarrow>
          (case ev_NewEvent pkg eventType source data of
             Inl e \<Rightarrow> (Some (EWrap ''failed to create event: '' e ''''), b)
           | Inr evt \<Rightarrow> on_bus (ev_Publish pkg evt bus) b)
      | _ \<Rightarrow> (Some (ENew ''events are not enabled''), b))"

record 'r event_data =
  ed_action :: string
  ed_type :: string
  ed_id :: string
  ed_resource :: 'r
  ed_timestamp :: int

definition PublishResourceEvent :: "('u, 'r event_data, 'ev, 'h) events_pkg \<Rightarrow> int \<Rightarrow> string \<Rightarrow> string \<Rightarrow> string \<Rightarrow> 'r \<Rightarrow>
    'u bus_state \<Rightarrow> goerror option \<times> 'u bus_state" where
  "PublishResourceEvent pkg now action resourceType resourceID resource b =
     PublishEvent pkg (''com.fabrica.'' @ resourceType @ ''.'' @ action) (''/api/'' @ resourceType @ ''/'' @ resourceID)
       \<lparr>ed_action = action, ed_type = resourceType, ed_id = resourceID, ed_resource = resource, ed_timestamp = now\<rparr> b"

definition SubscribeToEvents :: "('u, 'd, 'ev, 'h) events_pkg \<Rightarrow> string \<Rightarrow> 'h \<Rightarrow> 'u bus_state \<Rightarrow> goerror option \<times> 'u bus_state" where
  "SubscribeToEvents pkg eventTypePattern handler b =
     (case (EventsEnabled, GlobalEventBus b) of
        (True, Some bus) \<Rightarrow> on_bus (ev_Subscribe pkg eventTypePattern handler bus) b
      | _ \<Rightarrow> (Some (ENew ''events are not enabled''), b))"

definition CloseEventBus :: "('u, 'd, 'ev, 'h) events_pkg \<Rightarrow> 'u bus_state \<Rightarrow> goerror option \<times> 'u bus_state" where
  "CloseEventBus pkg b =
     (case (EventsEnabled, GlobalEventBus b) of
        (True, Some bus) \<Rightarrow> on_bus (ev_Close pkg bus) b
      | _ \<Rightarrow> (None, b))"

definition EventMiddleware :: "'s wrapped \<Rightarrow> 's wrapped" where
  "EventMiddleware next_handler r x = next_handler r x"

section \<open>Properties\<close>

lemma trim_space_first: "trim_prefixes space_seqs (CHR '' '' # s) = trim_prefixes space_seqs s"
  by (subst trim_prefixes.simps) (simp add: space_seqs_def)

text \<open>A text that starts and ends with characters that are not part of white space is not trimmed.\<close>

lemma trim_printable:
  assumes "of_char c < (127 :: nat)" "32 < (of_char c :: nat)"
  shows "trim_prefixes space_seqs (c # s) = c # s" "trim_prefixes (map rev space_seqs) (c # s) = c # s"
proof -
  have n: "c \<noteq> hd w" if "w \<in> set (space_seqs @ map rev space_seqs)" for w
  proof -
    have "list_all (\<lambda>w. of_char (hd w) \<le> (32 :: nat) \<or> 127 \<le> (of_char (hd w) :: nat)) (space_seqs @ map rev space_seqs)" by code_simp
    with that have "of_char (hd w) \<le> (32 :: nat) \<or> 127 \<le> (of_char (hd w) :: nat)" by (auto simp: list_all_iff)
    with assms show ?thesis by auto
  qed
  have p: "\<not> prefix w (c # s)" if "w \<in> set (space_seqs @ map rev space_seqs)" "w \<noteq> []" for w
    using n [OF that(1)] that(2) by (cases w) auto
  show "trim_prefixes space_seqs (c # s) = c # s" by (rule trim_prefixes_fix) (use p in simp)
  show "trim_prefixes (map rev space_seqs) (c # s) = c # s" by (rule trim_prefixes_fix) (use p in auto)
qed

lemma TrimSpace_etag: "TrimSpace (etag_of h) = etag_of h" "TrimSpace (CHR '' '' # etag_of h) = etag_of h"
proof -
  let ?t = "etag_of h"
  have w: "of_char (CHR ''W'') < (127 :: nat)" "32 < (of_char (CHR ''W'') :: nat)" "of_char (CHR 0x22) < (127 :: nat)" "32 < (of_char (CHR 0x22) :: nat)" by simp_all
  have f: "?t = CHR ''W'' # tl ?t" "rev ?t = CHR 0x22 # tl (rev ?t)" by (simp_all add: etag_of_def)
  have l: "trim_prefixes space_seqs ?t = ?t" by (subst f(1), subst trim_printable(1) [OF w(1,2)]) (rule f(1) [symmetric])
  have r: "trim_prefixes (map rev space_seqs) (rev ?t) = rev ?t" by (subst f(2), subst trim_printable(2) [OF w(3,4)]) (rule f(2) [symmetric])
  show "TrimSpace ?t = ?t" "TrimSpace (CHR '' '' # ?t) = ?t" unfolding TrimSpace_def trim_space_first l r by simp_all
qed

lemma hex_encode_plain: "CHR '','' \<notin> set (hex_encode bs)"
proof -
  have "CHR '','' \<notin> set hex_digits" by code_simp
  then show ?thesis using hex_encode_shape(2) by blast
qed

lemma etag_no_comma: "CHR '','' \<notin> set (etag_of (hex_encode bs))"
  using hex_encode_plain [of bs] by (auto simp: etag_of_def dest: in_set_takeD)

lemma take_hex_encode: "take (2 * n) (hex_encode bs) = hex_encode (take n bs)"
proof (induction bs arbitrary: n)
  case (Cons b bs)
  then show ?case by (cases n) (simp_all add: hex_encode_def hex_byte_def)
qed (simp add: hex_encode_def)

lemma GenerateETag_form: "GenerateETag sha256 md5 marshal d = Inr t \<Longrightarrow> \<exists>bs. t = etag_of (hex_encode bs)"
  by (auto simp: GenerateETag_def split: sum.splits if_splits)

lemma join_comma: "join '', '' (t # q # rest) = t @ CHR '','' # CHR '' '' # join '', '' (q # rest)"
  by (simp add: join_def)

lemma Split_comma_join:
  assumes "ts \<noteq> []" "\<And>t. t \<in> set ts \<Longrightarrow> CHR '','' \<notin> set t"
  shows "Split (CHR '','') (join '', '' ts) = hd ts # map (\<lambda>t. CHR '' '' # t) (tl ts)"
  using assms
proof (induction ts rule: induct_list012)
  case (2 t)
  then show ?case by (simp add: join_def Split_no_sep)
next
  case (3 t q rest)
  then have "Split (CHR '','') (join '', '' (q # rest)) = q # map (\<lambda>t. CHR '' '' # t) rest" by simp
  with 3 show ?case by (simp add: join_comma Split_append)
qed simp

lemma lists_etags:
  assumes "ts \<noteq> []" "\<And>t. t \<in> set ts \<Longrightarrow> \<exists>bs. t = etag_of (hex_encode bs)"
  shows "lists_tag (join '', '' ts) cur \<longleftrightarrow> cur \<in> set ts"
proof -
  have t: "CHR '','' \<notin> set t \<and> TrimSpace t = t \<and> TrimSpace (CHR '' '' # t) = t \<and> t \<noteq> ''*''" if "t \<in> set ts" for t
    using assms(2) [OF that] etag_no_comma TrimSpace_etag by (auto simp: etag_of_def)
  have s: "Split (CHR '','') (join '', '' ts) = hd ts # map (\<lambda>t. CHR '' '' # t) (tl ts)" by (rule Split_comma_join) (use assms(1) t in auto)
  obtain u us where "ts = u # us" using assms(1) by (cases ts) auto
  then show ?thesis using t unfolding lists_tag_def s by (auto simp: list_ex_iff)
qed

text \<open>
  C31 (functional). Conditional requests. The tag of a document is weak and has the first sixteen hexadecimal digits of its SHA-256; the functions read back
  a header that lists any number of tags the way clients send it. An update with \<open>If-Match\<close> proceeds if and only
  if the list has the current tag, and is otherwise answered with 412; a read with \<open>If-None-Match\<close> is
  answered with 304 in exactly those cases in which the update would proceed. The digests are taken to have 32 bytes.
\<close>

theorem conditional_requests:
  assumes "\<forall>s. length (sha256 s) = 32" and "ts \<noteq> []" and "\<forall>t\<in>set ts. \<exists>d. GenerateETag sha256 md5 marshal d = Inr t"
    and "hq_header r ''If-Match'' = join '', '' ts" and "hq_header r ''If-None-Match'' = join '', '' ts" and "hw_status w = None"
  shows "(\<forall>d j. marshal d = Inr j \<longrightarrow> GenerateETag sha256 md5 marshal d = Inr (''W/'' @ [CHR 0x22] @ hex_encode (take 8 (sha256 j)) @ [CHR 0x22]) \<and>
      length (hex_encode (take 8 (sha256 j))) = 16) \<and>
    (cur \<in> set ts \<longrightarrow> CheckIfMatch r cur w = (True, w) \<and> CheckIfNoneMatch r cur w = (False, w\<lparr>hw_status := Some 304\<rparr>)) \<and>
    (cur \<notin> set ts \<longrightarrow> fst (CheckIfMatch r cur w) = False \<and> hw_status (snd (CheckIfMatch r cur w)) = Some 412 \<and> CheckIfNoneMatch r cur w = (True, w))"
proof -
  have f: "\<exists>bs. t = etag_of (hex_encode bs)" if "t \<in> set ts" for t
  proof -
    obtain d where "GenerateETag sha256 md5 marshal d = Inr t" using assms(3) \<open>t \<in> set ts\<close> by blast
    then show ?thesis by (rule GenerateETag_form)
  qed
  have "join '', '' ts \<noteq> ''''" using assms(2) f by (cases ts) (auto simp: join_def etag_of_def)
  then have "(cur \<in> set ts \<longrightarrow> CheckIfMatch r cur w = (True, w) \<and> CheckIfNoneMatch r cur w = (False, w\<lparr>hw_status := Some 304\<rparr>)) \<and>
    (cur \<notin> set ts \<longrightarrow> fst (CheckIfMatch r cur w) = False \<and> hw_status (snd (CheckIfMatch r cur w)) = Some 412 \<and> CheckIfNoneMatch r cur w = (True, w))"
    using lists_etags [OF assms(2) f, of cur] assms(4-6)
    by (auto simp: CheckIfMatch_def CheckIfNoneMatch_def write_json_def WriteHeader_def Header_Set_def)
  moreover have "take 16 (hex_encode (sha256 j)) = hex_encode (take 8 (sha256 j))" "length (hex_encode (take 8 (sha256 j))) = 16" for j
    using take_hex_encode [of 8 "sha256 j"] hex_encode_shape(1) [of "take 8 (sha256 j)"] assms(1) by simp_all
  ultimately show ?thesis by (simp add: GenerateETag_def ETagAlgorithm_def etag_of_def)
qed

definition empty_writer :: http_writer where
  "empty_writer = \<lparr>hw_header = Map.empty, hw_status = None, hw_body = None\<rparr>"

definition tagged_request :: url_request where
  "tagged_request = \<lparr>hq_header = (\<lambda>k. if k = ''If-Match'' \<or> k = ''If-None-Match'' then etag_of (hex_encode (replicate 32 1)) else ''''),
     hq_RemoteAddr = '''', hq_param = (\<lambda>_. ''''), hq_body = Inr '''', hq_Method = PUT, hq_Path = ''/groups/x''\<rparr>"

theorem conditional_requests_witness:
  "CheckIfMatch tagged_request (etag_of (hex_encode (replicate 32 1))) empty_writer = (True, empty_writer) \<and>
   fst (CheckIfMatch tagged_request ''other'' empty_writer) = False"
proof -
  let ?t = "etag_of (hex_encode (replicate 32 1))"
  let ?sha = "\<lambda>s. replicate 32 1 :: byte list"
  have l: "\<forall>s. length (?sha s) = 32" by simp
  have g: "\<forall>t\<in>set [?t]. \<exists>d. GenerateETag ?sha ?sha (\<lambda>d. Inr d) d = Inr t" by (simp add: GenerateETag_def ETagAlgorithm_def)
  have h: "hq_header tagged_request ''If-Match'' = join '', '' [?t]" "hq_header tagged_request ''If-None-Match'' = join '', '' [?t]"
    by (simp_all add: tagged_request_def join_def)
  have "''other'' \<noteq> ?t" by (simp add: etag_of_def)
  with conditional_requests [OF l _ g h, of empty_writer] show ?thesis by (simp add: empty_writer_def)
qed

text \<open>A media type with a version, and whatever follows it in the header.\<close>

definition versioned_type :: "string \<Rightarrow> string \<Rightarrow> string" where
  "versioned_type app ds = ''application/vnd.'' @ app @ ''.v'' @ ds @ ''+json''"

lemma vnd_match_type:
  assumes "app \<noteq> ''''" "CHR ''.'' \<notin> set app" "ds \<noteq> ''''" "list_all is_digit ds"
  shows "vnd_match (versioned_type app ds @ rest) = Some ds"
proof -
  have pre: "versioned_type app ds @ rest = ''application/vnd.'' @ app @ ''.v'' @ ds @ ''+json'' @ rest" by (simp add: versioned_type_def)
  have n: "takeWhile (\<lambda>c. c \<noteq> CHR ''.'') (app @ ''.v'' @ ds @ ''+json'' @ rest) = app"
    by (subst takeWhile_append2) (use assms(2) in auto)
  have "\<not> is_digit (CHR ''+'')" by code_simp
  then have d: "takeWhile is_digit (ds @ ''+json'' @ rest) = ds"
    by (subst takeWhile_append2) (use assms(4) in \<open>auto simp: list_all_iff\<close>)
  have "drop (length ''application/vnd.'') (''application/vnd.'' @ x) = x" for x by simp
  then show ?thesis using n d assms(1,3) unfolding pre vnd_match_def Let_def by simp
qed

lemma vnd_find_type:
  assumes "app \<noteq> ''''" "CHR ''.'' \<notin> set app" "ds \<noteq> ''''" "list_all is_digit ds"
  shows "vnd_find (versioned_type app ds @ rest) = Some ds"
proof -
  obtain c s where "versioned_type app ds @ rest = c # s" by (simp add: versioned_type_def)
  then show ?thesis using vnd_match_type [OF assms, of rest] by simp
qed

lemma parse_int64_nat_str: "parse_int64 (nat_str n) = (if n < 2 ^ 63 then Some (int n) else None)"
proof -
  have d: "list_all is_digit (nat_str n)" by (simp add: list_all_iff nat_str_digits)
  have "\<not> is_digit (CHR ''-'')" by (simp add: is_digit_def)
  then have "hd (nat_str n) \<noteq> CHR ''-''" using d by (cases "nat_str n") auto
  moreover have "int n < 2 ^ 63 \<longleftrightarrow> n < 2 ^ 63" by (simp add: zless_nat_eq_int_zless [symmetric])
  ultimately show ?thesis using d by (simp add: parse_int64_def Let_def)
qed

text \<open>
  Version negotiation by the \<open>Accept\<close> header: version 1 is served and announced; a later version is answered with
  406 and one that does not fit an \<open>int\<close> with 400, both without calling the handler, so that the state stays
  as it was. Two requests may surprise: version 0 counts as no version and is served as version 1, and a
  request that accepts anything (\<open>*/*\<close>, which most clients send) is refused with 400, while one without
  the header is served.
\<close>

theorem version_negotiation:
  assumes "app \<noteq> ''''" and "CHR ''.'' \<notin> set app" and "hw_status w = None"
    and "hq_header r ''Accept'' = versioned_type app (nat_str n) @ rest" and "hq_header any ''Accept'' = ''*/*''" and "hq_header none ''Accept'' = ''''"
  shows "(n \<le> 1 \<longrightarrow> VersioningMiddleware next_handler r (w, s) = next_handler r (Header_Set ''X-API-Version'' ''1'' w, s)) \<and>
    (1 < n \<longrightarrow> hw_status (fst (VersioningMiddleware next_handler r (w, s))) = Some (if n < 2 ^ 63 then 406 else 400) \<and>
       snd (VersioningMiddleware next_handler r (w, s)) = s) \<and>
    hw_status (fst (VersioningMiddleware next_handler any (w, s))) = Some 400 \<and> snd (VersioningMiddleware next_handler any (w, s)) = s \<and>
    VersioningMiddleware next_handler none (w, s) = next_handler none (Header_Set ''X-API-Version'' ''1'' w, s)"
proof -
  have one: "int_str 1 = ''1''" by code_simp
  have ds: "nat_str n \<noteq> ''''" "list_all is_digit (nat_str n)" using nat_str_digits by (auto simp: list_all_iff)
  have "hq_header r ''Accept'' \<noteq> ''''" using assms(4) by (simp add: versioned_type_def)
  then have v: "extractVersionFromHeader r = (if n < 2 ^ 63 then Inr (int n) else Inl (ENew (''invalid version number: '' @ nat_str n)))"
    using vnd_find_type [OF assms(1,2) ds, of rest] unfolding assms(4) [symmetric] by (simp add: extractVersionFromHeader_def Let_def parse_int64_nat_str)
  have "vnd_find ''*/*'' = None" "Contains_str ''*/*'' ''application/json'' = False" by code_simp+
  then have a: "\<exists>e. extractVersionFromHeader any = Inl e" using assms(5) by (simp add: extractVersionFromHeader_def)
  have z: "extractVersionFromHeader none = Inr 0" using assms(6) by (simp add: extractVersionFromHeader_def)
  note d = VersioningMiddleware_def requested_version_def VersionStrategy_def isVersionSupported_def SupportedVersions_def DefaultVersion_def Let_def
    write_json_def WriteHeader_def Header_Set_def
  show ?thesis
  proof (intro conjI impI)
    assume "n \<le> 1"
    then have "n = 0 \<or> n = 1" by auto
    with v one show "VersioningMiddleware next_handler r (w, s) = next_handler r (Header_Set ''X-API-Version'' ''1'' w, s)" by (auto simp: d)
  qed (use v a z one assms(3) in \<open>auto simp: d\<close>)
qed

definition accepting :: "string \<Rightarrow> url_request" where
  "accepting a = tagged_request\<lparr>hq_header := \<lambda>k. if k = ''Accept'' then a else ''''\<rparr>"

theorem version_negotiation_witness:
  "hw_status (fst (VersioningMiddleware (\<lambda>r x. x) (accepting (versioned_type ''app'' (nat_str 2))) (empty_writer, ()))) = Some 406"
proof -
  have h: "hq_header (accepting (versioned_type ''app'' (nat_str 2))) ''Accept'' = versioned_type ''app'' (nat_str 2) @ ''''"
    "hq_header (accepting ''*/*'') ''Accept'' = ''*/*''" "hq_header (accepting '''') ''Accept'' = ''''"
    by (simp_all add: accepting_def)
  have "''app'' \<noteq> ''''" "CHR ''.'' \<notin> set ''app''" "hw_status empty_writer = None" by (simp_all add: empty_writer_def)
  from version_negotiation [OF this h, of "\<lambda>r x. x" "()"] show ?thesis by simp
qed

end
