(* ===== verification/CLI.thy ===== *)
theory CLI
  imports API_Client
begin

text \<open>
  \<open>cmd/client/main.go\<close>: the command-line client. A command has its arguments and flags, reads standard input,
  talks to the server through the client library, and ends with an error or prints. What cobra and viper
  provide, the flags and the configured texts, are arguments and fields of \<open>cli_env\<close>; so are the
  operations of the JSON package on values of any type. The commands of the four kinds are instances of
  one template. A timeout is an error of sending the request. A nil slice prints like an empty one.
\<close>

section \<open>The environment\<close>

record 'n cli_env =
  cli_client :: "'n client_env"
  cli_GetString :: "string \<Rightarrow> string"            \<comment> \<open>\<open>viper.GetString\<close>\<close>
  cli_output :: string                           \<comment> \<open>the flag \<open>--output\<close>\<close>
  cli_stdin :: string
  cli_indent :: "json \<Rightarrow> string"                  \<comment> \<open>the encoder with indentation\<close>
  cli_any :: "string \<Rightarrow> json result"              \<comment> \<open>\<open>json.Unmarshal\<close> into an \<open>interface\<close>\<close>
  cli_any_first :: "string \<Rightarrow> json result"        \<comment> \<open>\<open>Decoder.Decode\<close> into one\<close>
  cli_Marshal :: "json \<Rightarrow> string result"          \<comment> \<open>of such a value\<close>

text \<open>The error of the command, what it printed, and the network afterwards.\<close>

type_synonym 'n cli_result = "goerror option \<times> string \<times> 'n"

definition getClient :: "'n cli_env \<Rightarrow> Client result" where
  "getClient env =
     (case NewClient (cli_client env) (cli_GetString env ''server'') of
        Inl e \<Rightarrow> Inl e
      | Inr c \<Rightarrow>
          let version = cli_GetString env ''version'';
              c1 = (if version \<noteq> '''' then WithVersion version c else c);
              token = cli_GetString env ''token'' in
          Inr (if token \<noteq> '''' then WithBearerToken token c1 else c1))"

definition printOutput :: "'n cli_env \<Rightarrow> json result \<Rightarrow> goerror option \<times> string" where
  "printOutput env data =
     (if cli_output env = ''json'' \<or> cli_output env = ''table'' then
        (case data of Inl e \<Rightarrow> (Some e, '''') | Inr j \<Rightarrow> (None, cli_indent env j @ nl))
      else if cli_output env = ''yaml'' then (Some (ENew ''YAML output not yet implemented''), '''')
      else (Some (ENew (''unknown output format: '' @ cli_output env)), ''''))"

text \<open>The start and the end that the commands share.\<close>

definition with_client :: "'n cli_env \<Rightarrow> (Client \<Rightarrow> 'n \<Rightarrow> 'n cli_result) \<Rightarrow> 'n \<Rightarrow> 'n cli_result" where
  "with_client env run n =
     (case getClient env of
        Inl e \<Rightarrow> (Some (EWrap ''failed to create client: '' e ''''), '''', n)
      | Inr c \<Rightarrow> run c n)"

definition report :: "'n cli_env \<Rightarrow> string \<Rightarrow> ('r \<Rightarrow> json result) \<Rightarrow> 'r result \<times> 'n \<Rightarrow> 'n cli_result" where
  "report env msg enc out =
     (case out of
        (Inl e, n) \<Rightarrow> (Some (EWrap msg e ''''), '''', n)
      | (Inr x, n) \<Rightarrow> (case printOutput env (enc x) of (e, text) \<Rightarrow> (e, text, n)))"

definition healthCmd :: "'n cli_env \<Rightarrow> 'n \<Rightarrow> 'n cli_result" where
  "healthCmd env = with_client env (\<lambda>c n. report env ''failed to get health status: '' (\<lambda>fs. Inr (JObj fs)) (GetHealth (cli_client env) c n))"

section \<open>Shorthand patches\<close>

text \<open>A \<open>map[string]interface\<close>: entries in the order in which they were made.\<close>

fun obj_set :: "string \<Rightarrow> json \<Rightarrow> (string \<times> json) list \<Rightarrow> (string \<times> json) list" where
  "obj_set k v [] = [(k, v)]"
| "obj_set k v ((k', v') # fs) = (if k = k' then (k, v) # fs else (k', v') # obj_set k v fs)"

text \<open>Walking to the parent of the field; what is no object on the way is replaced by an empty one.\<close>

fun set_path :: "string list \<Rightarrow> json \<Rightarrow> (string \<times> json) list \<Rightarrow> (string \<times> json) list" where
  "set_path [] v fs = fs"
| "set_path [p] v fs = obj_set p v fs"
| "set_path (p # q # ps) v fs =
     (case map_of fs p of
        Some (JObj gs) \<Rightarrow> obj_set p (JObj (set_path (q # ps) v gs)) fs
      | _ \<Rightarrow> obj_set p (JObj (set_path (q # ps) v [])) fs)"

text \<open>The value of a flag: JSON if the text is JSON, else the text; None is nil.\<close>

definition flag_value :: "'n cli_env \<Rightarrow> string option \<Rightarrow> json" where
  "flag_value env v = (case v of None \<Rightarrow> JNull | Some s \<Rightarrow> (case cli_any env s of Inr j \<Rightarrow> j | Inl e \<Rightarrow> JStr s))"

definition setNestedField :: "'n cli_env \<Rightarrow> (string \<times> json) list \<Rightarrow> string \<Rightarrow> string option \<Rightarrow> (string \<times> json) list" where
  "setNestedField env target path v = set_path (Split (CHR ''.'') path) (flag_value env v) target"

text \<open>\<open>strings.SplitN(s, "=", 2)\<close> with two parts.\<close>

definition split_pair :: "string \<Rightarrow> (string \<times> string) option" where
  "split_pair s = (let f = takeWhile (\<lambda>c. c \<noteq> CHR ''='') s in if f = s then None else Some (f, drop (length f + 1) s))"

fun set_pairs :: "'n cli_env \<Rightarrow> string \<Rightarrow> string list \<Rightarrow> (string \<times> json) list \<Rightarrow> (string \<times> json) list result" where
  "set_pairs env flag [] target = Inr target"
| "set_pairs env flag (p # ps) target =
     (case split_pair p of
        None \<Rightarrow> Inl (ENew (''invalid --'' @ flag @ '' format: '' @ p @ '' (expected field=value)''))
      | Some (f, v) \<Rightarrow> set_pairs env flag ps (setNestedField env target f (Some v)))"

record patch_flags =
  pf_spec :: string
  pf_json_patch :: string
  pf_set :: "string list"
  pf_unset :: "string list"
  pf_add :: "string list"
  pf_remove :: "string list"

definition shorthand :: "'n cli_env \<Rightarrow> patch_flags \<Rightarrow> (string \<times> json) list result" where
  "shorthand env fl =
     rbind (set_pairs env ''set'' (pf_set fl) []) (\<lambda>p1.
     rbind (set_pairs env ''add'' (pf_add fl) (foldl (\<lambda>p f. setNestedField env p f None) p1 (pf_unset fl))) (\<lambda>p2.
       case pf_remove fl of
         [] \<Rightarrow> Inr p2
       | r # rs \<Rightarrow> Inl (ENew (if split_pair r = None then ''invalid --remove format: '' @ r @ '' (expected field=value)''
                             else ''--remove operations require --json-patch format''))))"

text \<open>The patch document and its content type.\<close>

definition build_patch :: "'n cli_env \<Rightarrow> patch_flags \<Rightarrow> (string \<times> string) result" where
  "build_patch env fl =
     (let merge = (\<lambda>msg j. case cli_Marshal env j of Inl e \<Rightarrow> Inl (EWrap msg e '''') | Inr d \<Rightarrow> Inr (d, ''application/merge-patch+json'')) in
      if pf_json_patch fl \<noteq> '''' then Inr (pf_json_patch fl, ''application/json-patch+json'')
      else if pf_set fl \<noteq> [] \<or> pf_unset fl \<noteq> [] \<or> pf_add fl \<noteq> [] \<or> pf_remove fl \<noteq> [] then
        rbind (shorthand env fl) (\<lambda>p. merge ''failed to marshal shorthand patch: '' (JObj p))
      else if pf_spec fl \<noteq> '''' then Inr (pf_spec fl, ''application/merge-patch+json'')
      else (case cli_any_first env (cli_stdin env) of
              Inl e \<Rightarrow> Inl (EWrap ''failed to decode patch from stdin: '' e '''')
            | Inr j \<Rightarrow> merge ''failed to marshal patch: '' j))"

section \<open>The template of the commands\<close>

definition enc_one :: "'n cli_env \<Rightarrow> ('sp, 'st) kind_info \<Rightarrow> ('sp, 'st) resource \<Rightarrow> json result" where
  "enc_one env K r = body_json (cl_json (cli_client env)) K (RespOne r)"

definition cli_list :: "'n cli_env \<Rightarrow> ('sp, 'st) kind_info \<Rightarrow> 'n \<Rightarrow> 'n cli_result" where
  "cli_list env K =
     with_client env (\<lambda>c n. report env (''failed to list '' @ k_plural K @ '': '') (\<lambda>rs. body_json (cl_json (cli_client env)) K (RespList rs))
       (cl_get_all (cli_client env) K c n))"

definition cli_get :: "'n cli_env \<Rightarrow> ('sp, 'st) kind_info \<Rightarrow> string \<Rightarrow> 'n \<Rightarrow> 'n cli_result" where
  "cli_get env K uid =
     with_client env (\<lambda>c n. report env (''failed to get '' @ k_name K @ '': '') (enc_one env K) (cl_get (cli_client env) K c uid n))"

text \<open>The request, from the flag or, when that is empty, from standard input.\<close>

definition read_request :: "'n cli_env \<Rightarrow> ('sp, 'st) kind_info \<Rightarrow> string \<Rightarrow> 'sp resource_request result" where
  "read_request env K reqJSON =
     (let je = cl_json (cli_client env) in
      if reqJSON = '''' then
        (case rbind (je_first je (cli_stdin env)) (dec_request je K) of
           Inl e \<Rightarrow> Inl (EWrap ''failed to decode request from stdin: '' e '''')
         | Inr rq \<Rightarrow> Inr rq)
      else (case rbind (je_parse je reqJSON) (dec_request je K) of
              Inl e \<Rightarrow> Inl (EWrap ''failed to parse request JSON: '' e '''')
            | Inr rq \<Rightarrow> Inr rq))"

definition cli_create :: "'n cli_env \<Rightarrow> ('sp, 'st) kind_info \<Rightarrow> string \<Rightarrow> 'n \<Rightarrow> 'n cli_result" where
  "cli_create env K reqJSON =
     with_client env (\<lambda>c n.
       case read_request env K reqJSON of
         Inl e \<Rightarrow> (Some e, '''', n)
       | Inr rq \<Rightarrow> report env (''failed to create '' @ k_name K @ '': '') (enc_one env K) (cl_create (cli_client env) K c rq n))"

definition cli_update :: "'n cli_env \<Rightarrow> ('sp, 'st) kind_info \<Rightarrow> string \<Rightarrow> string \<Rightarrow> 'n \<Rightarrow> 'n cli_result" where
  "cli_update env K uid reqJSON =
     with_client env (\<lambda>c n.
       case read_request env K reqJSON of
         Inl e \<Rightarrow> (Some e, '''', n)
       | Inr rq \<Rightarrow> report env (''failed to update '' @ k_name K @ '': '') (enc_one env K) (cl_update (cli_client env) K c uid rq n))"

definition cli_patch :: "'n cli_env \<Rightarrow> ('sp, 'st) kind_info \<Rightarrow> string \<Rightarrow> patch_flags \<Rightarrow> 'n \<Rightarrow> 'n cli_result" where
  "cli_patch env K uid fl =
     with_client env (\<lambda>c n.
       case build_patch env fl of
         Inl e \<Rightarrow> (Some e, '''', n)
       | Inr (patchData, contentType) \<Rightarrow>
           report env (''failed to patch '' @ k_name K @ '': '') (enc_one env K) (cl_patch (cli_client env) K c uid patchData contentType n))"

definition cli_delete :: "'n cli_env \<Rightarrow> ('sp, 'st) kind_info \<Rightarrow> string \<Rightarrow> 'n \<Rightarrow> 'n cli_result" where
  "cli_delete env K uid =
     with_client env (\<lambda>c n.
       case cl_delete (cli_client env) K c uid n of
         (Some e, n1) \<Rightarrow> (Some (EWrap (''failed to delete '' @ k_name K @ '': '') e ''''), '''', n1)
       | (None, n1) \<Rightarrow> (None, k_name K @ '' '' @ uid @ '' deleted successfully'' @ nl, n1))"

section \<open>The commands of the four kinds\<close>

text \<open>ClusterDefaults.\<close>

definition clusterdefaultsListCmd :: "'n cli_env \<Rightarrow> 'n \<Rightarrow> 'n cli_result" where
  "clusterdefaultsListCmd env = cli_list env ClusterDefaults_kind"

definition clusterdefaultsGetCmd :: "'n cli_env \<Rightarrow> string \<Rightarrow> 'n \<Rightarrow> 'n cli_result" where
  "clusterdefaultsGetCmd env = cli_get env ClusterDefaults_kind"

definition clusterdefaultsCreateCmd :: "'n cli_env \<Rightarrow> string \<Rightarrow> 'n \<Rightarrow> 'n cli_result" where
  "clusterdefaultsCreateCmd env = cli_create env ClusterDefaults_kind"

definition clusterdefaultsUpdateCmd :: "'n cli_env \<Rightarrow> string \<Rightarrow> string \<Rightarrow> 'n \<Rightarrow> 'n cli_result" where
  "clusterdefaultsUpdateCmd env = cli_update env ClusterDefaults_kind"

definition clusterdefaultsPatchCmd :: "'n cli_env \<Rightarrow> string \<Rightarrow> patch_flags \<Rightarrow> 'n \<Rightarrow> 'n cli_result" where
  "clusterdefaultsPatchCmd env = cli_patch env ClusterDefaults_kind"

definition clusterdefaultsDeleteCmd :: "'n cli_env \<Rightarrow> string \<Rightarrow> 'n \<Rightarrow> 'n cli_result" where
  "clusterdefaultsDeleteCmd env = cli_delete env ClusterDefaults_kind"

text \<open>Group.\<close>

definition groupListCmd :: "'n cli_env \<Rightarrow> 'n \<Rightarrow> 'n cli_result" where
  "groupListCmd env = cli_list env (Group_kind (cl_keys (cli_client env)))"

definition groupGetCmd :: "'n cli_env \<Rightarrow> string \<Rightarrow> 'n \<Rightarrow> 'n cli_result" where
  "groupGetCmd env = cli_get env (Group_kind (cl_keys (cli_client env)))"

definition groupCreateCmd :: "'n cli_env \<Rightarrow> string \<Rightarrow> 'n \<Rightarrow> 'n cli_result" where
  "groupCreateCmd env = cli_create env (Group_kind (cl_keys (cli_client env)))"

definition groupUpdateCmd :: "'n cli_env \<Rightarrow> string \<Rightarrow> string \<Rightarrow> 'n \<Rightarrow> 'n cli_result" where
  "groupUpdateCmd env = cli_update env (Group_kind (cl_keys (cli_client env)))"

definition groupPatchCmd :: "'n cli_env \<Rightarrow> string \<Rightarrow> patch_flags \<Rightarrow> 'n \<Rightarrow> 'n cli_result" where
  "groupPatchCmd env = cli_patch env (Group_kind (cl_keys (cli_client env)))"

definition groupDeleteCmd :: "'n cli_env \<Rightarrow> string \<Rightarrow> 'n \<Rightarrow> 'n cli_result" where
  "groupDeleteCmd env = cli_delete env (Group_kind (cl_keys (cli_client env)))"

text \<open>InstanceInfo.\<close>

definition instanceinfoListCmd :: "'n cli_env \<Rightarrow> 'n \<Rightarrow> 'n cli_result" where
  "instanceinfoListCmd env = cli_list env InstanceInfo_kind"

definition instanceinfoGetCmd :: "'n cli_env \<Rightarrow> string \<Rightarrow> 'n \<Rightarrow> 'n cli_result" where
  "instanceinfoGetCmd env = cli_get env InstanceInfo_kind"

definition instanceinfoCreateCmd :: "'n cli_env \<Rightarrow> string \<Rightarrow> 'n \<Rightarrow> 'n cli_result" where
  "instanceinfoCreateCmd env = cli_create env InstanceInfo_kind"

definition instanceinfoUpdateCmd :: "'n cli_env \<Rightarrow> string \<Rightarrow> string \<Rightarrow> 'n \<Rightarrow> 'n cli_result" where
  "instanceinfoUpdateCmd env = cli_update env InstanceInfo_kind"

definition instanceinfoPatchCmd :: "'n cli_env \<Rightarrow> string \<Rightarrow> patch_flags \<Rightarrow> 'n \<Rightarrow> 'n cli_result" where
  "instanceinfoPatchCmd env = cli_patch env InstanceInfo_kind"

definition instanceinfoDeleteCmd :: "'n cli_env \<Rightarrow> string \<Rightarrow> 'n \<Rightarrow> 'n cli_result" where
  "instanceinfoDeleteCmd env = cli_delete env InstanceInfo_kind"

text \<open>WireGuardPeer.\<close>

definition wireguardpeerListCmd :: "'n cli_env \<Rightarrow> 'n \<Rightarrow> 'n cli_result" where
  "wireguardpeerListCmd env = cli_list env WireGuardPeer_kind"

definition wireguardpeerGetCmd :: "'n cli_env \<Rightarrow> string \<Rightarrow> 'n \<Rightarrow> 'n cli_result" where
  "wireguardpeerGetCmd env = cli_get env WireGuardPeer_kind"

definition wireguardpeerCreateCmd :: "'n cli_env \<Rightarrow> string \<Rightarrow> 'n \<Rightarrow> 'n cli_result" where
  "wireguardpeerCreateCmd env = cli_create env WireGuardPeer_kind"

definition wireguardpeerUpdateCmd :: "'n cli_env \<Rightarrow> string \<Rightarrow> string \<Rightarrow> 'n \<Rightarrow> 'n cli_result" where
  "wireguardpeerUpdateCmd env = cli_update env WireGuardPeer_kind"

definition wireguardpeerPatchCmd :: "'n cli_env \<Rightarrow> string \<Rightarrow> patch_flags \<Rightarrow> 'n \<Rightarrow> 'n cli_result" where
  "wireguardpeerPatchCmd env = cli_patch env WireGuardPeer_kind"

definition wireguardpeerDeleteCmd :: "'n cli_env \<Rightarrow> string \<Rightarrow> 'n \<Rightarrow> 'n cli_result" where
  "wireguardpeerDeleteCmd env = cli_delete env WireGuardPeer_kind"

section \<open>Properties\<close>

lemma map_of_obj_set [simp]: "map_of (obj_set k v fs) = (map_of fs)(k \<mapsto> v)"
  by (induction k v fs rule: obj_set.induct) (auto simp: fun_eq_iff)

text \<open>Looking up a field by its path.\<close>

fun get_path :: "string list \<Rightarrow> (string \<times> json) list \<Rightarrow> json option" where
  "get_path [] fs = None"
| "get_path [p] fs = map_of fs p"
| "get_path (p # q # ps) fs = (case map_of fs p of Some (JObj gs) \<Rightarrow> get_path (q # ps) gs | _ \<Rightarrow> None)"

lemma get_set_path: "ps \<noteq> [] \<Longrightarrow> get_path ps (set_path ps v fs) = Some v"
  by (induction ps v fs rule: set_path.induct) (auto split: option.splits json.splits)

lemma get_path_none: "get_path ps [] = None"
  by (cases "(ps, [] :: (string \<times> json) list)" rule: get_path.cases) auto

lemma get_other_path: "\<not> prefix ps qs \<Longrightarrow> \<not> prefix qs ps \<Longrightarrow> get_path qs (set_path ps v fs) = get_path qs fs"
proof (induction ps v fs arbitrary: qs rule: set_path.induct)
  case (2 p v fs)
  then show ?case by (cases "(qs, fs)" rule: get_path.cases) (auto split: option.splits json.splits)
next
  case (3 p q ps v fs)
  obtain r rs where qs: "qs = r # rs" using "3.prems"(2) by (cases qs) auto
  show ?case
  proof (cases "r = p")
    case True
    then obtain s ss where rs: "rs = s # ss" using "3.prems"(2) qs by (cases rs) auto
    have n: "\<not> prefix (q # ps) (s # ss)" "\<not> prefix (s # ss) (q # ps)" using "3.prems" qs rs True by auto
    show ?thesis using "3.IH" n get_path_none by (auto simp: qs rs True split: option.splits json.splits)
  next
    case False
    then show ?thesis by (cases rs) (auto simp: qs split: option.splits json.splits)
  qed
qed simp

text \<open>The assignments of the flags, in the order in which the command makes them.\<close>

definition pairs :: "string list \<Rightarrow> (string \<times> string option) list" where
  "pairs ps = map (\<lambda>(f, v). (f, Some v)) (List.map_filter split_pair ps)"

definition assignments :: "patch_flags \<Rightarrow> (string \<times> string option) list" where
  "assignments fl = pairs (pf_set fl) @ map (\<lambda>f. (f, None)) (pf_unset fl) @ pairs (pf_add fl)"

abbreviation assign_field :: "'n cli_env \<Rightarrow> (string \<times> json) list \<Rightarrow> string \<times> string option \<Rightarrow> (string \<times> json) list" where
  "assign_field env p a \<equiv> setNestedField env p (fst a) (snd a)"

lemma set_pairs_assign: "set_pairs env flag ps t = Inr t' \<Longrightarrow> t' = foldl (assign_field env) t (pairs ps)"
  by (induction env flag ps t rule: set_pairs.induct) (auto simp: pairs_def map_filter_simps split: option.splits)

lemma shorthand_assign:
  assumes "shorthand env fl = Inr p"
  shows "pf_remove fl = []" "p = foldl (assign_field env) [] (assignments fl)"
proof -
  obtain p1 where p1: "set_pairs env ''set'' (pf_set fl) [] = Inr p1" using assms by (cases "set_pairs env ''set'' (pf_set fl) []") (auto simp: shorthand_def)
  let ?u = "foldl (\<lambda>p f. setNestedField env p f None) p1 (pf_unset fl)"
  obtain p2 where p2: "set_pairs env ''add'' (pf_add fl) ?u = Inr p2" using assms p1 by (cases "set_pairs env ''add'' (pf_add fl) ?u") (auto simp: shorthand_def)
  have u: "foldl (\<lambda>p f. setNestedField env p f None) t fs = foldl (assign_field env) t (map (\<lambda>f. (f, None)) fs)" for t fs
    by (induction fs arbitrary: t) auto
  show "pf_remove fl = []" "p = foldl (assign_field env) [] (assignments fl)"
    using assms p1 p2 set_pairs_assign [OF p1] set_pairs_assign [OF p2] u
    by (auto simp: shorthand_def assignments_def split: list.splits)
qed

text \<open>No field is part of another.\<close>

definition apart :: "string \<Rightarrow> string \<Rightarrow> bool" where
  "apart f g \<longleftrightarrow> \<not> prefix (Split (CHR ''.'') f) (Split (CHR ''.'') g) \<and> \<not> prefix (Split (CHR ''.'') g) (Split (CHR ''.'') f)"

lemma assigned_stays:
  assumes "\<And>a. a \<in> set as \<Longrightarrow> apart (fst a) f"
  shows "get_path (Split (CHR ''.'') f) (foldl (assign_field env) t as) = get_path (Split (CHR ''.'') f) t"
  using assms
proof (induction as arbitrary: t)
  case (Cons a as)
  then show ?case using get_other_path by (simp add: setNestedField_def apart_def)
qed simp

lemma assigned_value:
  assumes "sorted_wrt apart (map fst as)" "(f, v) \<in> set as"
  shows "get_path (Split (CHR ''.'') f) (foldl (assign_field env) t as) = Some (flag_value env v)"
  using assms
proof (induction as arbitrary: t)
  case (Cons a as)
  show ?case
  proof (cases "(f, v) \<in> set as")
    case False
    then have a: "a = (f, v)" using Cons.prems(2) by simp
    have "apart (fst b) f" if "b \<in> set as" for b using Cons.prems(1) a that by (auto simp: apart_def)
    from assigned_stays [of as f env, OF this] a show ?thesis by (simp add: setNestedField_def get_set_path)
  qed (use Cons in simp)
qed simp

text \<open>
  C30 (functional). The shorthand flags of \<open>patch\<close> become one merge patch: when the fields named by the flags are apart
  from one another, the patch holds at each field of \<open>--set\<close> and \<open>--add\<close> the value given for it (read as JSON if it
  is JSON) and null at each field of \<open>--unset\<close>. So \<open>--add\<close> sets the field and adds nothing to an array, and
  \<open>--remove\<close> never succeeds.
\<close>

theorem shorthand_patch_values:
  assumes "shorthand env fl = Inr p" and "sorted_wrt apart (map fst (assignments fl))"
  shows "pf_remove fl = [] \<and> (\<forall>a\<in>set (assignments fl). get_path (Split (CHR ''.'') (fst a)) p = Some (flag_value env (snd a)))"
proof (intro conjI ballI)
  show "pf_remove fl = []" by (rule shorthand_assign(1) [OF assms(1)])
  fix a assume "a \<in> set (assignments fl)"
  then have "(fst a, snd a) \<in> set (assignments fl)" by simp
  from assigned_value [OF assms(2) this] show "get_path (Split (CHR ''.'') (fst a)) p = Some (flag_value env (snd a))"
    unfolding shorthand_assign(2) [OF assms(1)] .
qed

text \<open>A command-line client of the peers; texts that are JSON are those of the model's package.\<close>

definition cli1 :: "(mem \<times> nat) cli_env" where
  "cli1 = \<lparr>cli_client = cenv1, cli_GetString = (\<lambda>k. if k = ''server'' then ''http://h'' else ''''), cli_output = ''json'', cli_stdin = '''',
     cli_indent = je_print json1, cli_any = (\<lambda>s. if s = ''42'' then Inr (JNum s) else Inl (ENew ''invalid'')),
     cli_any_first = (\<lambda>s. Inl (ENew ''EOF'')), cli_Marshal = (\<lambda>j. Inr (je_print json1 j))\<rparr>"

definition flags1 :: patch_flags where
  "flags1 = \<lparr>pf_spec = '''', pf_json_patch = '''', pf_set = [''a.b=42'', ''a.c=x=y''], pf_unset = [''d''], pf_add = [''e.-=z''], pf_remove = []\<rparr>"

theorem shorthand_patch_values_witness:
  "\<exists>p. shorthand cli1 flags1 = Inr p \<and> get_path [''a'', ''b''] p = Some (JNum ''42'') \<and> get_path [''a'', ''c''] p = Some (JStr ''x=y'') \<and>
     get_path [''d''] p = Some JNull \<and> get_path [''e'', ''-''] p = Some (JStr ''z'')"
proof -
  have s: "split_pair ''a.b=42'' = Some (''a.b'', ''42'')" "split_pair ''a.c=x=y'' = Some (''a.c'', ''x=y'')" "split_pair ''e.-=z'' = Some (''e.-'', ''z'')"
    by code_simp+
  have d: "Split (CHR ''.'') ''a.b'' = [''a'', ''b'']" "Split (CHR ''.'') ''a.c'' = [''a'', ''c'']" "Split (CHR ''.'') ''d'' = [''d'']" "Split (CHR ''.'') ''e.-'' = [''e'', ''-'']"
    by code_simp+
  have v: "flag_value cli1 (Some ''42'') = JNum ''42''" "flag_value cli1 (Some ''x=y'') = JStr ''x=y''" "flag_value cli1 (Some ''z'') = JStr ''z''" "flag_value cli1 None = JNull"
    by (simp_all add: flag_value_def cli1_def)
  have a: "assignments flags1 = [(''a.b'', Some ''42''), (''a.c'', Some ''x=y''), (''d'', None), (''e.-'', Some ''z'')]"
    by (simp add: assignments_def pairs_def flags1_def map_filter_simps s)
  obtain p where p: "shorthand cli1 flags1 = Inr p" by (simp add: shorthand_def flags1_def s)
  have w: "sorted_wrt apart (map fst (assignments flags1))" unfolding a by (simp add: apart_def d)
  from shorthand_patch_values [OF p w] have "\<forall>a\<in>set (assignments flags1). get_path (Split (CHR ''.'') (fst a)) p = Some (flag_value cli1 (snd a))" by (rule conjunct2)
  then show ?thesis unfolding a using p by (simp add: d v)
qed

text \<open>
  C40 (error). The help of \<open>create\<close> and \<open>update\<close> shows a document with the members of the spec. Such a document, with no member
  named \<open>metadata\<close>, \<open>spec\<close>, \<open>labels\<close> or \<open>annotations\<close>, is accepted, all its members are dropped, and the request
  that is sent has the zero spec: the command does what it does for an empty document.
\<close>

theorem top_level_members_are_dropped:
  assumes "getClient env = Inr c" and "text \<noteq> ''''" and "je_parse (cl_json (cli_client env)) text = Inr (JObj fs)"
    and "\<forall>n\<in>{''metadata'', ''spec'', ''labels'', ''annotations''}. \<forall>f\<in>set fs. \<not> EqualFold (fst f) n"
  shows "cli_create env K text n =
      report env (''failed to create '' @ k_name K @ '': '') (enc_one env K) (cl_create (cli_client env) K c (zero_request K) n) \<and>
    cli_update env K uid text n =
      report env (''failed to update '' @ k_name K @ '': '') (enc_one env K) (cl_update (cli_client env) K c uid (zero_request K) n)"
proof -
  have "field_values n fs = []" if "n \<in> {''metadata'', ''spec'', ''labels'', ''annotations''}" for n
    using assms(4) that by (auto simp: field_values_def filter_empty_conv)
  then have "dec_request je K (JObj fs) = Inr (zero_request K)" for je by (simp add: field_def zero_request_def)
  then have "read_request env K text = Inr (zero_request K)" using assms(2,3) by (simp add: read_request_def)
  then show ?thesis using assms(1) by (simp add: cli_create_def cli_update_def with_client_def)
qed

text \<open>The document of the help for peers.\<close>

definition help_fields :: "(string \<times> json) list" where
  "help_fields = [(''description'', JStr ''Example description''), (''public_key'', JStr ''example-value''), (''allowed_ip'', JStr ''192.168.1.1'')]"

theorem top_level_members_are_dropped_witness:
  "wireguardpeerCreateCmd cli1 (je_print json1 (JObj help_fields)) ([], 0) =
     report cli1 ''failed to create WireGuardPeer: '' (enc_one cli1 WireGuardPeer_kind)
       (cl_create cenv1 WireGuardPeer_kind client1 (zero_request WireGuardPeer_kind) ([], 0))"
proof -
  have g: "getClient cli1 = Inr client1" by (simp add: getClient_def NewClient_def cli1_def cenv1_def client1_def)
  have t: "je_print json1 (JObj help_fields) \<noteq> ''''" by (simp add: json1_def json0_def)
  have p: "je_parse (cl_json (cli_client cli1)) (je_print json1 (JObj help_fields)) = Inr (JObj help_fields)"
    by (simp add: cli1_def cenv1_def json1_text)
  have f: "\<forall>n\<in>{''metadata'', ''spec'', ''labels'', ''annotations''}. \<forall>f\<in>set help_fields. \<not> EqualFold (fst f) n"
    by (simp add: help_fields_def EqualFold_def member_names request_members)
  have e: "cli_client cli1 = cenv1" "k_name WireGuardPeer_kind = ''WireGuardPeer''" by (simp_all add: cli1_def WireGuardPeer_kind_def)
  from conjunct1 [OF top_level_members_are_dropped [OF g t p f, of WireGuardPeer_kind "([], 0)"]] show ?thesis
    unfolding wireguardpeerCreateCmd_def e by simp
qed

end
