(* ===== verification/Startup.thy ===== *)
theory Startup
  imports Server WG_Reconciler
begin

text \<open>
  The start of the server: \<open>Config\<close>, the flags, \<open>initConfig\<close> and \<open>runServer\<close> of \<open>cmd/server/main.go\<close>, the
  overrides of \<open>cli_override.go\<close>, the rest of \<open>server_extensions.go\<close>, and the registries of
  \<open>pkg/resources\<close> and \<open>pkg/apiversion\<close>. What viper, fabrica and the operating system do is in the fields of the
  environments; the steps of a run are recorded as events, in the order of the main goroutine.
\<close>

section \<open>Configuration\<close>

record Config =
  cf_Port :: int
  cf_Host :: string
  cf_ReadTimeout :: int
  cf_WriteTimeout :: int
  cf_IdleTimeout :: int
  cf_DataDir :: string
  cf_WireGuardStateFile :: string
  cf_WireGuardOnly :: bool
  cf_TokenSmithURL :: string
  cf_TokenSmithBootstrapToken :: string
  cf_TokenSmithServiceIdentityCert :: string
  cf_TokenSmithServiceIdentityKey :: string
  cf_TokenSmithServiceIdentityCA :: string
  cf_TokenSmithTargetService :: string
  cf_TokenSmithScopes :: string
  cf_TokenSmithRefreshSkewSec :: int
  cf_TokenSmithScopeHint :: string
  cf_SMDSyncEnabled :: bool
  cf_SMDSyncInterval :: int
  cf_Debug :: bool

definition DefaultConfig :: Config where
  "DefaultConfig =
     \<lparr>cf_Port = 8080, cf_Host = ''0.0.0.0'', cf_ReadTimeout = 15, cf_WriteTimeout = 15, cf_IdleTimeout = 60, cf_DataDir = ''/data'',
      cf_WireGuardStateFile = ''/data/wireguard/state.yaml'', cf_WireGuardOnly = False, cf_TokenSmithURL = '''', cf_TokenSmithBootstrapToken = '''',
      cf_TokenSmithServiceIdentityCert = '''', cf_TokenSmithServiceIdentityKey = '''', cf_TokenSmithServiceIdentityCA = '''',
      cf_TokenSmithTargetService = ''smd'', cf_TokenSmithScopes = '''', cf_TokenSmithRefreshSkewSec = 300, cf_TokenSmithScopeHint = '''',
      cf_SMDSyncEnabled = True, cf_SMDSyncInterval = 60, cf_Debug = False\<rparr>"

datatype setting = FInt int | FStr string | FBool bool

text \<open>The flags with their defaults: those of \<open>rootCmd\<close>, those of \<open>serveCmd\<close> and those of the overrides.\<close>

definition root_flags :: "(string \<times> setting) list" where
  "root_flags = [(''config'', FStr ''''), (''debug'', FBool False), (''mock-smd'', FBool False)]"

definition serve_flags :: "(string \<times> setting) list" where
  "serve_flags =
     [(''port'', FInt 8080), (''host'', FStr ''0.0.0.0''), (''read-timeout'', FInt 15), (''write-timeout'', FInt 15), (''idle-timeout'', FInt 60),
      (''data-dir'', FStr ''/data''), (''wireguard-state-file'', FStr ''/data/wireguard/state.yaml''), (''wireguard-only'', FBool False),
      (''smd-sync-enabled'', FBool True), (''smd-sync-interval'', FInt 60)]"

definition override_flags :: "(string \<times> setting) list" where
  "override_flags =
     [(''wireguard-server'', FStr ''''), (''tokensmith-url'', FStr ''''), (''tokensmith-bootstrap-token'', FStr ''''),
      (''tokensmith-service-identity-cert'', FStr ''''), (''tokensmith-service-identity-key'', FStr ''''), (''tokensmith-service-identity-ca'', FStr ''''),
      (''tokensmith-target-service'', FStr ''smd''), (''tokensmith-scopes'', FStr ''''), (''tokensmith-refresh-skew-sec'', FInt 300)]"

text \<open>\<open>strings.ReplaceAll(name, "-", "_")\<close>, and the aliases: the name with underscores and the flag it stands for.\<close>

definition underscored :: "string \<Rightarrow> string" where
  "underscored name = map (\<lambda>c. if c = CHR ''-'' then CHR ''_'' else c) name"

definition registerDashAliases :: "(string \<times> setting) list list \<Rightarrow> (string \<times> string) list" where
  "registerDashAliases flagSets = map (\<lambda>(n, d). (underscored n, n)) (filter (\<lambda>(n, d). CHR ''-'' \<in> set n) (concat flagSets))"

text \<open>The environment variables bound to keys.\<close>

definition server_env_vars :: "(string \<times> string) list" where
  "server_env_vars =
     [(''smd_url'', ''SMD_URL''), (''smd_jwt'', ''SMD_JWT''), (''smd_token'', ''SMD_TOKEN''), (''tokensmith_url'', ''TOKENSMITH_URL''),
      (''tokensmith_bootstrap_token'', ''TOKENSMITH_BOOTSTRAP_TOKEN''), (''tokensmith_service_identity_cert'', ''TOKENSMITH_SERVICE_IDENTITY_CERT''),
      (''tokensmith_service_identity_key'', ''TOKENSMITH_SERVICE_IDENTITY_KEY''), (''tokensmith_service_identity_ca'', ''TOKENSMITH_SERVICE_IDENTITY_CA''),
      (''tokensmith_target_service'', ''TOKENSMITH_TARGET_SERVICE''), (''tokensmith_scopes'', ''TOKENSMITH_SCOPES''),
      (''tokensmith_refresh_skew_sec'', ''TOKENSMITH_REFRESH_SKEW_SEC'')]"

fun bind_all :: "(string \<Rightarrow> string \<Rightarrow> 'v \<Rightarrow> goerror option \<times> 'v) \<Rightarrow> (string \<times> string) list \<Rightarrow> 'v \<Rightarrow> goerror option \<times> 'v" where
  "bind_all BindEnv [] v = (None, v)"
| "bind_all BindEnv ((key, var) # bs) v =
     (case BindEnv key var v of
        (Some e, v1) \<Rightarrow> (Some (EPanic (''failed to bind env for '' @ key @ '': '' @ err_text e)), v1)
      | (None, v1) \<Rightarrow> bind_all BindEnv bs v1)"

definition bindServerEnvVars :: "(string \<Rightarrow> string \<Rightarrow> 'v \<Rightarrow> goerror option \<times> 'v) \<Rightarrow> 'v \<Rightarrow> goerror option \<times> 'v" where
  "bindServerEnvVars BindEnv v = bind_all BindEnv server_env_vars v"

text \<open>\<open>viper.Unmarshal\<close> into the configuration: a key that viper knows replaces the field, if its value has the type.\<close>

definition int_key :: "(string \<Rightarrow> setting option) \<Rightarrow> string \<Rightarrow> int \<Rightarrow> int result" where
  "int_key look k x = (case look k of None \<Rightarrow> Inr x | Some (FInt i) \<Rightarrow> Inr i | _ \<Rightarrow> Inl (ENew (''cannot parse '' @ k)))"

definition str_key :: "(string \<Rightarrow> setting option) \<Rightarrow> string \<Rightarrow> string \<Rightarrow> string result" where
  "str_key look k x = (case look k of None \<Rightarrow> Inr x | Some (FStr s) \<Rightarrow> Inr s | _ \<Rightarrow> Inl (ENew (''cannot parse '' @ k)))"

definition bool_key :: "(string \<Rightarrow> setting option) \<Rightarrow> string \<Rightarrow> bool \<Rightarrow> bool result" where
  "bool_key look k x = (case look k of None \<Rightarrow> Inr x | Some (FBool b) \<Rightarrow> Inr b | _ \<Rightarrow> Inl (ENew (''cannot parse '' @ k)))"

definition unmarshal_config :: "(string \<Rightarrow> setting option) \<Rightarrow> Config \<Rightarrow> Config result" where
  "unmarshal_config look c =
     rbind (int_key look ''port'' (cf_Port c)) (\<lambda>port.
     rbind (str_key look ''host'' (cf_Host c)) (\<lambda>hst.
     rbind (int_key look ''read_timeout'' (cf_ReadTimeout c)) (\<lambda>rt.
     rbind (int_key look ''write_timeout'' (cf_WriteTimeout c)) (\<lambda>wt.
     rbind (int_key look ''idle_timeout'' (cf_IdleTimeout c)) (\<lambda>it.
     rbind (str_key look ''data_dir'' (cf_DataDir c)) (\<lambda>dd.
     rbind (str_key look ''wireguard_state_file'' (cf_WireGuardStateFile c)) (\<lambda>sf.
     rbind (bool_key look ''wireguard_only'' (cf_WireGuardOnly c)) (\<lambda>wo.
     rbind (str_key look ''tokensmith_url'' (cf_TokenSmithURL c)) (\<lambda>tu.
     rbind (str_key look ''tokensmith_bootstrap_token'' (cf_TokenSmithBootstrapToken c)) (\<lambda>tb.
     rbind (str_key look ''tokensmith_service_identity_cert'' (cf_TokenSmithServiceIdentityCert c)) (\<lambda>tc.
     rbind (str_key look ''tokensmith_service_identity_key'' (cf_TokenSmithServiceIdentityKey c)) (\<lambda>tk.
     rbind (str_key look ''tokensmith_service_identity_ca'' (cf_TokenSmithServiceIdentityCA c)) (\<lambda>ta.
     rbind (str_key look ''tokensmith_target_service'' (cf_TokenSmithTargetService c)) (\<lambda>ts.
     rbind (str_key look ''tokensmith_scopes'' (cf_TokenSmithScopes c)) (\<lambda>tsc.
     rbind (int_key look ''tokensmith_refresh_skew_sec'' (cf_TokenSmithRefreshSkewSec c)) (\<lambda>tr.
     rbind (str_key look ''tokensmith_scope_hint'' (cf_TokenSmithScopeHint c)) (\<lambda>th.
     rbind (bool_key look ''smd_sync_enabled'' (cf_SMDSyncEnabled c)) (\<lambda>se.
     rbind (int_key look ''smd_sync_interval'' (cf_SMDSyncInterval c)) (\<lambda>si.
     rbind (bool_key look ''debug'' (cf_Debug c)) (\<lambda>dbg.
     Inr \<lparr>cf_Port = port, cf_Host = hst, cf_ReadTimeout = rt, cf_WriteTimeout = wt, cf_IdleTimeout = it, cf_DataDir = dd,
          cf_WireGuardStateFile = sf, cf_WireGuardOnly = wo, cf_TokenSmithURL = tu, cf_TokenSmithBootstrapToken = tb,
          cf_TokenSmithServiceIdentityCert = tc, cf_TokenSmithServiceIdentityKey = tk, cf_TokenSmithServiceIdentityCA = ta,
          cf_TokenSmithTargetService = ts, cf_TokenSmithScopes = tsc, cf_TokenSmithRefreshSkewSec = tr, cf_TokenSmithScopeHint = th,
          cf_SMDSyncEnabled = se, cf_SMDSyncInterval = si, cf_Debug = dbg\<rparr>))))))))))))))))))))"

text \<open>
  \<open>initConfig\<close>: with no \<open>--config\<close> the home directory must be known; a configuration file that cannot be read is
  ignored. \<open>look\<close> is what viper knows afterwards, in its order of precedence.
\<close>

datatype config_outcome = Configured Config | ConfigFatal string

definition initConfig :: "string \<Rightarrow> string result \<Rightarrow> (string \<Rightarrow> setting option) \<Rightarrow> config_outcome" where
  "initConfig cfgFile UserHomeDir look =
     (case (if cfgFile \<noteq> '''' then Inr '''' else UserHomeDir) of
        Inl e \<Rightarrow> ConfigFatal (''Error: '' @ err_text e)
      | Inr _ \<Rightarrow>
          (case unmarshal_config look DefaultConfig of
             Inl e \<Rightarrow> ConfigFatal (''Unable to decode into config struct: '' @ err_text e)
           | Inr c \<Rightarrow> Configured c))"

section \<open>Registries\<close>

text \<open>\<open>RegisterAllResources\<close> of the generator; the kinds in the order of the file.\<close>

definition resource_kinds :: "string list" where
  "resource_kinds = [''ClusterDefaults'', ''Group'', ''InstanceInfo'', ''WireGuardPeer'']"

fun register_kinds :: "(string \<Rightarrow> 'g \<Rightarrow> goerror option \<times> 'g) \<Rightarrow> string list \<Rightarrow> 'g \<Rightarrow> goerror option \<times> 'g" where
  "register_kinds RegisterResource [] g = (None, g)"
| "register_kinds RegisterResource (k # ks) g =
     (case RegisterResource k g of
        (Some e, g1) \<Rightarrow> (Some (EWrap (''failed to register '' @ k @ '': '') e ''''), g1)
      | (None, g1) \<Rightarrow> register_kinds RegisterResource ks g1)"

definition RegisterAllResources :: "(string \<Rightarrow> 'g \<Rightarrow> goerror option \<times> 'g) \<Rightarrow> 'g \<Rightarrow> goerror option \<times> 'g" where
  "RegisterAllResources RegisterResource g = register_kinds RegisterResource resource_kinds g"

text \<open>The API group and the versions of the kinds; a version that cannot be registered is a panic.\<close>

record 'g version_registries =
  vr_RegisterGroup :: "string \<Rightarrow> string \<Rightarrow> string list \<Rightarrow> 'g \<Rightarrow> 'g"
  vr_RegisterVersion :: "string \<Rightarrow> string \<Rightarrow> bool \<Rightarrow> 'g \<Rightarrow> goerror option \<times> 'g"

fun register_versions :: "'g version_registries \<Rightarrow> string list \<Rightarrow> 'g \<Rightarrow> goerror option \<times> 'g" where
  "register_versions vr [] g = (None, g)"
| "register_versions vr (k # ks) g =
     (case vr_RegisterVersion vr k ''v1'' True g of
        (Some e, g1) \<Rightarrow> (Some (EPanic (err_text e)), g1)
      | (None, g1) \<Rightarrow> register_versions vr ks g1)"

definition apiversion_init :: "'g version_registries \<Rightarrow> 'g \<Rightarrow> goerror option \<times> 'g" where
  "apiversion_init vr g = register_versions vr resource_kinds (vr_RegisterGroup vr ''cloud-init.openchami.io'' ''v1'' [''v1''] g)"

text \<open>The UID prefixes; registering one twice is a panic of fabrica, which \<open>registerResourcePrefixesSafely\<close> turns into an error or ignores.\<close>

definition resource_prefixes :: "(string \<times> string) list" where
  "resource_prefixes = [(''ClusterDefaults'', ''clusterdefaults''), (''Group'', ''group''), (''InstanceInfo'', ''instanceinfo''), (''WireGuardPeer'', ''wireguardpeer'')]"

fun register_prefixes :: "(string \<Rightarrow> string \<Rightarrow> 'g \<Rightarrow> string option \<times> 'g) \<Rightarrow> (string \<times> string) list \<Rightarrow> 'g \<Rightarrow> string option \<times> 'g" where
  "register_prefixes RegisterResourcePrefix [] g = (None, g)"
| "register_prefixes RegisterResourcePrefix ((k, p) # ps) g =
     (case RegisterResourcePrefix k p g of
        (Some panic, g1) \<Rightarrow> (Some panic, g1)
      | (None, g1) \<Rightarrow> register_prefixes RegisterResourcePrefix ps g1)"

definition registerResourcePrefixes :: "(string \<Rightarrow> string \<Rightarrow> 'g \<Rightarrow> string option \<times> 'g) \<Rightarrow> 'g \<Rightarrow> string option \<times> 'g" where
  "registerResourcePrefixes RegisterResourcePrefix g = register_prefixes RegisterResourcePrefix resource_prefixes g"

definition registerResourcePrefixesSafely :: "(string \<Rightarrow> string \<Rightarrow> 'g \<Rightarrow> string option \<times> 'g) \<Rightarrow> 'g \<Rightarrow> goerror option \<times> 'g" where
  "registerResourcePrefixesSafely RegisterResourcePrefix g =
     (case registerResourcePrefixes RegisterResourcePrefix g of
        (None, g1) \<Rightarrow> (None, g1)
      | (Some msg, g1) \<Rightarrow> (if Contains_str msg ''already registered'' then None else Some (ENew (''register resource prefixes panic: '' @ msg)), g1))"

text \<open>The middleware that puts the controller into the request's context.\<close>

definition wireGuardControllerMiddleware :: "'w Controller option \<Rightarrow> ('x option \<Rightarrow> 'r) \<Rightarrow> ('w Controller \<Rightarrow> 'x) \<Rightarrow> 'x option \<Rightarrow> 'r" where
  "wireGuardControllerMiddleware wgc next_handler value ctx =
     (case wgc of None \<Rightarrow> next_handler ctx | Some c \<Rightarrow> next_handler (Some (value c)))"

section \<open>A run\<close>

datatype boot_event =
    StorageReady string
  | WorkersStarted
  | RuntimeReady
  | Listening string duration duration duration    \<comment> \<open>address; timeouts for reading, writing and idle connections\<close>
  | SignalReceived
  | AppCancelled                                   \<comment> \<open>the workers stop, the runtime is stopped\<close>
  | ShutdownCalled duration

datatype run_outcome = Returned "goerror option" | Exited string

record ('b, 'w, 's, 'u) boot_env =
  bt_NewFileBackend :: "string \<Rightarrow> 'b StorageBackend result"
  bt_store :: "'b store_env"
  bt_cfg :: cfg_env
  bt_tok :: "'w tok_env"
  bt_runtime :: "'b store_env \<Rightarrow> ('s, 'b, 'u) rt_env"      \<comment> \<open>with the controller that was set up\<close>
  bt_ListenAndServe :: "string \<Rightarrow> goerror option"          \<comment> \<open>an error other than \<open>ErrServerClosed\<close>\<close>
  bt_Shutdown :: "goerror option"

definition listen_addr :: "Config \<Rightarrow> string" where
  "listen_addr c = cf_Host c @ '':'' @ int_str (cf_Port c)"

text \<open>
  \<open>runServer\<close>. A server that fails to listen ends the process, without the deferred calls; every return cancels
  the application's context.
\<close>

definition runServer :: "('b, 'w, 's, 'u) boot_env \<Rightarrow> Config \<Rightarrow> 'w \<Rightarrow> 's \<times> 'b \<Rightarrow> 'u \<Rightarrow> run_outcome \<times> boot_event list" where
  "runServer env cfg w sb u =
     (case InitFileBackend (bt_NewFileBackend env (cf_DataDir cfg)) (bt_store env) of
        (Some e, _) \<Rightarrow> (Returned (Some (EWrap ''failed to initialize file storage: '' e '''')), [AppCancelled])
      | (None, store) \<Rightarrow>
          (case initSMDRuntime (bt_cfg env) (bt_tok env) w of
             (Inl e, _) \<Rightarrow> (Returned (Some e), [StorageReady (cf_DataDir cfg), AppCancelled])
           | (Inr _, _) \<Rightarrow>
               (case initializeReconciliationRuntime (bt_runtime env store) sb u of
                  (Inl e, _) \<Rightarrow>
                    (Returned (Some (EWrap ''failed to initialize reconciliation runtime: '' e '''')),
                     [StorageReady (cf_DataDir cfg), WorkersStarted, AppCancelled])
                | (Inr _, _) \<Rightarrow>
                    let addr = listen_addr cfg;
                        up = [StorageReady (cf_DataDir cfg), WorkersStarted, RuntimeReady,
                              Listening addr (int64 (cf_ReadTimeout cfg * second)) (int64 (cf_WriteTimeout cfg * second))
                                (int64 (cf_IdleTimeout cfg * second))] in
                    (case bt_ListenAndServe env addr of
                       Some e \<Rightarrow> (Exited (''Server failed: '' @ err_text e), up)
                     | None \<Rightarrow>
                         (Returned (case bt_Shutdown env of None \<Rightarrow> None | Some e \<Rightarrow> Some (EWrap ''server forced to shutdown: '' e '''')),
                          up @ [SignalReceived, AppCancelled, ShutdownCalled (30 * second), AppCancelled])))))"

section \<open>Lemmas\<close>

text \<open>What viper knows when nothing is set: the defaults of the flags, under their names and aliases.\<close>

definition flag_defaults :: "string \<Rightarrow> setting option" where
  "flag_defaults k =
     (let flags = root_flags @ override_flags @ serve_flags; aliases = registerDashAliases [root_flags, override_flags @ serve_flags] in
      map_of flags (case map_of aliases k of Some n \<Rightarrow> n | None \<Rightarrow> k))"

text \<open>
  The two sets of defaults agree: the defaults of the flags, which reach the configuration through viper, are those of
  \<open>DefaultConfig\<close>; every key but \<open>tokensmith_scope_hint\<close> has a flag.
\<close>

theorem flag_defaults_agree:
  "initConfig ''c'' (Inl (ENew ''no home'')) flag_defaults = Configured DefaultConfig \<and>
   filter (\<lambda>k. flag_defaults k = None)
     [''port'', ''host'', ''read_timeout'', ''write_timeout'', ''idle_timeout'', ''data_dir'', ''wireguard_state_file'', ''wireguard_only'',
      ''tokensmith_url'', ''tokensmith_bootstrap_token'', ''tokensmith_service_identity_cert'', ''tokensmith_service_identity_key'',
      ''tokensmith_service_identity_ca'', ''tokensmith_target_service'', ''tokensmith_scopes'', ''tokensmith_refresh_skew_sec'',
      ''tokensmith_scope_hint'', ''smd_sync_enabled'', ''smd_sync_interval'', ''debug''] = [''tokensmith_scope_hint'']"
  by code_simp

lemma InitFileBackend_None: "InitFileBackend x s = (None, s') \<Longrightarrow> \<exists>be. x = Inr be \<and> s' = s\<lparr>Backend := Some be\<rparr>"
  by (auto simp: InitFileBackend_def split: sum.splits)

text \<open>
  The server listens only after the storage, the SMD client with its token and the reconciliation runtime came up; a
  run that returns has cancelled the context of its workers, also after a failed start; and a server that cannot
  listen exits without cancelling it.
\<close>

theorem startup_fails_closed:
  assumes "runServer env cfg w sb u = (out, evs)"
  shows "(Listening a r wr i \<in> set evs \<longrightarrow>
            a = listen_addr cfg \<and> (\<exists>rt w'. initSMDRuntime (bt_cfg env) (bt_tok env) w = (Inr rt, w')) \<and>
            (\<exists>be rt. bt_NewFileBackend env (cf_DataDir cfg) = Inr be \<and>
               fst (initializeReconciliationRuntime (bt_runtime env ((bt_store env)\<lparr>Backend := Some be\<rparr>)) sb u) = Inr rt)) \<and>
         (\<forall>e. out = Returned e \<longrightarrow> AppCancelled \<in> set evs) \<and> (\<forall>t. out = Exited t \<longrightarrow> AppCancelled \<notin> set evs)"
  using assms
  by (auto simp: runServer_def Let_def dest!: InitFileBackend_None split: prod.splits option.splits sum.splits)

end
