(* ===== verification/Spec2Isabelle.thy ===== *)
theory Spec2Isabelle
  imports Server API_Client OpenAPI Middleware CLI Startup
begin

text \<open>
  A verification of the OpenCHAMI metadata service (Go, under \<open>src/\<close>). The service gives the nodes of a
  cluster their cloud-init data, keeps the resources that data comes from, and runs a userspace
  WireGuard endpoint through which nodes reach it.

  \<^bold>\<open>The program's parts.\<close> A request passes the middleware and the router (\<open>cmd/server/main.go\<close>,
  \<open>server_extensions.go\<close>) to one of three groups of handlers: the resource API (\<open>*_handlers_generated.go\<close>),
  which validates resources (\<open>apis/.../v1\<close>), stores them (\<open>internal/storage\<close>) and publishes events; the
  WireGuard endpoints (\<open>wireguard_routes.go\<close>), which take addresses from the controller's allocator and
  store a \<open>WireGuardPeer\<close>; and the cloud-init endpoints (\<open>pkg/handlers/metadata.go\<close>), which find the node behind
  the client's address through SMD and answer from the storage. The reconciliation runtime
  (\<open>reconciliation_runtime.go\<close>, \<open>pkg/reconcilers\<close>) listens to the events and brings the WireGuard controller
  (\<open>pkg/wireguard\<close>) in line with the stored peers; the controller drives the device and writes its state
  to a file. SMD is reached through an integration service with a cache (\<open>pkg/smdclient\<close>), over an HTTP
  client that takes its tokens from a token manager, or over data in memory. On the other side of the
  resource API are the Go client (\<open>pkg/client\<close>), the command-line client built on it (\<open>cmd/client\<close>) and the OpenAPI
  document the server publishes (\<open>openapi_generated.go\<close>).

  \<^bold>\<open>Theories and sources.\<close>
  \<^item> \<open>Prelude\<close>: errors as values (\<open>goerror\<close>, \<open>'a result\<close>), the collection \<open>wf_rules\<close>, decimal texts, Go's
    \<open>strings\<close> functions, durations and 64-bit wrap-around, shared lemmas.
  \<^item> \<open>Go_Net\<close>, \<open>Go_Encoding\<close>, \<open>Go_JSON\<close>, \<open>Go_HTTP\<close>: what the code uses of \<open>net\<close>, \<open>encoding/base64\<close>, \<open>encoding/hex\<close>,
    \<open>encoding/json\<close> and \<open>net/http\<close>, with round trips for IPv4 addresses, base64 and decoding into fields.
  \<^item> \<open>WG_Allocator\<close>: \<open>allocator.go\<close>. Bytes are \<open>8 word\<close>, so that the increment of the last byte wraps as it does
    in Go. Locale \<open>ip_pool\<close> with its interpretation \<open>wg_pool\<close> states what a client of the allocator relies on.
  \<^item> \<open>WG_Device\<close>: \<open>device.go\<close> and \<open>persistence.go\<close>. \<open>Save_trace\<close> lists every disk a crash can leave behind.
  \<^item> \<open>WG_Controller\<close>: \<open>controller.go\<close>. State \<open>Controller\<close> and the disk; one definition per method.
  \<^item> \<open>SMD_Client\<close>: \<open>interface.go\<close>, \<open>resolve.go\<close>, \<open>mock.go\<close>. The interface is the record \<open>SMDClient\<close> of operations.
  \<^item> \<open>SMD_Service\<close>: \<open>integration_service.go\<close>, the cache, its indexes and the synchronisation.
  \<^item> \<open>SMD_Token\<close>: \<open>service_token_manager.go\<close>. Locale \<open>retried\<close> carries an invariant through the retries.
  \<^item> \<open>SMD_HTTP\<close>: \<open>http_client.go\<close>, with its cache and the decoding of SMD's answers.
  \<^item> \<open>SMD_Config\<close>: \<open>cmd/server/smd.go\<close>, settings, choice of credentials, the SMD runtime, its health.
  \<^item> \<open>Resources\<close>, \<open>Resource_JSON\<close>: the four kinds, their validation and template checks, their JSON forms.
  \<^item> \<open>Storage\<close>: \<open>storage_generated.go\<close> over fabrica's backend, whose contract is \<open>backend_ok\<close>.
  \<^item> \<open>API_Handlers\<close>: the four handler files (instances of one template), \<open>models_generated.go\<close>, the routes.
  \<^item> \<open>WG_Reconciler\<close>: the reconciler and its runtime. Locale \<open>peer_controller\<close> is the interface the reconciler
    has to the controller; \<open>wg_ctl\<close> interprets it on the methods of \<open>WG_Controller\<close>. \<open>handleResourceEvent\<close> is a
    handling that nothing disturbs; \<open>handle_next\<close> is the same handling one access to shared state at a time, and
    \<open>rt_step\<close> interleaves five workers that take such steps with writes of the storage.
  \<^item> \<open>WG_Routes\<close>: \<open>wireguard_routes.go\<close> and \<open>wireguard_middleware.go\<close>.
  \<^item> \<open>Cloud_Init\<close>: \<open>metadata.go\<close> and \<open>cloudinit_routes.go\<close>. Locale \<open>calm_store\<close> (reads that do not panic) is interpreted
    on the storage adapter.
  \<^item> \<open>Server\<close>: \<open>server_extensions.go\<close>, the routes and the health check of \<open>main.go\<close>; the composition of token
    manager, HTTP client and health.
  \<^item> \<open>Startup\<close>: configuration, flags and \<open>runServer\<close> of \<open>main.go\<close>, \<open>cli_override.go\<close>, the registrations of prefixes, kinds
    and versions. The steps of a run are a list of events.
  \<^item> \<open>API_Client\<close>: \<open>client_generated.go\<close> and \<open>models_generated.go\<close> of \<open>pkg/client\<close>, with \<open>path.Join\<close>; the network is a
    parameter, and \<open>kind_network\<close> is the network that \<open>API_Handlers\<close> answers.
  \<^item> \<open>CLI\<close>: \<open>cmd/client/main.go\<close>, the commands as instances of one template over \<open>API_Client\<close>.
  \<^item> \<open>OpenAPI\<close>: \<open>openapi_generated.go\<close> and \<open>openapi_extensions.go\<close>, the document as records.
  \<^item> \<open>Middleware\<close>: \<open>internal/middleware\<close>, which no other package imports: entity tags, versions, validation, event bus.
  \<^item> This theory: the path of a joining node through endpoint, storage, event, reconciler and controller.

  \<^bold>\<open>What the lemmas show.\<close> Addresses: what \<open>NextAvailable\<close> returns and when it does not return, no two peers
  share an address, \<open>/wg-init\<close> accounts for every address, repeated requests get the same answer. Peers: the
  controller converges to the stored peers once no worker holds an outdated copy of them, starting configures
  all of them, a restart restores them; where it does not (an outdated copy undoes an update, lost allowed
  addresses, addresses that leak or are handed out twice), the theorems say so. State file: at every point of a crash the old or the new state is readable. Resources: validation
  verdicts, extracted template variables against a reference definition, bounded history, stored documents are
  those of validated groups, reads return what was written, refused requests change nothing, what a patch leaves
  out stays, the storage refines a map. SMD: a
  synchronised cache answers as the client would, indexes are consistent, lookups and back-off bounds.
  Tokens: bounded start-up, fresh tokens, a failed refresh is final; requests carry the token that \<open>GetToken\<close> has just returned,
  an unhealthy manager sends nothing and turns the health check red, a server with TokenSmith never uses
  the static token. Cloud-init: only members get a group's data, hostnames tell nodes apart, reads take the
  latest resource, vendor data lists exactly the groups with a template. Gate: it covers every route, and
  it believes a header. API from outside: through the client the resources are a map, end to end over wire,
  handlers and storage; UIDs are not escaped; the document lists the generated routes and no others, and
  every status a handler answers with is documented. Commands: what the shorthand flags put into a patch,
  and that a document in the form of the help loses its members. Start: the server listens only after
  storage, SMD client and runtime came up, and the two sets of defaults agree.

  \<^bold>\<open>Modelling decisions.\<close> State is passed explicitly; an operation under a mutex is one step, and
  interleavings are sequences of steps (\<open>tok_step\<close>, \<open>http_step\<close>, \<open>rt_step\<close> and others). The handling of an event holds no
  mutex, so it is several steps. A request to the API is one step: theorems about sequences of
  requests (\<open>api_step\<close>, \<open>wg_init\<close>) are about requests that do not overlap. Errors are values;
  a panic is the error \<open>EPanic\<close> or the response \<open>HandlerPanic\<close>. The loop of \<open>NextAvailable\<close> is a partial
  function into option: None means that it never returns. Background workers (\<open>runAutoRefresh\<close>, the
  synchronisation) take the number of rounds as an argument, and their theorems hold for every number; all
  other recursion is structural or has a measure. Go's iteration order over maps is an argument. Logging
  is left out. Time is an integer of nanoseconds.

  \<^bold>\<open>Parameters.\<close> Code outside the repository enters as records of functions: wireguard-go, yaml.v3, pongo2,
  X25519, SHA-256 and random bytes, the operating system's files, fabrica's storage backend, validation,
  patches, UIDs and event bus, the TokenSmith client, viper, cobra's flags and arguments, the openapi3 package,
  chi's route search and its \<open>RealIP\<close>. What a theorem assumes of them is a hypothesis of the theorem, and its witness has concrete functions for them.
  The JSON package replaces texts that are not valid UTF-8, so that it reads back a resource (\<open>storable\<close>) is never assumed of all
  resources, only of the ones a theorem names. Validation by fabrica reads the clock and Go's map order from the state of the
  world, which goes on between requests.

  \<^bold>\<open>Not modelled.\<close> Log output and help texts; where viper looks for its configuration files and in which order it
  ranks its sources; the profiler under \<open>/debug\<close>; the completion of flags in the shell; what the goroutines of a
  run do between its events (their operations are steps of the components); package comments and the data
  of the tests.
\<close>

section \<open>A node joins the network\<close>

text \<open>The reconcilers' client and the API see the same peers.\<close>

lemma stored_peer_typed:
  assumes "backend_ok be view"
  shows "stored_peer env \<lparr>sc_backend = be\<rparr> b u = typed (json (rt_store env)) WireGuardPeer_kind (view b) u"
  using backend_okD(1) [OF assms, of "''WireGuardPeer''" u b]
  by (auto simp: stored_peer_def Client_Get_def typed_def decode_kind_def tag_def WireGuardPeer_kind_def split: option.splits sum.splits)

lemma event_handled:
  assumes "controller r = Some (controller_ops cenv)" "accepted (UpsertPeer cenv) (UpdateStatus r) p" "intent_ok p"
    and "stored_peer env c b (ev_uid ev) = Some p" "md_UID (Meta p) = ev_uid ev"
    and "ev_kind ev = ''WireGuardPeer''" "ev_uid ev \<noteq> ''''" "\<not> is_delete ev"
  obtains s' b' where "handleResourceEvent env c r ev (s, b) = (None, (s', b'))" "configured s' (ev_uid ev) = Some (intent p)"
proof -
  obtain s' b' where rec: "Reconcile r (PeerPointer p) (s, b) = (None, (s', b'))"
    by (rule wg_ctl.Reconcile_total [OF assms(1,2)])
  have "handleResourceEvent env c r ev (s, b) = (None, (s', b'))"
    using assms(6-8) rec stored_peerD [OF assms(4)] by (simp add: handleResourceEvent_def is_delete_def)
  moreover have "configured s' (ev_uid ev) = Some (intent p)"
    using wg_ctl.Reconcile_success [OF assms(1) rec] assms(3,5) by simp
  ultimately show thesis by (rule that)
qed

text \<open>
  C12 (liveness). From the request to the device: when \<open>/wg-init\<close> accepts a new key, it tells the node an
  address of the network that nobody had; and when the runtime then handles the event of the created
  peer, undisturbed by other handlings and writes, handling succeeds and the controller has that key with exactly that
  address. It is assumed that the storage backend keeps its contract, and of the one peer that the request stores, that
  the JSON package reads it back (its name, from SMD, must be valid UTF-8), that the device takes it and that its status can be written.
\<close>

theorem joining_node_is_configured:
  assumes "backend_ok be view" "Backend (re_store env) = Some be" "rt_store renv = re_store env"
    and "\<forall>p. peer_to_store env req c st = Some p \<longrightarrow> storable (json (re_store env)) WireGuardPeer_kind p \<and> accepted (UpsertPeer cenv) (UpdateStatus r) p"
    and "st_ctl st = Some c" "wf_v4 n (IPAllocator c)" "request_key env req = Inr key" "uid = peer_uid (re_sha256 env) key"
    and "LoadWireGuardPeer (re_store env) uid (st_store st) = Inl e"
    and "wg_init env req st = Some (resp, st')" "status_of resp = 202"
    and "controller r = Some (controller_ops cenv)"
    and "ev_kind ev = ''WireGuardPeer''" "ev_uid ev = uid" "\<not> is_delete ev"
  shows "\<exists>c' i s' b'. st_ctl st' = Some c' \<and> resp = writeWGInitResponse c uid (ipv4_str i) \<and> length i = 4 \<and>
    Contains (network (IPAllocator c)) i \<and> ipv4_str i \<notin> taken_keys (IPAllocator c) \<and>
    handleResourceEvent renv \<lparr>sc_backend = be\<rparr> r ev ((c', d), st_store st') = (None, (s', b')) \<and>
    configured s' uid = Some (key, ipv4_str i @ ''/32'')"
  using assms(10)
proof (cases rule: wg_init_cases)
  case (fresh c0 key0 e0)
  with assms(5,7,8) have new: "wg_init_new env req uid key c st = Some (resp, st')" by simp
  obtain pk where "normalizeWireGuardPublicKey pk = Inr key" using assms(7) by (auto simp: request_key_def rbind_def split: sum.splits)
  then obtain bs where bs: "length bs = 32" "key = b64_encode bs" by (rule normalize_result)
  from new assms(5) show ?thesis
  proof (cases rule: wg_init_new_cases)
    case (accepted i a name)
    let ?p = "wg_init_peer (re_now env (st_world st)) name uid key (IP_String i @ ''/32'')"
    have v4: "length i = 4" by (rule NextAvailable_v4 [OF assms(6) accepted(1)])
    have ok3: "storable (json (re_store env)) WireGuardPeer_kind ?p" "accepted (UpsertPeer cenv) (UpdateStatus r) ?p"
      using assms(4,7,8) accepted(1,6) by (simp_all add: peer_to_store_def)
    have p: "md_UID (Meta ?p) = uid" "intent ?p = (key, ipv4_str i @ ''/32'')" using v4 by (simp_all add: wg_init_peer_def intent_def)
    have "LoadWireGuardPeer (re_store env) uid (st_store st') = Inr ?p"
      using saved_peer_is_loaded [OF assms(1,2) ok3(1) accepted(3)] p(1) by simp
    then have s: "stored_peer renv \<lparr>sc_backend = be\<rparr> (st_store st') (ev_uid ev) = Some ?p"
      unfolding stored_peer_typed [OF assms(1)] assms(3,14) by (simp add: LoadWireGuardPeer_found [OF assms(1,2)])
    have ok: "intent_ok ?p" using wg_init_peer_intent [OF v4 bs(1)] v4 bs(2) by simp
    have ne: "ev_uid ev \<noteq> ''''" unfolding assms(8,14) by (simp add: peer_uid_def)
    obtain s' b' where "handleResourceEvent renv \<lparr>sc_backend = be\<rparr> r ev ((c\<lparr>IPAllocator := a\<rparr>, d), st_store st') = (None, (s', b'))"
      "configured s' (ev_uid ev) = Some (intent ?p)"
      by (rule event_handled [OF assms(12) ok3(2) ok s _ assms(13) ne assms(15)]) (simp_all add: p(1) assms(14))
    moreover have "Contains (network (IPAllocator c)) i" using NextAvailable_result [OF accepted(1)] by auto
    moreover have "ipv4_str i \<notin> taken_keys (IPAllocator c)" using wg_pool.alloc_fresh [OF accepted(1)] v4 by simp
    ultimately show ?thesis
      using accepted(4,5) v4 p(2) assms(14) by (intro exI [of _ "c\<lparr>IPAllocator := a\<rparr>"] exI [of _ i] exI [of _ s'] exI [of _ b']) simp
  qed (use assms(11) in simp_all)
qed (use assms in auto)

text \<open>The instance: the example controller and storage, a key of 32 zero bytes.\<close>

lemma device_takes_key0: "fst (UpsertPeer env1 u key0 a s) = None"
proof -
  have "b64_decode key0 = Some (replicate 32 0)" unfolding key0_def by code_simp
  then show ?thesis
    by (auto simp: UpsertPeer_def env0_def log_api_def Device_AddPeer_def device_ipc_def split: prod.splits option.splits)
qed

lemma accepted_key0: "accepted (UpsertPeer env1) upd0 (wg_init_peer 5 name uid key0 cidr)"
proof -
  have "fst (upd0 ((wg_init_peer 5 name uid key0 cidr)\<lparr>Status := st\<rparr>) b) = None" for st b
    by (rule upd0_ok [of "(wg_init_peer 5 name uid key0 cidr)\<lparr>Status := st\<rparr>" b]) (auto simp: wg_init_peer_def plain_meta_def)
  then show ?thesis by (simp add: accepted_def intent_def wg_init_peer_def device_takes_key0)
qed

theorem joining_node_is_configured_witness:
  "\<exists>resp st' c' i s' b'. wg_init route0 (wg_req key0) rst0 = Some (resp, st') \<and> st_ctl st' = Some c' \<and>
     handleResourceEvent rt0 client0 (NewWireGuardPeerReconciler json0 upd0 (Some (controller_ops env1)))
       \<lparr>ev_kind = ''WireGuardPeer'', ev_uid = peer_uid (re_sha256 route0) key0, ev_type = ''io.fabrica.wireguardpeer.created'', ev_action = None\<rparr>
       ((c', Map.empty), st_store st') = (None, (s', b')) \<and>
     configured s' (peer_uid (re_sha256 route0) key0) = Some (key0, ipv4_str i @ ''/32'')"
proof -
  let ?uid = "peer_uid (re_sha256 route0) key0"
  let ?r = "NewWireGuardPeerReconciler json0 upd0 (Some (controller_ops env1))"
  let ?e = "\<lparr>ev_kind = ''WireGuardPeer'', ev_uid = ?uid, ev_type = ''io.fabrica.wireguardpeer.created'', ev_action = None\<rparr>"
  obtain st' where w: "wg_init route0 (wg_req key0) rst0 = Some (writeWGInitResponse ctl0 ?uid ''10.0.0.2'', st')" by (rule wg_init0)
  have a: "status_of (writeWGInitResponse ctl0 ?uid ''10.0.0.2'') = 202" by (simp add: writeWGInitResponse_def)
  have k: "request_key route0 (wg_req key0) = Inr key0" by (simp add: request_key0 normalize_key0)
  have l: "\<exists>e. LoadWireGuardPeer (re_store route0) ?uid (st_store rst0) = Inl e"
    by (simp add: route0_facts rst0_def LoadWireGuardPeer_def Load_res_def ensureBackend_def store0_def mem_backend_def mem_view_def WireGuardPeer_kind_def)
  have rt: "rt_store rt0 = re_store route0" by (simp add: rt0_def route0_facts)
  have r: "controller ?r = Some (controller_ops env1)" "UpdateStatus ?r = upd0" by (simp_all add: NewWireGuardPeerReconciler_def)
  have acc: "accepted (UpsertPeer env1) (UpdateStatus ?r) (wg_init_peer (re_now route0 (st_world rst0)) name ?uid key0 cidr)" for name cidr
    unfolding r(2) route0_facts(6) by (rule accepted_key0)
  have s: "\<forall>p. peer_to_store route0 (wg_req key0) ctl0 rst0 = Some p \<longrightarrow>
      storable (json (re_store route0)) WireGuardPeer_kind p \<and> accepted (UpsertPeer env1) (UpdateStatus ?r) p"
    using stored_peer_storable0 acc by (auto simp: peer_to_store_def k split: option.splits sum.splits)
  have "eventAction \<lparr>ev_kind = k, ev_uid = u, ev_type = ''io.fabrica.wireguardpeer.created'', ev_action = None\<rparr> = ''created''" for k u
    unfolding eventAction_def by code_simp
  then have nd: "\<not> is_delete ?e" by (simp add: is_delete_def)
  from l obtain e where "LoadWireGuardPeer (re_store route0) ?uid (st_store rst0) = Inl e" ..
  from joining_node_is_configured [OF mem_backend_ok route0_facts(1) rt s route0_facts(4,5) k refl this w a r(1) _ _ nd, of Map.empty] w
  show ?thesis by auto
qed

end
